(* ===== verification/Go_Prelude.thy ===== *)
theory Go_Prelude
  imports Main "HOL-Library.Word"
begin

text \<open>
  What every component shares: the values Go functions return (a result, an \<open>error\<close>, a panic),
  \<open>errors.Wrap\<close> and \<open>errors.Cause\<close> of \<open>github.com/pkg/errors\<close>, the clock and the entropy source
  that \<open>time.Now\<close> and \<open>crypto/rand\<close> read, and the functions of the package \<open>strings\<close> that the
  sources call. A Go string is a sequence of bytes, so it is modelled by \<open>string\<close> (a \<open>char\<close> is a
  byte). A \<open>time.Time\<close> is an \<open>int\<close>, nanoseconds since the Unix epoch; a \<open>time.Duration\<close> is an \<open>int\<close>,
  nanoseconds. Log output is not modelled: a \<open>log.Printf\<close> has no counterpart.
\<close>

section \<open>Collections of rewrite rules\<close>

named_theorems go_defs \<open>definitions that component proofs unfold\<close>
named_theorems go_inv \<open>inversion of a successful call\<close>

section \<open>Errors and results\<close>

text \<open>
  \<open>ErrorNew\<close> is \<open>errors.New\<close>, \<open>Errorf f args\<close> is \<open>fmt.Errorf\<close> with its format and its
  string arguments (other arguments are left out), \<open>Wrap\<close> is a wrapped error of \<open>pkg/errors\<close>. \<open>OperationForbiddenError\<close> is
  the error type of the server (\<open>operation.go\<close>), \<open>OperationForbidden\<close> the one of the client
  (\<open>endpoint.go\<close>). \<open>NotExist\<close> is an error for which \<open>os.IsNotExist\<close> answers true, and
  \<open>LibError\<close> any other error that a library returns.
\<close>

datatype error =
    ErrorNew string
  | Errorf string "string list"
  | Wrap error string
  | OperationForbiddenError string string
  | OperationForbidden
  | NotExist string
  | LibError string

datatype 'a result = Ok 'a | Err error | Panic string

text \<open>\<open>errors.Wrap\<close> of a nil error is nil.\<close>

fun errors_Wrap :: "error option \<Rightarrow> string \<Rightarrow> error option" where
  "errors_Wrap None msg = None"
| "errors_Wrap (Some e) msg = Some (Wrap e msg)"

fun errors_Cause :: "error \<Rightarrow> error" where
  "errors_Cause (Wrap e msg) = errors_Cause e"
| "errors_Cause e = e"

fun os_IsNotExist :: "error \<Rightarrow> bool" where
  "os_IsNotExist (NotExist p) = True"
| "os_IsNotExist e = False"

text \<open>
  \<open>and_then r k\<close> is the idiom \<open>x, err := r; if err != nil { return err }; k(x)\<close>; a panic is
  propagated. \<open>wrap_err m r\<close> is the same with \<open>errors.Wrap(err, m)\<close> returned.
\<close>

fun and_then :: "'a result \<Rightarrow> ('a \<Rightarrow> 'b result) \<Rightarrow> 'b result" where
  "and_then (Ok x) k = k x"
| "and_then (Err e) k = Err e"
| "and_then (Panic p) k = Panic p"

fun wrap_err :: "string \<Rightarrow> 'a result \<Rightarrow> 'a result" where
  "wrap_err m (Ok x) = Ok x"
| "wrap_err m (Err e) = Err (Wrap e m)"
| "wrap_err m (Panic p) = Panic p"

fun is_panic :: "'a result \<Rightarrow> bool" where
  "is_panic (Panic p) = True"
| "is_panic r = False"

fun is_ok :: "'a result \<Rightarrow> bool" where
  "is_ok (Ok x) = True"
| "is_ok r = False"

text \<open>
  The same idiom for code that also changes a state \<open>'s\<close>: a step is a function from a state to a
  result and the state after it.
\<close>

type_synonym ('s, 'a) action = "'s \<Rightarrow> 'a result \<times> 's"

fun and_thenS :: "'a result \<times> 's \<Rightarrow> ('a \<Rightarrow> 's \<Rightarrow> 'b result \<times> 's) \<Rightarrow> 'b result \<times> 's" where
  "and_thenS (Ok x, s) k = k x s"
| "and_thenS (Err e, s) k = (Err e, s)"
| "and_thenS (Panic p, s) k = (Panic p, s)"

lemma and_then_Ok_iff [go_inv]: "and_then r k = Ok y \<longleftrightarrow> (\<exists>x. r = Ok x \<and> k x = Ok y)"
  by (cases r) auto

lemma and_then_Err_iff: "and_then r k = Err e \<longleftrightarrow> r = Err e \<or> (\<exists>x. r = Ok x \<and> k x = Err e)"
  by (cases r) auto

lemma wrap_err_Ok_iff [simp]: "wrap_err m r = Ok y \<longleftrightarrow> r = Ok y"
  by (cases r) auto

lemma wrap_err_Err_iff [simp]: "wrap_err m r = Err e \<longleftrightarrow> (\<exists>e'. r = Err e' \<and> e = Wrap e' m)"
  by (cases r) auto

lemma is_ok_iff: "is_ok r \<longleftrightarrow> (\<exists>x. r = Ok x)"
  by (cases r) auto

lemma is_panic_and_then:
  "is_panic (and_then r k) \<longleftrightarrow> is_panic r \<or> (\<exists>x. r = Ok x \<and> is_panic (k x))"
  by (cases r) auto

lemma is_panic_wrap_err [simp]: "is_panic (wrap_err m r) = is_panic r"
  by (cases r) auto

lemma and_thenS_Ok_iff [go_inv]:
  "and_thenS rs k = (Ok y, s') \<longleftrightarrow> (\<exists>x s. rs = (Ok x, s) \<and> k x s = (Ok y, s'))"
  by (cases rs; cases "fst rs") auto

lemma and_thenS_keeps:
  assumes "P (snd rs)" and "\<And>x s. rs = (Ok x, s) \<Longrightarrow> P s \<Longrightarrow> P (snd (k x s))"
  shows "P (snd (and_thenS rs k))"
  using assms by (cases rs; cases "fst rs") auto

lemma errors_Cause_not_Wrap: "errors_Cause e \<noteq> Wrap e' m"
  by (induction e) auto

section \<open>Clock and entropy\<close>

text \<open>
  \<open>Clock w n\<close> is what the \<open>n\<close>-th call of \<open>time.Now\<close> returns and \<open>Entropy w n\<close> what the
  \<open>n\<close>-th read of \<open>crypto/rand\<close> delivers, as a number (\<open>None\<close>: the read fails). The counters
  \<open>Ticks\<close> and \<open>Draws\<close> say how many were made. The record is extended by every component that has
  state of its own.
\<close>

record World =
  Clock :: "nat \<Rightarrow> int"
  Ticks :: nat
  Entropy :: "nat \<Rightarrow> nat option"
  Draws :: nat

definition time_Now :: "'a World_scheme \<Rightarrow> int \<times> 'a World_scheme" where
  "time_Now w = (Clock w (Ticks w), w\<lparr>Ticks := Suc (Ticks w)\<rparr>)"

definition now :: "'a World_scheme \<Rightarrow> int" where
  "now w = Clock w (Ticks w)"

definition draw :: "'a World_scheme \<Rightarrow> nat option \<times> 'a World_scheme" where
  "draw w = (Entropy w (Draws w), w\<lparr>Draws := Suc (Draws w)\<rparr>)"

text \<open>\<open>rand.Int(rand.Reader, max)\<close>: a number below \<open>max\<close>.\<close>

definition rand_Int :: "nat \<Rightarrow> ('a World_scheme, nat) action" where
  "rand_Int mx w = (case draw w of
       (None, w') \<Rightarrow> (Err (LibError ''rand''), w')
     | (Some x, w') \<Rightarrow> (Ok (x mod mx), w'))"

text \<open>\<open>rand.Read(out)\<close> for an \<open>out\<close> of \<open>n\<close> bytes.\<close>

fun bytes_of :: "nat \<Rightarrow> nat \<Rightarrow> nat list" where
  "bytes_of 0 x = []"
| "bytes_of (Suc n) x = x mod 256 # bytes_of n (x div 256)"

definition rand_Read :: "nat \<Rightarrow> ('a World_scheme, nat list) action" where
  "rand_Read n w = (case draw w of
       (None, w') \<Rightarrow> (Err (LibError ''rand''), w')
     | (Some x, w') \<Rightarrow> (Ok (bytes_of n x), w'))"

lemma length_bytes_of [simp]: "length (bytes_of n x) = n"
  by (induction n x rule: bytes_of.induct) auto

lemma bytes_of_small: "b \<in> set (bytes_of n x) \<Longrightarrow> b < 256"
  by (induction n x rule: bytes_of.induct) auto

lemma rand_Int_bound: "rand_Int mx w = (Ok n, w') \<Longrightarrow> 0 < mx \<Longrightarrow> n < mx"
  by (auto simp: rand_Int_def draw_def split: option.splits)

definition time_Second :: int where "time_Second = 1000000000"
definition time_Minute :: int where "time_Minute = 60 * time_Second"
definition time_Hour :: int where "time_Hour = 60 * time_Minute"

lemmas time_units = time_Second_def time_Minute_def time_Hour_def

end
