(* ===== verification/Go_Strings.thy ===== *)
theory Go_Strings
  imports Go_Prelude
begin

text \<open>
  The functions of the Go packages \<open>strings\<close> and \<open>strconv\<close> that the sources call, over byte
  strings, with the lemmas on them that the components share. Indexing and slicing out of range
  panic, as in Go.
\<close>

section \<open>Package strings\<close>

definition HasPrefix :: "string \<Rightarrow> string \<Rightarrow> bool" where
  "HasPrefix s p = (take (length p) s = p)"

definition HasSuffix :: "string \<Rightarrow> string \<Rightarrow> bool" where
  "HasSuffix s p = (length p \<le> length s \<and> drop (length s - length p) s = p)"

fun Contains :: "string \<Rightarrow> string \<Rightarrow> bool" where
  "Contains [] p = (p = [])"
| "Contains (c # s) p = (HasPrefix (c # s) p \<or> Contains s p)"

text \<open>\<open>strings.Split(s, sep)\<close> and \<open>strings.SplitN(s, sep, 2)\<close> for a separator of one byte.\<close>

fun Split :: "string \<Rightarrow> char \<Rightarrow> string list" where
  "Split [] sep = [[]]"
| "Split (c # s) sep =
     (if c = sep then [] # Split s sep
      else case Split s sep of [] \<Rightarrow> [[c]] | p # ps \<Rightarrow> (c # p) # ps)"

fun SplitN2 :: "string \<Rightarrow> char \<Rightarrow> string list" where
  "SplitN2 [] sep = [[]]"
| "SplitN2 (c # s) sep =
     (if c = sep then [[], s]
      else case SplitN2 s sep of [] \<Rightarrow> [[c]] | p # ps \<Rightarrow> (c # p) # ps)"

text \<open>\<open>strings.Count(s, sep)\<close> for a separator of one byte.\<close>

definition Count :: "string \<Rightarrow> char \<Rightarrow> nat" where
  "Count s sep = length (filter (\<lambda>c. c = sep) s)"

text \<open>\<open>strings.LastIndexByte\<close>: \<open>None\<close> for -1.\<close>

fun LastIndexByte :: "string \<Rightarrow> char \<Rightarrow> nat option" where
  "LastIndexByte [] c = None"
| "LastIndexByte (x # xs) c = (case LastIndexByte xs c of
       Some i \<Rightarrow> Some (Suc i)
     | None \<Rightarrow> (if x = c then Some 0 else None))"

text \<open>
  \<open>strings.TrimSpace\<close> removes the Unicode white space runes at both ends: the six ASCII ones,
  U+0085, U+00A0, U+1680, U+2000 to U+200A, U+2028, U+2029, U+202F, U+205F and U+3000, listed here
  in UTF-8. A string starts (ends) with one of these runes exactly if it starts (ends) with its
  encoding.
\<close>

definition space_runes :: "string list" where
  "space_runes =
     [[CHR 0x09], [CHR 0x0A], [CHR 0x0B], [CHR 0x0C], [CHR 0x0D], [CHR 0x20],
      [CHR 0xC2, CHR 0x85], [CHR 0xC2, CHR 0xA0], [CHR 0xE1, CHR 0x9A, CHR 0x80],
      [CHR 0xE2, CHR 0x80, CHR 0x80], [CHR 0xE2, CHR 0x80, CHR 0x81],
      [CHR 0xE2, CHR 0x80, CHR 0x82], [CHR 0xE2, CHR 0x80, CHR 0x83],
      [CHR 0xE2, CHR 0x80, CHR 0x84], [CHR 0xE2, CHR 0x80, CHR 0x85],
      [CHR 0xE2, CHR 0x80, CHR 0x86], [CHR 0xE2, CHR 0x80, CHR 0x87],
      [CHR 0xE2, CHR 0x80, CHR 0x88], [CHR 0xE2, CHR 0x80, CHR 0x89],
      [CHR 0xE2, CHR 0x80, CHR 0x8A], [CHR 0xE2, CHR 0x80, CHR 0xA8],
      [CHR 0xE2, CHR 0x80, CHR 0xA9], [CHR 0xE2, CHR 0x80, CHR 0xAF],
      [CHR 0xE2, CHR 0x81, CHR 0x9F], [CHR 0xE3, CHR 0x80, CHR 0x80]]"

definition leading_rune :: "string list \<Rightarrow> string \<Rightarrow> nat" where
  "leading_rune rs s = (case find (HasPrefix s) rs of None \<Rightarrow> 0 | Some r \<Rightarrow> length r)"

lemma leading_rune_le: "leading_rune rs s \<le> length s"
proof (cases "find (HasPrefix s) rs")
  case None
  then show ?thesis by (simp add: leading_rune_def)
next
  case (Some r)
  then have "HasPrefix s r" by (auto simp: find_Some_iff)
  then have "length r \<le> length s" unfolding HasPrefix_def by (metis length_take min.cobounded1)
  with Some show ?thesis by (simp add: leading_rune_def)
qed

lemma leading_rune_shrinks:
  "leading_rune rs s \<noteq> 0 \<Longrightarrow> length s - leading_rune rs s < length s"
  using leading_rune_le [of rs s] by linarith

function trim_left :: "string list \<Rightarrow> string \<Rightarrow> string" where
  "trim_left rs s =
     (if leading_rune rs s = 0 then s else trim_left rs (drop (leading_rune rs s) s))"
  by pat_completeness auto
termination
  by (relation "measure (length \<circ> snd)") (simp_all add: leading_rune_shrinks)

declare trim_left.simps [simp del]

definition trim_right :: "string list \<Rightarrow> string \<Rightarrow> string" where
  "trim_right rs s = rev (trim_left (map rev rs) (rev s))"

definition TrimSpace :: "string \<Rightarrow> string" where
  "TrimSpace s = trim_right space_runes (trim_left space_runes s)"

text \<open>\<open>strings.Trim(s, "\n")\<close> for a cutset of one byte.\<close>

definition Trim :: "string \<Rightarrow> char \<Rightarrow> string" where
  "Trim s c = rev (dropWhile (\<lambda>x. x = c) (rev (dropWhile (\<lambda>x. x = c) s)))"

section \<open>Indexing, slicing and strconv\<close>

definition str_at :: "string \<Rightarrow> int \<Rightarrow> char result" where
  "str_at s i = (if 0 \<le> i \<and> i < int (length s) then Ok (s ! nat i)
     else Panic ''index out of range'')"

definition str_slice :: "string \<Rightarrow> int \<Rightarrow> int \<Rightarrow> string result" where
  "str_slice s i j = (if 0 \<le> i \<and> i \<le> j \<and> j \<le> int (length s)
     then Ok (take (nat j - nat i) (drop (nat i) s))
     else Panic ''slice bounds out of range'')"

definition digit :: "char \<Rightarrow> nat option" where
  "digit c = (let n = of_char c :: nat in if 48 \<le> n \<and> n \<le> 57 then Some (n - 48) else None)"

definition hexdigit :: "char \<Rightarrow> nat option" where
  "hexdigit c = (let n = of_char c :: nat in
     if 48 \<le> n \<and> n \<le> 57 then Some (n - 48)
     else if 97 \<le> n \<and> n \<le> 102 then Some (n - 97 + 10)
     else if 65 \<le> n \<and> n \<le> 70 then Some (n - 65 + 10) else None)"

text \<open>\<open>strconv.ParseUint(s, 10, bits)\<close>: digits only, not empty, and below \<open>2 ^ bits\<close>.\<close>

fun parse_uint :: "nat \<Rightarrow> nat \<Rightarrow> string \<Rightarrow> nat result" where
  "parse_uint mx n [] = Ok n"
| "parse_uint mx n (c # cs) = (case digit c of
       None \<Rightarrow> Err (LibError ''invalid syntax'')
     | Some d \<Rightarrow> (if mx < n * 10 + d then Err (LibError ''value out of range'')
                 else parse_uint mx (n * 10 + d) cs))"

definition ParseUint :: "string \<Rightarrow> nat \<Rightarrow> nat result" where
  "ParseUint s bits =
     (if s = [] then Err (LibError ''invalid syntax'') else parse_uint (2 ^ bits - 1) 0 s)"

text \<open>The decimal numeral of a number, as \<open>%d\<close> prints it.\<close>

fun dec :: "nat \<Rightarrow> string" where
  "dec n = (if n < 10 then [char_of (48 + n)] else dec (n div 10) @ [char_of (48 + n mod 10)])"

declare dec.simps [simp del]

section \<open>Shared lemmas\<close>

lemma HasPrefix_append [simp]: "HasPrefix (p @ s) p"
  by (simp add: HasPrefix_def)

lemma HasSuffix_append [simp]: "HasSuffix (s @ p) p"
  by (simp add: HasSuffix_def)

lemma HasPrefix_iff: "HasPrefix s p \<longleftrightarrow> (\<exists>t. s = p @ t)"
  unfolding HasPrefix_def by (metis append_eq_conv_conj append_take_drop_id)

lemma HasSuffix_iff: "HasSuffix s p \<longleftrightarrow> (\<exists>t. s = t @ p)"
  unfolding HasSuffix_def by (metis append_eq_conv_conj append_take_drop_id diff_le_self
      length_append le_add2 add_diff_cancel_right')

lemma Contains_iff_infix: "Contains s p \<longleftrightarrow> (\<exists>a b. s = a @ p @ b)"
proof (induction s)
  case Nil
  then show ?case by auto
next
  case (Cons c s)
  have "Contains (c # s) p \<longleftrightarrow> (\<exists>t. c # s = p @ t) \<or> (\<exists>a b. s = a @ p @ b)"
    using Cons.IH by (simp add: HasPrefix_iff)
  also have "\<dots> \<longleftrightarrow> (\<exists>a b. c # s = a @ p @ b)" (is "?L \<longleftrightarrow> ?R")
  proof
    assume ?L
    then show ?R by (metis append_Nil append_Cons)
  next
    assume ?R
    then obtain a b where ab: "c # s = a @ p @ b" by blast
    then show ?L by (cases a) auto
  qed
  finally show ?case .
qed

lemma Contains_char [simp]: "Contains s [c] \<longleftrightarrow> c \<in> set s"
  by (metis Contains_iff_infix append_Cons append_Nil in_set_conv_decomp)

lemma Split_not_Nil [simp]: "Split s sep \<noteq> []"
  by (cases s) (auto split: list.splits)

lemma Split_no_sep: "sep \<notin> set s \<Longrightarrow> Split s sep = [s]"
  by (induction s) auto

lemma Split_append: "sep \<notin> set a \<Longrightarrow> Split (a @ sep # s) sep = a # Split s sep"
  by (induction a) auto

lemma Split_parts: "p \<in> set (Split s sep) \<Longrightarrow> sep \<notin> set p"
  by (induction s arbitrary: p) (auto split: list.splits if_splits)

text \<open>Joining the parts with the separator gives the string back.\<close>

fun join :: "char \<Rightarrow> string list \<Rightarrow> string" where
  "join sep [] = []"
| "join sep [p] = p"
| "join sep (p # q # ps) = p @ sep # join sep (q # ps)"

lemma join_Split: "join sep (Split s sep) = s"
proof (induction s)
  case Nil
  then show ?case by simp
next
  case (Cons c s)
  obtain p ps where ps: "Split s sep = p # ps" by (cases "Split s sep") simp_all
  show ?case using Cons ps by (cases ps) auto
qed

lemma LastIndexByte_None_iff: "LastIndexByte s c = None \<longleftrightarrow> c \<notin> set s"
  by (induction s) (auto split: option.splits)

lemma LastIndexByte_append: "c \<notin> set b \<Longrightarrow> LastIndexByte (a @ c # b) c = Some (length a)"
  by (induction a) (auto simp: LastIndexByte_None_iff split: option.splits)

lemma LastIndexByte_Some:
  "LastIndexByte s c = Some i \<Longrightarrow> i < length s \<and> s ! i = c \<and> c \<notin> set (drop (Suc i) s)"
  by (induction s arbitrary: i) (auto simp: LastIndexByte_None_iff split: option.splits if_splits)

lemma digit_char: "d < 10 \<Longrightarrow> digit (char_of (48 + d)) = Some d"
  by (simp add: digit_def)

lemma parse_uint_append:
  "parse_uint mx n (a @ b) = and_then (parse_uint mx n a) (\<lambda>m. parse_uint mx m b)"
  by (induction a arbitrary: n) (auto split: option.splits)

lemma parse_uint_dec: "n \<le> mx \<Longrightarrow> parse_uint mx 0 (dec n) = Ok n"
proof (induction n rule: dec.induct)
  case (1 n)
  show ?case
  proof (cases "n < 10")
    case True
    with 1 show ?thesis by (subst dec.simps) (simp add: digit_char)
  next
    case False
    have "n div 10 \<le> mx" using "1.prems" by linarith
    with 1 False have ih: "parse_uint mx 0 (dec (n div 10)) = Ok (n div 10)" by blast
    have eq: "n div 10 * 10 + n mod 10 = n" by simp
    show ?thesis using False "1.prems"
      by (subst dec.simps) (simp add: parse_uint_append ih digit_char eq del: mod_div_mult_eq)
  qed
qed

lemma dec_not_Nil [simp]: "dec n \<noteq> []"
  by (subst dec.simps) simp

lemma ParseUint_dec: "n < 2 ^ bits \<Longrightarrow> ParseUint (dec n) bits = Ok n"
  unfolding ParseUint_def using parse_uint_dec [of n "2 ^ bits - 1"] by simp

lemma dec_digits: "c \<in> set (dec n) \<Longrightarrow> digit c \<noteq> None"
proof (induction n arbitrary: c rule: dec.induct)
  case (1 n)
  then show ?case
    by (subst (asm) dec.simps) (auto simp: digit_char split: if_splits)
qed

lemma parse_uint_bound: "parse_uint mx n s = Ok m \<Longrightarrow> n \<le> mx \<Longrightarrow> m \<le> mx"
  by (induction s arbitrary: n) (auto split: option.splits if_splits)

lemma is_panic_parse_uint [simp]: "\<not> is_panic (parse_uint mx n s)"
  by (induction s arbitrary: n) (auto split: option.splits)

lemma is_panic_ParseUint [simp]: "\<not> is_panic (ParseUint s bits)"
  by (simp add: ParseUint_def)

text \<open>A string of visible ASCII bytes has nothing to trim.\<close>

definition visible :: "char \<Rightarrow> bool" where
  "visible c = (33 \<le> (of_char c :: nat) \<and> (of_char c :: nat) \<le> 126)"

lemma space_runes_not_visible:
  "r \<in> set space_runes \<Longrightarrow> r \<noteq> [] \<and> \<not> visible (hd r) \<and> \<not> visible (last r)"
  by (auto simp: space_runes_def visible_def)

lemma leading_rune_visible:
  assumes "\<forall>r\<in>set rs. r \<noteq> [] \<and> \<not> visible (hd r)" and "\<forall>c\<in>set s. visible c"
  shows "leading_rune rs s = 0"
proof -
  have "\<not> HasPrefix s r" if "r \<in> set rs" for r
  proof
    assume "HasPrefix s r"
    then obtain t where "s = r @ t" by (auto simp: HasPrefix_iff)
    with that assms have "hd r \<in> set s" and "\<not> visible (hd r)" by auto
    with assms(2) show False by blast
  qed
  then have "find (HasPrefix s) rs = None" by (simp add: find_None_iff)
  then show ?thesis by (simp add: leading_rune_def)
qed

lemma trim_left_visible:
  assumes "\<forall>r\<in>set rs. r \<noteq> [] \<and> \<not> visible (hd r)" and "\<forall>c\<in>set s. visible c"
  shows "trim_left rs s = s"
  using leading_rune_visible [OF assms] by (simp add: trim_left.simps)

lemma TrimSpace_visible: "\<forall>c\<in>set s. visible c \<Longrightarrow> TrimSpace s = s"
proof -
  assume vis: "\<forall>c\<in>set s. visible c"
  have l: "\<forall>r\<in>set space_runes. r \<noteq> [] \<and> \<not> visible (hd r)"
    using space_runes_not_visible by blast
  have r: "\<forall>r\<in>set (map rev space_runes). r \<noteq> [] \<and> \<not> visible (hd r)"
    using space_runes_not_visible by (auto simp: hd_rev)
  show ?thesis
    using trim_left_visible [OF l vis] trim_left_visible [OF r, of "rev s"] vis
    by (simp add: TrimSpace_def trim_right_def)
qed

end
