(* ===== verification/Str_Util.thy ===== *)
theory Str_Util
  imports Go_Strings
begin

text \<open>
  \<open>platform/util/strutil/substitute.go\<close> (variable references of the form \<open>(VAR)\<close>) and
  \<open>platform/util/osutil/environment.go\<close>. The abstract counterpart of a substitution string is a
  \<open>template\<close>: a text and then variable names, each followed by a text, none of them with a
  parenthesis. \<open>SubstituteVars\<close> is proved to succeed exactly on the strings that print a template
  whose variables are all defined, and to return the template's expansion.
\<close>

section \<open>substitute.go\<close>

abbreviation lparen :: char where "lparen \<equiv> CHR 0x28"
abbreviation rparen :: char where "rparen \<equiv> CHR 0x29"

text \<open>\<open>m[k]\<close> of a Go \<open>map[string]string\<close>: the empty string for a missing key.\<close>

definition map_get :: "('k \<rightharpoonup> string) \<Rightarrow> 'k \<Rightarrow> string" where
  "map_get m k = (case m k of None \<Rightarrow> [] | Some v \<Rightarrow> v)"

text \<open>The loop over \<open>parts[1:]\<close>, with the snippets collected so far.\<close>

fun substitute_parts ::
  "(string \<rightharpoonup> string) \<Rightarrow> string \<Rightarrow> string list \<Rightarrow> string list \<Rightarrow> string result" where
  "substitute_parts vars within [] snippets = Ok (concat snippets)"
| "substitute_parts vars within (part # parts) snippets =
     (let subparts = Split part rparen in
      if length subparts < 2 then
        Err (Errorf (''Missing close parenthesis in substitution string '%s'' @ [CHR 0x27]) [within])
      else if 2 < length subparts then
        Err (Errorf (''Extraneous close parenthesis in substitution string '%s'' @ [CHR 0x27]) [within])
      else
        let varname = subparts ! 0; txt = subparts ! 1; value = map_get vars varname in
        if value = [] then
          Err (Errorf (''Undefined variable %s in substitution string '%s'' @ [CHR 0x27])
                 [varname, within])
        else substitute_parts vars within parts (snippets @ [value, txt]))"

definition SubstituteVars :: "string \<Rightarrow> (string \<rightharpoonup> string) \<Rightarrow> string result" where
  "SubstituteVars within vars =
     (case Split within lparen of
        [] \<Rightarrow> Panic ''index out of range''
      | part0 # parts \<Rightarrow>
          if Contains part0 [rparen] then
            Err (Errorf (''Extraneous close parenthesis in substitution string '%s'' @ [CHR 0x27])
                   [within])
          else substitute_parts vars within parts [part0])"

fun SubstituteAllVars :: "string list \<Rightarrow> (string \<rightharpoonup> string) \<Rightarrow> string list result" where
  "SubstituteAllVars [] vars = Ok []"
| "SubstituteAllVars (s # within) vars =
     and_then (SubstituteVars s vars) (\<lambda>value.
     and_then (SubstituteAllVars within vars) (\<lambda>out. Ok (value # out)))"

section \<open>Templates\<close>

type_synonym template = "string \<times> (string \<times> string) list"

definition no_paren :: "string \<Rightarrow> bool" where
  "no_paren s = (lparen \<notin> set s \<and> rparen \<notin> set s)"

fun template_ok :: "template \<Rightarrow> bool" where
  "template_ok (t, vs) = (no_paren t \<and> (\<forall>(v, x)\<in>set vs. no_paren v \<and> no_paren x))"

fun print_vars :: "(string \<times> string) list \<Rightarrow> string" where
  "print_vars [] = []"
| "print_vars ((v, x) # vs) = lparen # v @ rparen # x @ print_vars vs"

fun print_template :: "template \<Rightarrow> string" where
  "print_template (t, vs) = t @ print_vars vs"

fun expand :: "(string \<rightharpoonup> string) \<Rightarrow> template \<Rightarrow> string" where
  "expand vars (t, vs) = t @ concat (map (\<lambda>(v, x). map_get vars v @ x) vs)"

fun all_defined :: "(string \<rightharpoonup> string) \<Rightarrow> template \<Rightarrow> bool" where
  "all_defined vars (t, vs) = (\<forall>(v, x)\<in>set vs. map_get vars v \<noteq> [])"

text \<open>The parts between opening parentheses, as \<open>strings.Split\<close> sees them.\<close>

definition var_parts :: "(string \<times> string) list \<Rightarrow> string list" where
  "var_parts vs = map (\<lambda>(v, x). v @ rparen # x) vs"

lemma Split_print_vars:
  assumes "lparen \<notin> set t" and "\<forall>(v, x)\<in>set vs. lparen \<notin> set v \<and> lparen \<notin> set x"
  shows "Split (t @ print_vars vs) lparen = t # var_parts vs"
  using assms
proof (induction vs arbitrary: t)
  case Nil
  then show ?case by (simp add: Split_no_sep var_parts_def)
next
  case (Cons vx vs)
  obtain v x where vx: "vx = (v, x)" by (cases vx)
  have "Split ((v @ rparen # x) @ print_vars vs) lparen = (v @ rparen # x) # var_parts vs"
    using Cons.prems vx by (intro Cons.IH) auto
  with Cons.prems(1) vx show ?case by (simp add: Split_append var_parts_def)
qed

lemma join_var_parts: "join lparen (t # var_parts vs) = t @ print_vars vs"
  by (induction vs arbitrary: t) (auto simp: var_parts_def)

text \<open>The loop on the parts of a template, and back: where it succeeds, the parts are a template's.\<close>

lemma substitute_parts_template:
  assumes "\<forall>(v, x)\<in>set vs. rparen \<notin> set v \<and> rparen \<notin> set x"
    and "\<forall>(v, x)\<in>set vs. map_get vars v \<noteq> []"
  shows "substitute_parts vars within (var_parts vs) sn =
    Ok (concat sn @ concat (map (\<lambda>(v, x). map_get vars v @ x) vs))"
  using assms
proof (induction vs arbitrary: sn)
  case Nil
  then show ?case by (simp add: var_parts_def)
next
  case (Cons vx vs)
  obtain v x where vx: "vx = (v, x)" by (cases vx)
  with Cons.prems have "Split (v @ rparen # x) rparen = [v, x]"
    by (simp add: Split_append Split_no_sep)
  with Cons vx show ?case by (simp add: var_parts_def Let_def)
qed

lemma substitute_parts_Ok:
  assumes "substitute_parts vars within parts sn = Ok out"
  shows "\<exists>vs. parts = var_parts vs \<and> (\<forall>(v, x)\<in>set vs. rparen \<notin> set v \<and> rparen \<notin> set x) \<and>
    (\<forall>(v, x)\<in>set vs. map_get vars v \<noteq> []) \<and>
    out = concat sn @ concat (map (\<lambda>(v, x). map_get vars v @ x) vs)"
  using assms
proof (induction parts arbitrary: sn)
  case Nil
  then show ?case by (intro exI [of _ "[]"]) (simp add: var_parts_def)
next
  case (Cons part parts)
  from Cons.prems have "length (Split part rparen) = 2"
    by (auto simp: Let_def split: if_splits)
  then obtain v x where sp: "Split part rparen = [v, x]"
    by (auto simp: numeral_2_eq_2 length_Suc_conv)
  with Cons.prems have def: "map_get vars v \<noteq> []"
    and rest: "substitute_parts vars within parts (sn @ [map_get vars v, x]) = Ok out"
    by (auto simp: Let_def split: if_splits)
  from Cons.IH [OF rest] obtain vs where vs: "parts = var_parts vs"
    "\<forall>(v, x)\<in>set vs. rparen \<notin> set v \<and> rparen \<notin> set x" "\<forall>(v, x)\<in>set vs. map_get vars v \<noteq> []"
    "out = concat (sn @ [map_get vars v, x]) @ concat (map (\<lambda>(v, x). map_get vars v @ x) vs)"
    by blast
  have "part = v @ rparen # x" using join_Split [of rparen part] sp by simp
  moreover have "rparen \<notin> set v" "rparen \<notin> set x" using Split_parts [of _ part rparen] sp by auto
  ultimately show ?case using vs def
    by (intro exI [of _ "(v, x) # vs"]) (auto simp: var_parts_def)
qed

lemma SubstituteVars_print_template:
  "template_ok tm \<Longrightarrow> all_defined vars tm \<Longrightarrow> SubstituteVars (print_template tm) vars = Ok (expand vars tm)"
proof (cases tm)
  case (Pair t vs)
  assume "template_ok tm" and def: "all_defined vars tm"
  with Pair have t: "lparen \<notin> set t" "rparen \<notin> set t"
    and l: "\<forall>(v, x)\<in>set vs. lparen \<notin> set v \<and> lparen \<notin> set x"
    and r: "\<forall>(v, x)\<in>set vs. rparen \<notin> set v \<and> rparen \<notin> set x"
    by (auto simp: no_paren_def)
  show ?thesis using Pair t def substitute_parts_template [OF r, of vars]
    by (simp add: SubstituteVars_def Split_print_vars [OF t(1) l])
qed

lemma SubstituteVars_Ok:
  assumes "SubstituteVars within vars = Ok out"
  shows "\<exists>tm. template_ok tm \<and> print_template tm = within \<and> all_defined vars tm \<and> out = expand vars tm"
proof -
  obtain t parts where sp: "Split within lparen = t # parts" by (cases "Split within lparen") auto
  with assms have t: "rparen \<notin> set t" and loop: "substitute_parts vars within parts [t] = Ok out"
    by (auto simp: SubstituteVars_def split: if_splits)
  obtain vs where vs: "parts = var_parts vs" "\<forall>(v, x)\<in>set vs. rparen \<notin> set v \<and> rparen \<notin> set x"
    "\<forall>(v, x)\<in>set vs. map_get vars v \<noteq> []"
    "out = t @ concat (map (\<lambda>(v, x). map_get vars v @ x) vs)"
    using substitute_parts_Ok [OF loop] by auto
  have lp: "lparen \<notin> set p" if "p \<in> set (t # var_parts vs)" for p
    using Split_parts [of p within lparen] sp vs(1) that by simp
  have "lparen \<notin> set (v @ rparen # x)" if "(v, x) \<in> set vs" for v x
    using that by (intro lp) (force simp: var_parts_def)
  then have "\<forall>(v, x)\<in>set vs. lparen \<notin> set v \<and> lparen \<notin> set x" by auto
  with vs t lp [of t] have "template_ok (t, vs)" by (auto simp: no_paren_def)
  moreover have "print_template (t, vs) = within"
    using join_Split [of lparen within] sp vs(1) by (simp add: join_var_parts)
  ultimately show ?thesis using vs by (intro exI [of _ "(t, vs)"]) simp
qed

text \<open>
  C40: \<open>SubstituteVars\<close> returns a string exactly if its input prints a template, a text and then
  variable references each followed by a text, whose variables all have a non-empty value, and then
  it returns the text with every reference replaced by the value of its variable.
\<close>

theorem SubstituteVars_iff_template:
  "SubstituteVars within vars = Ok out \<longleftrightarrow>
     (\<exists>tm. template_ok tm \<and> print_template tm = within \<and> all_defined vars tm \<and> out = expand vars tm)"
    (is "?L \<longleftrightarrow> ?R")
proof
  assume ?L
  then show ?R by (rule SubstituteVars_Ok)
next
  assume ?R
  then show ?L using SubstituteVars_print_template by auto
qed

lemma SubstituteAllVars_Ok_iff:
  "SubstituteAllVars ws vars = Ok outs \<longleftrightarrow> list_all2 (\<lambda>w out. SubstituteVars w vars = Ok out) ws outs"
  by (induction ws arbitrary: outs) (auto simp: and_then_Ok_iff list_all2_Cons1)

section \<open>environment.go\<close>

text \<open>
  \<open>ModifiedEnviron\<close>, with \<open>env\<close> what \<open>os.Environ()\<close> returns: the loop overwrites every entry
  of the key and remembers whether there was one.
\<close>

definition env_entry :: "string \<Rightarrow> string \<Rightarrow> string" where
  "env_entry key value = key @ ''='' @ value"

fun replace_entries :: "string \<Rightarrow> string \<Rightarrow> string list \<Rightarrow> string list \<times> bool" where
  "replace_entries key value [] = ([], False)"
| "replace_entries key value (entry # env) =
     (let (env', found) = replace_entries key value env in
      if HasPrefix entry (key @ ''='') then (env_entry key value # env', True)
      else (entry # env', found))"

definition ModifiedEnviron :: "string list \<Rightarrow> string \<Rightarrow> string \<Rightarrow> string list" where
  "ModifiedEnviron environ key value =
     (let (env, found) = replace_entries key value environ in
      if found then env else env @ [env_entry key value])"

lemma replace_entries_eq:
  "replace_entries key value env =
     (map (\<lambda>e. if HasPrefix e (key @ ''='') then env_entry key value else e) env,
      \<exists>e\<in>set env. HasPrefix e (key @ ''=''))"
  by (induction env) (auto simp: Let_def)

lemma HasPrefix_env_entry: "HasPrefix (env_entry key value) (key @ ''='')"
  by (metis HasPrefix_append append.assoc env_entry_def)

text \<open>
  In the environment that \<open>ModifiedEnviron\<close> returns the key has an entry, every entry of the
  key has the new value, and the entries of other keys are those of the old environment in order.
\<close>

theorem ModifiedEnviron_spec:
  defines "other \<equiv> \<lambda>key e. \<not> HasPrefix e (key @ ''='')"
  shows "env_entry key value \<in> set (ModifiedEnviron env key value) \<and>
    set (filter (\<lambda>e. \<not> other key e) (ModifiedEnviron env key value)) = {env_entry key value} \<and>
    filter (other key) (ModifiedEnviron env key value) = filter (other key) env"
proof -
  let ?f = "\<lambda>e. if HasPrefix e (key @ ''='') then env_entry key value else e"
  have id: "filter (other key) (map ?f env) = filter (other key) env"
    by (induction env) (auto simp: other_def HasPrefix_env_entry)
  have new: "e = env_entry key value" if "\<not> other key e" "e \<in> set (map ?f env)" for e
    using that by (auto simp: other_def split: if_splits)
  show ?thesis
  proof (cases "\<exists>e\<in>set env. HasPrefix e (key @ ''='')")
    case True
    then have "ModifiedEnviron env key value = map ?f env"
      by (simp add: ModifiedEnviron_def replace_entries_eq)
    moreover from True have "env_entry key value \<in> set (map ?f env)" by force
    ultimately show ?thesis using id new HasPrefix_env_entry
      by (auto simp: other_def simp del: set_map)
  next
    case False
    then have "ModifiedEnviron env key value = env @ [env_entry key value]"
      by (auto simp: ModifiedEnviron_def replace_entries_eq map_idI)
    with False show ?thesis using HasPrefix_env_entry by (auto simp: other_def)
  qed
qed

end
