(* ===== verification/Net_Util.thy ===== *)
theory Net_Util
  imports Go_Strings
begin

text \<open>
  \<open>platform/util/netutil/parseip.go\<close> and the parts of the package \<open>net\<close> it uses: \<open>net.ParseIP\<close>
  (Go 1.13, the toolchain of \<open>platform/go/deps.bzl\<close>), with its IPv4 and IPv6 readers, and
  \<open>IP.Equal\<close>. An address is the list of its bytes; \<open>ParseIP\<close> always returns sixteen. The main
  results: parsing a remote address never panics, the dotted form of an IPv4 address with a port
  is read back, and an address of one family is never accepted in the notation of the other.
\<close>

type_synonym IP = "nat list"

section \<open>net.ParseIP\<close>

text \<open>
  \<open>dtoi\<close> and \<open>xtoi\<close>: the number at the start of a string and the rest of it; \<open>None\<close> if there is
  no digit or the number reaches \<open>0xFFFFFF\<close>.
\<close>

fun atoi_loop ::
  "nat \<Rightarrow> (char \<Rightarrow> nat option) \<Rightarrow> nat \<Rightarrow> nat \<Rightarrow> string \<Rightarrow> (nat \<times> nat \<times> string) option" where
  "atoi_loop base dig n i [] = Some (n, i, [])"
| "atoi_loop base dig n i (c # s) = (case dig c of
       None \<Rightarrow> Some (n, i, c # s)
     | Some d \<Rightarrow> (if 0xFFFFFF \<le> n * base + d then None
                 else atoi_loop base dig (n * base + d) (Suc i) s))"

definition atoi :: "nat \<Rightarrow> (char \<Rightarrow> nat option) \<Rightarrow> string \<Rightarrow> (nat \<times> string) option" where
  "atoi base dig s = (case atoi_loop base dig 0 0 s of
       None \<Rightarrow> None
     | Some (n, i, rest) \<Rightarrow> (if i = 0 then None else Some (n, rest)))"

abbreviation dtoi :: "string \<Rightarrow> (nat \<times> string) option" where
  "dtoi \<equiv> atoi 10 digit"

abbreviation xtoi :: "string \<Rightarrow> (nat \<times> string) option" where
  "xtoi \<equiv> atoi 16 hexdigit"

text \<open>The loop of \<open>parseIPv4\<close> over the octets; \<open>first\<close> is the source's \<open>i == 0\<close>.\<close>

fun parse_octets :: "nat \<Rightarrow> bool \<Rightarrow> string \<Rightarrow> (nat list \<times> string) option" where
  "parse_octets 0 first s = Some ([], s)"
| "parse_octets (Suc k) first s =
     (if s = [] then None
      else if \<not> first \<and> hd s \<noteq> CHR ''.'' then None
      else case dtoi (if first then s else tl s) of
          None \<Rightarrow> None
        | Some (n, rest) \<Rightarrow>
            (if 0xFF < n then None
             else case parse_octets k False rest of
                 None \<Rightarrow> None
               | Some (p, rest') \<Rightarrow> Some (n # p, rest')))"

definition v4InV6Prefix :: "nat list" where
  "v4InV6Prefix = [0, 0, 0, 0, 0, 0, 0, 0, 0, 0, 0xFF, 0xFF]"

definition parseIPv4 :: "string \<Rightarrow> IP option" where
  "parseIPv4 s = (case parse_octets 4 True s of
       Some (p, []) \<Rightarrow> Some (v4InV6Prefix @ p)
     | _ \<Rightarrow> None)"

text \<open>
  The loop of \<open>parseIPv6\<close>: \<open>ip\<close> holds the bytes written so far, so the source's \<open>i\<close> is its
  length, and \<open>ell\<close> the position of the ellipsis. It returns the bytes, the ellipsis and the rest
  of the string at the point where the source's loop ends.
\<close>

function parse_groups ::
  "IP \<Rightarrow> nat option \<Rightarrow> string \<Rightarrow> (IP \<times> nat option \<times> string) option" where
  "parse_groups ip ell s =
     (if 16 \<le> length ip then Some (ip, ell, s)
      else case xtoi s of
          None \<Rightarrow> None
        | Some (n, rest) \<Rightarrow>
            if 0xFFFF < n then None
            else if rest \<noteq> [] \<and> hd rest = CHR ''.'' then
              (if ell = None \<and> length ip \<noteq> 12 then None
               else if 16 < length ip + 4 then None
               else case parseIPv4 s of
                   None \<Rightarrow> None
                 | Some ip4 \<Rightarrow> Some (ip @ drop 12 ip4, ell, []))
            else
              let ip' = ip @ [n div 256, n mod 256] in
              if rest = [] then Some (ip', ell, [])
              else if hd rest \<noteq> CHR '':'' \<or> length rest = 1 then None
              else
                let s1 = tl rest in
                if hd s1 = CHR '':'' then
                  (if ell \<noteq> None then None
                   else if tl s1 = [] then Some (ip', Some (length ip'), [])
                   else parse_groups ip' (Some (length ip')) (tl s1))
                else parse_groups ip' ell s1)"
  by pat_completeness auto
termination
  by (relation "measure (\<lambda>(ip, ell, s). 16 - length ip)") auto

declare parse_groups.simps [simp del]

definition parseIPv6 :: "string \<Rightarrow> IP option" where
  "parseIPv6 s0 =
     (let lead = HasPrefix s0 ''::''; ell0 = (if lead then Some 0 else None);
          s = (if lead then drop 2 s0 else s0) in
      if lead \<and> s = [] then Some (replicate 16 0)
      else case parse_groups [] ell0 s of
          None \<Rightarrow> None
        | Some (ip, ell, rest) \<Rightarrow>
            if rest \<noteq> [] then None
            else if length ip < 16 then
              (case ell of
                 None \<Rightarrow> None
               | Some e \<Rightarrow> Some (take e ip @ replicate (16 - length ip) 0 @ drop e ip))
            else if ell \<noteq> None then None
            else Some ip)"

definition ParseIP :: "string \<Rightarrow> IP option" where
  "ParseIP s = (case find (\<lambda>c. c = CHR ''.'' \<or> c = CHR '':'') s of
       None \<Rightarrow> None
     | Some c \<Rightarrow> (if c = CHR ''.'' then parseIPv4 s else parseIPv6 s))"

definition IP_Equal :: "IP \<Rightarrow> IP \<Rightarrow> bool" where
  "IP_Equal ip x =
     (if length ip = length x then ip = x
      else if length ip = 4 \<and> length x = 16 then take 12 x = v4InV6Prefix \<and> ip = drop 12 x
      else if length ip = 16 \<and> length x = 4 then take 12 ip = v4InV6Prefix \<and> drop 12 ip = x
      else False)"

section \<open>parseip.go\<close>

definition invalid_ip_msg :: string where
  "invalid_ip_msg = ''invalid request address (invalid IP in '%s')''"

definition ParseRemoteAddress :: "string \<Rightarrow> IP result" where
  "ParseRemoteAddress remote_addr =
     (case LastIndexByte remote_addr (CHR '':'') of
        None \<Rightarrow> Err (ErrorNew ''invalid request address (no colon)'')
      | Some i \<Rightarrow>
          let index = int i; n = int (length remote_addr) in
          and_then (str_slice remote_addr (index + 1) n) (\<lambda>port.
          and_then (ParseUint port 16) (\<lambda>_.
          and_then (str_at remote_addr 0) (\<lambda>c0.
          and_then (if c0 = CHR ''['' then
                      and_then (str_at remote_addr (index - 1)) (\<lambda>c1. Ok (c1 = CHR '']''))
                    else Ok False) (\<lambda>bracketed.
          if bracketed then
            and_then (str_slice remote_addr 1 (index - 1)) (\<lambda>host.
              case ParseIP host of
                None \<Rightarrow> Err (Errorf invalid_ip_msg [remote_addr])
              | Some ip \<Rightarrow>
                  if Contains host ''.'' then
                    Err (Errorf ''IP address was expected to be IPv6, but was IPv4'' [])
                  else Ok ip)
          else
            and_then (str_slice remote_addr 0 index) (\<lambda>host.
              case ParseIP host of
                None \<Rightarrow> Err (Errorf invalid_ip_msg [remote_addr])
              | Some ip \<Rightarrow>
                  if Contains host '':'' then
                    Err (Errorf ''IP address was expected to be IPv4, but was IPv6'' [])
                  else Ok ip))))))"

section \<open>Lengths\<close>

lemma length_parse_octets: "parse_octets k f s = Some (p, r) \<Longrightarrow> length p = k"
  by (induction k f s arbitrary: p r rule: parse_octets.induct)
    (auto split: if_splits option.splits prod.splits)

lemma length_parseIPv4: "parseIPv4 s = Some ip \<Longrightarrow> length ip = 16"
  by (auto simp: parseIPv4_def v4InV6Prefix_def dest!: length_parse_octets
      split: option.splits prod.splits list.splits)

text \<open>
  One round of the IPv6 loop either ends with the embedded IPv4 address, ends with a last group, or
  goes on with two more bytes; the ellipsis is the old one or the current position.
\<close>

lemma parse_groups_round:
  assumes "parse_groups ip ell s = Some res" and "length ip < 16"
  obtains (v4) ip4 where "length ip4 = 16" "length ip + 4 \<le> 16" "res = (ip @ drop 12 ip4, ell, [])"
  | (fin) a b ell' where "ell' = ell \<or> ell' = Some (length ip + 2)" "res = (ip @ [a, b], ell', [])"
  | (go) a b ell' t where "ell' = ell \<or> ell' = Some (length ip + 2)"
      "parse_groups (ip @ [a, b]) ell' t = Some res"
proof -
  from assms(2) have lt: "\<not> 16 \<le> length ip" by simp
  note eq = assms(1) [unfolded parse_groups.simps [of ip ell s]]
  from eq lt obtain n rest where x: "xtoi s = Some (n, rest)" "\<not> 0xFFFF < n"
    by (cases "xtoi s") (auto split: if_splits)
  show thesis
  proof (cases "rest \<noteq> [] \<and> hd rest = CHR ''.''")
    case True
    from eq lt x True obtain ip4 where "parseIPv4 s = Some ip4" "length ip + 4 \<le> 16"
      "res = (ip @ drop 12 ip4, ell, [])"
      by (cases "parseIPv4 s") (simp_all split: if_splits)
    then show thesis by (intro v4) (simp_all add: length_parseIPv4)
  next
    case dot: False
    let ?ip = "ip @ [n div 256, n mod 256]"
    let ?pos = "Some (length ip + 2)"
    have step: "(if rest = [] then Some (?ip, ell, [])
      else if hd rest \<noteq> CHR '':'' \<or> length rest = 1 then None
      else if hd (tl rest) = CHR '':'' then
        (if ell \<noteq> None then None
         else if tl (tl rest) = [] then Some (?ip, ?pos, []) else parse_groups ?ip ?pos (tl (tl rest)))
      else parse_groups ?ip ell (tl rest)) = Some res"
      using eq lt x dot by (simp add: Let_def cong: if_cong split del: if_split)
    show thesis
    proof (cases "rest = [] \<or> hd (tl rest) = CHR '':'' \<and> tl (tl rest) = []")
      case True
      with step have "res = (?ip, ell, []) \<or> res = (?ip, ?pos, [])" by (auto split: if_splits)
      then show thesis using fin by blast
    next
      case more: False
      show thesis
      proof (cases "hd (tl rest) = CHR '':''")
        case True
        with step more have "parse_groups ?ip ?pos (tl (tl rest)) = Some res"
          by (simp split: if_splits)
        then show thesis using go by blast
      next
        case False
        with step more have "parse_groups ?ip ell (tl rest) = Some res"
          by (simp split: if_splits)
        then show thesis using go by blast
      qed
    qed
  qed
qed

definition ell_inside :: "nat option \<Rightarrow> nat \<Rightarrow> bool" where
  "ell_inside ell n = (case ell of None \<Rightarrow> True | Some e \<Rightarrow> e \<le> n)"

lemma ell_inside_simps [simp]:
  "ell_inside None n" "ell_inside (Some e) n \<longleftrightarrow> e \<le> n"
  by (simp_all add: ell_inside_def)

lemma ell_inside_mono: "ell_inside ell n \<Longrightarrow> n \<le> m \<Longrightarrow> ell_inside ell m"
  by (auto simp: ell_inside_def split: option.splits)

lemma parse_groups_length:
  assumes "parse_groups ip ell s = Some (ip', ell', r)" and "even (length ip)" and "length ip \<le> 16"
    and "ell_inside ell (length ip)"
  shows "length ip' \<le> 16 \<and> ell_inside ell' (length ip')"
  using assms
proof (induction "16 - length ip" arbitrary: ip ell s rule: less_induct)
  case less
  show ?case
  proof (cases "length ip < 16")
    case False
    with less.prems show ?thesis by (simp add: parse_groups.simps [of ip ell s])
  next
    case True
    with less.prems(2) have two: "length ip + 2 \<le> 16" by (auto elim!: evenE)
    from less.prems(1) True show ?thesis
    proof (cases rule: parse_groups_round)
      case (v4 ip4)
      with less.prems(4) show ?thesis by (auto intro: ell_inside_mono)
    next
      case (fin a b ell1)
      with less.prems(4) two show ?thesis by (auto intro: ell_inside_mono)
    next
      case (go a b ell1 t)
      from go(1) less.prems(4) have "ell_inside ell1 (length (ip @ [a, b]))"
        by (auto intro: ell_inside_mono)
      with go(2) less.prems(2) two True show ?thesis
        by (intro less.hyps [of "ip @ [a, b]" ell1 t]) auto
    qed
  qed
qed

lemma length_parseIPv6:
  assumes "parseIPv6 s = Some ip" shows "length ip = 16"
proof -
  have start: "ell_inside (if c then Some 0 else None) (length [])" for c :: bool by simp
  note bound = parse_groups_length [where ip = "[]", simplified]
  show ?thesis
    using assms bound [of "Some 0"] bound [of None]
    by (fastforce simp: parseIPv6_def Let_def split: if_splits option.splits)
qed

lemma length_ParseIP: "ParseIP s = Some ip \<Longrightarrow> length ip = 16"
  by (auto simp: ParseIP_def dest: length_parseIPv4 length_parseIPv6 split: option.splits if_splits)

section \<open>The shape of an accepted remote address\<close>

definition bracketed :: "string \<Rightarrow> bool" where
  "bracketed pre = (pre \<noteq> [] \<and> hd pre = CHR ''['' \<and> last pre = CHR '']'')"

text \<open>\<open>ParseRemoteAddress\<close> on an address split at its last colon, without the index arithmetic.\<close>

lemma ParseRemoteAddress_split:
  assumes "CHR '':'' \<notin> set port"
  shows "ParseRemoteAddress (pre @ CHR '':'' # port) = and_then (ParseUint port 16) (\<lambda>_.
    let host = (if bracketed pre then butlast (tl pre) else pre) in
    case ParseIP host of
      None \<Rightarrow> Err (Errorf invalid_ip_msg [pre @ CHR '':'' # port])
    | Some ip \<Rightarrow>
        if bracketed pre \<and> CHR ''.'' \<in> set host then
          Err (Errorf ''IP address was expected to be IPv6, but was IPv4'' [])
        else if \<not> bracketed pre \<and> CHR '':'' \<in> set host then
          Err (Errorf ''IP address was expected to be IPv4, but was IPv6'' [])
        else Ok ip)"
proof -
  let ?s = "pre @ CHR '':'' # port"
  have i: "LastIndexByte ?s (CHR '':'') = Some (length pre)"
    using assms by (rule LastIndexByte_append)
  have port: "str_slice ?s (int (length pre) + 1) (1 + (int (length pre) + int (length port))) = Ok port"
    by (simp add: str_slice_def nat_add_distrib)
  have c0: "str_at ?s 0 = Ok (hd ?s)" by (cases pre) (simp_all add: str_at_def)
  have whole: "str_slice ?s 0 (int (length pre)) = Ok pre" by (simp add: str_slice_def)
  have last: "str_at ?s (int (length pre) - 1) = Ok (last pre)" if "pre \<noteq> []"
    using that by (cases pre rule: rev_cases) (simp_all add: str_at_def nth_append)
  have inner: "str_slice ?s 1 (int (length pre) - 1) = Ok (butlast (tl pre))" if "bracketed pre"
  proof -
    from that have "2 \<le> length pre" by (cases pre; cases "tl pre") (auto simp: bracketed_def)
    moreover from this have "butlast (tl pre) = take (length pre - 2) (tl pre)"
      by (simp add: butlast_conv_take numeral_2_eq_2)
    ultimately show ?thesis
      by (cases pre) (auto simp: str_slice_def nat_diff_distrib numeral_2_eq_2)
  qed
  show ?thesis
  proof (cases "bracketed pre")
    case True
    then have "pre \<noteq> []" "hd ?s = CHR ''[''" "last pre = CHR '']''" by (auto simp: bracketed_def)
    with True show ?thesis
      by (cases "ParseIP (butlast (tl pre))")
        (simp_all add: ParseRemoteAddress_def i port c0 last inner Let_def)
  next
    case False
    then have "(if hd ?s = CHR ''['' then
        and_then (str_at ?s (int (length pre) - 1)) (\<lambda>c1. Ok (c1 = CHR '']'')) else Ok False) = Ok False"
      by (cases "pre = []") (auto simp: bracketed_def last)
    with False show ?thesis
      by (cases "ParseIP pre") (simp_all add: ParseRemoteAddress_def i port c0 whole Let_def)
  qed
qed

lemma ParseRemoteAddress_no_colon:
  "CHR '':'' \<notin> set s \<Longrightarrow> ParseRemoteAddress s = Err (ErrorNew ''invalid request address (no colon)'')"
  by (simp add: ParseRemoteAddress_def LastIndexByte_None_iff [symmetric])

lemma last_colon_cases:
  obtains (none) "CHR '':'' \<notin> set (s :: string)"
  | (split) pre port where "s = pre @ CHR '':'' # port" "CHR '':'' \<notin> set port"
  by (metis split_list_last)

lemma is_panic_ParseRemoteAddress [simp]: "\<not> is_panic (ParseRemoteAddress s)"
proof (cases s rule: last_colon_cases)
  case none
  then show ?thesis by (simp add: ParseRemoteAddress_no_colon)
next
  case (split pre port)
  then show ?thesis
    by (simp add: ParseRemoteAddress_split is_panic_and_then Let_def split: option.splits)
qed

lemma parse_uint_digits: "parse_uint mx n s = Ok m \<Longrightarrow> c \<in> set s \<Longrightarrow> digit c \<noteq> None"
  by (induction s arbitrary: n) (auto split: option.splits if_splits)

lemma ParseUint_no_colon: "ParseUint port bits = Ok p \<Longrightarrow> CHR '':'' \<notin> set port"
  using parse_uint_digits [of "2 ^ bits - 1" 0 port p "CHR '':''"]
  by (auto simp: ParseUint_def digit_def split: if_splits)

text \<open>An opening bracket is no digit of either base, so no address starts with one.\<close>

lemma atoi_bracket: "dig (CHR ''['') = None \<Longrightarrow> atoi base dig (CHR ''['' # s) = None"
  by (simp add: atoi_def)

lemma parse_octets_bracket: "parse_octets (Suc k) True (CHR ''['' # s) = None"
  by (simp add: atoi_bracket digit_def)

lemma ParseIP_bracket: "ParseIP (CHR ''['' # s) = None"
proof -
  have "parseIPv4 (CHR ''['' # s) = None"
    using parse_octets_bracket [of 3 s] by (simp add: parseIPv4_def numeral_eq_Suc)
  moreover have "parseIPv6 (CHR ''['' # s) = None"
    by (simp add: parseIPv6_def HasPrefix_def parse_groups.simps atoi_bracket hexdigit_def)
  ultimately show ?thesis by (auto simp: ParseIP_def split: option.splits)
qed

lemma bracketedE: "bracketed pre \<Longrightarrow> pre = CHR ''['' # butlast (tl pre) @ [CHR '']'']"
  by (cases pre; cases "tl pre" rule: rev_cases) (auto simp: bracketed_def)

lemma ParseRemoteAddress_Ok_iff:
  "ParseRemoteAddress s = Ok ip \<longleftrightarrow>
     (\<exists>host port p. ParseUint port 16 = Ok p \<and> ParseIP host = Some ip \<and>
        (s = ''['' @ host @ '']:'' @ port \<and> CHR ''.'' \<notin> set host \<or>
         s = host @ '':'' @ port \<and> CHR '':'' \<notin> set host))"
    (is "?L \<longleftrightarrow> ?R")
proof
  assume L: ?L
  then obtain pre port where s: "s = pre @ CHR '':'' # port" and p: "CHR '':'' \<notin> set port"
    by (cases s rule: last_colon_cases) (auto simp: ParseRemoteAddress_no_colon)
  define host where "host = (if bracketed pre then butlast (tl pre) else pre)"
  from L obtain n where n: "ParseUint port 16 = Ok n"
    unfolding s ParseRemoteAddress_split [OF p] by (auto simp: and_then_Ok_iff)
  with L have h: "ParseIP host = Some ip \<and> (bracketed pre \<longrightarrow> CHR ''.'' \<notin> set host) \<and>
      (\<not> bracketed pre \<longrightarrow> CHR '':'' \<notin> set host)"
    unfolding s ParseRemoteAddress_split [OF p] host_def [symmetric]
    by (auto simp: Let_def split: option.splits if_splits)
  show ?R
  proof (cases "bracketed pre")
    case True
    then have "s = ''['' @ host @ '']:'' @ port" using bracketedE [of pre] s
      by (simp add: host_def)
    with True n h show ?thesis by blast
  next
    case False
    then have "s = host @ '':'' @ port" using s by (simp add: host_def)
    with False n h show ?thesis by blast
  qed
next
  assume ?R
  then obtain host port p where p: "ParseUint port 16 = Ok p" and ip: "ParseIP host = Some ip"
    and or: "s = ''['' @ host @ '']:'' @ port \<and> CHR ''.'' \<notin> set host \<or>
      s = host @ '':'' @ port \<and> CHR '':'' \<notin> set host" by blast
  from p have port: "CHR '':'' \<notin> set port" by (rule ParseUint_no_colon)
  from or show ?L
  proof
    assume "s = ''['' @ host @ '']:'' @ port \<and> CHR ''.'' \<notin> set host"
    then show ?L
      using ParseRemoteAddress_split [OF port, of "''['' @ host @ '']''"] p ip
      by (simp add: bracketed_def Let_def)
  next
    assume s: "s = host @ '':'' @ port \<and> CHR '':'' \<notin> set host"
    have "\<not> bracketed host"
      using ip ParseIP_bracket [of "tl host"] by (cases host) (auto simp: bracketed_def)
    with s p ip show ?L using ParseRemoteAddress_split [OF port, of host] by (simp add: Let_def)
  qed
qed

section \<open>Reading back the dotted form\<close>

lemma atoi_loop_dec:
  "n < 0xFFFFFF \<Longrightarrow>
    atoi_loop 10 digit 0 i (dec n @ r) = atoi_loop 10 digit n (i + length (dec n)) r"
proof (induction n arbitrary: i r rule: dec.induct)
  case (1 n)
  show ?case
  proof (cases "n < 10")
    case True
    then show ?thesis by (subst (1 2) dec.simps) (simp add: digit_char)
  next
    case False
    have small: "n div 10 < 0xFFFFFF" using "1.prems" by linarith
    have eq: "n div 10 * 10 + n mod 10 = n" by simp
    show ?thesis using False "1.prems" "1.IH" [OF False small]
      by (subst (1 2) dec.simps) (simp add: digit_char eq del: mod_div_mult_eq)
  qed
qed

lemma dtoi_dec:
  assumes "n < 0xFFFFFF" and "r = [] \<or> digit (hd r) = None"
  shows "dtoi (dec n @ r) = Some (n, r)"
  using assms atoi_loop_dec [of n 0 r] by (cases r) (auto simp: atoi_def)

definition dotted :: "nat \<Rightarrow> nat \<Rightarrow> nat \<Rightarrow> nat \<Rightarrow> string" where
  "dotted a b c d = dec a @ ''.'' @ dec b @ ''.'' @ dec c @ ''.'' @ dec d"

lemma parseIPv4_dotted:
  assumes "a < 256" "b < 256" "c < 256" "d < 256"
  shows "parseIPv4 (dotted a b c d) = Some (v4InV6Prefix @ [a, b, c, d])"
proof -
  have dot: "digit (CHR ''.'') = None" by (simp add: digit_def)
  have last: "dtoi (dec d) = Some (d, [])" using dtoi_dec [of d "[]"] assms by simp
  have "parse_octets (Suc (Suc (Suc (Suc 0)))) True (dotted a b c d) = Some ([a, b, c, d], [])"
    using assms by (simp add: dotted_def dtoi_dec dot last)
  then show ?thesis by (simp add: parseIPv4_def eval_nat_numeral(2,3))
qed

lemma dec_no_sep: "CHR ''.'' \<notin> set (dec n)" "CHR '':'' \<notin> set (dec n)"
  using dec_digits [of "CHR ''.''" n] dec_digits [of "CHR '':''" n] by (auto simp: digit_def)

lemma ParseIP_dotted:
  assumes "a < 256" "b < 256" "c < 256" "d < 256"
  shows "ParseIP (dotted a b c d) = Some (v4InV6Prefix @ [a, b, c, d])"
proof -
  have "find (\<lambda>x. x = CHR ''.'' \<or> x = CHR '':'') (s @ CHR ''.'' # t) = Some (CHR ''.'')"
    if "CHR ''.'' \<notin> set s" "CHR '':'' \<notin> set s" for s t :: string
    using that by (induction s) auto
  then have "find (\<lambda>x. x = CHR ''.'' \<or> x = CHR '':'') (dotted a b c d) = Some (CHR ''.'')"
    by (simp add: dotted_def dec_no_sep)
  then show ?thesis using parseIPv4_dotted [OF assms] by (simp add: ParseIP_def)
qed

text \<open>
  \<open>ParseRemoteAddress\<close> never panics (the index and slice expressions of its two branches are in
  range for every string), and it accepts exactly the strings \<open>[host]:port\<close> with a host that has no
  dot and \<open>host:port\<close> with a host that has no colon, where the port is a decimal number of sixteen
  bits and \<open>net.ParseIP\<close> reads the host; it returns that address. So an IPv4 address in brackets and
  an IPv6 address without them are refused.
\<close>

theorem ParseRemoteAddress_spec:
  "\<not> is_panic (ParseRemoteAddress s) \<and>
   (ParseRemoteAddress s = Ok ip \<longleftrightarrow>
     (\<exists>host port p. ParseUint port 16 = Ok p \<and> ParseIP host = Some ip \<and>
        (s = ''['' @ host @ '']:'' @ port \<and> CHR ''.'' \<notin> set host \<or>
         s = host @ '':'' @ port \<and> CHR '':'' \<notin> set host)))"
  by (simp only: is_panic_ParseRemoteAddress ParseRemoteAddress_Ok_iff) simp

text \<open>
  Round trip: the remote address that the HTTP server builds for an IPv4 peer, the dotted
  address, a colon and the port, is parsed back to that address.
\<close>

theorem ParseRemoteAddress_dotted:
  assumes "a < 256" "b < 256" "c < 256" "d < 256" and "port < 65536"
  shows "ParseRemoteAddress (dotted a b c d @ '':'' @ dec port) = Ok (v4InV6Prefix @ [a, b, c, d])"
proof -
  have "CHR '':'' \<notin> set (dotted a b c d)" by (simp add: dotted_def dec_no_sep)
  moreover have "ParseUint (dec port) 16 = Ok port" using assms(5) by (intro ParseUint_dec) simp
  ultimately show ?thesis
    unfolding ParseRemoteAddress_Ok_iff using ParseIP_dotted [OF assms(1-4)] by blast
qed

theorem ParseRemoteAddress_dotted_witness:
  "ParseRemoteAddress (dotted 18 181 0 97 @ '':'' @ dec 20557) = Ok (v4InV6Prefix @ [18, 181, 0, 97])"
  by (rule ParseRemoteAddress_dotted) simp_all

end
