(* ===== verification/Crypto_Lib.thy ===== *)
theory Crypto_Lib
  imports Go_Strings Net_Util
begin

text \<open>
  The cryptographic libraries the key system is built on (\<open>crypto/x509\<close>, \<open>crypto/tls\<close>,
  \<open>crypto/rsa\<close>, \<open>encoding/pem\<close>, \<open>encoding/json\<close>, \<open>crypto/sha256\<close> and
  \<open>golang.org/x/crypto/ssh\<close>) are parameters of the model: their values are the datatypes and
  records below, with the fields that the sources read or write, and their functions are the fields
  of a record \<open>Lib\<close> that every definition which calls them takes as its first argument. A library
  function returns a sum, \<open>Inl\<close> an error: it does not panic. The package \<open>encoding/base64\<close> is
  modelled in full.
\<close>

section \<open>Values of the libraries\<close>

record pem_Block =
  PEM_Type :: string
  PEM_Bytes :: string

datatype pubkey = RSA_PublicKey nat | Other_PublicKey string

record rsa_PrivateKey =
  N :: nat
  Secret :: string

datatype any_PrivateKey = RSA_Key rsa_PrivateKey | Other_Key string

datatype PublicKeyAlgorithm = UnknownPublicKeyAlgorithm | RSA | DSA | ECDSA | Ed25519

datatype ExtKeyUsage = ExtKeyUsageServerAuth | ExtKeyUsageClientAuth

datatype KeyUsage = KeyUsageDigitalSignature | KeyUsageCertSign

datatype SignatureAlgorithm = UnknownSignatureAlgorithm | SHA256WithRSA

text \<open>The value of a \<open>pkix.AttributeTypeAndValue\<close> is an \<open>interface{}\<close>; the sources ask whether it is a string.\<close>

datatype attribute_value = AttrString string | AttrOther string

text \<open>\<open>x509.Certificate\<close>, used both for parsed certificates and for templates.\<close>

record Certificate =
  Raw :: string
  CertPublicKeyAlgorithm :: PublicKeyAlgorithm
  CertPublicKey :: pubkey
  CertSignatureAlgorithm :: SignatureAlgorithm
  SerialNumber :: nat
  NotBefore :: int
  NotAfter :: int
  CommonName :: string
  Organization :: "string list"
  Names :: "(nat list \<times> attribute_value) list"
  ExtraNames :: "(nat list \<times> attribute_value) list"
  CertKeyUsage :: "KeyUsage list"
  CertExtKeyUsage :: "ExtKeyUsage list"
  BasicConstraintsValid :: bool
  IsCA :: bool
  MaxPathLen :: int
  MaxPathLenZero :: bool
  DNSNames :: "string list"
  IPAddresses :: "IP list"

definition zero_Certificate :: Certificate where
  "zero_Certificate = \<lparr>Raw = [], CertPublicKeyAlgorithm = UnknownPublicKeyAlgorithm,
     CertPublicKey = Other_PublicKey [], CertSignatureAlgorithm = UnknownSignatureAlgorithm,
     SerialNumber = 0, NotBefore = 0, NotAfter = 0, CommonName = [], Organization = [], Names = [], ExtraNames = [],
     CertKeyUsage = [], CertExtKeyUsage = [], BasicConstraintsValid = False, IsCA = False,
     MaxPathLen = 0, MaxPathLenZero = False, DNSNames = [], IPAddresses = []\<rparr>"

record CertificateRequest =
  CSR_Raw :: string
  CSR_PublicKey :: pubkey

text \<open>\<open>tls.Certificate\<close>: the chain in DER, the private key, and the parsed leaf if there is one.\<close>

record tls_Certificate =
  Chain :: "string list"
  ChainKey :: any_PrivateKey
  Leaf :: "Certificate option"

text \<open>\<open>ssh.PublicKey\<close> is an interface; one of its implementations is \<open>*ssh.Certificate\<close>.\<close>

datatype ssh_PublicKey =
    PlainKey string string
  | CertKey (ck_Key: ssh_PublicKey) (ck_KeyId: string) (ck_Serial: "64 word")
      (ck_CertType: "32 word") (ck_ValidPrincipals: "string list") (ck_ValidAfter: "64 word")
      (ck_ValidBefore: "64 word") (ck_Extensions: "(string \<times> string) list") (ck_Signature: string)

record ssh_Signer =
  SignerPublicKey :: ssh_PublicKey
  SignerSecret :: string

text \<open>The JSON values the key system exchanges.\<close>

datatype json =
    JNull
  | JBool bool
  | JNumber string
  | JString string
  | JArray "json list"
  | JObject "(string \<times> json) list"

section \<open>The libraries as a parameter\<close>

record Lib =
  pem_Decode :: "string \<Rightarrow> pem_Block option \<times> string"
  pem_EncodeToMemory :: "pem_Block \<Rightarrow> string"
  x509_ParseCertificate :: "string \<Rightarrow> error + Certificate"
  x509_ParseCertificateRequest :: "string \<Rightarrow> error + CertificateRequest"
  x509_CheckSignature :: "CertificateRequest \<Rightarrow> error option"
  x509_ParsePKCS1PrivateKey :: "string \<Rightarrow> error + rsa_PrivateKey"
  x509_ParsePKCS8PrivateKey :: "string \<Rightarrow> error + any_PrivateKey"
  x509_MarshalPKCS1PrivateKey :: "rsa_PrivateKey \<Rightarrow> string"
  x509_CreateCertificate ::
    "Certificate \<Rightarrow> Certificate \<Rightarrow> pubkey \<Rightarrow> rsa_PrivateKey \<Rightarrow> error + string"
  x509_CreateCertificateRequest ::
    "string \<Rightarrow> SignatureAlgorithm \<Rightarrow> rsa_PrivateKey \<Rightarrow> error + string"
  x509_Verify ::
    "int \<Rightarrow> Certificate \<Rightarrow> Certificate list \<Rightarrow> ExtKeyUsage list \<Rightarrow>
      Certificate list list \<times> error option"
  tls_X509KeyPair :: "string \<Rightarrow> string \<Rightarrow> error + tls_Certificate"
  rsa_GenerateKey :: "nat \<Rightarrow> nat \<Rightarrow> error + rsa_PrivateKey"
  ssh_ParseAuthorizedKey :: "string \<Rightarrow> error + ssh_PublicKey \<times> string"
  ssh_ParsePrivateKey :: "string \<Rightarrow> error + ssh_Signer"
  ssh_NewPublicKey :: "pubkey \<Rightarrow> error + ssh_PublicKey"
  ssh_Type :: "ssh_PublicKey \<Rightarrow> string"
  ssh_Marshal :: "ssh_PublicKey \<Rightarrow> string"
  ssh_MarshalAuthorizedKey :: "ssh_PublicKey \<Rightarrow> string"
  ssh_SignCert :: "nat \<Rightarrow> ssh_PublicKey \<Rightarrow> ssh_Signer \<Rightarrow> error + ssh_PublicKey"
  sha256_Sum256 :: "string \<Rightarrow> nat list"
  json_Parse :: "string \<Rightarrow> error + json"
  json_Print :: "json \<Rightarrow> string"

fun lift :: "error + 'a \<Rightarrow> 'a result" where
  "lift (Inl e) = Err e"
| "lift (Inr x) = Ok x"

lemma lift_Ok_iff [simp]: "lift r = Ok x \<longleftrightarrow> r = Inr x"
  by (cases r) auto

lemma is_panic_lift [simp]: "\<not> is_panic (lift r)"
  by (cases r) auto

lemma lift_not_Panic [simp]: "lift r \<noteq> Panic p"
  by (cases r) auto

section \<open>encoding/base64\<close>

text \<open>The standard alphabet, and the encodings without and with padding.\<close>

definition base64_char :: "nat \<Rightarrow> char" where
  "base64_char n =
     (if n < 26 then char_of (65 + n) else if n < 52 then char_of (97 + (n - 26))
      else if n < 62 then char_of (48 + (n - 52)) else if n = 62 then CHR ''+'' else CHR ''/'')"

fun base64_RawStd :: "nat list \<Rightarrow> string" where
  "base64_RawStd (a # b # c # bs) =
     base64_char (a div 4) # base64_char (a mod 4 * 16 + b div 16) #
     base64_char (b mod 16 * 4 + c div 64) # base64_char (c mod 64) # base64_RawStd bs"
| "base64_RawStd [a, b] =
     [base64_char (a div 4), base64_char (a mod 4 * 16 + b div 16), base64_char (b mod 16 * 4)]"
| "base64_RawStd [a] = [base64_char (a div 4), base64_char (a mod 4 * 16)]"
| "base64_RawStd [] = []"

definition base64_Std :: "nat list \<Rightarrow> string" where
  "base64_Std bs = base64_RawStd bs @ replicate ((3 - length bs mod 3) mod 3) (CHR ''='')"

definition bytes_of_string :: "string \<Rightarrow> nat list" where
  "bytes_of_string s = map of_char s"

lemma visible_base64_char [simp]: "visible (base64_char n)"
  by (auto simp: base64_char_def visible_def)

lemma visible_base64_RawStd: "c \<in> set (base64_RawStd bs) \<Longrightarrow> visible c"
  by (induction bs rule: base64_RawStd.induct) auto

lemma length_base64_RawStd: "length (base64_RawStd bs) = (4 * length bs + 2) div 3"
  by (induction bs rule: base64_RawStd.induct) auto

section \<open>A concrete library\<close>

text \<open>
  An instance of the parameter to evaluate definitions on: the simplest total functions of the right
  types, with one PEM format that is read back and a key for every number. It is no model of the
  real libraries; theorems about all libraries are applied to it to show that their hypotheses can
  hold.
\<close>

definition demo_pem_Decode :: "string \<Rightarrow> pem_Block option \<times> string" where
  "demo_pem_Decode s = (case SplitN2 (drop 11 s) (CHR 0x0A) of
       [t, b] \<Rightarrow> (Some \<lparr>PEM_Type = t, PEM_Bytes = b\<rparr>, [])
     | _ \<Rightarrow> (None, s))"

definition demo_pem_Encode :: "pem_Block \<Rightarrow> string" where
  "demo_pem_Encode b = ''-----BEGIN '' @ PEM_Type b @ [CHR 0x0A] @ PEM_Bytes b"

definition demo_key :: rsa_PrivateKey where
  "demo_key = \<lparr>N = 15, Secret = ''secret''\<rparr>"

definition demo_signer :: ssh_Signer where
  "demo_signer = \<lparr>SignerPublicKey = PlainKey ''ssh-rsa'' ''blob'', SignerSecret = ''secret''\<rparr>"

definition demo_Lib :: Lib where
  "demo_Lib = \<lparr>
     pem_Decode = demo_pem_Decode,
     pem_EncodeToMemory = demo_pem_Encode,
     x509_ParseCertificate = (\<lambda>s. Inr (zero_Certificate\<lparr>Raw := s, CertPublicKeyAlgorithm := RSA,
        CertPublicKey := RSA_PublicKey 15, CommonName := s, NotAfter := 1000000000000\<rparr>)),
     x509_ParseCertificateRequest = (\<lambda>s. Inr \<lparr>CSR_Raw = s, CSR_PublicKey = RSA_PublicKey 15\<rparr>),
     x509_CheckSignature = (\<lambda>_. None),
     x509_ParsePKCS1PrivateKey = (\<lambda>_. Inr demo_key),
     x509_ParsePKCS8PrivateKey = (\<lambda>_. Inr (RSA_Key demo_key)),
     x509_MarshalPKCS1PrivateKey = Secret,
     x509_CreateCertificate = (\<lambda>t _ _ _. Inr (CommonName t)),
     x509_CreateCertificateRequest = (\<lambda>cn _ _. Inr cn),
     x509_Verify = (\<lambda>_ c _ _. ([[c]], None)),
     tls_X509KeyPair = (\<lambda>c _. Inr \<lparr>Chain = [c], ChainKey = RSA_Key demo_key, Leaf = None\<rparr>),
     rsa_GenerateKey = (\<lambda>r _. Inr \<lparr>N = r, Secret = ''secret''\<rparr>),
     ssh_ParseAuthorizedKey = (\<lambda>s. Inr (PlainKey ''ssh-rsa'' s, [])),
     ssh_ParsePrivateKey = (\<lambda>s. if s = ''key'' then Inr demo_signer else Inl (LibError ''no key'')),
     ssh_NewPublicKey = (\<lambda>_. Inr (PlainKey ''ssh-rsa'' ''blob'')),
     ssh_Type = (\<lambda>k. case k of PlainKey t _ \<Rightarrow> t | _ \<Rightarrow> ''ssh-rsa-cert-v01@openssh.com''),
     ssh_Marshal = (\<lambda>k. case k of PlainKey _ b \<Rightarrow> b | _ \<Rightarrow> ck_KeyId k),
     ssh_MarshalAuthorizedKey = (\<lambda>k. case k of PlainKey _ b \<Rightarrow> b | _ \<Rightarrow> ck_KeyId k),
     ssh_SignCert = (\<lambda>_ c _. Inr c),
     sha256_Sum256 = (\<lambda>_. replicate 32 0),
     json_Parse = (\<lambda>_. Inr (JArray
       [JObject [(''api'', JString ''auth-to-kerberos''), (''body'', JString ''admin@EXAMPLE'')],
        JObject [(''api'', JString ''bootstrap''), (''body'', JString ''spam.hw.example'')]])),
     json_Print = (\<lambda>_. ''[]'')\<rparr>"

end
