(* ===== verification/Go_Http.thy ===== *)
theory Go_Http
  imports Crypto_Lib
begin

text \<open>
  What the keyserver sees of \<open>net/http\<close>: the request (its headers by canonical name, the verified
  certificate chains of its TLS connection, the remote address, the method and path, and what reading
  its body gives) and the response it writes. Also the interface \<open>Verifier\<close> of
  \<open>keyserver/verifier/verifier.go\<close>, as a locale over the operations \<open>HasAttempt\<close> and \<open>Verify\<close>.
\<close>

record http_Request =
  Header :: "string \<Rightarrow> string list"
  TLS :: "Certificate list list option"
  RemoteAddr :: string
  URLPath :: string
  ReqBody :: "error + string"

text \<open>\<open>Header.Get\<close> of a canonical key: the first value, or the empty string.\<close>

definition Header_Get :: "http_Request \<Rightarrow> string \<Rightarrow> string" where
  "Header_Get request key = (case Header request key of [] \<Rightarrow> [] | v # _ \<Rightarrow> v)"

record http_Response =
  StatusCode :: nat
  RespBody :: string

abbreviation StatusOK :: nat where "StatusOK \<equiv> 200"
abbreviation StatusBadRequest :: nat where "StatusBadRequest \<equiv> 400"
abbreviation StatusForbidden :: nat where "StatusForbidden \<equiv> 403"
abbreviation StatusNotFound :: nat where "StatusNotFound \<equiv> 404"

text \<open>
  The contract of a verifier: it never panics, it refuses a request that makes no attempt, and
  whether a request makes an attempt is a property of the request alone.
\<close>

locale verifier =
  fixes HasAttempt :: "http_Request \<Rightarrow> bool"
    and Verify :: "http_Request \<Rightarrow> 's \<Rightarrow> string result \<times> 's"
    and good :: "'s \<Rightarrow> bool"
  assumes no_attempt: "\<not> HasAttempt r \<Longrightarrow> \<exists>e. fst (Verify r s) = Err e"
    and no_panic: "good s \<Longrightarrow> \<not> is_panic (fst (Verify r s))"
    and keeps_good: "good s \<Longrightarrow> good (snd (Verify r s))"
begin

lemma verified_attempt: "Verify r s = (Ok p, s') \<Longrightarrow> HasAttempt r"
  using no_attempt [of r s] by auto

lemma result_cases:
  assumes "good s"
  obtains (ok) p where "fst (Verify r s) = Ok p" "HasAttempt r" | (err) e where "fst (Verify r s) = Err e"
proof (cases "fst (Verify r s)")
  case (Ok p)
  moreover from this have "HasAttempt r" using no_attempt [of r s] by auto
  ultimately show thesis by (rule ok)
next
  case (Err e)
  then show thesis by (rule err)
next
  case (Panic m)
  with no_panic [OF assms, of r] show thesis by simp
qed

end

end
