(* ===== verification/Go_Files.thy ===== *)
theory Go_Files
  imports Crypto_Lib
begin

text \<open>
  The package \<open>path\<close>, a file system with the calls of \<open>os\<close> and \<open>io/ioutil\<close> that the sources make,
  and \<open>platform/util/fileutil/util.go\<close>. The file system maps a path to a node. Every system call may
  fail for reasons outside the model: \<open>Faults w n = Some k\<close> says that the \<open>n\<close>-th call fails, after
  \<open>k\<close> bytes if it writes. Symbolic links, permissions and changes by other processes are not
  modelled, apart from such failures.
\<close>

section \<open>path\<close>

fun clean_stack :: "bool \<Rightarrow> string list \<Rightarrow> string list \<Rightarrow> string list" where
  "clean_stack rooted st [] = rev st"
| "clean_stack rooted st (c # cs) =
     (if c = [] \<or> c = ''.'' then clean_stack rooted st cs
      else if c = ''..'' then
        (case st of
           [] \<Rightarrow> if rooted then clean_stack rooted [] cs else clean_stack rooted [''..''] cs
         | d # st' \<Rightarrow> if d = ''..'' then clean_stack rooted (''..'' # st) cs
                      else clean_stack rooted st' cs)
      else clean_stack rooted (c # st) cs)"

definition path_Clean :: "string \<Rightarrow> string" where
  "path_Clean p =
     (let rooted = HasPrefix p ''/'';
          cs = clean_stack rooted [] (Split p (CHR ''/''));
          s = (if rooted then ''/'' else []) @ join (CHR ''/'') cs in
      if s = [] then ''.'' else s)"

definition path_Dir :: "string \<Rightarrow> string" where
  "path_Dir p = (case LastIndexByte p (CHR ''/'') of
       None \<Rightarrow> path_Clean []
     | Some i \<Rightarrow> path_Clean (take (Suc i) p))"

definition path_Join :: "string \<Rightarrow> string \<Rightarrow> string" where
  "path_Join a b =
     (let es = filter (\<lambda>e. e \<noteq> []) [a, b] in
      if es = [] then [] else path_Clean (join (CHR ''/'') es))"

section \<open>The file system\<close>

datatype fnode = File (file_contents: string) (file_mode: nat) (file_mtime: int) | Directory

record FsWorld = World +
  FS :: "string \<rightharpoonup> fnode"
  Faults :: "nat \<Rightarrow> nat option"
  Syscalls :: nat

definition syscall :: "'a FsWorld_scheme \<Rightarrow> nat option \<times> 'a FsWorld_scheme" where
  "syscall w = (Faults w (Syscalls w), w\<lparr>Syscalls := Suc (Syscalls w)\<rparr>)"

definition io_error :: error where "io_error = LibError ''input/output error''"

text \<open>The proper ancestors of a path, from the outermost one, without the root.\<close>

definition ancestors :: "string \<Rightarrow> string list" where
  "ancestors p = map (\<lambda>i. take i p) (filter (\<lambda>i. 0 < i \<and> p ! i = CHR ''/'') [0..<length p])"

fun is_file :: "fnode option \<Rightarrow> bool" where
  "is_file (Some (File c m t)) = True"
| "is_file n = False"

definition lookup :: "(string \<rightharpoonup> fnode) \<Rightarrow> string \<Rightarrow> error + fnode" where
  "lookup fs p =
     (if list_ex (\<lambda>q. is_file (fs q)) (ancestors p) then Inl (LibError ''not a directory'')
      else case fs p of None \<Rightarrow> Inl (NotExist p) | Some n \<Rightarrow> Inr n)"

definition os_Stat :: "string \<Rightarrow> ('a FsWorld_scheme, fnode) action" where
  "os_Stat p w = (case syscall w of
       (Some _, w') \<Rightarrow> (Err io_error, w')
     | (None, w') \<Rightarrow> (lift (lookup (FS w') p), w'))"

definition ReadFile :: "string \<Rightarrow> ('a FsWorld_scheme, string) action" where
  "ReadFile p w = (case syscall w of
       (Some _, w') \<Rightarrow> (Err io_error, w')
     | (None, w') \<Rightarrow>
         (and_then (lift (lookup (FS w') p)) (\<lambda>n.
            case n of File c _ _ \<Rightarrow> Ok c | Directory \<Rightarrow> Err (LibError ''is a directory'')), w'))"

text \<open>
  Writing the content of a file that is open: what is there afterwards, also if the call fails in
  the middle. The modification time is read from the clock.
\<close>

definition write_open :: "string \<Rightarrow> nat \<Rightarrow> string \<Rightarrow> ('a FsWorld_scheme, unit) action" where
  "write_open p m data w = (case syscall w of (f, w1) \<Rightarrow>
     case time_Now w1 of (t, w2) \<Rightarrow>
     case f of
       None \<Rightarrow> (Ok (), w2\<lparr>FS := (FS w2)(p \<mapsto> File data m t)\<rparr>)
     | Some k \<Rightarrow> (Err io_error, w2\<lparr>FS := (FS w2)(p \<mapsto> File (take k data) m t)\<rparr>))"

text \<open>\<open>ioutil.WriteFile\<close>: opens with \<open>O_CREATE|O_TRUNC\<close> (an existing file keeps its mode), then writes.\<close>

definition WriteFile :: "string \<Rightarrow> string \<Rightarrow> nat \<Rightarrow> ('a FsWorld_scheme, unit) action" where
  "WriteFile p data m w = (case syscall w of
       (Some _, w1) \<Rightarrow> (Err io_error, w1)
     | (None, w1) \<Rightarrow>
         (case lookup (FS w1) p of
            Inr (File _ m' _) \<Rightarrow> write_open p m' data w1
          | Inr Directory \<Rightarrow> (Err (LibError ''is a directory''), w1)
          | Inl (NotExist _) \<Rightarrow>
              if FS w1 (path_Dir p) = Some Directory then write_open p m data w1
              else (Err (NotExist p), w1)
          | Inl e \<Rightarrow> (Err e, w1)))"

text \<open>\<open>os.Remove\<close> of a file. The sources remove only regular files; a directory is refused here.\<close>

definition os_Remove :: "string \<Rightarrow> ('a FsWorld_scheme, unit) action" where
  "os_Remove p w = (case syscall w of
       (Some _, w1) \<Rightarrow> (Err io_error, w1)
     | (None, w1) \<Rightarrow>
         (case lookup (FS w1) p of
            Inl e \<Rightarrow> (Err e, w1)
          | Inr Directory \<Rightarrow> (Err (LibError ''is a directory''), w1)
          | Inr (File _ _ _) \<Rightarrow> (Ok (), w1\<lparr>FS := (FS w1)(p := None)\<rparr>)))"

text \<open>\<open>os.MkdirAll\<close>: makes the missing ancestors from the outermost one, then the directory.\<close>

fun mkdirs :: "string list \<Rightarrow> ('a FsWorld_scheme, unit) action" where
  "mkdirs [] w = (Ok (), w)"
| "mkdirs (q # qs) w =
     (case FS w q of
        Some Directory \<Rightarrow> mkdirs qs w
      | Some (File _ _ _) \<Rightarrow> (Err (LibError ''not a directory''), w)
      | None \<Rightarrow> (case syscall w of
            (Some _, w1) \<Rightarrow> (Err io_error, w1)
          | (None, w1) \<Rightarrow> mkdirs qs (w1\<lparr>FS := (FS w1)(q \<mapsto> Directory)\<rparr>)))"

definition os_MkdirAll :: "string \<Rightarrow> ('a FsWorld_scheme, unit) action" where
  "os_MkdirAll p w = mkdirs (ancestors p @ [p]) w"

section \<open>fileutil\<close>

definition Exists :: "string \<Rightarrow> 'a FsWorld_scheme \<Rightarrow> bool \<times> 'a FsWorld_scheme" where
  "Exists p w = (case syscall w of
       (Some _, w') \<Rightarrow> (False, w')
     | (None, w') \<Rightarrow> (case lookup (FS w') p of Inl _ \<Rightarrow> (False, w') | Inr _ \<Rightarrow> (True, w')))"

definition check_IsDir :: "fnode \<Rightarrow> unit result" where
  "check_IsDir n = (if n = Directory then Ok () else Err (ErrorNew ''not a directory''))"

definition EnsureIsFolder :: "string \<Rightarrow> ('a FsWorld_scheme, unit) action" where
  "EnsureIsFolder dirname w = (case os_Stat dirname w of
       (Ok fileinfo, w1) \<Rightarrow> (check_IsDir fileinfo, w1)
     | (Panic p, w1) \<Rightarrow> (Panic p, w1)
     | (Err e, w1) \<Rightarrow>
         if os_IsNotExist e then
           and_thenS (os_MkdirAll dirname w1) (\<lambda>_ w2.
           and_thenS (os_Stat dirname w2) (\<lambda>fileinfo w3. (check_IsDir fileinfo, w3)))
         else (Err e, w1))"

text \<open>\<open>os.OpenFile\<close> with \<open>O_EXCL|O_CREATE\<close>.\<close>

definition open_excl :: "string \<Rightarrow> nat \<Rightarrow> ('a FsWorld_scheme, unit) action" where
  "open_excl p m w = (case syscall w of
       (Some _, w1) \<Rightarrow> (Err io_error, w1)
     | (None, w1) \<Rightarrow>
         (case lookup (FS w1) p of
            Inr _ \<Rightarrow> (Err (LibError ''file exists''), w1)
          | Inl (NotExist _) \<Rightarrow>
              if FS w1 (path_Dir p) = Some Directory then
                (case time_Now w1 of (t, w2) \<Rightarrow> (Ok (), w2\<lparr>FS := (FS w2)(p \<mapsto> File [] m t)\<rparr>))
              else (Err (NotExist p), w1)
          | Inl e \<Rightarrow> (Err e, w1)))"

definition file_Close :: "('a FsWorld_scheme, unit) action" where
  "file_Close w = (case syscall w of (Some _, w1) \<Rightarrow> (Err io_error, w1) | (None, w1) \<Rightarrow> (Ok (), w1))"

definition CreateFile :: "string \<Rightarrow> string \<Rightarrow> nat \<Rightarrow> ('a FsWorld_scheme, unit) action" where
  "CreateFile filename conts permissions w =
     and_thenS (open_excl filename permissions w) (\<lambda>_ w1.
       let (r, w3) = (case write_open filename permissions conts w1 of
              (Ok _, w2) \<Rightarrow> file_Close w2
            | (e, w2) \<Rightarrow> (e, snd (file_Close w2))) in
       case r of
         Err e \<Rightarrow> (case os_Remove filename w3 of
             (Err e2, w4) \<Rightarrow>
               if \<not> os_IsNotExist e2 then
                 (Err (Errorf ''multiple errors while creating file: %s | %s'' []), w4)
               else (Err e, w4)
           | (_, w4) \<Rightarrow> (Err e, w4))
       | ok \<Rightarrow> (ok, w3))"

section \<open>Lemmas\<close>

lemma write_open_elsewhere: "p \<noteq> q \<Longrightarrow> FS (snd (write_open q m d w)) p = FS w p"
  by (auto simp: write_open_def syscall_def time_Now_def split: option.splits)

lemma WriteFile_elsewhere: "p \<noteq> q \<Longrightarrow> FS (snd (WriteFile q d m w)) p = FS w p"
  by (auto simp: WriteFile_def syscall_def write_open_elsewhere
      split: option.splits sum.splits fnode.splits error.splits)

lemma os_Remove_elsewhere: "p \<noteq> q \<Longrightarrow> FS (snd (os_Remove q w)) p = FS w p"
  by (auto simp: os_Remove_def syscall_def split: option.splits sum.splits fnode.splits)

lemma ReadFile_FS: "ReadFile p w = (r, w') \<Longrightarrow> FS w' = FS w"
  by (auto simp: ReadFile_def syscall_def split: option.splits)

lemma ReadFile_lookup: "ReadFile p w = (Ok c, w') \<Longrightarrow> \<exists>m t. lookup (FS w) p = Inr (File c m t)"
  by (cases "lookup (FS w) p"; cases "projr (lookup (FS w) p)")
     (auto simp: ReadFile_def syscall_def split: option.splits)

lemma ancestors_shorter: "q \<in> set (ancestors p) \<Longrightarrow> length q < length p"
  by (auto simp: ancestors_def)

lemma lookup_new:
  assumes "lookup fs k = Inl (NotExist k)"
  shows "fs k = None" and "lookup (fs(k \<mapsto> n)) k = Inr n"
proof -
  have no_file: "\<not> list_ex (\<lambda>q. is_file (fs q)) (ancestors k)" and "fs k = None"
    using assms by (auto simp: lookup_def split: if_splits option.splits)
  then show "fs k = None" by simp
  have "(fs(k \<mapsto> n)) q = fs q" if "q \<in> set (ancestors k)" for q
    using ancestors_shorter [OF that] by auto
  then have "list_ex (\<lambda>q. is_file ((fs(k \<mapsto> n)) q)) (ancestors k) = list_ex (\<lambda>q. is_file (fs q)) (ancestors k)"
    by (simp add: list_ex_iff)
  with no_file show "lookup (fs(k \<mapsto> n)) k = Inr n" by (simp add: lookup_def)
qed

lemma lookup_elsewhere:
  assumes "q \<noteq> p" and "q \<notin> set (ancestors p)"
  shows "lookup (fs(q := n)) p = lookup fs p"
proof -
  have "list_ex (\<lambda>r. is_file ((fs(q := n)) r)) (ancestors p) = list_ex (\<lambda>r. is_file (fs r)) (ancestors p)"
    using assms(2) by (auto simp: list_ex_iff)
  with assms(1) show ?thesis by (simp add: lookup_def)
qed

lemma lookup_replaced:
  assumes "lookup fs p = Inr (File c m t)"
  shows "lookup (fs(p \<mapsto> n)) p = Inr n"
proof -
  have "\<not> list_ex (\<lambda>q. is_file (fs q)) (ancestors p)" using assms by (auto simp: lookup_def split: if_splits)
  moreover have "(fs(p \<mapsto> n)) q = fs q" if "q \<in> set (ancestors p)" for q
    using ancestors_shorter [OF that] by auto
  ultimately have "\<not> list_ex (\<lambda>q. is_file ((fs(p \<mapsto> n)) q)) (ancestors p)" by (simp add: list_ex_iff)
  then show ?thesis by (simp add: lookup_def)
qed

lemma lookup_NotExist_same: "lookup fs p = Inl (NotExist q) \<Longrightarrow> q = p"
  by (auto simp: lookup_def split: if_splits option.splits)

text \<open>What a successful write leaves: the file, and everything else as it was.\<close>

lemma WriteFile_Ok:
  assumes "WriteFile p d m w = (Ok u, w')"
  shows "\<exists>m' t. FS w' = (FS w)(p \<mapsto> File d m' t) \<and> lookup (FS w') p = Inr (File d m' t) \<and>
    (FS w p = None \<longrightarrow> m' = m)"
proof -
  have wo: "FS w2 = (FS w1)(p \<mapsto> File d m1 (now w1))" if "write_open p m1 d w1 = (Ok u, w2)" for m1 and w1 w2 :: "'a FsWorld_scheme"
    using that by (auto simp: write_open_def syscall_def time_Now_def now_def split: option.splits)
  let ?w = "snd (syscall w)"
  have fs: "FS ?w = FS w" by (simp add: syscall_def)
  have ok: "Faults w (Syscalls w) = None" using assms by (auto simp: WriteFile_def syscall_def split: option.splits)
  show ?thesis
  proof (cases "lookup (FS w) p")
    case (Inr n)
    with assms ok obtain c m1 t where n: "n = File c m1 t" by (cases n) (auto simp: WriteFile_def syscall_def)
    with Inr have "FS w p \<noteq> None" by (auto simp: lookup_def split: if_splits option.splits)
    moreover have "write_open p m1 d ?w = (Ok u, w')" using assms ok Inr n by (simp add: WriteFile_def syscall_def)
    ultimately show ?thesis using wo lookup_replaced [OF Inr [unfolded n]] fs by auto
  next
    case (Inl e)
    with assms ok obtain q where "e = NotExist q" by (cases e) (simp_all add: WriteFile_def syscall_def)
    with Inl lookup_NotExist_same have e: "lookup (FS w) p = Inl (NotExist p)" by blast
    then have "write_open p m d ?w = (Ok u, w')"
      using assms ok by (simp add: WriteFile_def syscall_def split: if_splits)
    with wo lookup_new [OF e] fs show ?thesis by auto
  qed
qed

text \<open>Calls when nothing fails.\<close>

definition no_faults :: "'a FsWorld_scheme \<Rightarrow> bool" where
  "no_faults w = (\<forall>n. Faults w n = None)"

lemma ReadFile_no_faults:
  assumes "no_faults w" and "lookup (FS w) p = Inr (File c m t)"
  shows "ReadFile p w = (Ok c, w\<lparr>Syscalls := Suc (Syscalls w)\<rparr>)"
  using assms by (simp add: ReadFile_def syscall_def no_faults_def)

lemma WriteFile_no_faults:
  assumes "no_faults w" and "\<not> list_ex (\<lambda>q. is_file (FS w q)) (ancestors p)"
    and "FS w p \<noteq> Some Directory" and "FS w (path_Dir p) = Some Directory"
  shows "\<exists>m'. WriteFile p d m w = (Ok (), w\<lparr>Syscalls := Syscalls w + 2, Ticks := Suc (Ticks w),
     FS := (FS w)(p \<mapsto> File d m' (now w))\<rparr>)"
  using assms
  by (auto simp: WriteFile_def write_open_def syscall_def no_faults_def lookup_def time_Now_def now_def
      split: option.splits fnode.splits)

end
