(* ===== verification/Reach.thy ===== *)
theory Reach
  imports Main
begin

text \<open>
  Reachable states of a step relation and the interface of an inductive invariant: the locale
  \<open>invariant_of\<close> fixes the initial states, the steps and a predicate, assumes that the predicate holds
  at the start and is kept by every step, and gives that it holds in every reachable state. The
  components with interleaved steps interpret it.
\<close>

inductive reach :: "('s \<Rightarrow> bool) \<Rightarrow> ('s \<Rightarrow> 's \<Rightarrow> bool) \<Rightarrow> 's \<Rightarrow> bool"
  for init :: "'s \<Rightarrow> bool" and step :: "'s \<Rightarrow> 's \<Rightarrow> bool" where
  start: "init s \<Longrightarrow> reach init step s"
| step: "reach init step s \<Longrightarrow> step s t \<Longrightarrow> reach init step t"

locale invariant_of =
  fixes init :: "'s \<Rightarrow> bool" and step :: "'s \<Rightarrow> 's \<Rightarrow> bool" and inv :: "'s \<Rightarrow> bool"
  assumes at_start: "init s \<Longrightarrow> inv s"
    and kept: "inv s \<Longrightarrow> step s t \<Longrightarrow> inv t"
begin

lemma always: "reach init step s \<Longrightarrow> inv s"
  by (induction rule: reach.induct) (auto intro: at_start kept)

lemma always_path:
  assumes "reach init step s" and "step\<^sup>*\<^sup>* s t"
  shows "inv t"
  using assms(2) always [OF assms(1)] by (induction rule: rtranclp_induct) (auto intro: kept)

end

lemma reach_rtranclp:
  assumes "step\<^sup>*\<^sup>* s t" and "reach init step s"
  shows "reach init step t"
  using assms by (induction rule: rtranclp_induct) (auto intro: reach.step)

end
