(* ===== verification/Token.thy ===== *)
theory Token
  imports Go_Http Go_Files Reach
begin

text \<open>
  Bootstrap tokens: \<open>keyserver/token/scoped/token.go\<close>, \<open>keyserver/token/registry.go\<close> and
  \<open>keyserver/verifier/token.go\<close>. A token is handed around by value, but all its copies share one
  \<open>*sync.Once\<close>; so the model keeps a store of \<open>Once\<close> objects (whether each has run) and a token
  holds the address of its own. The registry's map is an association list from token strings to
  tokens; Go's iteration order over it is unspecified, and here it is the order of the list.
\<close>

section \<open>token.go\<close>

record ScopedToken =
  Token :: string
  Subject :: string
  expires :: int
  claimed :: "nat option"

definition zero_ScopedToken :: ScopedToken where
  "zero_ScopedToken = \<lparr>Token = [], Subject = [], expires = 0, claimed = None\<rparr>"

text \<open>The state: the world, the registry's map and the \<open>Once\<close> objects.\<close>

record TokenWorld = FsWorld +
  byToken :: "(string \<times> ScopedToken) list"
  Onces :: "bool list"

definition HasExpired :: "ScopedToken \<Rightarrow> 'a World_scheme \<Rightarrow> bool \<times> 'a World_scheme" where
  "HasExpired t w = (case time_Now w of (n, w') \<Rightarrow> (expires t < n, w'))"

text \<open>
  \<open>t.claimed.Do(func() { hasClaimed = true })\<close>: runs the function, and answers true, on the first
  call only. A nil \<open>Once\<close> panics.
\<close>

definition once_Do :: "nat option \<Rightarrow> ('a TokenWorld_scheme, bool) action" where
  "once_Do addr w = (case addr of
       None \<Rightarrow> (Panic ''nil pointer dereference'', w)
     | Some a \<Rightarrow>
         if a < length (Onces w) then
           (Ok (\<not> Onces w ! a), w\<lparr>Onces := (Onces w)[a := True]\<rparr>)
         else (Panic ''nil pointer dereference'', w))"

definition Claim :: "ScopedToken \<Rightarrow> ('a TokenWorld_scheme, unit) action" where
  "Claim t w = (case HasExpired t w of (expired, w1) \<Rightarrow>
     if expired then (Err (ErrorNew ''cannot claim expired token''), w1)
     else and_thenS (once_Do (claimed t) w1) (\<lambda>hasClaimed w2.
       if \<not> hasClaimed then (Err (ErrorNew ''token already claimed''), w2) else (Ok (), w2)))"

definition generateTokenID :: "Lib \<Rightarrow> ('a World_scheme, string) action" where
  "generateTokenID L w = (case rand_Read 15 w of
       (Ok out, w1) \<Rightarrow>
         let hash = base64_RawStd out; hashSha256 = sha256_Sum256 L hash in
         (and_then (str_slice (base64_RawStd hashSha256) 0 2) (\<lambda>check. Ok (hash @ check)), w1)
     | (_, w1) \<Rightarrow> (Panic ''crypto/rand failed'', w1))"

definition GenerateToken :: "Lib \<Rightarrow> string \<Rightarrow> int \<Rightarrow> ('a TokenWorld_scheme, ScopedToken) action" where
  "GenerateToken L subject duration w =
     and_thenS (generateTokenID L w) (\<lambda>tid w1.
       case time_Now w1 of (n, w2) \<Rightarrow>
         (Ok \<lparr>Token = tid, Subject = subject, expires = n + duration,
              claimed = Some (length (Onces w2))\<rparr>,
          w2\<lparr>Onces := Onces w2 @ [False]\<rparr>))"

section \<open>registry.go\<close>

definition NewTokenRegistry :: "'a TokenWorld_scheme \<Rightarrow> 'a TokenWorld_scheme" where
  "NewTokenRegistry w = w\<lparr>byToken := []\<rparr>"

definition LookupToken :: "string \<Rightarrow> 'a TokenWorld_scheme \<Rightarrow> ScopedToken result" where
  "LookupToken token w = (case map_of (byToken w) token of
       None \<Rightarrow> Err (ErrorNew ''unrecognized token'')
     | Some tokdata \<Rightarrow> Ok tokdata)"

definition addToken :: "ScopedToken \<Rightarrow> ('a TokenWorld_scheme, unit) action" where
  "addToken token w =
     (if map_of (byToken w) (Token token) \<noteq> None then
        (Panic ''Token collision (is that even possible?)'', w)
      else (Ok (), w\<lparr>byToken := (Token token, token) # byToken w\<rparr>))"

text \<open>The loop of \<open>expireOldEntries\<close>: the entries that stay, with one clock reading per entry.\<close>

fun expire_loop ::
  "(string \<times> ScopedToken) list \<Rightarrow> 'a World_scheme \<Rightarrow> (string \<times> ScopedToken) list \<times> 'a World_scheme" where
  "expire_loop [] w = ([], w)"
| "expire_loop ((k, v) # m) w =
     (case HasExpired v w of (expired, w1) \<Rightarrow>
        case expire_loop m w1 of (m', w2) \<Rightarrow> (if expired then m' else (k, v) # m', w2))"

definition expireOldEntries :: "'a TokenWorld_scheme \<Rightarrow> 'a TokenWorld_scheme" where
  "expireOldEntries w = (case expire_loop (byToken w) w of (m, w') \<Rightarrow> w'\<lparr>byToken := m\<rparr>)"

definition GrantToken :: "Lib \<Rightarrow> string \<Rightarrow> int \<Rightarrow> ('a TokenWorld_scheme, string) action" where
  "GrantToken L subject lifespan w =
     and_thenS (GenerateToken L subject lifespan (expireOldEntries w)) (\<lambda>token w1.
     and_thenS (addToken token w1) (\<lambda>_ w2. (Ok (Token token), w2)))"

section \<open>verifier/token.go\<close>

definition TokenHeader :: string where "TokenHeader = ''X-Bootstrap-Token''"

definition TokenVerifier_HasAttempt :: "http_Request \<Rightarrow> bool" where
  "TokenVerifier_HasAttempt request = (Header_Get request TokenHeader \<noteq> [])"

definition TokenVerifier_Verify :: "http_Request \<Rightarrow> ('a TokenWorld_scheme, string) action" where
  "TokenVerifier_Verify request w =
     (let tokens = Header_Get request TokenHeader in
      if tokens = [] then (Err (ErrorNew ''no token authentication header provided''), w)
      else case LookupToken tokens w of
          Ok tok \<Rightarrow> and_thenS (Claim tok w) (\<lambda>_ w1. (Ok (Subject tok), w1))
        | Err e \<Rightarrow> (Err e, w)
        | Panic p \<Rightarrow> (Panic p, w))"

section \<open>Well-formed registries\<close>

text \<open>
  The invariant of the registry: no key twice, every token under its own string, every token with
  a \<open>Once\<close> of its own that exists.
\<close>

definition token_ok :: "nat \<Rightarrow> ScopedToken \<Rightarrow> bool" where
  "token_ok n t = (case claimed t of None \<Rightarrow> False | Some a \<Rightarrow> a < n)"

definition registry_ok :: "'a TokenWorld_scheme \<Rightarrow> bool" where
  "registry_ok w =
     (distinct (map fst (byToken w)) \<and> distinct (map (claimed \<circ> snd) (byToken w)) \<and>
      (\<forall>(k, t)\<in>set (byToken w). k = Token t \<and> token_ok (length (Onces w)) t))"

definition fresh_once :: "'a TokenWorld_scheme \<Rightarrow> ScopedToken \<Rightarrow> bool" where
  "fresh_once w t = (\<forall>(k, u)\<in>set (byToken w). claimed u \<noteq> claimed t)"

lemma token_ok_mono: "token_ok n t \<Longrightarrow> n \<le> m \<Longrightarrow> token_ok m t"
  by (auto simp: token_ok_def split: option.splits)

lemma expire_loop_world: "snd (expire_loop m w) = w\<lparr>Ticks := Ticks w + length m\<rparr>"
  by (induction m w rule: expire_loop.induct)
    (auto simp: HasExpired_def time_Now_def split: prod.splits)

lemma expire_loop_entries:
  "fst (expire_loop m w) =
     map snd (filter (\<lambda>(i, k, t). \<not> expires t < Clock w i) (enumerate (Ticks w) m))"
  by (induction m w rule: expire_loop.induct)
    (auto simp: HasExpired_def time_Now_def split: prod.splits)

lemma expire_loop_subset: "set (fst (expire_loop m w)) \<subseteq> set m"
  by (auto simp: expire_loop_entries enumerate_eq_zip dest: set_zip_rightD)

lemma expire_loop_distinct:
  assumes "distinct (map f m)" shows "distinct (map f (fst (expire_loop m w)))"
proof -
  have "map (f \<circ> snd) (enumerate (Ticks w) m) = map f m"
    by (simp add: map_map [symmetric] del: map_map)
  with assms show ?thesis
    by (simp add: expire_loop_entries distinct_map_filter)
qed

lemma expireOldEntries_sel:
  "byToken (expireOldEntries w) = fst (expire_loop (byToken w) w)"
  "Onces (expireOldEntries w) = Onces w"
  "Clock (expireOldEntries w) = Clock w"
  "Ticks (expireOldEntries w) = Ticks w + length (byToken w)"
  "Entropy (expireOldEntries w) = Entropy w"
  "Draws (expireOldEntries w) = Draws w"
  using expire_loop_world [of "byToken w" w]
  by (auto simp: expireOldEntries_def split: prod.splits)

lemma registry_ok_expire: "registry_ok w \<Longrightarrow> registry_ok (expireOldEntries w)"
  using expire_loop_subset [of "byToken w" w]
  by (auto simp: registry_ok_def expireOldEntries_sel intro: expire_loop_distinct)

lemma GenerateToken_Ok:
  assumes "GenerateToken L subj d w = (Ok t, w')"
  shows "Subject t = subj" and "claimed t = Some (length (Onces w))"
    and "expires t = Clock w (Ticks w) + d"
    and "Onces w' = Onces w @ [False]" and "byToken w' = byToken w" and "Clock w' = Clock w"
    and "Ticks w' = Suc (Ticks w)"
  using assms
  by (auto simp: GenerateToken_def generateTokenID_def rand_Read_def draw_def time_Now_def
      and_thenS_Ok_iff Let_def split: option.splits prod.splits result.splits)

lemma addToken_Ok_iff:
  "addToken t w = (Ok u, w') \<longleftrightarrow>
     map_of (byToken w) (Token t) = None \<and> w' = w\<lparr>byToken := (Token t, t) # byToken w\<rparr>"
  by (auto simp: addToken_def)

lemma registry_ok_add:
  assumes "registry_ok w" and "token_ok (length (Onces w)) t" and "fresh_once w t"
    and "map_of (byToken w) (Token t) = None"
  shows "registry_ok (w\<lparr>byToken := (Token t, t) # byToken w\<rparr>)"
proof -
  from assms(3) have "claimed t \<notin> (claimed \<circ> snd) ` set (byToken w)"
    by (auto simp: fresh_once_def)
  with assms show ?thesis by (simp add: registry_ok_def map_of_eq_None_iff)
qed

lemma GrantToken_Ok:
  assumes "GrantToken L subj d w = (Ok tid, w')"
  shows "\<exists>t wx. GenerateToken L subj d (expireOldEntries w) = (Ok t, wx) \<and> Token t = tid \<and>
    map_of (byToken wx) tid = None \<and> w' = wx\<lparr>byToken := (tid, t) # byToken wx\<rparr>"
  using assms by (auto simp: GrantToken_def and_thenS_Ok_iff addToken_Ok_iff)

lemma registry_ok_claimed_bound:
  "registry_ok w \<Longrightarrow> (k, u) \<in> set (byToken w) \<Longrightarrow> claimed u \<noteq> Some (length (Onces w))"
  by (force simp: registry_ok_def token_ok_def split: option.splits)

lemma registry_ok_Grant:
  assumes "registry_ok w" and "GrantToken L subj d w = (Ok tid, w')"
  shows "registry_ok w'"
proof -
  let ?w = "expireOldEntries w"
  obtain t wx where g: "GenerateToken L subj d ?w = (Ok t, wx)" and tid: "Token t = tid"
    and none: "map_of (byToken wx) tid = None" and w': "w' = wx\<lparr>byToken := (tid, t) # byToken wx\<rparr>"
    using GrantToken_Ok [OF assms(2)] by blast
  note [simp] = GenerateToken_Ok [OF g]
  have ok: "registry_ok ?w" using assms(1) by (rule registry_ok_expire)
  then have "registry_ok wx" by (auto simp: registry_ok_def intro: token_ok_mono)
  moreover have "token_ok (length (Onces wx)) t" by (simp add: token_ok_def)
  moreover have "fresh_once wx t"
    using registry_ok_claimed_bound [OF ok] by (auto simp: fresh_once_def)
  ultimately show ?thesis using registry_ok_add [of wx t] none tid w' by simp
qed

lemma HasExpired_sel [simp]:
  "fst (HasExpired t w) = (expires t < now w)" "snd (HasExpired t w) = snd (time_Now w)"
  by (auto simp: HasExpired_def time_Now_def now_def)

lemma time_Now_sel [simp]:
  "byToken (snd (time_Now w)) = byToken w" "Onces (snd (time_Now w)) = Onces w"
  by (simp_all add: time_Now_def)

text \<open>The three outcomes of a claim on a token whose \<open>Once\<close> exists.\<close>

lemma Claim_cases:
  assumes "claimed t = Some a" and "a < length (Onces w)"
  shows "Claim t w =
    (if expires t < now w then (Err (ErrorNew ''cannot claim expired token''), snd (time_Now w))
     else if Onces w ! a then
       (Err (ErrorNew ''token already claimed''), (snd (time_Now w))\<lparr>Onces := (Onces w)[a := True]\<rparr>)
     else (Ok (), (snd (time_Now w))\<lparr>Onces := (Onces w)[a := True]\<rparr>))"
  using assms by (auto simp: Claim_def once_Do_def HasExpired_def time_Now_def now_def)

lemma LookupToken_Ok_iff: "LookupToken k w = Ok t \<longleftrightarrow> map_of (byToken w) k = Some t"
  by (simp add: LookupToken_def split: option.splits)

lemma registry_ok_lookup:
  assumes "registry_ok w" and "map_of (byToken w) k = Some t"
  obtains a where "claimed t = Some a" "a < length (Onces w)" "Token t = k"
  using assms map_of_SomeD [OF assms(2)]
  by (auto simp: registry_ok_def token_ok_def split: option.splits)

text \<open>The whole \<open>Verify\<close> of the token verifier on a well-formed registry.\<close>

lemma TokenVerifier_Verify_cases:
  assumes "registry_ok w"
  shows "TokenVerifier_Verify r w =
    (let k = Header_Get r TokenHeader in
     if k = [] then (Err (ErrorNew ''no token authentication header provided''), w)
     else case map_of (byToken w) k of
         None \<Rightarrow> (Err (ErrorNew ''unrecognized token''), w)
       | Some t \<Rightarrow> and_thenS (Claim t w) (\<lambda>_ w1. (Ok (Subject t), w1)))"
  by (auto simp: TokenVerifier_Verify_def LookupToken_def Let_def split: option.splits)

lemma registry_ok_onces: "registry_ok w \<Longrightarrow> registry_ok (w\<lparr>Onces := (Onces w)[a := b]\<rparr>)"
  by (simp add: registry_ok_def)

lemma registry_ok_now [simp]: "registry_ok (snd (time_Now w)) = registry_ok w"
  by (simp add: registry_ok_def)

lemma registry_ok_Claim:
  assumes "registry_ok w" and "claimed t = Some a" and "a < length (Onces w)"
  shows "registry_ok (snd (Claim t w))"
  using registry_ok_onces [of "snd (time_Now w)" a True] assms
  by (simp add: Claim_cases [OF assms(2,3)])

lemma Claim_no_panic:
  assumes "claimed t = Some a" and "a < length (Onces w)"
  shows "\<not> is_panic (fst (Claim t w))"
  by (simp add: Claim_cases [OF assms])

lemma and_thenS_sel:
  "snd (and_thenS rs (\<lambda>x s. (Ok (f x), s))) = snd rs"
  "is_panic (fst (and_thenS rs (\<lambda>x s. (Ok (f x), s)))) = is_panic (fst rs)"
  by (cases rs; cases "fst rs"; auto)+

text \<open>The token verifier satisfies the contract of a verifier, over well-formed registries.\<close>

interpretation token_verifier: verifier TokenVerifier_HasAttempt TokenVerifier_Verify registry_ok
proof
  fix r :: http_Request and w :: "'a TokenWorld_scheme"
  show "\<exists>e. fst (TokenVerifier_Verify r w) = Err e" if "\<not> TokenVerifier_HasAttempt r"
    using that by (simp add: TokenVerifier_HasAttempt_def TokenVerifier_Verify_def)
  assume ok: "registry_ok w"
  show "\<not> is_panic (fst (TokenVerifier_Verify r w))"
    using ok Claim_no_panic
    by (auto simp: TokenVerifier_Verify_cases [OF ok] Let_def and_thenS_sel split: option.splits
        elim!: registry_ok_lookup)
  show "registry_ok (snd (TokenVerifier_Verify r w))"
    using ok registry_ok_Claim [OF ok]
    by (auto simp: TokenVerifier_Verify_cases [OF ok] Let_def and_thenS_sel split: option.splits
        elim!: registry_ok_lookup)
qed

section \<open>What the registry promises\<close>

lemma Verify_Ok:
  assumes "registry_ok w" and "TokenVerifier_Verify r w = (Ok p, w')"
  shows "\<exists>t a. map_of (byToken w) (Header_Get r TokenHeader) = Some t \<and> Subject t = p \<and>
    now w \<le> expires t \<and> claimed t = Some a \<and> a < length (Onces w) \<and> \<not> Onces w ! a \<and>
    w' = (snd (time_Now w))\<lparr>Onces := (Onces w)[a := True]\<rparr>"
proof -
  let ?k = "Header_Get r TokenHeader"
  from assms obtain t where t: "map_of (byToken w) ?k = Some t"
    and cl: "and_thenS (Claim t w) (\<lambda>_ w1. (Ok (Subject t), w1)) = (Ok p, w')"
    by (auto simp: TokenVerifier_Verify_cases Let_def split: if_splits option.splits)
  obtain a where a: "claimed t = Some a" "a < length (Onces w)"
    using registry_ok_lookup [OF assms(1) t] by blast
  from cl show ?thesis
    using t a by (auto simp: Claim_cases [OF a] split: if_splits)
qed

text \<open>
  The token verifier accepts a request only for a token in the registry that has not expired and
  whose \<open>Once\<close> has not run; the principal is the token's subject; and from then on every request
  that presents the same token is refused, whatever the clock says.
\<close>

theorem Verify_single_use:
  assumes "registry_ok w" and "TokenVerifier_Verify r w = (Ok p, w')"
    and "Header_Get r' TokenHeader = Header_Get r TokenHeader"
  shows "(\<exists>t. map_of (byToken w) (Header_Get r TokenHeader) = Some t \<and> Subject t = p \<and>
            now w \<le> expires t) \<and>
    (\<exists>e. fst (TokenVerifier_Verify r' (w'\<lparr>Ticks := n\<rparr>)) = Err e)"
proof -
  obtain t a where t: "map_of (byToken w) (Header_Get r TokenHeader) = Some t" "Subject t = p"
    "now w \<le> expires t" and a: "claimed t = Some a" "a < length (Onces w)"
    and w': "w' = (snd (time_Now w))\<lparr>Onces := (Onces w)[a := True]\<rparr>"
    using Verify_Ok [OF assms(1,2)] by blast
  let ?w = "w'\<lparr>Ticks := n\<rparr>"
  have sel: "byToken ?w = byToken w" "Onces ?w = (Onces w)[a := True]"
    by (simp_all add: w' time_Now_def)
  have "\<exists>e. fst (and_thenS (Claim t ?w) (\<lambda>_ w1. (Ok (Subject t), w1))) = Err e"
    using a by (simp add: Claim_cases [OF a(1), of ?w] sel)
  then have "\<exists>e. fst (TokenVerifier_Verify r' ?w) = Err e"
    using t(1) by (simp add: TokenVerifier_Verify_def LookupToken_def Let_def sel assms(3))
  with t show ?thesis by blast
qed

text \<open>A registry and a request to evaluate the theorems on.\<close>

definition demo_token :: ScopedToken where
  "demo_token = \<lparr>Token = ''abc'', Subject = ''node.example'', expires = 100, claimed = Some 0\<rparr>"

definition demo_world :: TokenWorld where
  "demo_world = \<lparr>Clock = int, Ticks = 0, Entropy = Some, Draws = 0,
     FS = Map.empty, Faults = (\<lambda>_. None), Syscalls = 0,
     byToken = [(''abc'', demo_token)], Onces = [False]\<rparr>"

definition demo_request :: http_Request where
  "demo_request = \<lparr>Header = (\<lambda>_. [])(TokenHeader := [''abc'']), TLS = None,
     RemoteAddr = ''18.181.0.97:4242'', URLPath = ''/apirequest'', ReqBody = Inr []\<rparr>"

lemmas demo_defs = demo_token_def demo_world_def demo_request_def

lemma demo_Verify:
  "registry_ok demo_world"
  "TokenVerifier_Verify demo_request demo_world =
    (Ok ''node.example'', demo_world\<lparr>Ticks := 1, Onces := [True]\<rparr>)"
  by (simp_all add: demo_defs registry_ok_def token_ok_def TokenVerifier_Verify_def LookupToken_def
      Header_Get_def Claim_def HasExpired_def time_Now_def once_Do_def Let_def)

theorem Verify_single_use_witness:
  "(\<exists>t. map_of (byToken demo_world) (Header_Get demo_request TokenHeader) = Some t \<and>
      Subject t = ''node.example'' \<and> now demo_world \<le> expires t) \<and>
    (\<exists>e. fst (TokenVerifier_Verify demo_request
      (demo_world\<lparr>Ticks := 1, Onces := [True]\<rparr>\<lparr>Ticks := 7\<rparr>)) = Err e)"
  by (rule Verify_single_use [OF demo_Verify refl])

text \<open>
  A granted token works: after \<open>GrantToken\<close> returned a token, a request that presents it before
  its expiry is accepted with the subject it was granted to.
\<close>

theorem Grant_then_Verify:
  assumes "registry_ok w" and "GrantToken L subj d w = (Ok tid, w')" and "tid \<noteq> []"
    and "Header_Get r TokenHeader = tid"
    and "Clock w (Suc (Ticks w + length (byToken w))) \<le> Clock w (Ticks w + length (byToken w)) + d"
  shows "fst (TokenVerifier_Verify r w') = Ok subj"
proof -
  obtain t wx where g: "GenerateToken L subj d (expireOldEntries w) = (Ok t, wx)" and tid: "Token t = tid"
    and w': "w' = wx\<lparr>byToken := (tid, t) # byToken wx\<rparr>"
    using GrantToken_Ok [OF assms(2)] by blast
  note gen = GenerateToken_Ok [OF g]
  have live: "\<not> expires t < now w'"
    using assms(5) gen by (simp add: w' now_def expireOldEntries_sel)
  have once: "Onces w' = Onces w @ [False]" using gen by (simp add: w' expireOldEntries_sel)
  have cl: "claimed t = Some (length (Onces w))" using gen by (simp add: expireOldEntries_sel)
  have "fst (Claim t w') = Ok ()"
    using live by (simp add: Claim_cases [OF cl, of w'] once)
  then have "fst (and_thenS (Claim t w') (\<lambda>_ w1. (Ok (Subject t), w1))) = Ok subj"
    using gen(1) by (cases "Claim t w'") simp
  with assms(3,4) w' show ?thesis
    by (simp add: TokenVerifier_Verify_def LookupToken_def Let_def)
qed

lemma generateTokenID_Some:
  assumes "\<And>s. length (sha256_Sum256 L s) = 32" and "Entropy w (Draws w) = Some x"
  shows "\<exists>tid. generateTokenID L w = (Ok tid, w\<lparr>Draws := Suc (Draws w)\<rparr>) \<and> length tid = 22 \<and>
    list_all visible tid"
proof -
  let ?h = "base64_RawStd (bytes_of 15 x)"
  let ?c = "base64_RawStd (sha256_Sum256 L ?h)"
  have len: "length ?h = 20" "length ?c = 43" using assms by (simp_all add: length_base64_RawStd)
  have "list_all visible (?h @ take 2 ?c)"
    using visible_base64_RawStd by (auto simp: list_all_iff dest!: in_set_takeD)
  with assms(2) len show ?thesis
    by (simp add: generateTokenID_def rand_Read_def draw_def Let_def str_slice_def)
qed

lemma demo_Grant:
  "\<exists>tid w'. GrantToken demo_Lib ''node.example'' 100 demo_world = (Ok tid, w') \<and> tid \<noteq> []"
proof -
  let ?w = "expireOldEntries demo_world"
  have exp: "byToken ?w = [(''abc'', demo_token)]"
    by (simp add: expireOldEntries_sel demo_defs HasExpired_def time_Now_def)
  obtain tid where tid: "generateTokenID demo_Lib ?w = (Ok tid, ?w\<lparr>Draws := Suc (Draws ?w)\<rparr>)"
    "length tid = 22"
    using generateTokenID_Some [of demo_Lib ?w 0]
    by (auto simp: demo_Lib_def expireOldEntries_sel demo_world_def)
  then have "tid \<noteq> ''abc''" "tid \<noteq> []" by auto
  with tid exp show ?thesis
    by (simp add: GrantToken_def GenerateToken_def time_Now_def addToken_def)
qed

theorem Grant_then_Verify_witness:
  "\<exists>tid w'. GrantToken demo_Lib ''node.example'' 100 demo_world = (Ok tid, w') \<and>
     fst (TokenVerifier_Verify (demo_request\<lparr>Header := (\<lambda>_. [tid])\<rparr>) w') = Ok ''node.example''"
proof -
  obtain tid w' where g: "GrantToken demo_Lib ''node.example'' 100 demo_world = (Ok tid, w')" "tid \<noteq> []"
    using demo_Grant by blast
  have "fst (TokenVerifier_Verify (demo_request\<lparr>Header := (\<lambda>_. [tid])\<rparr>) w') = Ok ''node.example''"
    by (rule Grant_then_Verify [OF demo_Verify(1) g]) (simp_all add: Header_Get_def demo_defs)
  with g show ?thesis by blast
qed

text \<open>
  \<open>expireOldEntries\<close> under a clock that does not go back: an entry that had expired when the call
  began is gone, an entry that has not expired when it ends is still there, and no entry is added or
  changed.
\<close>

theorem expireOldEntries_spec:
  assumes "mono (Clock w)" and "e \<in> set (byToken w)"
  shows "set (byToken (expireOldEntries w)) \<subseteq> set (byToken w) \<and>
    (expires (snd e) < now w \<longrightarrow> e \<notin> set (byToken (expireOldEntries w))) \<and>
    (now (expireOldEntries w) \<le> expires (snd e) \<longrightarrow> e \<in> set (byToken (expireOldEntries w)))"
proof -
  let ?m = "byToken w"
  have in_iff: "e \<in> set (byToken (expireOldEntries w)) \<longleftrightarrow>
      (\<exists>i. (i, e) \<in> set (enumerate (Ticks w) ?m) \<and> \<not> expires (snd e) < Clock w i)"
    by (cases e) (force simp: expireOldEntries_sel expire_loop_entries)
  have "e \<notin> set (byToken (expireOldEntries w))" if "expires (snd e) < now w"
  proof
    assume "e \<in> set (byToken (expireOldEntries w))"
    then obtain i where i: "(i, e) \<in> set (enumerate (Ticks w) ?m)" "\<not> expires (snd e) < Clock w i"
      unfolding in_iff by blast
    then have "Ticks w \<le> i" by (auto simp: in_set_enumerate_eq)
    with assms(1) have "now w \<le> Clock w i" by (simp add: now_def monoD)
    with i that show False by simp
  qed
  moreover have "e \<in> set (byToken (expireOldEntries w))"
    if "now (expireOldEntries w) \<le> expires (snd e)"
  proof -
    from assms(2) obtain j where j: "j < length ?m" "?m ! j = e" by (auto simp: in_set_conv_nth)
    then have "(Ticks w + j, e) \<in> set (enumerate (Ticks w) ?m)" by (auto simp: in_set_enumerate_eq)
    moreover have "Clock w (Ticks w + j) \<le> now (expireOldEntries w)"
      using assms(1) j by (simp add: now_def expireOldEntries_sel monoD)
    ultimately show ?thesis using that unfolding in_iff by (meson linorder_not_less order_trans)
  qed
  ultimately show ?thesis
    using expire_loop_subset [of ?m w] by (simp add: expireOldEntries_sel)
qed

theorem expireOldEntries_spec_witness:
  "set (byToken (expireOldEntries demo_world)) \<subseteq> {(''abc'', demo_token)} \<and>
    (''abc'', demo_token) \<in> set (byToken (expireOldEntries demo_world))"
proof -
  have "mono (Clock demo_world)" by (simp add: demo_defs mono_def)
  moreover have "(''abc'', demo_token) \<in> set (byToken demo_world)" by (simp add: demo_world_def)
  moreover have "now (expireOldEntries demo_world) \<le> expires demo_token"
    by (simp add: now_def expireOldEntries_sel demo_defs)
  moreover have "set (byToken demo_world) = {(''abc'', demo_token)}" by (simp add: demo_world_def)
  ultimately show ?thesis using expireOldEntries_spec [of demo_world "(''abc'', demo_token)"] by simp
qed

text \<open>
  Every identifier that \<open>generateTokenID\<close> makes has 22 bytes, all of them visible ASCII
  characters (given that \<open>sha256.Sum256\<close> returns 32 bytes), and the only way for it to panic is that
  the entropy source fails.
\<close>

theorem generateTokenID_shape:
  assumes "\<And>s. length (sha256_Sum256 L s) = 32"
  shows "(case fst (generateTokenID L w) of
      Ok tid \<Rightarrow> length tid = 22 \<and> list_all visible tid
    | Err _ \<Rightarrow> False
    | Panic _ \<Rightarrow> Entropy w (Draws w) = None)"
proof (cases "Entropy w (Draws w)")
  case None
  then show ?thesis by (simp add: generateTokenID_def rand_Read_def draw_def)
next
  case (Some x)
  then show ?thesis using generateTokenID_Some [OF assms] by fastforce
qed

theorem generateTokenID_shape_witness:
  "(case fst (generateTokenID demo_Lib demo_world) of
      Ok tid \<Rightarrow> length tid = 22 \<and> list_all visible tid
    | Err _ \<Rightarrow> False
    | Panic _ \<Rightarrow> Entropy demo_world (Draws demo_world) = None)"
  by (rule generateTokenID_shape) (simp add: demo_Lib_def)

end
