(* ===== verification/Token_Concurrency.thy ===== *)
theory Token_Concurrency
  imports Token
begin

text \<open>
  The token registry under concurrency. The HTTP server runs every request in a goroutine of its own,
  so calls of \<open>GrantToken\<close> and of \<open>TokenVerifier.Verify\<close> interleave. The atomic steps of a goroutine
  are the critical sections of \<open>registry.go\<close> (each of its methods holds the mutex for its whole body),
  the making of a token, the expiry check and \<open>claimed.Do\<close>. The step relation \<open>tok_step\<close> lets any
  goroutine take its next step at any moment; the lists \<open>granted\<close> and \<open>accepted\<close> only record history.
  The result is that, under every interleaving, a granted token authenticates at most one request.
\<close>

section \<open>Goroutines and their steps\<close>

text \<open>Where a goroutine is in \<open>GrantToken\<close> or in \<open>Verify\<close>.\<close>

datatype goroutine =
    Idle
  | Expired string int
  | Generated ScopedToken
  | LookedUp ScopedToken
  | Unexpired ScopedToken

record TokSys =
  tworld :: TokenWorld
  threads :: "nat \<Rightarrow> goroutine"
  granted :: "ScopedToken list"
  accepted :: "(nat \<times> ScopedToken) list"

definition tok_init :: "TokSys \<Rightarrow> bool" where
  "tok_init s = (byToken (tworld s) = [] \<and> Onces (tworld s) = [] \<and> (\<forall>i. threads s i = Idle) \<and>
     granted s = [] \<and> accepted s = [])"

definition at :: "nat \<Rightarrow> goroutine \<Rightarrow> TokenWorld \<Rightarrow> TokSys \<Rightarrow> TokSys" where
  "at i g w s = s\<lparr>tworld := w, threads := (threads s)(i := g)\<rparr>"

inductive tok_step :: "Lib \<Rightarrow> TokSys \<Rightarrow> TokSys \<Rightarrow> bool" for L :: Lib where
  expire: "threads s i = Idle \<Longrightarrow>
    tok_step L s (at i (Expired subj d) (expireOldEntries (tworld s)) s)"
| generate: "threads s i = Expired subj d \<Longrightarrow> GenerateToken L subj d (tworld s) = (Ok t, w) \<Longrightarrow>
    tok_step L s (at i (Generated t) w s)"
| add: "threads s i = Generated t \<Longrightarrow> addToken t (tworld s) = (Ok (), w) \<Longrightarrow>
    tok_step L s ((at i Idle w s)\<lparr>granted := t # granted s\<rparr>)"
| collide: "threads s i = Generated t \<Longrightarrow> addToken t (tworld s) = (Panic p, w) \<Longrightarrow>
    tok_step L s (at i Idle w s)"
| lookup: "threads s i = Idle \<Longrightarrow> LookupToken k (tworld s) = Ok t \<Longrightarrow>
    tok_step L s (at i (LookedUp t) (tworld s) s)"
| check: "threads s i = LookedUp t \<Longrightarrow> HasExpired t (tworld s) = (b, w) \<Longrightarrow>
    tok_step L s (at i (if b then Idle else Unexpired t) w s)"
| accept: "threads s i = Unexpired t \<Longrightarrow> once_Do (claimed t) (tworld s) = (Ok True, w) \<Longrightarrow>
    tok_step L s ((at i Idle w s)\<lparr>accepted := (i, t) # accepted s\<rparr>)"
| refuse: "threads s i = Unexpired t \<Longrightarrow> once_Do (claimed t) (tworld s) = (Ok False, w) \<Longrightarrow>
    tok_step L s (at i Idle w s)"

section \<open>The invariant\<close>

definition tokens_granted :: "TokSys \<Rightarrow> bool" where
  "tokens_granted s =
     (snd ` set (byToken (tworld s)) \<subseteq> set (granted s) \<and> snd ` set (accepted s) \<subseteq> set (granted s) \<and>
      (\<forall>i t. threads s i = LookedUp t \<or> threads s i = Unexpired t \<longrightarrow> t \<in> set (granted s)))"

definition onces_apart :: "TokSys \<Rightarrow> bool" where
  "onces_apart s =
     (distinct (map claimed (granted s)) \<and>
      (\<forall>t\<in>set (granted s). token_ok (length (Onces (tworld s))) t) \<and>
      (\<forall>i t. threads s i = Generated t \<longrightarrow>
         token_ok (length (Onces (tworld s))) t \<and> claimed t \<notin> claimed ` set (granted s) \<and>
         (\<forall>j u. threads s j = Generated u \<longrightarrow> claimed u = claimed t \<longrightarrow> i = j)))"

definition run_iff_accepted :: "TokSys \<Rightarrow> bool" where
  "run_iff_accepted s =
     (distinct (map (claimed \<circ> snd) (accepted s)) \<and>
      (\<forall>a<length (Onces (tworld s)). Onces (tworld s) ! a \<longleftrightarrow>
         Some a \<in> (claimed \<circ> snd) ` set (accepted s)))"

definition tok_inv :: "TokSys \<Rightarrow> bool" where
  "tok_inv s = (registry_ok (tworld s) \<and> tokens_granted s \<and> onces_apart s \<and> run_iff_accepted s)"

lemmas inv_defs = tok_inv_def tokens_granted_def onces_apart_def run_iff_accepted_def

lemma at_sel [simp]:
  "tworld (at i g w s) = w" "threads (at i g w s) = (threads s)(i := g)"
  "granted (at i g w s) = granted s" "accepted (at i g w s) = accepted s"
  by (simp_all add: at_def)

lemma inv_init: "tok_init s \<Longrightarrow> tok_inv s"
  by (auto simp: tok_init_def inv_defs registry_ok_def)

lemma inv_expire:
  assumes "tok_inv s" and "threads s i = Idle"
  shows "tok_inv (at i (Expired subj d) (expireOldEntries (tworld s)) s)"
  using assms registry_ok_expire [of "tworld s"] expire_loop_subset [of "byToken (tworld s)" "tworld s"]
  by (auto simp: inv_defs expireOldEntries_sel)

lemma inv_generate:
  assumes "tok_inv s" and "threads s i = Expired subj d"
    and "GenerateToken L subj d (tworld s) = (Ok t, w)"
  shows "tok_inv (at i (Generated t) w s)"
proof -
  note g = GenerateToken_Ok [OF assms(3)]
  let ?n = "length (Onces (tworld s))"
  have fresh: "claimed t \<noteq> claimed u" if "token_ok ?n u" for u
    using that g(2) by (auto simp: token_ok_def split: option.splits)
  have ok: "token_ok ?n u \<Longrightarrow> token_ok (Suc ?n) u" for u
    by (erule token_ok_mono) simp
  have "registry_ok w" using assms(1) ok by (auto simp: tok_inv_def registry_ok_def g)
  moreover have "tokens_granted (at i (Generated t) w s)"
    using assms(1) by (auto simp: tok_inv_def tokens_granted_def g)
  moreover have "onces_apart (at i (Generated t) w s)"
    using assms(1) ok fresh
    by (auto simp: tok_inv_def onces_apart_def g(4) token_ok_def [of _ t] g(2)) (metis g(2) fresh)+
  moreover have "Some ?n \<notin> (claimed \<circ> snd) ` set (accepted s)"
    using assms(1) fresh g(2) by (force simp: inv_defs)
  then have "run_iff_accepted (at i (Generated t) w s)"
    using assms(1) by (auto simp: tok_inv_def run_iff_accepted_def g(4) nth_append less_Suc_eq)
  ultimately show ?thesis by (simp add: tok_inv_def)
qed

lemma inv_add:
  assumes "tok_inv s" and "threads s i = Generated t" and "addToken t (tworld s) = (Ok (), w)"
  shows "tok_inv ((at i Idle w s)\<lparr>granted := t # granted s\<rparr>)"
proof -
  have w: "w = (tworld s)\<lparr>byToken := (Token t, t) # byToken (tworld s)\<rparr>"
    and none: "map_of (byToken (tworld s)) (Token t) = None"
    using assms(3) by (simp_all add: addToken_Ok_iff)
  have "claimed t \<notin> claimed ` set (granted s)" and "snd ` set (byToken (tworld s)) \<subseteq> set (granted s)"
    using assms(1,2) by (simp_all add: inv_defs)
  then have "claimed t \<notin> claimed ` snd ` set (byToken (tworld s))" by blast
  then have "fresh_once (tworld s) t"
    unfolding fresh_once_def by (metis (mono_tags, lifting) case_prodI2 image_eqI snd_conv)
  then have "registry_ok w"
    using assms(1,2) none unfolding w by (intro registry_ok_add) (auto simp: inv_defs)
  then show ?thesis using assms(1,2) by (auto simp: inv_defs w)
qed

lemma inv_idle:
  assumes "tok_inv s"
  shows "tok_inv (at i Idle (tworld s) s)"
  using assms by (auto simp: inv_defs)

lemma inv_lookup:
  assumes "tok_inv s" and "LookupToken k (tworld s) = Ok t"
  shows "tok_inv (at i (LookedUp t) (tworld s) s)"
proof -
  have "(k, t) \<in> set (byToken (tworld s))"
    using assms(2) by (simp add: LookupToken_Ok_iff map_of_SomeD)
  then have "t \<in> set (granted s)" using assms(1) by (auto simp: inv_defs image_subset_iff)
  with assms(1) show ?thesis by (auto simp: inv_defs)
qed

lemma inv_check:
  assumes "tok_inv s" and "threads s i = LookedUp t" and "HasExpired t (tworld s) = (b, w)"
  shows "tok_inv (at i (if b then Idle else Unexpired t) w s)"
proof -
  have "w = snd (time_Now (tworld s))" using assms(3) by (metis HasExpired_sel(2) snd_conv)
  with assms show ?thesis by (auto simp: inv_defs)
qed

lemma inv_accept:
  assumes "tok_inv s" and "threads s i = Unexpired t"
    and "once_Do (claimed t) (tworld s) = (Ok True, w)"
  shows "tok_inv ((at i Idle w s)\<lparr>accepted := (i, t) # accepted s\<rparr>)"
proof -
  obtain a where a: "claimed t = Some a" "a < length (Onces (tworld s))" "\<not> Onces (tworld s) ! a"
    and w: "w = (tworld s)\<lparr>Onces := (Onces (tworld s))[a := True]\<rparr>"
    using assms(3) by (auto simp: once_Do_def split: option.splits if_splits)
  have "t \<in> set (granted s)" using assms(1,2) by (auto simp: inv_defs)
  moreover have "Some a \<notin> (claimed \<circ> snd) ` set (accepted s)"
    using assms(1) a by (auto simp: tok_inv_def run_iff_accepted_def)
  ultimately show ?thesis
    using assms(1) a registry_ok_onces [of "tworld s" a True]
    by (auto simp: inv_defs w nth_list_update)
qed

lemma inv_refuse:
  assumes "tok_inv s" and "once_Do (claimed t) (tworld s) = (Ok False, w)"
  shows "tok_inv (at i Idle w s)"
proof -
  obtain a where "a < length (Onces (tworld s))" "Onces (tworld s) ! a"
    and "w = (tworld s)\<lparr>Onces := (Onces (tworld s))[a := True]\<rparr>"
    using assms(2) by (auto simp: once_Do_def split: option.splits if_splits)
  moreover from this have "(Onces (tworld s))[a := True] = Onces (tworld s)"
    by (metis list_update_id)
  ultimately have "w = tworld s" by simp
  with assms(1) inv_idle show ?thesis by simp
qed

lemma inv_step:
  assumes "tok_inv s" and "tok_step L s t"
  shows "tok_inv t"
  using assms(2)
proof (cases rule: tok_step.cases)
  case (collide i t p w)
  then have "w = tworld s" by (auto simp: addToken_def split: if_splits)
  with assms(1) collide inv_idle show ?thesis by simp
next
  case (check i t b w)
  with assms(1) inv_check show ?thesis by blast
qed (use assms(1) in \<open>auto intro: inv_expire inv_generate inv_add inv_lookup inv_accept inv_refuse\<close>)

text \<open>The invariant holds in every state that the goroutines can reach.\<close>

interpretation tok: invariant_of tok_init "tok_step L" tok_inv for L
  by unfold_locales (auto intro: inv_init inv_step)

section \<open>What holds under every interleaving\<close>

lemma distinct_count_le: "distinct xs \<Longrightarrow> count_list xs x \<le> 1"
  by (induction xs) (auto simp: count_list_0_iff)

text \<open>
  C1: under every interleaving of grants and verifications, every request that was authenticated
  with a token used a token that had been granted, and no token (no two requests, by whatever
  goroutines) authenticated twice.
\<close>

theorem token_accepted_once:
  assumes "reach tok_init (tok_step L) s"
  shows "snd ` set (accepted s) \<subseteq> set (granted s) \<and>
    (\<forall>t. count_list (map snd (accepted s)) t \<le> 1)"
proof -
  have inv: "tok_inv s" using assms by (rule tok.always)
  then have "distinct (map claimed (map snd (accepted s)))" by (simp add: inv_defs)
  then have "distinct (map snd (accepted s))" by (simp only: distinct_map)
  then have "count_list (map snd (accepted s)) t \<le> 1" for t by (rule distinct_count_le)
  with inv show ?thesis unfolding inv_defs by blast
qed

text \<open>
  No goroutine is ever stuck or panics at the claim, and whether a claim succeeds depends only on
  whether the token was accepted before: the call of \<open>claimed.Do\<close> of a goroutine that has found its
  token unexpired answers true if and only if no earlier request was authenticated with it.
\<close>

theorem claim_decides:
  assumes "reach tok_init (tok_step L) s" and "threads s i = Unexpired t"
  shows "fst (once_Do (claimed t) (tworld s)) = Ok (t \<notin> snd ` set (accepted s))"
proof -
  have inv: "tok_inv s" using assms(1) by (rule tok.always)
  then have t: "t \<in> set (granted s)" using assms(2) by (auto simp: inv_defs)
  with inv obtain a where a: "claimed t = Some a" "a < length (Onces (tworld s))"
    by (force simp: inv_defs token_ok_def split: option.splits)
  have inj: "inj_on claimed (set (granted s))" using inv by (auto simp: inv_defs distinct_map)
  have "Onces (tworld s) ! a \<longleftrightarrow> claimed t \<in> claimed ` snd ` set (accepted s)"
    using inv a by (auto simp: tok_inv_def run_iff_accepted_def image_comp)
  also have "\<dots> \<longleftrightarrow> t \<in> snd ` set (accepted s)"
    using inv t inj_on_image_mem_iff [OF inj, of t "snd ` set (accepted s)"] by (auto simp: inv_defs)
  finally show ?thesis using a by (simp add: once_Do_def)
qed

text \<open>A run to evaluate the two theorems on: one goroutine grants a token and then presents it.\<close>

definition demo_sys :: TokSys where
  "demo_sys = \<lparr>tworld = demo_world\<lparr>byToken := [], Onces := []\<rparr>, threads = (\<lambda>_. Idle), granted = [],
     accepted = []\<rparr>"

lemma demo_reach_Generated:
  "\<exists>t w. reach tok_init (tok_step demo_Lib) (at 0 (Generated t) w demo_sys) \<and> byToken w = [] \<and>
     expires t = 100 \<and> Clock w = int \<and> Ticks w = 1 \<and> claimed t = Some 0 \<and> Onces w = [False]"
proof -
  let ?w = "expireOldEntries (tworld demo_sys)"
  note [simp] = demo_sys_def demo_world_def
  have 0: "reach tok_init (tok_step demo_Lib) demo_sys" by (rule reach.start) (simp add: tok_init_def)
  have 1: "reach tok_init (tok_step demo_Lib) (at 0 (Expired ''n'' 100) ?w demo_sys)"
    by (rule reach.step [OF 0], rule tok_step.expire) simp
  obtain t w where g: "GenerateToken demo_Lib ''n'' 100 ?w = (Ok t, w)"
    using generateTokenID_Some [of demo_Lib ?w 0]
    by (auto simp: demo_Lib_def expireOldEntries_sel GenerateToken_def time_Now_def)
  have "reach tok_init (tok_step demo_Lib) (at 0 (Generated t) w (at 0 (Expired ''n'' 100) ?w demo_sys))"
    by (rule reach.step [OF 1], rule tok_step.generate) (use g in simp_all)
  then have "reach tok_init (tok_step demo_Lib) (at 0 (Generated t) w demo_sys)" by (simp add: at_def)
  then show ?thesis
    using GenerateToken_Ok [OF g] by (intro exI [of _ t] exI [of _ w]) (simp add: expireOldEntries_sel)
qed

lemma demo_reach_Unexpired:
  "\<exists>s t. reach tok_init (tok_step demo_Lib) s \<and> threads s 0 = Unexpired t \<and> accepted s = []"
proof -
  obtain t w where g: "reach tok_init (tok_step demo_Lib) (at 0 (Generated t) w demo_sys)"
    and w: "byToken w = []" "expires t = 100" "Clock w = int" "Ticks w = 1"
    using demo_reach_Generated by blast
  let ?w = "w\<lparr>byToken := [(Token t, t)]\<rparr>"
  let ?s = "(at 0 Idle ?w (at 0 (Generated t) w demo_sys))\<lparr>granted := [t]\<rparr>"
  have "tok_step demo_Lib (at 0 (Generated t) w demo_sys) ?s"
    using tok_step.add [of "at 0 (Generated t) w demo_sys" 0 t ?w demo_Lib] w
    by (simp add: addToken_Ok_iff demo_sys_def)
  with g have s: "reach tok_init (tok_step demo_Lib) ?s" by (rule reach.step)
  have l: "reach tok_init (tok_step demo_Lib) (at 0 (LookedUp t) ?w ?s)"
    using reach.step [OF s tok_step.lookup [of ?s 0 "Token t" t]] by (simp add: LookupToken_Ok_iff)
  obtain w2 where "HasExpired t ?w = (False, w2)" by (simp add: HasExpired_def time_Now_def w)
  with reach.step [OF l tok_step.check [of _ 0 t False w2]]
  have "reach tok_init (tok_step demo_Lib) (at 0 (Unexpired t) w2 (at 0 (LookedUp t) ?w ?s))" by simp
  then show ?thesis by (intro exI [of _ t] exI conjI) (assumption, simp_all add: demo_sys_def)
qed

theorem claim_decides_witness:
  "\<exists>s t. reach tok_init (tok_step demo_Lib) s \<and> threads s 0 = Unexpired t \<and>
     fst (once_Do (claimed t) (tworld s)) = Ok True"
proof -
  obtain s t where s: "reach tok_init (tok_step demo_Lib) s" "threads s 0 = Unexpired t" "accepted s = []"
    using demo_reach_Unexpired by blast
  with claim_decides [OF s(1,2)] show ?thesis by auto
qed

theorem token_accepted_once_witness:
  "\<exists>s i t. reach tok_init (tok_step demo_Lib) s \<and> accepted s = [(i, t)] \<and> t \<in> set (granted s)"
proof -
  obtain s t where s: "reach tok_init (tok_step demo_Lib) s" "threads s 0 = Unexpired t" "accepted s = []"
    using demo_reach_Unexpired by blast
  have "fst (once_Do (claimed t) (tworld s)) = Ok True"
    using tok.always [OF s(1)] s(2,3)
    by (force simp: inv_defs once_Do_def token_ok_def split: option.splits)
  then obtain w where "once_Do (claimed t) (tworld s) = (Ok True, w)" by (metis prod.collapse)
  from reach.step [OF s(1) tok_step.accept [OF s(2) this]]
  have a: "reach tok_init (tok_step demo_Lib) ((at 0 Idle w s)\<lparr>accepted := [(0, t)]\<rparr>)"
    using s(3) by simp
  from token_accepted_once [OF a] have "t \<in> set (granted ((at 0 Idle w s)\<lparr>accepted := [(0, t)]\<rparr>))"
    by simp
  with a show ?thesis by (intro exI conjI) (assumption, simp_all)
qed

end
