(* ===== verification/World_Names.thy ===== *)
theory World_Names
  imports Go_Files
begin

text \<open>
  The names that the parts of the key system agree on: the authorities and APIs of
  \<open>worldconfig/apis.go\<close>, the file paths of \<open>worldconfig/paths/paths.go\<close> and the time spans of
  \<open>worldconfig/keyclient.go\<close>.
\<close>

section \<open>apis.go\<close>

definition KeygrantingAuthority :: string where "KeygrantingAuthority = ''keygranting''"
definition KubernetesAuthority :: string where "KubernetesAuthority = ''kubernetes''"
definition ClusterCAAuthority :: string where "ClusterCAAuthority = ''clusterca''"
definition SSHHostAuthority :: string where "SSHHostAuthority = ''ssh-host''"
definition SSHUserAuthority :: string where "SSHUserAuthority = ''ssh-user''"
definition ServiceAccountAuthority :: string where "ServiceAccountAuthority = ''serviceaccount''"
definition EtcdServerAuthority :: string where "EtcdServerAuthority = ''etcd-server''"
definition EtcdClientAuthority :: string where "EtcdClientAuthority = ''etcd-client''"
definition ClusterConfStatic :: string where "ClusterConfStatic = ''cluster.conf''"
definition BootstrapKeyserverTokenAPI :: string where "BootstrapKeyserverTokenAPI = ''bootstrap-keyinit''"
definition RenewKeygrantAPI :: string where "RenewKeygrantAPI = ''renew-keygrant''"
definition ImpersonateKerberosAPI :: string where "ImpersonateKerberosAPI = ''auth-to-kerberos''"
definition LocalConfAPI :: string where "LocalConfAPI = ''get-local-config''"
definition FetchServiceAccountKeyAPI :: string where "FetchServiceAccountKeyAPI = ''fetch-serviceaccount-key''"
definition SignKubernetesWorkerAPI :: string where "SignKubernetesWorkerAPI = ''grant-kubernetes-worker''"
definition SignKubernetesMasterAPI :: string where "SignKubernetesMasterAPI = ''grant-kubernetes-master''"
definition SignKubernetesSupervisorAPI :: string where "SignKubernetesSupervisorAPI = ''grant-kubernetes-supervisor''"
definition SignKubernetesCtrlMgrAPI :: string where "SignKubernetesCtrlMgrAPI = ''grant-kubernetes-ctrl-mgr''"
definition SignKubernetesProxyAPI :: string where "SignKubernetesProxyAPI = ''grant-kubernetes-proxy''"
definition SignKubernetesSchedulerAPI :: string where "SignKubernetesSchedulerAPI = ''grant-kubernetes-scheduler''"
definition SignSSHHostKeyAPI :: string where "SignSSHHostKeyAPI = ''grant-ssh-host''"
definition SignRegistryHostAPI :: string where "SignRegistryHostAPI = ''grant-registry-host''"
definition SignEtcdServerAPI :: string where "SignEtcdServerAPI = ''grant-etcd-server''"
definition SignEtcdClientAPI :: string where "SignEtcdClientAPI = ''grant-etcd-client''"
definition AccessSSHAPI :: string where "AccessSSHAPI = ''access-ssh''"
definition AccessEtcdAPI :: string where "AccessEtcdAPI = ''access-etcd''"
definition AccessKubernetesAPI :: string where "AccessKubernetesAPI = ''access-kubernetes''"

lemmas api_names =
  KeygrantingAuthority_def
  KubernetesAuthority_def
  ClusterCAAuthority_def
  SSHHostAuthority_def
  SSHUserAuthority_def
  ServiceAccountAuthority_def
  EtcdServerAuthority_def
  EtcdClientAuthority_def
  ClusterConfStatic_def
  BootstrapKeyserverTokenAPI_def
  RenewKeygrantAPI_def
  ImpersonateKerberosAPI_def
  LocalConfAPI_def
  FetchServiceAccountKeyAPI_def
  SignKubernetesWorkerAPI_def
  SignKubernetesMasterAPI_def
  SignKubernetesSupervisorAPI_def
  SignKubernetesCtrlMgrAPI_def
  SignKubernetesProxyAPI_def
  SignKubernetesSchedulerAPI_def
  SignSSHHostKeyAPI_def
  SignRegistryHostAPI_def
  SignEtcdServerAPI_def
  SignEtcdClientAPI_def
  AccessSSHAPI_def
  AccessEtcdAPI_def
  AccessKubernetesAPI_def

section \<open>paths.go\<close>

definition KeyserverTLSCert :: string where "KeyserverTLSCert = ''/etc/homeworld/keyclient/keyservertls.pem''"
definition GrantingKeyPath :: string where "GrantingKeyPath = ''/etc/homeworld/keyclient/granting.key''"
definition GrantingCertPath :: string where "GrantingCertPath = ''/etc/homeworld/keyclient/granting.pem''"
definition BootstrapTokenPath :: string where "BootstrapTokenPath = ''/etc/homeworld/keyclient/bootstrap.token''"
definition SpireSetupPath :: string where "SpireSetupPath = ''/etc/homeworld/config/setup.yaml''"
definition ClusterConfPath :: string where "ClusterConfPath = ''/etc/homeworld/config/cluster.conf''"
definition LocalConfPath :: string where "LocalConfPath = ''/etc/homeworld/config/local.conf''"
definition KubernetesCAPath :: string where "KubernetesCAPath = ''/etc/homeworld/authorities/kubernetes.pem''"
definition KubernetesMasterKey :: string where "KubernetesMasterKey = ''/etc/homeworld/keys/kubernetes-master.key''"
definition KubernetesMasterCert :: string where "KubernetesMasterCert = ''/etc/homeworld/keys/kubernetes-master.pem''"
definition KubernetesWorkerKey :: string where "KubernetesWorkerKey = ''/etc/homeworld/keys/kubernetes-worker.key''"
definition KubernetesWorkerCert :: string where "KubernetesWorkerCert = ''/etc/homeworld/keys/kubernetes-worker.pem''"
definition KubernetesSupervisorKey :: string where "KubernetesSupervisorKey = ''/etc/homeworld/keys/kubernetes-supervisor.key''"
definition KubernetesSupervisorCert :: string where "KubernetesSupervisorCert = ''/etc/homeworld/keys/kubernetes-supervisor.pem''"
definition KubernetesCtrlMgrKey :: string where "KubernetesCtrlMgrKey = ''/etc/homeworld/keys/kubernetes-ctrl-mgr.key''"
definition KubernetesCtrlMgrCert :: string where "KubernetesCtrlMgrCert = ''/etc/homeworld/keys/kubernetes-ctrl-mgr.pem''"
definition KubernetesProxyKey :: string where "KubernetesProxyKey = ''/etc/homeworld/keys/kubernetes-proxy.key''"
definition KubernetesProxyCert :: string where "KubernetesProxyCert = ''/etc/homeworld/keys/kubernetes-proxy.pem''"
definition KubernetesSchedulerKey :: string where "KubernetesSchedulerKey = ''/etc/homeworld/keys/kubernetes-scheduler.key''"
definition KubernetesSchedulerCert :: string where "KubernetesSchedulerCert = ''/etc/homeworld/keys/kubernetes-scheduler.pem''"

lemmas path_names =
  KeyserverTLSCert_def
  GrantingKeyPath_def
  GrantingCertPath_def
  BootstrapTokenPath_def
  SpireSetupPath_def
  ClusterConfPath_def
  LocalConfPath_def
  KubernetesCAPath_def
  KubernetesMasterKey_def
  KubernetesMasterCert_def
  KubernetesWorkerKey_def
  KubernetesWorkerCert_def
  KubernetesSupervisorKey_def
  KubernetesSupervisorCert_def
  KubernetesCtrlMgrKey_def
  KubernetesCtrlMgrCert_def
  KubernetesProxyKey_def
  KubernetesProxyCert_def
  KubernetesSchedulerKey_def
  KubernetesSchedulerCert_def

definition GetKeyserver :: "('a FsWorld_scheme, string) action" where
  "GetKeyserver w =
     and_thenS (ReadFile ''/etc/homeworld/config/keyserver.domain'' w) (\<lambda>keyserver w.
       (Ok (TrimSpace keyserver @ '':20557''), w))"

section \<open>Time spans\<close>

definition OneDay :: int where "OneDay = 24 * time_Hour"
definition OneWeek :: int where "OneWeek = 7 * OneDay"

end
