(* ===== verification/Spire_Setup.thy ===== *)
theory Spire_Setup
  imports World_Names
begin

text \<open>
  \<open>worldconfig/spiresetup.go\<close>: the cluster description in \<open>setup.yaml\<close> and its validation. The YAML
  library is a parameter that delivers the decoded structure; a null entry of the node list decodes
  to a nil pointer, which the validation dereferences. A node's pointer back to its setup is only
  used to read the external domain, so it is the field \<open>node_setup\<close> with that domain.
\<close>

definition SupervisorKind :: string where "SupervisorKind = ''supervisor''"
definition MasterKind :: string where "MasterKind = ''master''"
definition WorkerKind :: string where "WorkerKind = ''worker''"

lemmas kinds = SupervisorKind_def MasterKind_def WorkerKind_def

record SpireNode =
  Hostname :: string
  NodeIP :: string
  netIP :: "IP option"
  node_setup :: "string option"
  Kind :: string

definition IsSupervisor :: "SpireNode \<Rightarrow> bool" where "IsSupervisor s = (Kind s = SupervisorKind)"
definition IsMaster :: "SpireNode \<Rightarrow> bool" where "IsMaster s = (Kind s = MasterKind)"
definition IsWorker :: "SpireNode \<Rightarrow> bool" where "IsWorker s = (Kind s = WorkerKind)"

definition DNS :: "SpireNode \<Rightarrow> string result" where
  "DNS s = (case node_setup s of None \<Rightarrow> Panic ''uninitialized'' | Some d \<Rightarrow> Ok (Hostname s @ ''.'' @ d))"

definition NetIP :: "SpireNode \<Rightarrow> IP result" where
  "NetIP s = (case netIP s of None \<Rightarrow> Panic ''uninitialized'' | Some ip \<Rightarrow> Ok ip)"

record SpireCluster =
  ExternalDomain :: string
  InternalDomain :: string
  KerberosRealm :: string
  ServiceAPI :: string
  RootAdmins :: "string list"

text \<open>What \<open>yaml.Unmarshal\<close> delivers, and the validated setup: no nil nodes.\<close>

record RawSetup = SpireCluster +
  RawNodes :: "SpireNode option list"

record SpireSetup = SpireCluster +
  Nodes :: "SpireNode list"
  supervisor :: "SpireNode option"

definition Supervisor :: "SpireSetup \<Rightarrow> SpireNode result" where
  "Supervisor s = (case supervisor s of None \<Rightarrow> Panic ''uninitialized'' | Some n \<Rightarrow> Ok n)"

text \<open>The loop over the nodes: the nodes with their private fields set, the last supervisor and the count.\<close>

fun validate_nodes ::
  "string \<Rightarrow> SpireNode option list \<Rightarrow> SpireNode option \<Rightarrow> nat \<Rightarrow>
    (SpireNode list \<times> SpireNode option \<times> nat) result" where
  "validate_nodes dname [] sv n = Ok ([], sv, n)"
| "validate_nodes dname (None # nodes) sv n = Panic ''nil pointer dereference''"
| "validate_nodes dname (Some node # nodes) sv n =
     (if \<not> (IsSupervisor node \<or> IsMaster node \<or> IsWorker node) then
        Err (Errorf ''unrecognized kind of node: %s'' [Kind node])
      else case ParseIP (NodeIP node) of
          None \<Rightarrow> Err (Errorf ''could not parse IP: %s'' [NodeIP node])
        | Some ip \<Rightarrow>
            let node' = node\<lparr>netIP := Some ip, node_setup := Some dname\<rparr> in
            and_then (if IsSupervisor node then validate_nodes dname nodes (Some node') (Suc n)
                      else validate_nodes dname nodes sv n)
              (\<lambda>(nodes', sv', n'). Ok (node' # nodes', sv', n')))"

fun check_admins :: "string list \<Rightarrow> string list \<Rightarrow> unit result" where
  "check_admins dupcheck [] = Ok ()"
| "check_admins dupcheck (rootadmin # admins) =
     (if rootadmin = [] then Err (ErrorNew (''invalid root admin name '' @ [CHR 0x27, CHR 0x27]))
      else if rootadmin \<in> set dupcheck then Err (Errorf ''duplicate root admin: %s'' [rootadmin])
      else check_admins (rootadmin # dupcheck) admins)"

definition validate_setup :: "RawSetup \<Rightarrow> SpireSetup result" where
  "validate_setup raw =
     and_then (validate_nodes (ExternalDomain raw) (RawNodes raw) None 0) (\<lambda>(nodes, sv, supervisors).
       if supervisors \<noteq> 1 then
         Err (Errorf ''expected exactly 1 declared supervisor, not %d'' [dec supervisors])
       else and_then (check_admins [] (RootAdmins raw)) (\<lambda>_.
         Ok \<lparr>ExternalDomain = ExternalDomain raw, InternalDomain = InternalDomain raw,
             KerberosRealm = KerberosRealm raw, ServiceAPI = ServiceAPI raw,
             RootAdmins = RootAdmins raw, Nodes = nodes, supervisor = sv\<rparr>))"

definition LoadSpireSetup ::
  "(string \<Rightarrow> error + RawSetup) \<Rightarrow> string \<Rightarrow> ('a FsWorld_scheme, SpireSetup) action" where
  "LoadSpireSetup yaml_Unmarshal path w =
     and_thenS (ReadFile path w) (\<lambda>content w.
       (and_then (lift (yaml_Unmarshal content)) validate_setup, w))"

section \<open>What validation accepts\<close>

text \<open>The requirements on a decoded setup without nil nodes, and the setup they give.\<close>

definition node_valid :: "SpireNode \<Rightarrow> bool" where
  "node_valid n = (Kind n \<in> {SupervisorKind, MasterKind, WorkerKind} \<and> ParseIP (NodeIP n) \<noteq> None)"

definition node_ready :: "string \<Rightarrow> SpireNode \<Rightarrow> SpireNode" where
  "node_ready dname n = n\<lparr>netIP := ParseIP (NodeIP n), node_setup := Some dname\<rparr>"

definition supervisors :: "SpireNode list \<Rightarrow> SpireNode list" where
  "supervisors ns = filter IsSupervisor ns"

definition setup_valid :: "RawSetup \<Rightarrow> SpireNode list \<Rightarrow> bool" where
  "setup_valid raw ns = (RawNodes raw = map Some ns \<and> list_all node_valid ns \<and>
     length (supervisors ns) = 1 \<and> [] \<notin> set (RootAdmins raw) \<and> distinct (RootAdmins raw))"

lemma node_ready_sel [simp]:
  "IsSupervisor (node_ready dname n) = IsSupervisor n" "Kind (node_ready dname n) = Kind n"
  "Hostname (node_ready dname n) = Hostname n" "NodeIP (node_ready dname n) = NodeIP n"
  "node_setup (node_ready dname n) = Some dname" "netIP (node_ready dname n) = ParseIP (NodeIP n)"
  by (simp_all add: node_ready_def IsSupervisor_def)

lemma check_admins_Ok_iff:
  "check_admins seen admins = Ok () \<longleftrightarrow>
     [] \<notin> set admins \<and> distinct admins \<and> set admins \<inter> set seen = {}"
  by (induction seen admins rule: check_admins.induct) auto

lemma is_panic_check_admins [simp]: "\<not> is_panic (check_admins seen admins)"
  by (induction seen admins rule: check_admins.induct) auto

lemma validate_nodes_valid:
  assumes "list_all node_valid ns"
  shows "validate_nodes dname (map Some ns) sv n =
    Ok (map (node_ready dname) ns,
        (if supervisors ns = [] then sv else Some (node_ready dname (last (supervisors ns)))),
        n + length (supervisors ns))"
  using assms
proof (induction ns arbitrary: sv n)
  case (Cons x ns)
  then obtain ip where "ParseIP (NodeIP x) = Some ip" by (auto simp: node_valid_def)
  with Cons show ?case
    by (auto simp: node_valid_def supervisors_def node_ready_def Let_def IsSupervisor_def IsMaster_def
        IsWorker_def kinds)
qed (simp add: supervisors_def)

lemma validate_nodes_Ok:
  "validate_nodes dname raws sv n = Ok r \<Longrightarrow> \<exists>ns. raws = map Some ns \<and> list_all node_valid ns"
proof (induction raws arbitrary: sv n r)
  case (Cons x raws)
  then obtain node ip where x: "x = Some node" and ip: "ParseIP (NodeIP node) = Some ip"
    by (cases x) (auto split: if_splits option.splits)
  with Cons.prems obtain sv' n' r' where "validate_nodes dname raws sv' n' = Ok r'"
    by (auto simp: Let_def and_then_Ok_iff split: if_splits)
  then obtain ns where "raws = map Some ns" "list_all node_valid ns" using Cons.IH by blast
  moreover have "node_valid node"
    using Cons.prems x ip
    by (auto simp: node_valid_def IsSupervisor_def IsMaster_def IsWorker_def split: if_splits)
  ultimately show ?case using x by (intro exI [of _ "node # ns"]) simp
qed simp

lemma validate_setup_Ok_iff:
  "validate_setup raw = Ok s \<longleftrightarrow>
     (\<exists>ns. setup_valid raw ns \<and>
        s = \<lparr>ExternalDomain = ExternalDomain raw, InternalDomain = InternalDomain raw,
             KerberosRealm = KerberosRealm raw, ServiceAPI = ServiceAPI raw,
             RootAdmins = RootAdmins raw, Nodes = map (node_ready (ExternalDomain raw)) ns,
             supervisor = Some (node_ready (ExternalDomain raw) (hd (supervisors ns)))\<rparr>)"
    (is "?L \<longleftrightarrow> ?R")
proof
  assume L: ?L
  then obtain ns where ns: "RawNodes raw = map Some ns" "list_all node_valid ns"
    using validate_nodes_Ok by (fastforce simp: validate_setup_def and_then_Ok_iff)
  have one: "length (supervisors ns) = 1" and adm: "check_admins [] (RootAdmins raw) = Ok ()"
    using L by (auto simp: validate_setup_def ns validate_nodes_valid and_then_Ok_iff split: if_splits)
  then have "supervisors ns \<noteq> []" "last (supervisors ns) = hd (supervisors ns)"
    by (auto simp: length_Suc_conv)
  with L ns one adm show ?R
    by (intro exI [of _ ns]) (simp add: validate_setup_def setup_valid_def validate_nodes_valid check_admins_Ok_iff)
next
  assume ?R
  then obtain ns where ns: "setup_valid raw ns" and s: "s = \<lparr>ExternalDomain = ExternalDomain raw,
      InternalDomain = InternalDomain raw, KerberosRealm = KerberosRealm raw, ServiceAPI = ServiceAPI raw,
      RootAdmins = RootAdmins raw, Nodes = map (node_ready (ExternalDomain raw)) ns,
      supervisor = Some (node_ready (ExternalDomain raw) (hd (supervisors ns)))\<rparr>" by blast
  then have one: "length (supervisors ns) = 1" and adm: "check_admins [] (RootAdmins raw) = Ok ()"
    by (simp_all add: setup_valid_def check_admins_Ok_iff)
  then have "supervisors ns \<noteq> []" "last (supervisors ns) = hd (supervisors ns)"
    by (auto simp: length_Suc_conv)
  with ns one adm s show ?L by (simp add: validate_setup_def setup_valid_def validate_nodes_valid)
qed

lemma validate_nodes_no_panic: "\<not> is_panic (validate_nodes dname (map Some ns) sv n)"
proof (induction ns arbitrary: sv n)
  case (Cons x ns)
  then show ?case by (auto simp: is_panic_and_then Let_def split: option.splits)
qed simp

lemma validate_setup_no_panic:
  assumes "None \<notin> set (RawNodes raw)"
  shows "\<not> is_panic (validate_setup raw)"
proof -
  have "\<exists>ns. xs = map Some ns" if "None \<notin> set xs" for xs :: "SpireNode option list"
    using that
  proof (induction xs)
    case (Cons x xs)
    then obtain y ns where "x = Some y" "xs = map Some ns" by (cases x) auto
    then show ?case by (intro exI [of _ "y # ns"]) simp
  qed simp
  with assms obtain ns where "RawNodes raw = map Some ns" by blast
  then show ?thesis
    by (auto simp: validate_setup_def is_panic_and_then validate_nodes_no_panic split: prod.splits)
qed

lemma LoadSpireSetup_Ok:
  assumes "fst (LoadSpireSetup yaml path w) = Ok s"
  shows "(\<forall>n\<in>set (Nodes s). node_setup n = Some (ExternalDomain s) \<and> (\<exists>ip. ParseIP (NodeIP n) = Some ip \<and> netIP n = Some ip)) \<and>
    (\<exists>n\<in>set (Nodes s). supervisor s = Some n \<and> IsSupervisor n)"
proof -
  obtain raw where "validate_setup raw = Ok s"
    using assms by (cases "ReadFile path w"; cases "fst (ReadFile path w)")
      (auto simp: LoadSpireSetup_def and_then_Ok_iff)
  then obtain ns where ns: "setup_valid raw ns" "Nodes s = map (node_ready (ExternalDomain raw)) ns"
    "supervisor s = Some (node_ready (ExternalDomain raw) (hd (supervisors ns)))"
    "ExternalDomain s = ExternalDomain raw" by (auto simp: validate_setup_Ok_iff)
  then have "supervisors ns \<noteq> []" by (auto simp: setup_valid_def)
  then have "hd (supervisors ns) \<in> set ns" "IsSupervisor (hd (supervisors ns))"
    using hd_in_set [of "supervisors ns"] by (auto simp: supervisors_def)
  with ns show ?thesis by (auto simp: setup_valid_def list_all_iff node_valid_def)
qed

text \<open>
  C36: \<open>LoadSpireSetup\<close> accepts a file exactly if it can be read and decoded, every node is of a known
  kind and has an IP address, there is one supervisor, and the root admins are named and distinct; the
  result has the nodes in order with their parsed addresses and the one supervisor. It panics only on
  a null entry in the list of nodes.
\<close>

theorem LoadSpireSetup_spec:
  "(fst (LoadSpireSetup yaml path w) = Ok s \<longleftrightarrow>
     (\<exists>content raw ns. fst (ReadFile path w) = Ok content \<and> yaml content = Inr raw \<and> setup_valid raw ns \<and>
        s = \<lparr>ExternalDomain = ExternalDomain raw, InternalDomain = InternalDomain raw,
             KerberosRealm = KerberosRealm raw, ServiceAPI = ServiceAPI raw,
             RootAdmins = RootAdmins raw, Nodes = map (node_ready (ExternalDomain raw)) ns,
             supervisor = Some (node_ready (ExternalDomain raw) (hd (supervisors ns)))\<rparr>)) \<and>
   (is_panic (fst (LoadSpireSetup yaml path w)) \<longrightarrow>
     (\<exists>content raw. fst (ReadFile path w) = Ok content \<and> yaml content = Inr raw \<and>
        None \<in> set (RawNodes raw)))"
proof (cases "ReadFile path w")
  case (Pair r w')
  show ?thesis
  proof (cases r)
    case (Ok content)
    show ?thesis
    proof (cases "yaml content")
      case (Inr raw)
      then show ?thesis using Pair Ok validate_setup_no_panic [of raw]
        by (auto simp: LoadSpireSetup_def validate_setup_Ok_iff)
    qed (use Pair Ok in \<open>auto simp: LoadSpireSetup_def\<close>)
  next
    case (Panic m)
    have "\<not> is_panic (fst (ReadFile path w))"
      by (auto simp: ReadFile_def is_panic_and_then split: option.splits prod.splits fnode.splits)
    with Pair Panic show ?thesis by simp
  qed (use Pair in \<open>auto simp: LoadSpireSetup_def\<close>)
qed

text \<open>A setup with one supervisor and one worker, in a file system that holds its file.\<close>

definition demo_raw :: RawSetup where
  "demo_raw = \<lparr>ExternalDomain = ''hw.example'', InternalDomain = ''hw.internal'', KerberosRealm = ''EXAMPLE'',
     ServiceAPI = ''172.28.0.1'', RootAdmins = [''admin@EXAMPLE''],
     RawNodes = [Some \<lparr>Hostname = ''eggs'', NodeIP = dotted 18 4 60 5, netIP = None, node_setup = None,
                   Kind = SupervisorKind\<rparr>,
                 Some \<lparr>Hostname = ''spam'', NodeIP = dotted 18 4 60 6, netIP = None, node_setup = None,
                   Kind = WorkerKind\<rparr>]\<rparr>"

definition demo_fs :: FsWorld where
  "demo_fs = \<lparr>Clock = int, Ticks = 0, Entropy = Some, Draws = 0,
     FS = (\<lambda>_. Some (File ''key'' 420 0)), Faults = (\<lambda>_. None), Syscalls = 0\<rparr>"

lemma demo_raw_valid: "setup_valid demo_raw (map the (RawNodes demo_raw))"
  using ParseIP_dotted [of 18 4 60 5] ParseIP_dotted [of 18 4 60 6]
  by (simp add: setup_valid_def demo_raw_def node_valid_def supervisors_def IsSupervisor_def kinds)

lemma demo_fs_ReadFile: "ReadFile ''setup.yaml'' demo_fs = (Ok ''key'', demo_fs\<lparr>Syscalls := 1\<rparr>)"
  by (simp add: ReadFile_def syscall_def lookup_def ancestors_def demo_fs_def upt_conv_Cons)

theorem LoadSpireSetup_spec_witness:
  "\<exists>s. fst (LoadSpireSetup (\<lambda>_. Inr demo_raw) ''setup.yaml'' demo_fs) = Ok s \<and>
     map Hostname (Nodes s) = [''eggs'', ''spam''] \<and> map_option Hostname (supervisor s) = Some ''eggs''"
proof -
  let ?s = "\<lparr>ExternalDomain = ExternalDomain demo_raw, InternalDomain = InternalDomain demo_raw,
     KerberosRealm = KerberosRealm demo_raw, ServiceAPI = ServiceAPI demo_raw,
     RootAdmins = RootAdmins demo_raw,
     Nodes = map (node_ready (ExternalDomain demo_raw)) (map the (RawNodes demo_raw)),
     supervisor = Some (node_ready (ExternalDomain demo_raw) (hd (supervisors (map the (RawNodes demo_raw)))))\<rparr>"
  have "fst (LoadSpireSetup (\<lambda>_. Inr demo_raw) ''setup.yaml'' demo_fs) = Ok ?s"
    using LoadSpireSetup_spec [of "\<lambda>_. Inr demo_raw" "''setup.yaml''" demo_fs ?s] demo_raw_valid
    by (auto simp: demo_fs_ReadFile)
  then show ?thesis
    by (intro exI [of _ ?s]) (simp add: demo_raw_def supervisors_def IsSupervisor_def kinds)
qed

end
