(* ===== verification/Cert_Util.thy ===== *)
theory Cert_Util
  imports Crypto_Lib
begin

text \<open>
  \<open>platform/util/wraputil\<close> (one PEM block of an expected type, and the certificate, request or key
  in it), \<open>platform/util/certutil\<close> (expiration dates, RSA keys, signing) and
  \<open>platform/util/csrutil\<close> (signing requests), over the library parameter \<open>Lib\<close>.
\<close>

section \<open>wraputil\<close>

definition pem_header :: string where "pem_header = ''-----BEGIN ''"

definition LoadSinglePEMBlock :: "Lib \<Rightarrow> string \<Rightarrow> string list \<Rightarrow> string result" where
  "LoadSinglePEMBlock L data expected_types =
     (if \<not> HasPrefix data pem_header then Err (ErrorNew ''Missing expected PEM header'')
      else case pem_Decode L data of
          (None, remain) \<Rightarrow> Err (ErrorNew ''Could not parse PEM data'')
        | (Some pemBlock, remain) \<Rightarrow>
            if \<not> (\<exists>t\<in>set expected_types. PEM_Type pemBlock = t) then
              Err (Errorf ''Found PEM block of type \"%s\" instead of types %s''
                     (PEM_Type pemBlock # expected_types))
            else if remain \<noteq> [] then Err (ErrorNew ''Trailing data found after PEM data'')
            else Ok (PEM_Bytes pemBlock))"

definition IsPEMBlock :: "Lib \<Rightarrow> string \<Rightarrow> bool" where
  "IsPEMBlock L data =
     (if HasPrefix data pem_header then
        (case pem_Decode L data of (pemBlock, remain) \<Rightarrow> pemBlock \<noteq> None \<and> length remain = 0)
      else False)"

definition LoadX509CertFromPEM :: "Lib \<Rightarrow> string \<Rightarrow> Certificate result" where
  "LoadX509CertFromPEM L certdata =
     and_then (LoadSinglePEMBlock L certdata [''CERTIFICATE'']) (\<lambda>certblock.
       lift (x509_ParseCertificate L certblock))"

definition LoadX509CSRFromPEM :: "Lib \<Rightarrow> string \<Rightarrow> CertificateRequest result" where
  "LoadX509CSRFromPEM L certdata =
     and_then (LoadSinglePEMBlock L certdata [''CERTIFICATE REQUEST'']) (\<lambda>pemBlock.
       lift (x509_ParseCertificateRequest L pemBlock))"

definition LoadRSAKeyFromPEM :: "Lib \<Rightarrow> string \<Rightarrow> rsa_PrivateKey result" where
  "LoadRSAKeyFromPEM L keydata =
     and_then (LoadSinglePEMBlock L keydata [''RSA PRIVATE KEY'', ''PRIVATE KEY'']) (\<lambda>keyblock.
       case x509_ParsePKCS1PrivateKey L keyblock of
         Inr privkey \<Rightarrow> Ok privkey
       | Inl _ \<Rightarrow>
           (case x509_ParsePKCS8PrivateKey L keyblock of
              Inr (RSA_Key privkey) \<Rightarrow> Ok privkey
            | Inr (Other_Key _) \<Rightarrow> Err (ErrorNew ''non-RSA private key found in PKCS#8 block'')
            | Inl _ \<Rightarrow> Err (ErrorNew ''could not load PEM private key as PKCS#1 or PKCS#8'')))"

definition ParseSSHTextPubkey :: "Lib \<Rightarrow> string \<Rightarrow> ssh_PublicKey result" where
  "ParseSSHTextPubkey L content =
     and_then (lift (ssh_ParseAuthorizedKey L content)) (\<lambda>(pubkey, rest).
       if 0 < length rest then Err (ErrorNew ''extraneous trailing data after end of pubkey'')
       else if 0 < Count (Trim content (CHR 0x0A)) (CHR 0x0A) then
         Err (ErrorNew ''extraneous leading data before pubkey'')
       else Ok pubkey)"

section \<open>certutil\<close>

definition OIDEmailAddress :: "nat list" where
  "OIDEmailAddress = [1, 2, 840, 113549, 1, 9, 1]"

text \<open>The loop compares \<open>av\<close> with \<open>b[i]\<close>; the lengths are equal where it runs.\<close>

fun oid_loop :: "nat list \<Rightarrow> nat list \<Rightarrow> bool" where
  "oid_loop (av # a) (bv # b) = (if av \<noteq> bv then False else oid_loop a b)"
| "oid_loop a b = True"

definition IsOIDEqual :: "nat list \<Rightarrow> nat list \<Rightarrow> bool" where
  "IsOIDEqual a b = (if length a \<noteq> length b then False else oid_loop a b)"

text \<open>\<open>time.Unix(int64(cert.ValidBefore), 0)\<close>: the unsigned field read as a signed number.\<close>

definition time_Unix :: "int \<Rightarrow> int" where
  "time_Unix sec = sec * time_Second"

definition CheckSSHCertExpiration :: "Lib \<Rightarrow> string \<Rightarrow> int result" where
  "CheckSSHCertExpiration L key =
     and_then (ParseSSHTextPubkey L key) (\<lambda>pubkey.
       case pubkey of
         PlainKey _ _ \<Rightarrow>
           Err (Errorf ''found public key instead of certificate when checking expiration'' [])
       | CertKey _ _ _ _ _ _ validBefore _ _ \<Rightarrow> Ok (time_Unix (sint validBefore)))"

definition CheckTLSCertExpiration :: "Lib \<Rightarrow> string \<Rightarrow> int result" where
  "CheckTLSCertExpiration L certdata =
     and_then (LoadX509CertFromPEM L certdata) (\<lambda>cert. Ok (NotAfter cert))"

text \<open>\<open>rsa.GenerateKey(rand.Reader, bits)\<close> draws from the entropy source; a failed read is an error.\<close>

definition GenerateRSA :: "Lib \<Rightarrow> nat \<Rightarrow> ('a World_scheme, rsa_PrivateKey \<times> string) action" where
  "GenerateRSA L bits w = (case draw w of
       (None, w') \<Rightarrow> (Err (LibError ''rand''), w')
     | (Some r, w') \<Rightarrow>
         (and_then (lift (rsa_GenerateKey L r bits)) (\<lambda>privkey.
            Ok (privkey, pem_EncodeToMemory L \<lparr>PEM_Type = ''RSA PRIVATE KEY'',
                  PEM_Bytes = x509_MarshalPKCS1PrivateKey L privkey\<rparr>)), w'))"

definition FinishCertificate ::
  "Lib \<Rightarrow> Certificate \<Rightarrow> Certificate \<Rightarrow> pubkey \<Rightarrow> rsa_PrivateKey \<Rightarrow> ('a World_scheme, string) action"
where
  "FinishCertificate L template parent pub signer w =
     and_thenS (rand_Int (2 ^ 159) w) (\<lambda>serial w'.
       (and_then (lift (x509_CreateCertificate L
            (template\<lparr>CertSignatureAlgorithm := SHA256WithRSA, SerialNumber := serial\<rparr>)
            parent pub signer)) (\<lambda>signed_cert.
          Ok (pem_EncodeToMemory L \<lparr>PEM_Type = ''CERTIFICATE'', PEM_Bytes = signed_cert\<rparr>)), w'))"

section \<open>csrutil\<close>

definition BuildSSHCSR :: "Lib \<Rightarrow> string \<Rightarrow> string result" where
  "BuildSSHCSR L key =
     (case ssh_ParsePrivateKey L key of
        Inr privkey \<Rightarrow> Ok (ssh_MarshalAuthorizedKey L (SignerPublicKey privkey))
      | Inl _ \<Rightarrow>
          (case ParseSSHTextPubkey L key of
             Ok pubkey \<Rightarrow>
               if Contains (ssh_Type L pubkey) ''cert'' then
                 Err (Errorf ''Expected SSH pubkey file to not have certificate type %s''
                        [ssh_Type L pubkey])
               else Ok (ssh_MarshalAuthorizedKey L pubkey)
           | _ \<Rightarrow> Err (Errorf
               ''could not parse key as pubkey or privkey: %s (as privkey) / %s (as pubkey)'' [])))"

definition BuildTLSCSR :: "Lib \<Rightarrow> string \<Rightarrow> string result" where
  "BuildTLSCSR L privkey =
     and_then (LoadRSAKeyFromPEM L privkey) (\<lambda>key.
     and_then (lift (x509_CreateCertificateRequest L ''invalid-cn-temporary-request''
                       SHA256WithRSA key)) (\<lambda>der.
       Ok (pem_EncodeToMemory L \<lparr>PEM_Type = ''CERTIFICATE REQUEST'', PEM_Bytes = der\<rparr>)))"

section \<open>Lemmas\<close>

lemma LoadSinglePEMBlock_Ok_iff:
  "LoadSinglePEMBlock L data ts = Ok b \<longleftrightarrow>
     HasPrefix data pem_header \<and>
     (\<exists>blk. pem_Decode L data = (Some blk, []) \<and> PEM_Type blk \<in> set ts \<and> PEM_Bytes blk = b)"
  by (auto simp: LoadSinglePEMBlock_def split: option.splits prod.splits if_splits)

lemma is_panic_LoadSinglePEMBlock [simp]: "\<not> is_panic (LoadSinglePEMBlock L data ts)"
  by (auto simp: LoadSinglePEMBlock_def split: option.splits prod.splits)

lemma is_panic_LoadX509CertFromPEM [simp]: "\<not> is_panic (LoadX509CertFromPEM L d)"
  by (simp add: LoadX509CertFromPEM_def is_panic_and_then)

lemma is_panic_LoadX509CSRFromPEM [simp]: "\<not> is_panic (LoadX509CSRFromPEM L d)"
  by (simp add: LoadX509CSRFromPEM_def is_panic_and_then)

lemma is_panic_LoadRSAKeyFromPEM [simp]: "\<not> is_panic (LoadRSAKeyFromPEM L d)"
  by (auto simp: LoadRSAKeyFromPEM_def is_panic_and_then split: sum.splits any_PrivateKey.splits)

lemma is_panic_ParseSSHTextPubkey [simp]: "\<not> is_panic (ParseSSHTextPubkey L d)"
  by (simp add: ParseSSHTextPubkey_def is_panic_and_then)

lemma is_panic_BuildTLSCSR [simp]: "\<not> is_panic (BuildTLSCSR L d)"
  by (simp add: BuildTLSCSR_def is_panic_and_then)

lemma oid_loop_eq: "length a = length b \<Longrightarrow> oid_loop a b = (a = b)"
  by (induction a b rule: oid_loop.induct) auto

lemma IsOIDEqual_eq: "IsOIDEqual a b = (a = b)"
  by (auto simp: IsOIDEqual_def oid_loop_eq)

end
