(* ===== verification/Cert_Authorities.thy ===== *)
theory Cert_Authorities
  imports Cert_Util Go_Http
begin

text \<open>
  The certificate authorities of the keyserver: \<open>keyserver/authorities/ssh.go\<close> and \<open>tls.go\<close>. An
  authority is loaded from a key pair, publishes its public half, signs requests, and (TLS) verifies
  client certificates. The lemmas say that a loaded authority holds a matching pair, what exactly is
  in a certificate it signs, and that the TLS authority is a verifier.
\<close>

section \<open>ssh.go\<close>

record SSHAuthority =
  ssh_key :: ssh_Signer
  ssh_pubkey :: string

record TLSAuthority =
  tls_key :: rsa_PrivateKey
  keyEncoded :: string
  tls_cert :: Certificate
  certEncoded :: string

text \<open>The interface \<open>Authority\<close> and its two implementations.\<close>

datatype Authority = SSHAuth SSHAuthority | TLSAuth TLSAuthority

definition parseSingleSSHKey :: "Lib \<Rightarrow> string \<Rightarrow> ssh_PublicKey result" where
  "parseSingleSSHKey L data =
     and_then (lift (ssh_ParseAuthorizedKey L data)) (\<lambda>(pubkey, rest).
       if length rest > 0 then Err (ErrorNew ''trailing data after end of public key file'')
       else Ok pubkey)"

definition arePublicKeysEqual :: "Lib \<Rightarrow> ssh_PublicKey \<Rightarrow> ssh_PublicKey \<Rightarrow> bool" where
  "arePublicKeysEqual L pk1 pk2 =
     (if ssh_Type L pk1 \<noteq> ssh_Type L pk2 then False else ssh_Marshal L pk1 = ssh_Marshal L pk2)"

definition LoadSSHAuthority :: "Lib \<Rightarrow> string \<Rightarrow> string \<Rightarrow> Authority result" where
  "LoadSSHAuthority L keydata pubkeydata =
     and_then (parseSingleSSHKey L pubkeydata) (\<lambda>pubkey.
     and_then (lift (ssh_ParsePrivateKey L keydata)) (\<lambda>key.
       if \<not> arePublicKeysEqual L pubkey (SignerPublicKey key) then
         Err (Errorf ''public SSH key does not match private SSH key: %s versus %s''
                [ssh_Marshal L pubkey, ssh_Marshal L (SignerPublicKey key)])
       else Ok (SSHAuth \<lparr>ssh_key = key, ssh_pubkey = pubkeydata\<rparr>)))"

definition certType :: "bool \<Rightarrow> 32 word" where
  "certType ishost = (if ishost then 2 else 1)"

definition marshalSSHCert :: "Lib \<Rightarrow> ssh_PublicKey \<Rightarrow> string" where
  "marshalSSHCert L cert =
     ssh_Type L cert @ '' '' @ base64_Std (bytes_of_string (ssh_Marshal L cert)) @ [CHR 0x0A]"

text \<open>\<open>uint64(t.Unix())\<close>: whole seconds, as an unsigned 64-bit number.\<close>

definition unix_uint64 :: "int \<Rightarrow> 64 word" where
  "unix_uint64 t = word_of_int (t div time_Second)"

definition SSHAuthority_Sign ::
  "Lib \<Rightarrow> SSHAuthority \<Rightarrow> string \<Rightarrow> bool \<Rightarrow> int \<Rightarrow> string \<Rightarrow> string list \<Rightarrow> ('a World_scheme, string) action"
where
  "SSHAuthority_Sign L d request ishost lifespan keyid principals w =
     and_thenS (parseSingleSSHKey L request, w) (\<lambda>pubkey w.
     if lifespan < time_Second then
       (Err (ErrorNew ''lifespan is too short (or nonpositive) for certificate signature''), w)
     else if length principals = 0 then
       (Err (ErrorNew ''refusing to sign wildcard certificate''), w)
     else and_thenS (rand_Int (2 ^ 64) w) (\<lambda>serialNumber w1.
       case time_Now w1 of (t1, w2) \<Rightarrow>
       case time_Now w2 of (t2, w3) \<Rightarrow>
       case draw w3 of
         (None, w4) \<Rightarrow> (Err (LibError ''rand''), w4)
       | (Some nonce, w4) \<Rightarrow>
         (let cert = CertKey pubkey keyid (of_nat serialNumber) (certType ishost) principals
                (unix_uint64 t1) (unix_uint64 (t2 + lifespan)) [(''permit-pty'', [])] [] in
          (and_then (lift (ssh_SignCert L nonce cert (ssh_key d))) (\<lambda>signed.
             Ok (marshalSSHCert L signed)), w4))))"

section \<open>tls.go\<close>

definition TLSAuthority_Equal :: "TLSAuthority \<Rightarrow> TLSAuthority \<Rightarrow> bool" where
  "TLSAuthority_Equal t authority = (Raw (tls_cert t) = Raw (tls_cert authority))"

definition LoadTLSAuthority :: "Lib \<Rightarrow> string \<Rightarrow> string \<Rightarrow> Authority result" where
  "LoadTLSAuthority L keydata certdata =
     and_then (LoadRSAKeyFromPEM L keydata) (\<lambda>privkey.
     and_then (LoadX509CertFromPEM L certdata) (\<lambda>cert.
       case CertPublicKey cert of
         RSA_PublicKey n \<Rightarrow>
           if CertPublicKeyAlgorithm cert \<noteq> RSA then
             Err (ErrorNew ''expected RSA public key in certificate'')
           else if n \<noteq> N privkey then Err (ErrorNew ''mismatched RSA public and private keys'')
           else Ok (TLSAuth \<lparr>tls_key = privkey, keyEncoded = keydata, tls_cert = cert,
                      certEncoded = certdata\<rparr>)
       | Other_PublicKey _ \<Rightarrow> Err (ErrorNew ''expected RSA public key in certificate'')))"

text \<open>A certificate pool is the list of its roots.\<close>

definition ToCertPool :: "TLSAuthority \<Rightarrow> Certificate list" where
  "ToCertPool t = [tls_cert t]"

fun GetPublicKey :: "Authority \<Rightarrow> string" where
  "GetPublicKey (SSHAuth d) = ssh_pubkey d"
| "GetPublicKey (TLSAuth t) = certEncoded t"

definition GetPrivateKey :: "TLSAuthority \<Rightarrow> string" where
  "GetPrivateKey t = keyEncoded t"

definition ToHTTPSCert :: "TLSAuthority \<Rightarrow> tls_Certificate" where
  "ToHTTPSCert t = \<lparr>Chain = [Raw (tls_cert t)], ChainKey = RSA_Key (tls_key t), Leaf = None\<rparr>"

definition TLSAuthority_HasAttempt :: "http_Request \<Rightarrow> bool" where
  "TLSAuthority_HasAttempt request = (case TLS request of
       None \<Rightarrow> False
     | Some vchains \<Rightarrow> length vchains > 0 \<and> length (hd vchains) > 0)"

text \<open>\<open>x509.VerifyOptions\<close> without \<open>CurrentTime\<close>: the library reads the clock itself.\<close>

definition TLSAuthority_Verify :: "Lib \<Rightarrow> TLSAuthority \<Rightarrow> http_Request \<Rightarrow> ('a World_scheme, string) action" where
  "TLSAuthority_Verify L t request w =
     (if \<not> TLSAuthority_HasAttempt request then
        (Err (ErrorNew ''client certificate must be present''), w)
      else
        let firstCert = hd (hd (the (TLS request))) in
        case time_Now w of (n, w1) \<Rightarrow>
        case x509_Verify L n firstCert (ToCertPool t) [ExtKeyUsageClientAuth] of (chs, err) \<Rightarrow>
          if length chs = 0 \<or> err \<noteq> None then
            (case errors_Wrap err ''certificate not valid under this authority'' of
               None \<Rightarrow> (Ok [], w1)
             | Some e \<Rightarrow> (Err e, w1))
          else (Ok (CommonName firstCert), w1))"

fun partitionDNSNamesAndIPs :: "string list \<Rightarrow> string list \<times> IP list" where
  "partitionDNSNamesAndIPs [] = ([], [])"
| "partitionDNSNamesAndIPs (name # names) =
     (case partitionDNSNamesAndIPs names of (dnses, ips) \<Rightarrow>
        case ParseIP name of None \<Rightarrow> (name # dnses, ips) | Some ip \<Rightarrow> (dnses, ip # ips))"

definition cert_template ::
  "bool \<Rightarrow> int \<Rightarrow> int \<Rightarrow> string \<Rightarrow> string list \<Rightarrow> string list \<Rightarrow> Certificate" where
  "cert_template ishost issueAt lifespan commonname names organizations =
     (case partitionDNSNamesAndIPs names of (dnsNames, IPs) \<Rightarrow>
      let certTemplate = zero_Certificate\<lparr>
        CertKeyUsage := [KeyUsageDigitalSignature],
        CertExtKeyUsage := [ExtKeyUsageClientAuth],
        BasicConstraintsValid := True, IsCA := False, MaxPathLen := 0, MaxPathLenZero := True,
        NotBefore := issueAt, NotAfter := issueAt + lifespan,
        CommonName := commonname, Organization := organizations,
        DNSNames := dnsNames, IPAddresses := IPs\<rparr> in
      if ishost then
        certTemplate\<lparr>CertExtKeyUsage := CertExtKeyUsage certTemplate @ [ExtKeyUsageServerAuth]\<rparr>
      else certTemplate)"

definition TLSAuthority_Sign ::
  "Lib \<Rightarrow> TLSAuthority \<Rightarrow> string \<Rightarrow> bool \<Rightarrow> int \<Rightarrow> string \<Rightarrow> string list \<Rightarrow> string list \<Rightarrow>
    ('a World_scheme, string) action" where
  "TLSAuthority_Sign L t request ishost lifespan commonname names organizations w =
     and_thenS (LoadX509CSRFromPEM L request, w) (\<lambda>csr w.
     case x509_CheckSignature L csr of
       Some e \<Rightarrow> (Err e, w)
     | None \<Rightarrow>
         (case time_Now w of (issueAt, w1) \<Rightarrow>
            FinishCertificate L (cert_template ishost issueAt lifespan commonname names organizations)
              (tls_cert t) (CSR_PublicKey csr) (tls_key t) w1))"

section \<open>Lemmas\<close>

lemma parseSingleSSHKey_Ok_iff [go_inv]:
  "parseSingleSSHKey L d = Ok k \<longleftrightarrow> ssh_ParseAuthorizedKey L d = Inr (k, [])"
  by (auto simp: parseSingleSSHKey_def and_then_Ok_iff split: if_splits)

lemma is_panic_parseSingleSSHKey [simp]: "\<not> is_panic (parseSingleSSHKey L d)"
  by (auto simp: parseSingleSSHKey_def is_panic_and_then)

lemma is_panic_LoadSSHAuthority [simp]: "\<not> is_panic (LoadSSHAuthority L k p)"
  by (simp add: LoadSSHAuthority_def is_panic_and_then)

lemma is_panic_LoadTLSAuthority [simp]: "\<not> is_panic (LoadTLSAuthority L k p)"
  by (simp add: LoadTLSAuthority_def is_panic_and_then split: pubkey.splits)

lemma partitionDNSNamesAndIPs_eq:
  "partitionDNSNamesAndIPs names =
     (filter (\<lambda>n. ParseIP n = None) names, List.map_filter ParseIP names)"
  by (induction names) (auto simp: List.map_filter_simps split: option.splits)

lemma LoadSSHAuthority_Ok:
  assumes "LoadSSHAuthority L keydata pubkeydata = Ok a"
  shows "\<exists>key pub. a = SSHAuth \<lparr>ssh_key = key, ssh_pubkey = pubkeydata\<rparr> \<and>
    ssh_ParsePrivateKey L keydata = Inr key \<and> ssh_ParseAuthorizedKey L pubkeydata = Inr (pub, []) \<and>
    ssh_Type L pub = ssh_Type L (SignerPublicKey key) \<and>
    ssh_Marshal L pub = ssh_Marshal L (SignerPublicKey key)"
  using assms
  by (auto simp: LoadSSHAuthority_def and_then_Ok_iff parseSingleSSHKey_Ok_iff arePublicKeysEqual_def
      split: if_splits)

lemma LoadTLSAuthority_Ok:
  assumes "LoadTLSAuthority L keydata certdata = Ok a"
  shows "\<exists>key cert. a = TLSAuth \<lparr>tls_key = key, keyEncoded = keydata, tls_cert = cert,
      certEncoded = certdata\<rparr> \<and> LoadRSAKeyFromPEM L keydata = Ok key \<and>
    LoadX509CertFromPEM L certdata = Ok cert \<and> CertPublicKey cert = RSA_PublicKey (N key) \<and>
    CertPublicKeyAlgorithm cert = RSA"
proof -
  obtain key cert where kc: "LoadRSAKeyFromPEM L keydata = Ok key" "LoadX509CertFromPEM L certdata = Ok cert"
    using assms by (auto simp: LoadTLSAuthority_def and_then_Ok_iff)
  with assms show ?thesis
    by (cases "CertPublicKey cert") (auto simp: LoadTLSAuthority_def split: if_splits)
qed

lemma FinishCertificate_Ok:
  assumes "FinishCertificate L template parent pub signer w = (Ok pem, w')"
  shows "\<exists>serial < 2 ^ 159. \<exists>der.
    x509_CreateCertificate L (template\<lparr>CertSignatureAlgorithm := SHA256WithRSA,
      SerialNumber := serial\<rparr>) parent pub signer = Inr der \<and>
    pem = pem_EncodeToMemory L \<lparr>PEM_Type = ''CERTIFICATE'', PEM_Bytes = der\<rparr>"
  using assms
  by (auto simp: FinishCertificate_def and_thenS_Ok_iff and_then_Ok_iff dest!: rand_Int_bound)

lemma FinishCertificate_no_panic [simp]:
  "\<not> is_panic (fst (FinishCertificate L template parent pub signer w))"
  by (auto simp: FinishCertificate_def rand_Int_def draw_def is_panic_and_then split: option.splits)

lemma TLSAuthority_Sign_no_panic [simp]:
  "\<not> is_panic (fst (TLSAuthority_Sign L t request ishost lifespan cn names orgs w))"
  using is_panic_LoadX509CSRFromPEM [of L request]
  by (cases "LoadX509CSRFromPEM L request") (auto simp: TLSAuthority_Sign_def time_Now_def split: option.splits)

lemma SSHAuthority_Sign_no_panic [simp]:
  "\<not> is_panic (fst (SSHAuthority_Sign L d request ishost lifespan keyid ps w))"
  using is_panic_parseSingleSSHKey [of L request]
  by (cases "parseSingleSSHKey L request")
    (auto simp: SSHAuthority_Sign_def rand_Int_def draw_def time_Now_def Let_def is_panic_and_then
      split: option.splits)

text \<open>A TLS authority satisfies the contract of a verifier in every state.\<close>

interpretation tls_verifier: verifier TLSAuthority_HasAttempt "TLSAuthority_Verify L t" "\<lambda>_. True" for L t
proof
  fix r :: http_Request and w :: "'a World_scheme"
  show "\<exists>e. fst (TLSAuthority_Verify L t r w) = Err e" if "\<not> TLSAuthority_HasAttempt r"
    using that by (simp add: TLSAuthority_Verify_def)
  show "\<not> is_panic (fst (TLSAuthority_Verify L t r w))"
    by (auto simp: TLSAuthority_Verify_def Let_def split: prod.splits option.splits)
qed simp

end
