(* ===== verification/Privilege_Calls.thy ===== *)
theory Privilege_Calls
  imports Cert_Authorities Token
begin

text \<open>
  Accounts, groups and privileges: \<open>keyserver/account/account.go\<close> and \<open>privileges.go\<close>. A Go
  \<open>Privilege\<close> is a closure; here it is a value of the datatype \<open>Privilege\<close> that holds what the closure
  captured, made by the constructor function of the same name as in the source and run by
  \<open>call_Privilege\<close>. A closure captures a group by pointer, and groups grow after privileges are made,
  so a privilege holds the address of its group and the groups live in a store. The account that an
  operation acts for is the mutable field of \<open>OperationContext\<close>.
\<close>

section \<open>account.go\<close>

datatype Privilege =
    TLSGrant TLSAuthority bool int string "string list" "string list"
  | SSHGrant SSHAuthority bool int string "string list"
  | Bootstrap nat int
  | Impersonate nat
  | Configuration string
  | FetchKey TLSAuthority

record Account =
  Principal :: string
  DisableDirectAuth :: bool
  LimitIP :: "IP option"
  Privileges :: "string \<rightharpoonup> Privilege"

record Group =
  AllMembers :: "Account list"

fun member_loop :: "Account list \<Rightarrow> string \<Rightarrow> bool" where
  "member_loop [] user = False"
| "member_loop (m # ms) user = (if Principal m = user then True else member_loop ms user)"

definition HasMember :: "Group \<Rightarrow> string \<Rightarrow> bool" where
  "HasMember g user = member_loop (AllMembers g) user"

section \<open>privileges.go\<close>

record OperationContext =
  ctxAccount :: "Account option"

definition NewTLSGrantPrivilege ::
  "TLSAuthority \<Rightarrow> bool \<Rightarrow> int \<Rightarrow> string \<Rightarrow> string list \<Rightarrow> string list \<Rightarrow> Privilege" where
  "NewTLSGrantPrivilege tauth ishost lifespan commonname dnsnames organizations =
     TLSGrant tauth ishost lifespan commonname dnsnames organizations"

definition NewSSHGrantPrivilege ::
  "SSHAuthority \<Rightarrow> bool \<Rightarrow> int \<Rightarrow> string \<Rightarrow> string list \<Rightarrow> Privilege" where
  "NewSSHGrantPrivilege tauth ishost lifespan keyid principals =
     SSHGrant tauth ishost lifespan keyid principals"

text \<open>The registry is a pointer: \<open>None\<close> is nil, \<open>Some ()\<close> the registry of the world.\<close>

definition NewBootstrapPrivilege :: "nat \<Rightarrow> int \<Rightarrow> unit option \<Rightarrow> Privilege result" where
  "NewBootstrapPrivilege allowed lifespan registry =
     (if registry = None then Panic ''expected registry to exist'' else Ok (Bootstrap allowed lifespan))"

definition NewImpersonatePrivilege :: "nat \<Rightarrow> Privilege" where
  "NewImpersonatePrivilege scope = Impersonate scope"

definition NewConfigurationPrivilege :: "string \<Rightarrow> Privilege" where
  "NewConfigurationPrivilege conts = Configuration conts"

definition NewFetchKeyPrivilege :: "TLSAuthority \<Rightarrow> Privilege" where
  "NewFetchKeyPrivilege static = FetchKey static"

text \<open>The bodies of the closures.\<close>

definition bootstrap_call :: "Lib \<Rightarrow> Group \<Rightarrow> int \<Rightarrow> string \<Rightarrow> ('a TokenWorld_scheme, string) action" where
  "bootstrap_call L allowed lifespan encodedPrincipal w =
     (if \<not> HasMember allowed encodedPrincipal then
        (Err (Errorf ''principal not allowed to be bootstrapped: %s'' [encodedPrincipal]), w)
      else GrantToken L encodedPrincipal lifespan w)"

definition impersonate_call ::
  "(string \<Rightarrow> Account result) \<Rightarrow> Group \<Rightarrow> string \<Rightarrow> (OperationContext, string) action" where
  "impersonate_call getAccount scope newPrincipal ctx =
     (if \<not> HasMember scope newPrincipal then
        (Err (ErrorNew ''attempt to impersonate outside of allowed scope''), ctx)
      else and_thenS (getAccount newPrincipal, ctx) (\<lambda>account ctx.
        if Principal account \<noteq> newPrincipal then (Err (ErrorNew ''wrong account returned''), ctx)
        else (Ok [], ctx\<lparr>ctxAccount := Some account\<rparr>)))"

fun call_Privilege ::
  "Lib \<Rightarrow> (string \<Rightarrow> Account result) \<Rightarrow> (nat \<Rightarrow> Group) \<Rightarrow> Privilege \<Rightarrow> string \<Rightarrow>
    (OperationContext \<times> 'a TokenWorld_scheme, string) action" where
  "call_Privilege L getAccount groups
       (TLSGrant tauth ishost lifespan commonname dnsnames organizations) signingRequest (ctx, w) =
     (case TLSAuthority_Sign L tauth signingRequest ishost lifespan commonname dnsnames organizations w of
        (r, w') \<Rightarrow> (r, ctx, w'))"
| "call_Privilege L getAccount groups
       (SSHGrant tauth ishost lifespan keyid principals) signingRequest (ctx, w) =
     (case SSHAuthority_Sign L tauth signingRequest ishost lifespan keyid principals w of
        (r, w') \<Rightarrow> (r, ctx, w'))"
| "call_Privilege L getAccount groups (Bootstrap allowed lifespan) encodedPrincipal (ctx, w) =
     (case bootstrap_call L (groups allowed) lifespan encodedPrincipal w of (r, w') \<Rightarrow> (r, ctx, w'))"
| "call_Privilege L getAccount groups (Impersonate scope) newPrincipal (ctx, w) =
     (case impersonate_call getAccount (groups scope) newPrincipal ctx of (r, ctx') \<Rightarrow> (r, ctx', w))"
| "call_Privilege L getAccount groups (Configuration conts) request (ctx, w) =
     (if length request \<noteq> 0 then
        (Err (ErrorNew ''expected empty request to configuration endpoint''), ctx, w)
      else (Ok conts, ctx, w))"
| "call_Privilege L getAccount groups (FetchKey static) request (ctx, w) =
     (if length request \<noteq> 0 then
        (Err (ErrorNew ''expected empty request to fetch-key endpoint''), ctx, w)
      else (Ok (GetPrivateKey static), ctx, w))"

section \<open>Lemmas\<close>

lemma HasMember_iff: "HasMember g p \<longleftrightarrow> p \<in> Principal ` set (AllMembers g)"
proof -
  have "member_loop ms p \<longleftrightarrow> p \<in> Principal ` set ms" for ms
    by (induction ms) auto
  then show ?thesis by (simp add: HasMember_def)
qed

lemma impersonate_call_Ok_iff:
  "impersonate_call getAccount scope p ctx = (Ok r, ctx') \<longleftrightarrow>
     r = [] \<and> HasMember scope p \<and>
     (\<exists>a. getAccount p = Ok a \<and> Principal a = p \<and> ctx' = ctx\<lparr>ctxAccount := Some a\<rparr>)"
  by (auto simp: impersonate_call_def and_thenS_Ok_iff)

text \<open>The signing calls read the clock and the entropy source and leave the registry alone.\<close>

lemma rand_Int_keeps [simp]:
  "byToken (snd (rand_Int n w)) = byToken w" "Onces (snd (rand_Int n w)) = Onces w"
  by (auto simp: rand_Int_def draw_def split: option.splits)

lemma FinishCertificate_world:
  "snd (FinishCertificate L template parent pub signer w) = snd (rand_Int (2 ^ 159) w)"
  by (cases "rand_Int (2 ^ 159) w"; cases "fst (rand_Int (2 ^ 159) w)")
    (auto simp: FinishCertificate_def)

lemma TLSAuthority_Sign_keeps [simp]:
  "byToken (snd (TLSAuthority_Sign L t request ishost lifespan cn names orgs w)) = byToken w"
  "Onces (snd (TLSAuthority_Sign L t request ishost lifespan cn names orgs w)) = Onces w"
  by (cases "LoadX509CSRFromPEM L request";
      auto simp: TLSAuthority_Sign_def FinishCertificate_world time_Now_def split: option.splits)+

lemma SSHAuthority_Sign_keeps [simp]:
  "byToken (snd (SSHAuthority_Sign L d request ishost lifespan keyid ps w)) = byToken w"
  "Onces (snd (SSHAuthority_Sign L d request ishost lifespan keyid ps w)) = Onces w"
  by (cases "parseSingleSSHKey L request";
      auto simp: SSHAuthority_Sign_def rand_Int_def draw_def time_Now_def Let_def split: option.splits)+

text \<open>
  Every call keeps the registry well-formed and keeps a property of token subjects that holds of
  all members of the groups.
\<close>

definition subjects_in :: "string set \<Rightarrow> 'a TokenWorld_scheme \<Rightarrow> bool" where
  "subjects_in P w = (\<forall>(k, t)\<in>set (byToken w). Subject t \<in> P)"

lemma subjects_in_expire: "subjects_in P w \<Longrightarrow> subjects_in P (expireOldEntries w)"
  using expire_loop_subset [of "byToken w" w]
  by (auto simp: subjects_in_def expireOldEntries_sel)

lemma GenerateToken_not_Ok:
  assumes "GenerateToken L p d w = (r, w')" and "\<not> is_ok r"
  shows "byToken w' = byToken w" "Onces w' = Onces w"
  using assms
  by (auto simp: GenerateToken_def generateTokenID_def rand_Read_def draw_def time_Now_def Let_def
      str_slice_def split: option.splits if_splits)

lemma GrantToken_keeps:
  assumes "registry_ok w" and "subjects_in P w" and "p \<in> P"
  shows "registry_ok (snd (GrantToken L p d w))" "subjects_in P (snd (GrantToken L p d w))"
proof -
  let ?w = "expireOldEntries w"
  have ok: "registry_ok ?w" "subjects_in P ?w"
    using assms by (simp_all add: registry_ok_expire subjects_in_expire)
  obtain r w1 where g: "GenerateToken L p d ?w = (r, w1)" by fastforce
  have "registry_ok (snd (GrantToken L p d w)) \<and> subjects_in P (snd (GrantToken L p d w))"
  proof (cases "is_ok r")
    case False
    then have "snd (GrantToken L p d w) = w1" by (cases r) (auto simp: GrantToken_def g)
    with GenerateToken_not_Ok [OF g False] ok show ?thesis
      by (simp add: registry_ok_def subjects_in_def)
  next
    case True
    then obtain t where r: "r = Ok t" by (auto simp: is_ok_iff)
    note gen = GenerateToken_Ok [OF g [unfolded r]]
    have w1: "registry_ok w1" "subjects_in P w1"
      using ok gen by (auto simp: registry_ok_def subjects_in_def intro: token_ok_mono)
    have "token_ok (length (Onces w1)) t" "fresh_once w1 t"
      using gen registry_ok_claimed_bound [OF ok(1)] by (auto simp: token_ok_def fresh_once_def)
    with w1 gen(1) assms(3) registry_ok_add [of w1 t] show ?thesis
      by (auto simp: GrantToken_def g r addToken_def subjects_in_def)
  qed
  then show "registry_ok (snd (GrantToken L p d w))" "subjects_in P (snd (GrantToken L p d w))"
    by simp_all
qed

text \<open>
  Every privilege call keeps the registry well-formed, and a set \<open>P\<close> that contains the members of
  the groups of bootstrap privileges keeps containing every token subject.
\<close>

fun bootstraps_in :: "string set \<Rightarrow> (nat \<Rightarrow> Group) \<Rightarrow> Privilege \<Rightarrow> bool" where
  "bootstraps_in P groups (Bootstrap g d) = (Principal ` set (AllMembers (groups g)) \<subseteq> P)"
| "bootstraps_in P groups p = True"

lemma registry_ok_cong:
  "byToken w' = byToken w \<Longrightarrow> Onces w' = Onces w \<Longrightarrow> registry_ok w' = registry_ok w"
  by (simp add: registry_ok_def)

lemma subjects_in_cong: "byToken w' = byToken w \<Longrightarrow> subjects_in P w' = subjects_in P w"
  by (simp add: subjects_in_def)

lemma bootstrap_call_keeps:
  assumes "registry_ok w" and "subjects_in P w" and "Principal ` set (AllMembers g) \<subseteq> P"
  shows "registry_ok (snd (bootstrap_call L g d p w)) \<and> subjects_in P (snd (bootstrap_call L g d p w))"
  using assms GrantToken_keeps [OF assms(1,2), of p]
  by (auto simp: bootstrap_call_def HasMember_iff)

lemma call_Privilege_keeps:
  assumes "registry_ok w" and "subjects_in P w" and "bootstraps_in P groups priv"
  shows "registry_ok (snd (snd (call_Privilege L ga groups priv param (ctx, w)))) \<and>
    subjects_in P (snd (snd (call_Privilege L ga groups priv param (ctx, w))))"
proof (cases priv)
  case (TLSGrant t ishost lifespan cn names orgs)
  let ?s = "TLSAuthority_Sign L t param ishost lifespan cn names orgs w"
  have "registry_ok (snd ?s)" "subjects_in P (snd ?s)"
    using assms(1,2) by (simp_all add: registry_ok_def subjects_in_def)
  then show ?thesis using TLSGrant by (cases ?s) simp
next
  case (SSHGrant d ishost lifespan keyid ps)
  let ?s = "SSHAuthority_Sign L d param ishost lifespan keyid ps w"
  have "registry_ok (snd ?s)" "subjects_in P (snd ?s)"
    using assms(1,2) by (simp_all add: registry_ok_def subjects_in_def)
  then show ?thesis using SSHGrant by (cases ?s) simp
next
  case (Bootstrap g d)
  then show ?thesis using bootstrap_call_keeps [OF assms(1,2), of "groups g" L d param] assms(3)
    by (cases "bootstrap_call L (groups g) d param w") simp
next
  case (Impersonate g)
  then show ?thesis using assms by (cases "impersonate_call ga (groups g) param ctx") simp
qed (use assms in auto)

text \<open>Only an impersonation changes the account; every other privilege leaves the context alone.\<close>

lemma call_Privilege_ctx:
  assumes "call_Privilege L ga groups priv param (ctx, w) = (r, ctx', w')"
  shows "ctx' = ctx \<or> (\<exists>g a. priv = Impersonate g \<and> r = Ok [] \<and> HasMember (groups g) param \<and>
    ga param = Ok a \<and> Principal a = param \<and> ctx' = ctx\<lparr>ctxAccount := Some a\<rparr>)"
proof (cases priv)
  case (Impersonate g)
  then have i: "impersonate_call ga (groups g) param ctx = (r, ctx')"
    using assms by (auto split: prod.splits)
  show ?thesis
    using i Impersonate
    by (cases "ga param") (auto simp: impersonate_call_def split: if_splits)
qed (use assms in \<open>auto split: prod.splits if_splits\<close>)

end
