(* ===== verification/Context_Config.thy ===== *)
theory Context_Config
  imports Privilege_Calls
begin

text \<open>
  The keyserver's configuration context: \<open>keyserver/config/config.go\<close> (the authorities and how they
  are loaded from files) and \<open>context.go\<close> (the context and the lookup of accounts). The context also
  carries the store of the groups that privileges point to.
\<close>

section \<open>config.go\<close>

datatype AuthorityType = InvalidAuthorityType | TLSAuthorityType | SSHAuthorityType

record ConfigAuthority =
  AType :: AuthorityType
  AName :: string

definition Filenames :: "ConfigAuthority \<Rightarrow> (string \<times> string) result" where
  "Filenames t = (case AType t of
       TLSAuthorityType \<Rightarrow> Ok (AName t @ ''.key'', AName t @ ''.pem'')
     | SSHAuthorityType \<Rightarrow> Ok (AName t, AName t @ ''.pub'')
     | InvalidAuthorityType \<Rightarrow> Panic ''invalid authority type in Filenames'')"

definition config_TLSAuthority :: "string \<Rightarrow> ConfigAuthority" where
  "config_TLSAuthority name = \<lparr>AType = TLSAuthorityType, AName = name\<rparr>"

definition config_SSHAuthority :: "string \<Rightarrow> ConfigAuthority" where
  "config_SSHAuthority name = \<lparr>AType = SSHAuthorityType, AName = name\<rparr>"

definition ConfigAuthority_Load ::
  "Lib \<Rightarrow> ConfigAuthority \<Rightarrow> string \<Rightarrow> ('a FsWorld_scheme, Authority) action" where
  "ConfigAuthority_Load L a dir w =
     (if dir = [] then (Err (ErrorNew ''empty directory path''), w)
      else and_thenS (Filenames a, w) (\<lambda>(keyfile, certfile) w.
        and_thenS (ReadFile (path_Join dir keyfile) w) (\<lambda>keydata w.
        and_thenS (ReadFile (path_Join dir certfile) w) (\<lambda>certdata w.
          (case AType a of
             TLSAuthorityType \<Rightarrow> LoadTLSAuthority L keydata certdata
           | SSHAuthorityType \<Rightarrow> LoadSSHAuthority L keydata certdata
           | InvalidAuthorityType \<Rightarrow> Panic ''invalid authority type in ConfigAuthority.Load'', w)))))"

section \<open>context.go\<close>

record StaticFile =
  Filepath :: string

record Context =
  Authorities :: "string \<rightharpoonup> Authority"
  Accounts :: "string \<rightharpoonup> Account"
  Registry :: "unit option"
  AuthenticationAuthority :: "TLSAuthority option"
  ClusterCA :: "TLSAuthority option"
  StaticFiles :: "(string \<times> StaticFile) list"
  KeyserverDNS :: string
  GroupStore :: "nat \<Rightarrow> Group"

definition GetAccount :: "Context \<Rightarrow> string \<Rightarrow> Account result" where
  "GetAccount ctx princ = (case Accounts ctx princ of
       None \<Rightarrow> Err (Errorf ''cannot find account for principal %s'' [princ])
     | Some ac \<Rightarrow>
         if Principal ac \<noteq> princ then Err (ErrorNew ''mismatched principal during lookup'')
         else Ok ac)"

section \<open>Lemmas\<close>

lemma GetAccount_Ok_iff [go_inv]:
  "GetAccount c p = Ok a \<longleftrightarrow> Accounts c p = Some a \<and> Principal a = p"
  by (auto simp: GetAccount_def split: option.splits)

lemma is_panic_GetAccount [simp]: "\<not> is_panic (GetAccount c p)"
  by (auto simp: GetAccount_def split: option.splits)

lemma GetAccount_not_Panic [simp]: "GetAccount c p \<noteq> Panic m"
  by (auto simp: GetAccount_def split: option.splits)

lemma is_panic_ReadFile [simp]: "\<not> is_panic (fst (ReadFile p w))"
  by (auto simp: ReadFile_def is_panic_and_then split: option.splits prod.splits fnode.splits)

text \<open>A configured authority loads as an authority of its own kind, and does not panic.\<close>

lemma ConfigAuthority_Load_kind:
  assumes "ConfigAuthority_Load L a dir w = (Ok auth, w')"
  shows "(AType a = TLSAuthorityType \<longrightarrow> (\<exists>t. auth = TLSAuth t)) \<and>
    (AType a = SSHAuthorityType \<longrightarrow> (\<exists>d. auth = SSHAuth d))"
proof (cases "AType a")
  case TLSAuthorityType
  then obtain k c where "LoadTLSAuthority L k c = Ok auth"
    using assms by (auto simp: ConfigAuthority_Load_def Filenames_def and_thenS_Ok_iff split: if_splits)
  with LoadTLSAuthority_Ok TLSAuthorityType show ?thesis by fastforce
next
  case SSHAuthorityType
  then obtain k c where "LoadSSHAuthority L k c = Ok auth"
    using assms by (auto simp: ConfigAuthority_Load_def Filenames_def and_thenS_Ok_iff split: if_splits)
  with LoadSSHAuthority_Ok SSHAuthorityType show ?thesis by fastforce
qed simp

lemma is_panic_and_thenS:
  "is_panic (fst (and_thenS rs k)) \<longleftrightarrow>
     is_panic (fst rs) \<or> (\<exists>x s. rs = (Ok x, s) \<and> is_panic (fst (k x s)))"
  by (cases rs; cases "fst rs") auto

lemma no_panic_and_thenS:
  assumes "\<not> is_panic (fst rs)" and "\<And>x s. rs = (Ok x, s) \<Longrightarrow> \<not> is_panic (fst (k x s))"
  shows "\<not> is_panic (fst (and_thenS rs k))"
  using assms by (cases rs; cases "fst rs") auto

lemma ConfigAuthority_Load_no_panic:
  assumes "AType a \<noteq> InvalidAuthorityType"
  shows "\<not> is_panic (fst (ConfigAuthority_Load L a dir w))"
  using assms
  by (cases "AType a")
    (simp_all add: ConfigAuthority_Load_def Filenames_def is_panic_and_thenS)

end
