(* ===== verification/Operations.thy ===== *)
theory Operations
  imports Context_Config
begin

text \<open>
  \<open>keyserver/operation/operation.go\<close>: a request body is a JSON list of operations, each naming an API
  and its parameter; they run in order for the account that the context holds at that moment, which
  an impersonation may change for the operations after it. The abstract specification is
  \<open>authorized\<close>: which sequences of operations an account may perform. The theorems: success implies
  authorization, and the first operation without a privilege stops the set with the error that
  names it.
\<close>

section \<open>Decoding\<close>

text \<open>
  \<open>json.Unmarshal\<close> into \<open>[]map[string]string\<close>, on the parsed value: \<open>null\<close> gives the zero value
  (a nil slice, a nil map, an empty string), the last of several equal keys wins, and any other
  kind of value is a type error.
\<close>

definition type_error :: error where "type_error = LibError ''json: cannot unmarshal''"

fun decode_string :: "json \<Rightarrow> string result" where
  "decode_string (JString s) = Ok s"
| "decode_string JNull = Ok []"
| "decode_string _ = Err type_error"

fun decode_fields :: "(string \<rightharpoonup> string) \<Rightarrow> (string \<times> json) list \<Rightarrow> (string \<rightharpoonup> string) result" where
  "decode_fields m [] = Ok m"
| "decode_fields m ((k, v) # kvs) =
     and_then (decode_string v) (\<lambda>s. decode_fields (m(k \<mapsto> s)) kvs)"

fun decode_map :: "json \<Rightarrow> (string \<rightharpoonup> string) result" where
  "decode_map (JObject kvs) = decode_fields Map.empty kvs"
| "decode_map JNull = Ok Map.empty"
| "decode_map _ = Err type_error"

fun decode_maps :: "json list \<Rightarrow> (string \<rightharpoonup> string) list result" where
  "decode_maps [] = Ok []"
| "decode_maps (j # js) = and_then (decode_map j) (\<lambda>m. and_then (decode_maps js) (\<lambda>ms. Ok (m # ms)))"

fun decode_ops :: "json \<Rightarrow> (string \<rightharpoonup> string) list result" where
  "decode_ops (JArray js) = decode_maps js"
| "decode_ops JNull = Ok []"
| "decode_ops _ = Err type_error"

section \<open>operation.go\<close>

definition InvokeAPIOperation ::
  "Lib \<Rightarrow> Context \<Rightarrow> string \<Rightarrow> string \<Rightarrow> (OperationContext \<times> 'a TokenWorld_scheme, string) action" where
  "InvokeAPIOperation L gctx API requestBody s =
     (case ctxAccount (fst s) of
        None \<Rightarrow> (Err (ErrorNew ''missing account during request''), s)
      | Some acct \<Rightarrow>
          (case Privileges acct API of
             None \<Rightarrow> (Err (OperationForbiddenError (Principal acct) API), s)
           | Some priv \<Rightarrow> call_Privilege L (GetAccount gctx) (GroupStore gctx) priv requestBody s))"

fun ops_loop ::
  "Lib \<Rightarrow> Context \<Rightarrow> (string \<rightharpoonup> string) list \<Rightarrow>
    (OperationContext \<times> 'a TokenWorld_scheme, string list) action" where
  "ops_loop L context [] s = (Ok [], s)"
| "ops_loop L context (operation # ops) s =
     (case operation ''api'' of
        None \<Rightarrow> (Err (ErrorNew ''missing API request in JSON''), s)
      | Some api \<Rightarrow>
          (case operation ''body'' of
             None \<Rightarrow> (Err (ErrorNew ''missing body request in JSON''), s)
           | Some body \<Rightarrow>
               and_thenS (InvokeAPIOperation L context api body s) (\<lambda>result s.
               and_thenS (ops_loop L context ops s) (\<lambda>results s. (Ok (result # results), s)))))"

definition json_strings :: "Lib \<Rightarrow> string list \<Rightarrow> string" where
  "json_strings L results = json_Print L (JArray (map JString results))"

definition InvokeAPIOperationSet ::
  "Lib \<Rightarrow> Account option \<Rightarrow> Context \<Rightarrow> string \<Rightarrow> ('a TokenWorld_scheme, string) action" where
  "InvokeAPIOperationSet L a context requestBody w =
     and_thenS (and_then (lift (json_Parse L requestBody)) decode_ops, w) (\<lambda>ops w.
       case ops_loop L context ops (\<lparr>ctxAccount = a\<rparr>, w) of (r, ctx, w') \<Rightarrow>
         (and_then r (\<lambda>results. Ok (json_strings L results)), w'))"

section \<open>The specification\<close>

text \<open>
  An operation is a pair of an API and a body. \<open>authorized c a ops\<close>: the account \<open>a\<close> has a
  privilege for the first operation, and the rest is authorized for the account that acts then,
  which is the account named in the body after an impersonation in scope, and \<open>a\<close> otherwise.
\<close>

fun acts_next :: "Context \<Rightarrow> Account \<Rightarrow> string \<times> string \<Rightarrow> Account option" where
  "acts_next c a (api, body) =
     (case Privileges a api of
        None \<Rightarrow> None
      | Some (Impersonate g) \<Rightarrow>
          if HasMember (GroupStore c g) body then
            (case Accounts c body of
               Some b \<Rightarrow> if Principal b = body then Some b else None
             | None \<Rightarrow> None)
          else None
      | Some _ \<Rightarrow> Some a)"

fun authorized :: "Context \<Rightarrow> Account \<Rightarrow> (string \<times> string) list \<Rightarrow> bool" where
  "authorized c a [] = True"
| "authorized c a (op # ops) =
     (case acts_next c a op of None \<Rightarrow> False | Some b \<Rightarrow> authorized c b ops)"

text \<open>The account that acts after a sequence of operations.\<close>

fun acting :: "Context \<Rightarrow> Account \<Rightarrow> (string \<times> string) list \<Rightarrow> Account option" where
  "acting c a [] = Some a"
| "acting c a (op # ops) = (case acts_next c a op of None \<Rightarrow> None | Some b \<Rightarrow> acting c b ops)"

text \<open>The map that an operation is on the wire, and back.\<close>

definition op_map :: "string \<times> string \<Rightarrow> (string \<rightharpoonup> string)" where
  "op_map op = [''api'' \<mapsto> fst op, ''body'' \<mapsto> snd op]"

definition op_of :: "(string \<rightharpoonup> string) \<Rightarrow> string \<times> string" where
  "op_of m = (the (m ''api''), the (m ''body''))"

definition op_complete :: "(string \<rightharpoonup> string) \<Rightarrow> bool" where
  "op_complete m = (m ''api'' \<noteq> None \<and> m ''body'' \<noteq> None)"

lemma op_of_map [simp]: "op_of (op_map op) = op" "op_complete (op_map op)"
  by (simp_all add: op_of_def op_map_def op_complete_def)

section \<open>Refinement\<close>

lemma acting_authorized: "authorized c a ops \<longleftrightarrow> acting c a ops \<noteq> None"
  by (induction c a ops rule: authorized.induct) (auto split: option.splits)

lemma InvokeAPIOperation_Ok:
  assumes "InvokeAPIOperation L c api body (\<lparr>ctxAccount = Some a\<rparr>, w) = (Ok r, s')"
  shows "\<exists>b w'. acts_next c a (api, body) = Some b \<and> s' = (\<lparr>ctxAccount = Some b\<rparr>, w')"
proof -
  from assms obtain priv where priv: "Privileges a api = Some priv"
    and call: "call_Privilege L (GetAccount c) (GroupStore c) priv body (\<lparr>ctxAccount = Some a\<rparr>, w) = (Ok r, s')"
    by (auto simp: InvokeAPIOperation_def split: option.splits)
  obtain ctx' w' where s': "s' = (ctx', w')" by (cases s')
  show ?thesis
  proof (cases priv)
    case (Impersonate g)
    then have "impersonate_call (GetAccount c) (GroupStore c g) body \<lparr>ctxAccount = Some a\<rparr> = (Ok r, ctx')"
      using call s' by (auto split: prod.splits)
    then show ?thesis
      using priv Impersonate s' by (auto simp: impersonate_call_Ok_iff GetAccount_Ok_iff)
  qed (use call priv s' in \<open>auto split: prod.splits if_splits\<close>)
qed

lemma ops_loop_Ok:
  assumes "ops_loop L c ops (\<lparr>ctxAccount = Some a\<rparr>, w) = (Ok rs, s')"
  shows "list_all op_complete ops \<and> length rs = length ops \<and>
    (\<exists>b w'. acting c a (map op_of ops) = Some b \<and> s' = (\<lparr>ctxAccount = Some b\<rparr>, w'))"
  using assms
proof (induction ops arbitrary: a w rs)
  case (Cons m ops)
  then obtain api body r s1 rs' where m: "m ''api'' = Some api" "m ''body'' = Some body"
    and i: "InvokeAPIOperation L c api body (\<lparr>ctxAccount = Some a\<rparr>, w) = (Ok r, s1)"
    and l: "ops_loop L c ops s1 = (Ok rs', s')" and rs: "rs = r # rs'"
    by (auto simp: and_thenS_Ok_iff split: option.splits)
  obtain b w1 where b: "acts_next c a (api, body) = Some b" and s1: "s1 = (\<lparr>ctxAccount = Some b\<rparr>, w1)"
    using InvokeAPIOperation_Ok [OF i] by blast
  from Cons.IH [of b w1 rs'] l s1 m b rs show ?case by (simp add: op_complete_def op_of_def)
qed auto

lemma InvokeAPIOperationSet_Ok:
  assumes "InvokeAPIOperationSet L a c body w = (Ok resp, w')"
  obtains j ops rs ctx where "json_Parse L body = Inr j" "decode_ops j = Ok ops"
    "ops_loop L c ops (\<lparr>ctxAccount = a\<rparr>, w) = (Ok rs, ctx, w')" "resp = json_strings L rs"
proof -
  obtain j ops where j: "json_Parse L body = Inr j" and ops: "decode_ops j = Ok ops"
    using assms by (auto simp: InvokeAPIOperationSet_def and_thenS_Ok_iff and_then_Ok_iff)
  obtain r ctx w1 where l: "ops_loop L c ops (\<lparr>ctxAccount = a\<rparr>, w) = (r, ctx, w1)"
    by (metis prod_cases3)
  have "and_then r (\<lambda>results. Ok (json_strings L results)) = Ok resp" "w1 = w'"
    using assms by (simp_all add: InvokeAPIOperationSet_def j ops l)
  then show thesis using that j ops l by (auto simp: and_then_Ok_iff)
qed

text \<open>
  C5: a set of operations that succeeds was authorized: it decodes to complete operations, the
  account had, at each of them, a privilege for its API (its own, or that of an account it was
  allowed to impersonate by an earlier operation of the set), and the response is the list of one
  result per operation, in order.
\<close>

theorem OperationSet_authorized:
  assumes "InvokeAPIOperationSet L (Some a) c body w = (Ok resp, w')"
  shows "\<exists>j ops rs. json_Parse L body = Inr j \<and> decode_ops j = Ok ops \<and>
    list_all op_complete ops \<and> authorized c a (map op_of ops) \<and>
    length rs = length ops \<and> resp = json_strings L rs"
proof -
  obtain j ops rs ctx where "json_Parse L body = Inr j" "decode_ops j = Ok ops" "resp = json_strings L rs"
    and l: "ops_loop L c ops (\<lparr>ctxAccount = Some a\<rparr>, w) = (Ok rs, ctx, w')"
    using assms by (rule InvokeAPIOperationSet_Ok)
  with ops_loop_Ok [OF l] show ?thesis by (auto simp: acting_authorized)
qed

lemma ops_loop_append:
  "ops_loop L c (xs @ ys) s =
     and_thenS (ops_loop L c xs s) (\<lambda>rs s. and_thenS (ops_loop L c ys s) (\<lambda>rs' s. (Ok (rs @ rs'), s)))"
proof (induction xs arbitrary: s)
  case Nil
  show ?case by (cases "ops_loop L c ys s"; cases "fst (ops_loop L c ys s)") auto
next
  case (Cons m xs)
  have assoc: "and_thenS (and_thenS rs k) h = and_thenS rs (\<lambda>x s. and_thenS (k x s) h)"
    for rs :: "'x result \<times> 's" and k :: "'x \<Rightarrow> 's \<Rightarrow> 'y result \<times> 's" and h :: "'y \<Rightarrow> 's \<Rightarrow> 'z result \<times> 's"
    by (cases rs; cases "fst rs") auto
  show ?case by (simp add: Cons.IH assoc split: option.splits)
qed

text \<open>
  C34: the first operation for which the acting account has no privilege ends the set with the error
  that names this account and the API, whatever comes after it; what the operations before it did to
  the state stays done.
\<close>

theorem OperationSet_forbidden:
  assumes "json_Parse L body = Inr j" and "decode_ops j = Ok (done @ m # rest)"
    and "ops_loop L c done (\<lparr>ctxAccount = Some a\<rparr>, w) = (Ok rs, ctx, w')"
    and "acting c a (map op_of done) = Some b"
    and "op_complete m" and "Privileges b (the (m ''api'')) = None"
  shows "InvokeAPIOperationSet L (Some a) c body w =
    (Err (OperationForbiddenError (Principal b) (the (m ''api''))), w')"
proof -
  have "ctx = \<lparr>ctxAccount = Some b\<rparr>" using ops_loop_Ok [OF assms(3)] assms(4) by auto
  with assms show ?thesis
    by (auto simp: InvokeAPIOperationSet_def ops_loop_append op_complete_def InvokeAPIOperation_def)
qed

text \<open>The registry stays well-formed, and its subjects stay within what the privileges allow.\<close>

definition context_bootstraps_in :: "string set \<Rightarrow> Context \<Rightarrow> bool" where
  "context_bootstraps_in P c =
     (\<forall>p a. Accounts c p = Some a \<longrightarrow> (\<forall>api priv. Privileges a api = Some priv \<longrightarrow>
        bootstraps_in P (GroupStore c) priv))"

lemma InvokeAPIOperation_keeps:
  assumes "registry_ok w" and "subjects_in P w" and "context_bootstraps_in P c"
    and "Accounts c p = Some a"
    and "InvokeAPIOperation L c api body (\<lparr>ctxAccount = Some a\<rparr>, w) = (r, ctx, w')"
  shows "registry_ok w' \<and> subjects_in P w' \<and> (\<exists>q b. Accounts c q = Some b \<and> ctx = \<lparr>ctxAccount = Some b\<rparr>)"
proof (cases "Privileges a api")
  case None
  with assms show ?thesis by (auto simp: InvokeAPIOperation_def)
next
  case (Some priv)
  then have call: "call_Privilege L (GetAccount c) (GroupStore c) priv body (\<lparr>ctxAccount = Some a\<rparr>, w) = (r, ctx, w')"
    using assms(5) by (simp add: InvokeAPIOperation_def)
  have "bootstraps_in P (GroupStore c) priv"
    using assms(3,4) Some unfolding context_bootstraps_in_def by blast
  from call_Privilege_keeps [OF assms(1,2) this, of L "GetAccount c" body "\<lparr>ctxAccount = Some a\<rparr>"]
  have "registry_ok w' \<and> subjects_in P w'" by (simp add: call)
  with call_Privilege_ctx [OF call] assms(4) show ?thesis
    by (auto simp: GetAccount_Ok_iff)
qed

lemma ops_loop_keeps:
  assumes "registry_ok w" and "subjects_in P w" and "context_bootstraps_in P c"
    and "Accounts c p = Some a"
  shows "registry_ok (snd (snd (ops_loop L c ops (\<lparr>ctxAccount = Some a\<rparr>, w)))) \<and>
    subjects_in P (snd (snd (ops_loop L c ops (\<lparr>ctxAccount = Some a\<rparr>, w))))"
  using assms
proof (induction ops arbitrary: p a w)
  case (Cons m ops)
  show ?case
  proof (cases "op_complete m")
    case False
    with Cons.prems show ?thesis by (auto simp: op_complete_def split: option.splits)
  next
    case True
    then obtain api body where m: "m ''api'' = Some api" "m ''body'' = Some body"
      by (auto simp: op_complete_def)
    obtain r ctx w1 where i: "InvokeAPIOperation L c api body (\<lparr>ctxAccount = Some a\<rparr>, w) = (r, ctx, w1)"
      by (metis prod_cases3)
    from InvokeAPIOperation_keeps [OF Cons.prems i]
    obtain q b where k: "registry_ok w1" "subjects_in P w1" "Accounts c q = Some b"
      and ctx: "ctx = \<lparr>ctxAccount = Some b\<rparr>" by blast
    have snd_eq: "snd (and_thenS rs (\<lambda>results s. (Ok (x # results), s))) = snd rs"
      for rs :: "string list result \<times> OperationContext \<times> 'a TokenWorld_scheme" and x
      by (cases rs; cases "fst rs") auto
    show ?thesis
      using Cons.IH [OF k(1,2) Cons.prems(3) k(3)] k(1,2)
      by (cases r) (simp_all add: m i ctx snd_eq)
  qed
qed simp

lemma InvokeAPIOperationSet_keeps:
  assumes "registry_ok w" and "subjects_in P w" and "context_bootstraps_in P c"
    and "Accounts c p = Some a"
  shows "registry_ok (snd (InvokeAPIOperationSet L (Some a) c body w)) \<and>
    subjects_in P (snd (InvokeAPIOperationSet L (Some a) c body w))"
proof (cases "and_then (lift (json_Parse L body)) decode_ops")
  case (Ok ops)
  obtain r ctx w1 where l: "ops_loop L c ops (\<lparr>ctxAccount = Some a\<rparr>, w) = (r, ctx, w1)"
    by (metis prod_cases3)
  then show ?thesis using ops_loop_keeps [OF assms, of L ops]
    by (simp add: InvokeAPIOperationSet_def Ok)
qed (use assms in \<open>simp_all add: InvokeAPIOperationSet_def\<close>)

section \<open>Evaluation on concrete inputs\<close>

definition demo_node :: Account where
  "demo_node = \<lparr>Principal = ''node.example'', DisableDirectAuth = False, LimitIP = None,
     Privileges = [''auth-to-kerberos'' \<mapsto> Impersonate 1, ''get-local-config'' \<mapsto> Configuration ''KIND=worker'']\<rparr>"

definition demo_admin :: Account where
  "demo_admin = \<lparr>Principal = ''admin'', DisableDirectAuth = True, LimitIP = None,
     Privileges = [''bootstrap'' \<mapsto> Bootstrap 0 100]\<rparr>"

definition demo_context :: Context where
  "demo_context = \<lparr>Authorities = Map.empty,
     Accounts = [''node.example'' \<mapsto> demo_node, ''admin'' \<mapsto> demo_admin], Registry = Some (),
     AuthenticationAuthority = None, ClusterCA = None, StaticFiles = [], KeyserverDNS = ''node.example'',
     GroupStore = (\<lambda>g. if g = 0 then \<lparr>AllMembers = [demo_node]\<rparr> else \<lparr>AllMembers = [demo_admin]\<rparr>)\<rparr>"

text \<open>A library whose JSON parser delivers the given operations.\<close>

definition json_op :: "string \<Rightarrow> string \<Rightarrow> json" where
  "json_op api body = JObject [(''api'', JString api), (''body'', JString body)]"

definition demo_ops_Lib :: "json list \<Rightarrow> Lib" where
  "demo_ops_Lib js = demo_Lib\<lparr>json_Parse := (\<lambda>_. Inr (JArray js))\<rparr>"

lemmas demo_ctx_defs = demo_node_def demo_admin_def demo_context_def

lemma generateTokenID_demo_ops: "generateTokenID (demo_ops_Lib js) w = generateTokenID demo_Lib w"
proof -
  have sha: "sha256_Sum256 (demo_ops_Lib js) = sha256_Sum256 demo_Lib" by (simp add: demo_ops_Lib_def)
  show ?thesis unfolding generateTokenID_def sha by (rule refl)
qed

lemma GrantToken_demo_ops: "GrantToken (demo_ops_Lib js) = GrantToken demo_Lib"
  by (simp add: fun_eq_iff GrantToken_def GenerateToken_def generateTokenID_demo_ops)

lemma decode_json_op [simp]: "decode_map (json_op api body) = Ok (op_map (api, body))"
  by (simp add: json_op_def op_map_def)

lemma demo_bootstrap_op:
  "\<exists>tid w'. GrantToken demo_Lib ''node.example'' 100 demo_world = (Ok tid, w') \<and>
     ops_loop (demo_ops_Lib js) demo_context [op_map (''bootstrap'', ''node.example'')]
       (\<lparr>ctxAccount = Some demo_admin\<rparr>, demo_world) = (Ok [tid], \<lparr>ctxAccount = Some demo_admin\<rparr>, w')"
proof -
  obtain tid w' where "GrantToken demo_Lib ''node.example'' 100 demo_world = (Ok tid, w')"
    using demo_Grant by blast
  then show ?thesis
    by (simp add: op_map_def InvokeAPIOperation_def bootstrap_call_def HasMember_def demo_ctx_defs
        GrantToken_demo_ops)
qed

theorem OperationSet_forbidden_witness:
  "\<exists>tid w'. GrantToken demo_Lib ''node.example'' 100 demo_world = (Ok tid, w') \<and>
     InvokeAPIOperationSet
       (demo_ops_Lib [json_op ''bootstrap'' ''node.example'', json_op ''get-local-config'' []])
       (Some demo_admin) demo_context [] demo_world =
     (Err (OperationForbiddenError ''admin'' ''get-local-config''), w')"
proof -
  let ?L = "demo_ops_Lib [json_op ''bootstrap'' ''node.example'', json_op ''get-local-config'' []]"
  obtain tid w' where g: "GrantToken demo_Lib ''node.example'' 100 demo_world = (Ok tid, w')"
    and l: "ops_loop ?L demo_context [op_map (''bootstrap'', ''node.example'')]
       (\<lparr>ctxAccount = Some demo_admin\<rparr>, demo_world) = (Ok [tid], \<lparr>ctxAccount = Some demo_admin\<rparr>, w')"
    using demo_bootstrap_op by blast
  have j: "json_Parse ?L [] = Inr (JArray [json_op ''bootstrap'' ''node.example'',
      json_op ''get-local-config'' []])" by (simp add: demo_ops_Lib_def)
  have "InvokeAPIOperationSet ?L (Some demo_admin) demo_context [] demo_world =
      (Err (OperationForbiddenError (Principal demo_admin)
         (the (op_map (''get-local-config'', []) ''api''))), w')"
    by (rule OperationSet_forbidden [where rest = "[]" and m = "op_map (''get-local-config'', [])", OF j _ l])
      (simp_all add: demo_ops_Lib_def demo_ctx_defs op_map_def op_of_def op_complete_def)
  then show ?thesis using g by (simp add: op_map_def demo_admin_def)
qed

theorem OperationSet_authorized_witness:
  "\<exists>resp w'. InvokeAPIOperationSet
       (demo_ops_Lib [json_op ''auth-to-kerberos'' ''admin'', json_op ''bootstrap'' ''node.example''])
       (Some demo_node) demo_context [] demo_world = (Ok resp, w') \<and>
     authorized demo_context demo_node [(''auth-to-kerberos'', ''admin''), (''bootstrap'', ''node.example'')]"
proof -
  let ?js = "[json_op ''auth-to-kerberos'' ''admin'', json_op ''bootstrap'' ''node.example'']"
  obtain tid w' where l: "ops_loop (demo_ops_Lib ?js) demo_context [op_map (''bootstrap'', ''node.example'')]
       (\<lparr>ctxAccount = Some demo_admin\<rparr>, demo_world) = (Ok [tid], \<lparr>ctxAccount = Some demo_admin\<rparr>, w')"
    using demo_bootstrap_op by blast
  have i: "InvokeAPIOperation (demo_ops_Lib ?js) demo_context ''auth-to-kerberos'' ''admin''
      (\<lparr>ctxAccount = Some demo_node\<rparr>, demo_world) = (Ok [], \<lparr>ctxAccount = Some demo_admin\<rparr>, demo_world)"
    by (simp add: InvokeAPIOperation_def impersonate_call_def HasMember_def GetAccount_def demo_ctx_defs)
  have "ops_loop (demo_ops_Lib ?js) demo_context
      [op_map (''auth-to-kerberos'', ''admin''), op_map (''bootstrap'', ''node.example'')]
      (\<lparr>ctxAccount = Some demo_node\<rparr>, demo_world) = (Ok [[], tid], \<lparr>ctxAccount = Some demo_admin\<rparr>, w')"
    using l by (simp add: op_map_def i)
  then have "\<exists>resp. InvokeAPIOperationSet (demo_ops_Lib ?js) (Some demo_node) demo_context [] demo_world =
      (Ok resp, w')"
    by (simp add: InvokeAPIOperationSet_def demo_ops_Lib_def [THEN arg_cong [of _ _ json_Parse]])
  then obtain resp where r: "InvokeAPIOperationSet (demo_ops_Lib ?js) (Some demo_node) demo_context []
      demo_world = (Ok resp, w')" by blast
  have "authorized demo_context demo_node [(''auth-to-kerberos'', ''admin''), (''bootstrap'', ''node.example'')]"
    using OperationSet_authorized [OF r] by (auto simp: demo_ops_Lib_def)
  with r show ?thesis by blast
qed

end
