(* ===== verification/Key_Api.thy ===== *)
theory Key_Api
  imports Operations
begin

text \<open>
  The HTTP front of the keyserver: \<open>keyserver/keyapi/api.go\<close> (authentication of requests, the server's
  own certificate, the handlers) and the routing of \<open>keyserver.go\<close>. The state of the server is the
  token registry plus the cached server certificate; \<open>serve\<close> is the whole handler, from the request
  to the response.
\<close>

section \<open>Rendering of errors\<close>

text \<open>\<open>err.Error()\<close>, with \<open>fmt\<close> verbs replaced by their (string) arguments.\<close>

fun sprintf :: "string \<Rightarrow> string list \<Rightarrow> string" where
  "sprintf (c # d # cs) args =
     (if c = CHR ''%'' then
        (case args of a # as \<Rightarrow> a @ sprintf cs as | [] \<Rightarrow> ''%!'' @ d # ''(MISSING)'' @ sprintf cs [])
      else c # sprintf (d # cs) args)"
| "sprintf cs args = cs"

fun error_text :: "error \<Rightarrow> string" where
  "error_text (ErrorNew s) = s"
| "error_text (Errorf f args) = sprintf f args"
| "error_text (Wrap e m) = m @ '': '' @ error_text e"
| "error_text (OperationForbiddenError p api) =
     sprintf ''account %s does not have access to API call %s'' [p, api]"
| "error_text OperationForbidden = ''operation forbidden by server''"
| "error_text (NotExist p) = ''open '' @ p @ '': no such file or directory''"
| "error_text (LibError s) = s"

section \<open>api.go\<close>

record ConfiguredKeyserver =
  KContext :: Context
  ServerKey :: string

text \<open>The mutable state of the server: the world with the token registry, and the field \<open>ServerCert\<close>.\<close>

record Server =
  sworld :: TokenWorld
  ServerCert :: "tls_Certificate option"

definition ParseRemoteAddressFromRequest :: "http_Request \<Rightarrow> IP result" where
  "ParseRemoteAddressFromRequest req = ParseRemoteAddress (RemoteAddr req)"

definition verifyAccountIP :: "Account \<Rightarrow> http_Request \<Rightarrow> unit result" where
  "verifyAccountIP account request =
     and_then (ParseRemoteAddressFromRequest request) (\<lambda>ip.
       case LimitIP account of
         None \<Rightarrow> Ok ()
       | Some allowedIp \<Rightarrow>
           if \<not> IP_Equal allowedIp ip then
             Err (Errorf ''attempt to interact with API from wrong IP address: %v instead of %v'' [])
           else Ok ())"

text \<open>
  The verifiers of a context, as pairs of their two operations: the registry and the authority are
  pointers, and using a nil one is a panic.
\<close>

type_synonym 'a Verifier = "(http_Request \<Rightarrow> bool) \<times> (http_Request \<Rightarrow> ('a TokenWorld_scheme, string) action)"

definition token_Verify :: "unit option \<Rightarrow> http_Request \<Rightarrow> ('a TokenWorld_scheme, string) action" where
  "token_Verify registry request w =
     (if registry = None \<and> TokenVerifier_HasAttempt request
      then (Panic ''nil pointer dereference'', w) else TokenVerifier_Verify request w)"

definition auth_Verify :: "Lib \<Rightarrow> TLSAuthority option \<Rightarrow> http_Request \<Rightarrow> ('a World_scheme, string) action" where
  "auth_Verify L authority request w = (case authority of
       None \<Rightarrow>
         if \<not> TLSAuthority_HasAttempt request then
           (Err (ErrorNew ''client certificate must be present''), w)
         else (Panic ''nil pointer dereference'', w)
     | Some t \<Rightarrow> TLSAuthority_Verify L t request w)"

definition verifiers :: "Lib \<Rightarrow> Context \<Rightarrow> 'a Verifier list" where
  "verifiers L context =
     [(TokenVerifier_HasAttempt, token_Verify (Registry context)),
      (TLSAuthority_HasAttempt, auth_Verify L (AuthenticationAuthority context))]"

fun auth_loop :: "Context \<Rightarrow> http_Request \<Rightarrow> 'a Verifier list \<Rightarrow> ('a TokenWorld_scheme, Account) action" where
  "auth_loop context request [] w = (Err (ErrorNew ''no authentication method found in request''), w)"
| "auth_loop context request ((hasAttempt, verify) # verifs) w =
     (if hasAttempt request then
        and_thenS (verify request w) (\<lambda>princ w.
        and_thenS (GetAccount context princ, w) (\<lambda>ac w.
          if DisableDirectAuth ac then
            (Err (Errorf ''account has disabled direct authentication: %s'' [princ]), w)
          else and_thenS (verifyAccountIP ac request, w) (\<lambda>_ w. (Ok ac, w))))
      else auth_loop context request verifs w)"

definition attemptAuthentication ::
  "Lib \<Rightarrow> Context \<Rightarrow> http_Request \<Rightarrow> ('a TokenWorld_scheme, Account) action" where
  "attemptAuthentication L context request w = auth_loop context request (verifiers L context) w"

definition GetClientCAs :: "ConfiguredKeyserver \<Rightarrow> Certificate list result" where
  "GetClientCAs k = (case AuthenticationAuthority (KContext k) of
       None \<Rightarrow> Panic ''nil pointer dereference''
     | Some t \<Rightarrow> Ok (ToCertPool t))"

definition RenewalMargin :: int where "RenewalMargin = time_Minute * 5"
definition ValidityInterval :: int where "ValidityInterval = time_Hour * 24"

text \<open>The part of \<open>GetValidServerCert\<close> after the signature, and the part after the check of the cache.\<close>

definition storeServerCert :: "Lib \<Rightarrow> ConfiguredKeyserver \<Rightarrow> string \<Rightarrow> (Server, tls_Certificate) action" where
  "storeServerCert L k cert s =
     and_thenS (wrap_err ''while reloading certificate'' (lift (tls_X509KeyPair L cert (ServerKey k))), s)
       (\<lambda>pair s.
          case Chain pair of
            [] \<Rightarrow> (Panic ''index out of range'', s)
          | der # _ \<Rightarrow>
              and_thenS (wrap_err ''while pre-parsing certificate''
                (lift (x509_ParseCertificate L der)), s) (\<lambda>leaf s.
                  let pair' = pair\<lparr>Leaf := Some leaf\<rparr> in (Ok pair', s\<lparr>ServerCert := Some pair'\<rparr>)))"

definition newServerCert :: "Lib \<Rightarrow> ConfiguredKeyserver \<Rightarrow> (Server, tls_Certificate) action" where
  "newServerCert L k s =
     and_thenS (wrap_err ''while generating CSR'' (BuildTLSCSR L (ServerKey k)), s) (\<lambda>csr s.
     case ClusterCA (KContext k) of
       None \<Rightarrow> (Panic ''nil pointer dereference'', s)
     | Some ca \<Rightarrow>
         (case TLSAuthority_Sign L ca csr True ValidityInterval ''keyserver-autogen-tls''
             [KeyserverDNS (KContext k)] [] (sworld s) of (r, w) \<Rightarrow>
          and_thenS (wrap_err ''while signing CSR'' r, s\<lparr>sworld := w\<rparr>) (storeServerCert L k)))"

definition GetValidServerCert :: "Lib \<Rightarrow> ConfiguredKeyserver \<Rightarrow> (Server, tls_Certificate) action" where
  "GetValidServerCert L k s = (case ServerCert s of
       None \<Rightarrow> newServerCert L k s
     | Some sc \<Rightarrow>
         (case time_Now (sworld s) of (n, w) \<Rightarrow>
            case Leaf sc of
              None \<Rightarrow> (Panic ''nil pointer dereference'', s\<lparr>sworld := w\<rparr>)
            | Some leaf \<Rightarrow>
                if n + RenewalMargin < NotAfter leaf then (Ok sc, s\<lparr>sworld := w\<rparr>)
                else newServerCert L k (s\<lparr>sworld := w\<rparr>)))"

definition HandleAPIRequest ::
  "Lib \<Rightarrow> ConfiguredKeyserver \<Rightarrow> http_Request \<Rightarrow> ('a TokenWorld_scheme, string) action" where
  "HandleAPIRequest L k request w =
     and_thenS (lift (ReqBody request), w) (\<lambda>requestBody w.
     and_thenS (attemptAuthentication L (KContext k) request w) (\<lambda>ac w.
       InvokeAPIOperationSet L (Some ac) (KContext k) requestBody w))"

definition HandlePubRequest :: "ConfiguredKeyserver \<Rightarrow> string \<Rightarrow> string result" where
  "HandlePubRequest k authorityName = (case Authorities (KContext k) authorityName of
       None \<Rightarrow> Err (Errorf ''no such authority %s'' [authorityName])
     | Some authority \<Rightarrow> Ok (GetPublicKey authority))"

definition HandleStaticRequest :: "ConfiguredKeyserver \<Rightarrow> string \<Rightarrow> ('a FsWorld_scheme, string) action" where
  "HandleStaticRequest k staticName w =
     (case map_of (StaticFiles (KContext k)) staticName of
        None \<Rightarrow> (Err (Errorf ''no such static file %s'' [staticName]), w)
      | Some file \<Rightarrow>
          if Filepath file = [] then (Err (Errorf ''no such static file %s'' [staticName]), w)
          else ReadFile (Filepath file) w)"

section \<open>keyserver.go\<close>

text \<open>\<open>cleanPath\<close> of \<open>net/http\<close>: \<open>path.Clean\<close>, but a trailing slash is kept.\<close>

definition cleanPath :: "string \<Rightarrow> string" where
  "cleanPath p =
     (if p = [] then ''/''
      else let p' = (if hd p = CHR ''/'' then p else CHR ''/'' # p); np = path_Clean p' in
        if HasSuffix p' ''/'' \<and> np \<noteq> ''/'' then np @ ''/'' else np)"

definition http_Error :: "string \<Rightarrow> nat \<Rightarrow> http_Response" where
  "http_Error msg code = \<lparr>StatusCode = code, RespBody = msg @ [CHR 0x0A]\<rparr>"

definition http_OK :: "string \<Rightarrow> http_Response" where
  "http_OK body = \<lparr>StatusCode = StatusOK, RespBody = body\<rparr>"

fun respond :: "(error \<Rightarrow> http_Response) \<Rightarrow> string result \<times> 's \<Rightarrow> http_Response result \<times> 's" where
  "respond h (Ok body, s) = (Ok (http_OK body), s)"
| "respond h (Err e, s) = (Ok (h e), s)"
| "respond h (Panic p, s) = (Panic p, s)"

fun api_error :: "error \<Rightarrow> http_Response" where
  "api_error (OperationForbiddenError p api) = http_Error ''Particular operation forbidden.'' StatusForbidden"
| "api_error e = http_Error ''Request processing failed. See server logs for details.'' StatusBadRequest"

definition file_error :: "error \<Rightarrow> http_Response" where
  "file_error e = http_Error (''Request processing failed: '' @ error_text e) StatusNotFound"

text \<open>
  \<open>apiToHTTP\<close>: the multiplexer redirects to the clean path, and to \<open>/pub/\<close> and \<open>/static/\<close> from the
  path without the slash; it picks the longest pattern that matches.
\<close>

definition apiToHTTP ::
  "Lib \<Rightarrow> ConfiguredKeyserver \<Rightarrow> http_Request \<Rightarrow> ('a TokenWorld_scheme, http_Response) action" where
  "apiToHTTP L ks request w =
     (let p = URLPath request in
      if cleanPath p \<noteq> p \<or> p = ''/pub'' \<or> p = ''/static'' then
        (Ok \<lparr>StatusCode = 301, RespBody = []\<rparr>, w)
      else if p = ''/apirequest'' then respond api_error (HandleAPIRequest L ks request w)
      else if HasPrefix p ''/pub/'' then
        respond file_error (HandlePubRequest ks (drop (length ''/pub/'') p), w)
      else if HasPrefix p ''/static/'' then
        respond file_error (HandleStaticRequest ks (drop (length ''/static/'') p) w)
      else (Ok (http_Error ''404 page not found'' StatusNotFound), w))"

section \<open>Authentication\<close>

text \<open>What \<open>x509.Certificate.Verify\<close> documents: without an error there is a chain.\<close>

definition x509_Verify_chains :: "Lib \<Rightarrow> bool" where
  "x509_Verify_chains L =
     (\<forall>n c roots usages. snd (x509_Verify L n c roots usages) = None \<longrightarrow>
        fst (x509_Verify L n c roots usages) \<noteq> [])"

definition ip_allowed :: "Account \<Rightarrow> http_Request \<Rightarrow> bool" where
  "ip_allowed ac r = (case ParseRemoteAddress (RemoteAddr r) of
       Ok ip \<Rightarrow> (case LimitIP ac of None \<Rightarrow> True | Some allowed \<Rightarrow> IP_Equal allowed ip)
     | _ \<Rightarrow> False)"

lemma verifyAccountIP_Ok_iff: "verifyAccountIP ac r = Ok () \<longleftrightarrow> ip_allowed ac r"
  by (auto simp: verifyAccountIP_def ip_allowed_def ParseRemoteAddressFromRequest_def and_then_Ok_iff
      split: result.splits option.splits)

lemma is_panic_verifyAccountIP [simp]: "\<not> is_panic (verifyAccountIP ac r)"
  by (auto simp: verifyAccountIP_def ParseRemoteAddressFromRequest_def is_panic_and_then
      split: option.splits)

text \<open>A certificate authenticates a principal if the authority, as the only root, vouches for it.\<close>

definition cert_authenticates :: "Lib \<Rightarrow> Context \<Rightarrow> http_Request \<Rightarrow> int \<Rightarrow> string \<Rightarrow> bool" where
  "cert_authenticates L c r n p = (case (AuthenticationAuthority c, TLS r) of
       (Some t, Some ((cert # _) # _)) \<Rightarrow>
         CommonName cert = p \<and> snd (x509_Verify L n cert [tls_cert t] [ExtKeyUsageClientAuth]) = None
     | _ \<Rightarrow> False)"

text \<open>A token authenticates a principal if it is registered for it, unexpired and unclaimed.\<close>

definition token_authenticates :: "http_Request \<Rightarrow> 'a TokenWorld_scheme \<Rightarrow> string \<Rightarrow> bool" where
  "token_authenticates r w p = (case map_of (byToken w) (Header_Get r TokenHeader) of
       None \<Rightarrow> False
     | Some t \<Rightarrow> Subject t = p \<and> now w \<le> expires t \<and>
         (case claimed t of None \<Rightarrow> False | Some a \<Rightarrow> \<not> Onces w ! a))"

lemma TLSAuthority_Verify_Ok:
  assumes "x509_Verify_chains L" and "TLSAuthority_Verify L t r w = (Ok p, w')"
  shows "\<exists>cert chain cs. TLS r = Some ((cert # chain) # cs) \<and> CommonName cert = p \<and>
    snd (x509_Verify L (now w) cert [tls_cert t] [ExtKeyUsageClientAuth]) = None"
proof -
  have att: "TLSAuthority_HasAttempt r" using assms(2) by (rule tls_verifier.verified_attempt)
  then obtain cert chain cs where tls: "TLS r = Some ((cert # chain) # cs)"
    by (auto simp: TLSAuthority_HasAttempt_def neq_Nil_conv split: option.splits)
  obtain chs err where v: "x509_Verify L (now w) cert [tls_cert t] [ExtKeyUsageClientAuth] = (chs, err)"
    by fastforce
  have "chs \<noteq> []" if "err = None" using assms(1) v that unfolding x509_Verify_chains_def by (metis fst_conv snd_conv)
  with assms(2) att tls v show ?thesis
    by (cases err) (auto simp: TLSAuthority_Verify_def time_Now_def now_def ToCertPool_def split: if_splits)
qed

lemma auth_loop_Ok:
  assumes "auth_loop c r ((h, v) # vs) w = (Ok ac, w')"
  shows "if h r then v r w = (Ok (Principal ac), w') \<and> Accounts c (Principal ac) = Some ac \<and>
      \<not> DisableDirectAuth ac \<and> ip_allowed ac r
    else auth_loop c r vs w = (Ok ac, w')"
  using assms
  by (auto simp: and_thenS_Ok_iff GetAccount_Ok_iff verifyAccountIP_Ok_iff [symmetric]
      split: if_splits)

lemma attemptAuthentication_Ok:
  assumes "registry_ok w" and "x509_Verify_chains L" and "attemptAuthentication L c r w = (Ok ac, w')"
  shows "Accounts c (Principal ac) = Some ac \<and> \<not> DisableDirectAuth ac \<and> ip_allowed ac r \<and>
    (if Header_Get r TokenHeader \<noteq> [] then token_authenticates r w (Principal ac)
     else cert_authenticates L c r (now w) (Principal ac))"
proof (cases "TokenVerifier_HasAttempt r")
  case True
  with assms(3) have v: "token_Verify (Registry c) r w = (Ok (Principal ac), w')"
    and ac: "Accounts c (Principal ac) = Some ac" "\<not> DisableDirectAuth ac" "ip_allowed ac r"
    using auth_loop_Ok unfolding attemptAuthentication_def verifiers_def by fastforce+
  then have "TokenVerifier_Verify r w = (Ok (Principal ac), w')"
    by (auto simp: token_Verify_def split: if_splits)
  from Verify_Ok [OF assms(1) this] ac True show ?thesis
    by (auto simp: TokenVerifier_HasAttempt_def token_authenticates_def)
next
  case False
  with assms(3) have "auth_loop c r [(TLSAuthority_HasAttempt, auth_Verify L (AuthenticationAuthority c))] w = (Ok ac, w')"
    using auth_loop_Ok unfolding attemptAuthentication_def verifiers_def by fastforce
  then have v: "auth_Verify L (AuthenticationAuthority c) r w = (Ok (Principal ac), w')"
    and ac: "Accounts c (Principal ac) = Some ac" "\<not> DisableDirectAuth ac" "ip_allowed ac r"
    using auth_loop_Ok [of c r TLSAuthority_HasAttempt _ "[]"] by (fastforce split: if_splits)+
  then obtain t where t: "AuthenticationAuthority c = Some t" "TLSAuthority_Verify L t r w = (Ok (Principal ac), w')"
    by (auto simp: auth_Verify_def split: option.splits if_splits)
  from TLSAuthority_Verify_Ok [OF assms(2) t(2)] t(1) ac False show ?thesis
    by (auto simp: TokenVerifier_HasAttempt_def cert_authenticates_def)
qed

lemma token_authenticates_Verify:
  assumes "registry_ok w" and "token_authenticates r w p" and "Header_Get r TokenHeader \<noteq> []"
  shows "fst (TokenVerifier_Verify r w) = Ok p"
proof -
  obtain t where t: "map_of (byToken w) (Header_Get r TokenHeader) = Some t" "Subject t = p"
    "now w \<le> expires t" and cl: "case claimed t of None \<Rightarrow> False | Some a \<Rightarrow> \<not> Onces w ! a"
    using assms(2) by (auto simp: token_authenticates_def split: option.splits)
  obtain a where a: "claimed t = Some a" "a < length (Onces w)"
    using registry_ok_lookup [OF assms(1) t(1)] by blast
  show ?thesis
    using assms(3) t cl a by (simp add: TokenVerifier_Verify_cases [OF assms(1)] Claim_cases [OF a])
qed

lemma cert_authenticates_Verify:
  assumes "x509_Verify_chains L" and "cert_authenticates L c r (now w) p"
  shows "\<exists>t. AuthenticationAuthority c = Some t \<and> TLSAuthority_HasAttempt r \<and>
    fst (TLSAuthority_Verify L t r w) = Ok p"
proof -
  obtain t cert chain cs where c: "AuthenticationAuthority c = Some t" "TLS r = Some ((cert # chain) # cs)"
    "CommonName cert = p" "snd (x509_Verify L (now w) cert [tls_cert t] [ExtKeyUsageClientAuth]) = None"
    using assms(2) by (auto simp: cert_authenticates_def split: option.splits list.splits)
  then have "fst (x509_Verify L (now w) cert [tls_cert t] [ExtKeyUsageClientAuth]) \<noteq> []"
    using assms(1) unfolding x509_Verify_chains_def by blast
  with c show ?thesis
    by (auto simp: TLSAuthority_HasAttempt_def TLSAuthority_Verify_def time_Now_def now_def ToCertPool_def
        split: prod.splits)
qed

lemma auth_loop_complete:
  assumes "h r" and "fst (v r w) = Ok (Principal ac)" and "Accounts c (Principal ac) = Some ac"
    and "\<not> DisableDirectAuth ac" and "ip_allowed ac r"
  shows "fst (auth_loop c r ((h, v) # vs) w) = Ok ac"
proof -
  obtain w' where "v r w = (Ok (Principal ac), w')" using assms(2) by (metis prod.collapse)
  moreover have "GetAccount c (Principal ac) = Ok ac" using assms(3) by (simp add: GetAccount_Ok_iff)
  moreover have "verifyAccountIP ac r = Ok ()" using assms(5) by (simp add: verifyAccountIP_Ok_iff)
  ultimately show ?thesis using assms(1,4) by simp
qed

text \<open>
  C2: a request is authenticated as an account if and only if it is entitled to it: the account is
  registered under its principal, allows direct authentication and may be used from the peer's
  address; and the request carries either a registered, unexpired and unclaimed token for that
  principal, or (no token given) a client certificate with that common name which verifies, for
  client authentication, under the authentication authority as the only root.
\<close>

theorem attemptAuthentication_iff:
  assumes "registry_ok w" and "Registry c \<noteq> None" and "x509_Verify_chains L"
  shows "fst (attemptAuthentication L c r w) = Ok ac \<longleftrightarrow>
    Accounts c (Principal ac) = Some ac \<and> \<not> DisableDirectAuth ac \<and> ip_allowed ac r \<and>
    (if Header_Get r TokenHeader \<noteq> [] then token_authenticates r w (Principal ac)
     else cert_authenticates L c r (now w) (Principal ac))"
    (is "?L \<longleftrightarrow> ?R")
proof
  assume ?L
  then obtain w' where "attemptAuthentication L c r w = (Ok ac, w')" by (metis prod.collapse)
  then show ?R using attemptAuthentication_Ok [OF assms(1,3)] by blast
next
  assume R: ?R
  show ?L
  proof (cases "Header_Get r TokenHeader = []")
    case True
    with R obtain t where t: "AuthenticationAuthority c = Some t" "TLSAuthority_HasAttempt r"
      "fst (TLSAuthority_Verify L t r w) = Ok (Principal ac)"
      using cert_authenticates_Verify [OF assms(3)] by metis
    with R True auth_loop_complete [of TLSAuthority_HasAttempt r "auth_Verify L (Some t)" w ac c "[]"]
    show ?thesis
      by (simp add: attemptAuthentication_def verifiers_def TokenVerifier_HasAttempt_def auth_Verify_def)
  next
    case False
    with R have "fst (token_Verify (Registry c) r w) = Ok (Principal ac)"
      using token_authenticates_Verify [OF assms(1)] assms(2) by (auto simp: token_Verify_def)
    with R False show ?thesis unfolding attemptAuthentication_def verifiers_def
      by (intro auth_loop_complete) (auto simp: TokenVerifier_HasAttempt_def)
  qed
qed

text \<open>Authentication leaves the registered tokens alone and keeps the registry well-formed.\<close>

definition keeps_tokens :: "'a TokenWorld_scheme \<Rightarrow> 'a TokenWorld_scheme \<Rightarrow> bool" where
  "keeps_tokens w w' = ((registry_ok w \<longrightarrow> registry_ok w') \<and> byToken w' = byToken w)"

lemma keeps_tokens_refl [simp]: "keeps_tokens w w" by (simp add: keeps_tokens_def)

lemma Claim_byToken [simp]: "byToken (snd (Claim t w)) = byToken w"
  by (auto simp: Claim_def HasExpired_def time_Now_def once_Do_def split: option.splits)

lemma TokenVerifier_Verify_byToken: "byToken (snd (TokenVerifier_Verify r w)) = byToken w"
  by (auto simp: TokenVerifier_Verify_def LookupToken_def Let_def and_thenS_sel split: option.splits)

lemma TLSAuthority_Verify_world:
  "snd (TLSAuthority_Verify L t r w) = (if TLSAuthority_HasAttempt r then snd (time_Now w) else w)"
  by (auto simp: TLSAuthority_Verify_def Let_def split: prod.splits option.splits)

lemma verifier_keeps:
  "keeps_tokens w (snd (token_Verify reg r w))" "keeps_tokens w (snd (auth_Verify L a r w))"
  using token_verifier.keeps_good [of w r]
  by (auto simp: keeps_tokens_def token_Verify_def auth_Verify_def TokenVerifier_Verify_byToken
      TLSAuthority_Verify_world split: option.splits)

lemma auth_loop_keeps:
  assumes "keeps_tokens w (snd (v r w))" and "keeps_tokens w (snd (auth_loop c r vs w))"
  shows "keeps_tokens w (snd (auth_loop c r ((h, v) # vs) w))"
proof -
  have "snd (and_thenS (GetAccount c p, s) (\<lambda>ac w. if DisableDirectAuth ac
            then (Err e, w) else and_thenS (verifyAccountIP ac r, w) (\<lambda>_ w. (Ok ac, w)))) = s"
    for p e and s :: "'a TokenWorld_scheme"
    by (cases "GetAccount c p") (auto simp: and_thenS_sel)
  then show ?thesis
    using assms by (cases "v r w"; cases "fst (v r w)") auto
qed

lemma attemptAuthentication_keeps: "keeps_tokens w (snd (attemptAuthentication L c r w))"
  unfolding attemptAuthentication_def verifiers_def
  by (intro auth_loop_keeps verifier_keeps) simp

end
