(* ===== verification/Key_Server.thy ===== *)
theory Key_Server
  imports Key_Api
begin

text \<open>
  The keyserver as a state machine: it serves requests and presents its certificate in TLS
  handshakes, in any order. The invariant of its reachable states says that the token registry is
  well-formed, that every token in it is for a principal the privileges allow to be bootstrapped, and
  that the cached certificate is complete.
\<close>

section \<open>The server's own certificate\<close>

text \<open>
  What the libraries document about certificates: a key pair read from the PEM form of a certificate
  holds that certificate, and a certificate that was created parses with the expiry of its template,
  to the second.
\<close>

definition x509_created :: "Lib \<Rightarrow> bool" where
  "x509_created L =
     (\<forall>template parent pub key der. x509_CreateCertificate L template parent pub key = Inr der \<longrightarrow>
        (\<forall>k pair. tls_X509KeyPair L (pem_EncodeToMemory L \<lparr>PEM_Type = ''CERTIFICATE'', PEM_Bytes = der\<rparr>) k
           = Inr pair \<longrightarrow> Chain pair = [der]) \<and>
        (\<forall>cert. x509_ParseCertificate L der = Inr cert \<longrightarrow>
           NotAfter cert = NotAfter template div time_Second * time_Second))"

definition server_cert_complete :: "Server \<Rightarrow> bool" where
  "server_cert_complete s = (case ServerCert s of None \<Rightarrow> True | Some sc \<Rightarrow> Leaf sc \<noteq> None)"

lemma TLSAuthority_Sign_Ok:
  assumes "TLSAuthority_Sign L t request ishost lifespan cn names orgs w = (Ok pem, w')"
  shows "\<exists>csr serial der. LoadX509CSRFromPEM L request = Ok csr \<and> x509_CheckSignature L csr = None \<and>
    serial < 2 ^ 159 \<and> Clock w' = Clock w \<and> Ticks w' = Suc (Ticks w) \<and>
    x509_CreateCertificate L ((cert_template ishost (now w) lifespan cn names orgs)
      \<lparr>CertSignatureAlgorithm := SHA256WithRSA, SerialNumber := serial\<rparr>) (tls_cert t)
      (CSR_PublicKey csr) (tls_key t) = Inr der \<and>
    pem = pem_EncodeToMemory L \<lparr>PEM_Type = ''CERTIFICATE'', PEM_Bytes = der\<rparr>"
proof -
  obtain csr where csr: "LoadX509CSRFromPEM L request = Ok csr" "x509_CheckSignature L csr = None"
    and f: "FinishCertificate L (cert_template ishost (now w) lifespan cn names orgs) (tls_cert t)
      (CSR_PublicKey csr) (tls_key t) (snd (time_Now w)) = (Ok pem, w')"
    using assms
    by (auto simp: TLSAuthority_Sign_def and_thenS_Ok_iff now_def time_Now_def split: option.splits prod.splits)
  have "w' = snd (rand_Int (2 ^ 159) (snd (time_Now w)))" using FinishCertificate_world f by (metis snd_conv)
  then have "Clock w' = Clock w \<and> Ticks w' = Suc (Ticks w)"
    by (auto simp: rand_Int_def draw_def time_Now_def split: option.splits)
  with FinishCertificate_Ok [OF f] csr show ?thesis by auto
qed

lemma cert_template_sel [simp]:
  "NotAfter (cert_template ishost n lifespan cn names orgs) = n + lifespan"
  "NotBefore (cert_template ishost n lifespan cn names orgs) = n"
  "CommonName (cert_template ishost n lifespan cn names orgs) = cn"
  "Organization (cert_template ishost n lifespan cn names orgs) = orgs"
  "IsCA (cert_template ishost n lifespan cn names orgs) = False"
  "CertExtKeyUsage (cert_template ishost n lifespan cn names orgs) =
     ExtKeyUsageClientAuth # (if ishost then [ExtKeyUsageServerAuth] else [])"
  "DNSNames (cert_template ishost n lifespan cn names orgs) = filter (\<lambda>x. ParseIP x = None) names"
  "IPAddresses (cert_template ishost n lifespan cn names orgs) = List.map_filter ParseIP names"
  by (auto simp: cert_template_def partitionDNSNamesAndIPs_eq Let_def)

lemma newServerCert_Ok:
  assumes "newServerCert L k s = (Ok sc, s')"
  shows "ServerCert s' = Some sc \<and> (\<exists>ca csr pem pair der rest leaf. ClusterCA (KContext k) = Some ca \<and>
    BuildTLSCSR L (ServerKey k) = Ok csr \<and>
    TLSAuthority_Sign L ca csr True ValidityInterval ''keyserver-autogen-tls''
      [KeyserverDNS (KContext k)] [] (sworld s) = (Ok pem, sworld s') \<and>
    tls_X509KeyPair L pem (ServerKey k) = Inr pair \<and> Chain pair = der # rest \<and>
    x509_ParseCertificate L der = Inr leaf \<and> sc = pair\<lparr>Leaf := Some leaf\<rparr>)"
proof -
  obtain csr ca where csr: "BuildTLSCSR L (ServerKey k) = Ok csr" and ca: "ClusterCA (KContext k) = Some ca"
    using assms by (auto simp: newServerCert_def storeServerCert_def and_thenS_Ok_iff split: option.splits)
  obtain r w where sign: "TLSAuthority_Sign L ca csr True ValidityInterval ''keyserver-autogen-tls''
      [KeyserverDNS (KContext k)] [] (sworld s) = (r, w)" by fastforce
  obtain pem pair where r: "r = Ok pem" and pair: "tls_X509KeyPair L pem (ServerKey k) = Inr pair"
    using assms by (auto simp: newServerCert_def storeServerCert_def csr ca sign and_thenS_Ok_iff split: option.splits)
  obtain der rest where ch: "Chain pair = der # rest"
    using assms by (cases "Chain pair") (auto simp: newServerCert_def storeServerCert_def csr ca sign r pair)
  obtain leaf where leaf: "x509_ParseCertificate L der = Inr leaf"
    using assms by (cases "x509_ParseCertificate L der") (auto simp: newServerCert_def storeServerCert_def csr ca sign r pair ch)
  show ?thesis
    using assms by (auto simp: newServerCert_def storeServerCert_def csr ca sign r pair ch leaf Let_def)
qed

lemma newServerCert_fresh:
  assumes "x509_created L" and "newServerCert L k s = (Ok sc, s')"
  shows "\<exists>leaf. Leaf sc = Some leaf \<and> ServerCert s' = Some sc \<and>
    Clock (sworld s') (Ticks (sworld s') - 1) + RenewalMargin < NotAfter leaf"
proof -
  obtain ca csr pem pair der rest leaf where sc: "ServerCert s' = Some sc" "sc = pair\<lparr>Leaf := Some leaf\<rparr>"
    and sign: "TLSAuthority_Sign L ca csr True ValidityInterval ''keyserver-autogen-tls''
      [KeyserverDNS (KContext k)] [] (sworld s) = (Ok pem, sworld s')"
    and pair: "tls_X509KeyPair L pem (ServerKey k) = Inr pair" "Chain pair = der # rest"
    and leaf: "x509_ParseCertificate L der = Inr leaf"
    using newServerCert_Ok [OF assms(2)] by blast
  obtain template parent pub key der' where t: "NotAfter template = now (sworld s) + ValidityInterval"
    "x509_CreateCertificate L template parent pub key = Inr der'"
    "pem = pem_EncodeToMemory L \<lparr>PEM_Type = ''CERTIFICATE'', PEM_Bytes = der'\<rparr>"
    and w: "Clock (sworld s') = Clock (sworld s)" "Ticks (sworld s') = Suc (Ticks (sworld s))"
    using TLSAuthority_Sign_Ok [OF sign] by force
  have "der' = der" using assms(1) t(2,3) pair unfolding x509_created_def by fastforce
  then have "NotAfter leaf = (now (sworld s) + ValidityInterval) div time_Second * time_Second"
    using assms(1) t(1,2) leaf unfolding x509_created_def by metis
  then have "now (sworld s) + RenewalMargin < NotAfter leaf"
    by (simp add: RenewalMargin_def ValidityInterval_def time_units)
  with sc w show ?thesis by (auto simp: now_def)
qed

text \<open>
  C35: \<open>GetValidServerCert\<close> never returns a certificate that is about to expire: at the last reading of
  the clock before it returns, the certificate is valid for more than the renewal margin of five
  minutes, be it the cached one or a new one; and it is the one that is cached afterwards.
\<close>

theorem GetValidServerCert_fresh:
  assumes "server_cert_complete s" and "x509_created L" and "GetValidServerCert L k s = (Ok sc, s')"
  shows "\<exists>leaf. Leaf sc = Some leaf \<and> ServerCert s' = Some sc \<and>
    Clock (sworld s') (Ticks (sworld s') - 1) + RenewalMargin < NotAfter leaf"
proof (cases "ServerCert s")
  case None
  with assms(3) have "newServerCert L k s = (Ok sc, s')" by (simp add: GetValidServerCert_def)
  with assms(2) show ?thesis by (rule newServerCert_fresh)
next
  case (Some old)
  then obtain leaf where leaf: "Leaf old = Some leaf"
    using assms(1) by (auto simp: server_cert_complete_def)
  show ?thesis
  proof (cases "now (sworld s) + RenewalMargin < NotAfter leaf")
    case True
    with assms(3) Some leaf show ?thesis by (auto simp: GetValidServerCert_def time_Now_def now_def)
  next
    case False
    with assms(3) Some leaf have "newServerCert L k (s\<lparr>sworld := snd (time_Now (sworld s))\<rparr>) = (Ok sc, s')"
      by (simp add: GetValidServerCert_def time_Now_def now_def)
    with assms(2) show ?thesis by (rule newServerCert_fresh)
  qed
qed

section \<open>Panics\<close>

text \<open>
  The two panics that the sources provoke on purpose, and the contexts in which no other can happen:
  the pointers that the handlers use are set.
\<close>

definition deliberate :: "'a result \<Rightarrow> bool" where
  "deliberate r = (case r of
       Panic m \<Rightarrow> m = ''crypto/rand failed'' \<or> m = ''Token collision (is that even possible?)''
     | _ \<Rightarrow> True)"

definition context_ok :: "Context \<Rightarrow> bool" where
  "context_ok c = (Registry c \<noteq> None \<and> AuthenticationAuthority c \<noteq> None \<and> ClusterCA c \<noteq> None)"

lemma deliberate_simps [simp]: "deliberate (Ok x)" "deliberate (Err e)"
  by (simp_all add: deliberate_def)

lemma deliberate_no_panic: "\<not> is_panic r \<Longrightarrow> deliberate r"
  by (cases r) auto

lemma deliberate_and_thenS:
  assumes "deliberate (fst rs)" and "\<And>x s. rs = (Ok x, s) \<Longrightarrow> deliberate (fst (k x s))"
  shows "deliberate (fst (and_thenS rs k))"
proof (cases rs)
  case (Pair r s)
  with assms show ?thesis by (cases r) (auto simp: deliberate_def)
qed

lemma GenerateToken_deliberate:
  assumes "\<And>s. length (sha256_Sum256 L s) = 32"
  shows "deliberate (fst (GenerateToken L p d w))"
proof (cases "Entropy w (Draws w)")
  case None
  then show ?thesis
    by (simp add: GenerateToken_def generateTokenID_def rand_Read_def draw_def deliberate_def)
next
  case (Some x)
  from generateTokenID_Some [OF assms this] show ?thesis by (auto simp: GenerateToken_def time_Now_def)
qed

lemma GrantToken_deliberate:
  assumes "\<And>s. length (sha256_Sum256 L s) = 32"
  shows "deliberate (fst (GrantToken L p d w))"
  unfolding GrantToken_def using GenerateToken_deliberate [OF assms]
  by (intro deliberate_and_thenS) (auto simp: addToken_def deliberate_def)

lemma call_Privilege_deliberate:
  assumes "\<And>s. length (sha256_Sum256 L s) = 32"
  shows "deliberate (fst (call_Privilege L (GetAccount c) groups priv param (ctx, w)))"
proof (cases priv)
  case (TLSGrant t ishost lifespan cn names orgs)
  have "deliberate (fst (TLSAuthority_Sign L t param ishost lifespan cn names orgs w))"
    by (rule deliberate_no_panic) simp
  then show ?thesis using TLSGrant by (auto split: prod.splits)
next
  case (SSHGrant d ishost lifespan keyid ps)
  have "deliberate (fst (SSHAuthority_Sign L d param ishost lifespan keyid ps w))"
    by (rule deliberate_no_panic) simp
  then show ?thesis using SSHGrant by (auto split: prod.splits)
next
  case (Bootstrap g d)
  then show ?thesis
    using GrantToken_deliberate [OF assms, of param d w]
    by (auto simp: bootstrap_call_def split: prod.splits)
next
  case (Impersonate g)
  then show ?thesis
    by (cases "GetAccount c param") (auto simp: impersonate_call_def)
qed auto

lemma ops_loop_deliberate:
  assumes "\<And>s. length (sha256_Sum256 L s) = 32"
  shows "deliberate (fst (ops_loop L c ops s))"
proof (induction ops arbitrary: s)
  case (Cons m ops)
  have "deliberate (fst (InvokeAPIOperation L c api body s))" for api body
    using call_Privilege_deliberate [OF assms, where ctx = "fst s" and w = "snd s"]
    by (auto simp: InvokeAPIOperation_def split: option.splits)
  then show ?case
    by (auto intro!: deliberate_and_thenS Cons.IH split: option.splits)
qed simp

lemma is_panic_decode_ops [simp]: "\<not> is_panic (decode_ops j)"
proof -
  have f: "\<not> is_panic (decode_fields m kvs)" for m kvs
  proof (induction kvs arbitrary: m)
    case (Cons kv kvs)
    have "\<not> is_panic (decode_string v)" for v by (cases v rule: decode_string.cases) auto
    with Cons show ?case by (cases kv) (simp add: is_panic_and_then)
  qed simp
  have m: "\<not> is_panic (decode_map j)" for j by (cases j rule: decode_map.cases) (auto simp: f)
  have "\<not> is_panic (decode_maps js)" for js by (induction js) (auto simp: is_panic_and_then m)
  then show ?thesis by (cases j rule: decode_ops.cases) auto
qed

lemma InvokeAPIOperationSet_deliberate:
  assumes "\<And>s. length (sha256_Sum256 L s) = 32"
  shows "deliberate (fst (InvokeAPIOperationSet L a c body w))"
proof -
  have json: "deliberate (and_then r (\<lambda>rs. Ok (json_strings L rs)))" if "deliberate r" for r
    using that by (cases r) (auto simp: deliberate_def)
  show ?thesis
    unfolding InvokeAPIOperationSet_def
  proof (rule deliberate_and_thenS)
    show "deliberate (fst (and_then (lift (json_Parse L body)) decode_ops, w))"
      by (simp add: deliberate_no_panic is_panic_and_then)
    fix ops w1
    obtain r ctx w2 where l: "ops_loop L c ops (\<lparr>ctxAccount = a\<rparr>, w1) = (r, ctx, w2)" by (metis prod_cases3)
    then have "deliberate r" using ops_loop_deliberate [OF assms] by (metis fst_conv)
    with json show "deliberate (fst (case ops_loop L c ops (\<lparr>ctxAccount = a\<rparr>, w1) of (r, ctx, w') \<Rightarrow>
        (and_then r (\<lambda>results. Ok (json_strings L results)), w')))" by (simp add: l)
  qed
qed

lemma attemptAuthentication_no_panic:
  assumes "registry_ok w" and "context_ok c"
  shows "\<not> is_panic (fst (attemptAuthentication L c r w))"
proof -
  have step: "\<not> is_panic (fst (auth_loop c r ((h, v) # vs) w))"
    if "\<not> is_panic (fst (v r w))" "\<not> is_panic (fst (auth_loop c r vs w))" for h v vs
    using that by (auto simp: is_panic_and_thenS)
  obtain t where t: "AuthenticationAuthority c = Some t" using assms(2) by (auto simp: context_ok_def)
  have "\<not> is_panic (fst (token_Verify (Registry c) r w))"
    using token_verifier.no_panic [OF assms(1), of r] assms(2) by (simp add: token_Verify_def context_ok_def)
  moreover have "\<not> is_panic (fst (auth_Verify L (Some t) r w))"
    by (simp add: auth_Verify_def tls_verifier.no_panic)
  ultimately show ?thesis
    unfolding attemptAuthentication_def verifiers_def t by (intro step) auto
qed

lemma apiToHTTP_deliberate:
  assumes "registry_ok w" and "context_ok (KContext ks)" and "\<And>s. length (sha256_Sum256 L s) = 32"
  shows "deliberate (fst (apiToHTTP L ks r w))"
proof -
  have resp: "deliberate (fst (respond h rs))" if "deliberate (fst rs)" for h and rs :: "string result \<times> 's"
    using that by (cases rs; cases "fst rs") (auto simp: deliberate_def)
  have "deliberate (fst (HandleAPIRequest L ks r w))"
    unfolding HandleAPIRequest_def
    by (intro deliberate_and_thenS InvokeAPIOperationSet_deliberate [OF assms(3)])
      (auto simp: deliberate_no_panic attemptAuthentication_no_panic assms(1,2))
  moreover have "deliberate (HandlePubRequest ks n)" for n
    by (auto simp: HandlePubRequest_def split: option.splits)
  moreover have "deliberate (fst (HandleStaticRequest ks n w))" for n
    by (auto simp: HandleStaticRequest_def deliberate_no_panic split: option.splits)
  ultimately show ?thesis by (auto simp: apiToHTTP_def Let_def intro!: resp)
qed

text \<open>
  No request makes the server panic by accident: whatever the method, path, headers, certificate
  chains and body, the handler answers, unless the entropy source fails or two tokens collide, where
  the code panics on purpose. So no index, slice, type assertion or nil pointer in the handling of a
  request can fail.
\<close>

theorem apiToHTTP_no_panic:
  assumes "registry_ok w" and "context_ok (KContext ks)" and "\<And>s. length (sha256_Sum256 L s) = 32"
  shows "deliberate (fst (apiToHTTP L ks r w))"
  using assms by (rule apiToHTTP_deliberate)

section \<open>Requests keep the invariant\<close>

definition registry_inv :: "string set \<Rightarrow> 'a TokenWorld_scheme \<Rightarrow> bool" where
  "registry_inv P w = (registry_ok w \<and> subjects_in P w)"

lemma keeps_tokens_inv: "keeps_tokens w w' \<Longrightarrow> registry_inv P w \<Longrightarrow> registry_inv P w'"
  by (simp add: keeps_tokens_def registry_inv_def subjects_in_def)

lemma auth_loop_account:
  "auth_loop c r vs w = (Ok ac, w') \<Longrightarrow> Accounts c (Principal ac) = Some ac"
proof (induction vs)
  case (Cons hv vs)
  then show ?case using auth_loop_Ok [of c r "fst hv" "snd hv" vs w ac w'] by (auto split: if_splits)
qed simp

lemma HandleAPIRequest_inv:
  assumes "registry_inv P w" and "context_bootstraps_in P (KContext ks)"
  shows "registry_inv P (snd (HandleAPIRequest L ks r w))"
  unfolding HandleAPIRequest_def
proof (intro and_thenS_keeps [where P = "registry_inv P"])
  show "registry_inv P (snd (lift (ReqBody r), w))" using assms(1) by simp
  fix body and w1 :: "'a TokenWorld_scheme" assume "registry_inv P w1"
  then show "registry_inv P (snd (attemptAuthentication L (KContext ks) r w1))"
    using attemptAuthentication_keeps keeps_tokens_inv by blast
next
  fix body ac and w1 w2 :: "'a TokenWorld_scheme"
  assume "attemptAuthentication L (KContext ks) r w1 = (Ok ac, w2)" and inv: "registry_inv P w2"
  then have "Accounts (KContext ks) (Principal ac) = Some ac"
    unfolding attemptAuthentication_def using auth_loop_account by blast
  then show "registry_inv P (snd (InvokeAPIOperationSet L (Some ac) (KContext ks) body w2))"
    using InvokeAPIOperationSet_keeps assms(2) inv unfolding registry_inv_def by blast
qed

lemma snd_respond [simp]: "snd (respond h rs) = snd rs"
  by (cases rs; cases "fst rs") auto

lemma ReadFile_registry: "keeps_tokens w (snd (ReadFile p w))"
  by (auto simp: keeps_tokens_def registry_ok_def ReadFile_def syscall_def split: option.splits)

lemma apiToHTTP_inv:
  assumes "registry_inv P w" and "context_bootstraps_in P (KContext ks)"
  shows "registry_inv P (snd (apiToHTTP L ks r w))"
proof -
  have "registry_inv P (snd (HandleStaticRequest ks n w))" for n
    using assms(1) keeps_tokens_inv [OF ReadFile_registry assms(1)]
    by (auto simp: HandleStaticRequest_def split: option.splits)
  with assms HandleAPIRequest_inv [OF assms] show ?thesis by (simp add: apiToHTTP_def Let_def)
qed

definition server_inv :: "string set \<Rightarrow> Server \<Rightarrow> bool" where
  "server_inv P s = (registry_inv P (sworld s) \<and> server_cert_complete s)"

lemma storeServerCert_inv:
  assumes "server_inv P s"
  shows "server_inv P (snd (storeServerCert L k cert s))"
proof -
  have "server_inv P (s\<lparr>ServerCert := Some (pair\<lparr>Leaf := Some leaf\<rparr>)\<rparr>)" for pair leaf
    using assms by (simp add: server_inv_def server_cert_complete_def)
  then show ?thesis
    using assms unfolding storeServerCert_def
    by (intro and_thenS_keeps [where P = "server_inv P"])
      (auto simp: Let_def split: list.splits intro!: and_thenS_keeps [where P = "server_inv P"])
qed

lemma newServerCert_inv:
  assumes "server_inv P s"
  shows "server_inv P (snd (newServerCert L k s))"
  unfolding newServerCert_def
proof (rule and_thenS_keeps [where P = "server_inv P"])
  fix csr s1 assume s1: "server_inv P s1"
  have "server_inv P (s1\<lparr>sworld := snd (TLSAuthority_Sign L ca csr ishost d cn ns os (sworld s1))\<rparr>)"
    for ca ishost d cn ns os
    using s1 by (simp add: server_inv_def registry_inv_def registry_ok_def subjects_in_def
        server_cert_complete_def)
  then have "server_inv P (s1\<lparr>sworld := w\<rparr>)"
    if "TLSAuthority_Sign L ca csr ishost d cn ns os (sworld s1) = (r, w)" for ca ishost d cn ns os r w
    using that by (metis snd_conv)
  then show "server_inv P (snd (case ClusterCA (KContext k) of None \<Rightarrow> (Panic ''nil pointer dereference'', s1)
      | Some ca \<Rightarrow> (case TLSAuthority_Sign L ca csr True ValidityInterval ''keyserver-autogen-tls''
             [KeyserverDNS (KContext k)] [] (sworld s1) of (r, w) \<Rightarrow>
          and_thenS (wrap_err ''while signing CSR'' r, s1\<lparr>sworld := w\<rparr>) (storeServerCert L k))))"
    using s1 storeServerCert_inv
    by (auto split: option.split prod.split intro!: and_thenS_keeps [where P = "server_inv P"]
        simp del: wrap_err_Ok_iff)
qed (use assms in simp)

lemma GetValidServerCert_inv:
  assumes "server_inv P s"
  shows "server_inv P (snd (GetValidServerCert L k s))"
proof -
  have tick: "server_inv P (s\<lparr>sworld := snd (time_Now (sworld s))\<rparr>)"
    using assms by (simp add: server_inv_def registry_inv_def subjects_in_def server_cert_complete_def)
  then show ?thesis
    using assms newServerCert_inv [OF assms] newServerCert_inv [OF tick]
    by (auto simp: GetValidServerCert_def time_Now_def split: option.splits)
qed

end
