(* ===== verification/World_Config.thy ===== *)
theory World_Config
  imports Spire_Setup Key_Server
begin

text \<open>
  \<open>worldconfig/keyserver.go\<close>: the keyserver's configuration generated from the cluster description,
  above all which account has which privileges; and \<open>LoadConfiguredKeyserver\<close> of
  \<open>keyapi/keyserver.go\<close>, which starts from it. The groups of the source are the two addresses
  \<open>nodes_group\<close> and \<open>kerberos_group\<close>; the source adds an account to its group before it sets the
  account's privileges, which is not visible since groups are only asked for principals.
\<close>

section \<open>Authorities\<close>

definition nodes_group :: nat where "nodes_group = 0"
definition kerberos_group :: nat where "kerberos_group = 1"

record WorldAuthorities =
  Keygranting :: TLSAuthority
  AuthClusterCA :: TLSAuthority
  SshUser :: SSHAuthority
  SshHost :: SSHAuthority
  EtcdServer :: TLSAuthority
  EtcdClient :: TLSAuthority
  Kubernetes :: TLSAuthority
  ServiceAccount :: TLSAuthority

definition ListAuthorities :: "ConfigAuthority list" where
  "ListAuthorities =
     [config_TLSAuthority KeygrantingAuthority, config_TLSAuthority ClusterCAAuthority,
      config_SSHAuthority SSHUserAuthority, config_SSHAuthority SSHHostAuthority,
      config_TLSAuthority KubernetesAuthority, config_TLSAuthority EtcdServerAuthority,
      config_TLSAuthority EtcdClientAuthority, config_TLSAuthority ServiceAccountAuthority]"

section \<open>Grants\<close>

definition GrantsForRootAdminAccount ::
  "Context \<Rightarrow> WorldAuthorities \<Rightarrow> string \<Rightarrow> (string \<rightharpoonup> Privilege) result" where
  "GrantsForRootAdminAccount c auth princ =
     and_then (NewBootstrapPrivilege nodes_group time_Hour (Registry c)) (\<lambda>boot.
       Ok (Map.empty
         (AccessSSHAPI \<mapsto> NewSSHGrantPrivilege (SshUser auth) False (4 * time_Hour)
            (''temporary-ssh-grant-'' @ princ) [''root''],
          AccessEtcdAPI \<mapsto> NewTLSGrantPrivilege (EtcdClient auth) False (4 * time_Hour)
            (''temporary-etcd-grant-'' @ princ) [] [],
          AccessKubernetesAPI \<mapsto> NewTLSGrantPrivilege (Kubernetes auth) False (4 * time_Hour)
            (''root:'' @ princ) [] [''system:masters''],
          ''bootstrap'' \<mapsto> boot)))"

definition bool_text :: "bool \<Rightarrow> string" where
  "bool_text b = (if b then ''true'' else ''false'')"

definition GenerateLocalConf :: "SpireNode \<Rightarrow> string result" where
  "GenerateLocalConf node =
     and_then (DNS node) (\<lambda>dns.
       Ok (join (CHR 0x0A) [''# generated automatically by keyserver'',
         ''HOST_NODE='' @ Hostname node, ''HOST_DNS='' @ dns, ''HOST_IP='' @ NodeIP node,
         ''SCHEDULE_WORK='' @ bool_text (IsWorker node), ''KIND='' @ Kind node]))"

text \<open>The grants of a node, in the order of the source: each step adds entries to the map.\<close>

definition grants_supervisor :: "Context \<Rightarrow> SpireNode \<Rightarrow> (string \<rightharpoonup> Privilege) result" where
  "grants_supervisor c node =
     (if IsSupervisor node then
        and_then (NewBootstrapPrivilege nodes_group time_Hour (Registry c)) (\<lambda>boot.
          Ok [BootstrapKeyserverTokenAPI \<mapsto> boot,
              ImpersonateKerberosAPI \<mapsto> NewImpersonatePrivilege kerberos_group])
      else Ok Map.empty)"

definition grants_servers ::
  "SpireSetup \<Rightarrow> WorldAuthorities \<Rightarrow> SpireNode \<Rightarrow> string \<Rightarrow> (string \<rightharpoonup> Privilege) \<Rightarrow> (string \<rightharpoonup> Privilege)" where
  "grants_servers conf auth node dns grants =
     (let g1 = (if IsMaster node then grants
           (SignKubernetesMasterAPI \<mapsto> NewTLSGrantPrivilege (Kubernetes auth) True (30 * OneDay)
              (''apiserver:'' @ Hostname node)
              [dns, Hostname node, ''kubernetes'', ''kubernetes.default'', ''kubernetes.default.svc'',
               ''kubernetes.default.svc.'' @ InternalDomain conf, NodeIP node, ServiceAPI conf] [],
            SignEtcdServerAPI \<mapsto> NewTLSGrantPrivilege (EtcdServer auth) True (30 * OneDay)
              (''etcd-server-'' @ Hostname node) [dns, Hostname node, NodeIP node] [])
         else grants) in
      if IsSupervisor node then g1
        (SignRegistryHostAPI \<mapsto> NewTLSGrantPrivilege (AuthClusterCA auth) True (30 * OneDay)
           (''homeworld-supervisor-'' @ Hostname node) [''homeworld.private''] [])
      else g1)"

definition grants_clients ::
  "WorldAuthorities \<Rightarrow> SpireNode \<Rightarrow> string \<Rightarrow> (string \<rightharpoonup> Privilege) \<Rightarrow> (string \<rightharpoonup> Privilege)" where
  "grants_clients auth node dns grants =
     (let g1 = (if IsSupervisor node then grants
           (SignKubernetesSupervisorAPI \<mapsto> NewTLSGrantPrivilege (Kubernetes auth) False (30 * OneDay)
              (''supervisor:'' @ Hostname node) [] [''system:masters''])
         else grants
           (SignKubernetesWorkerAPI \<mapsto> NewTLSGrantPrivilege (Kubernetes auth) True (30 * OneDay)
              (''system:node:'' @ Hostname node) [dns, Hostname node, NodeIP node] [''system:nodes''],
            SignKubernetesProxyAPI \<mapsto> NewTLSGrantPrivilege (Kubernetes auth) False (30 * OneDay)
              ''system:kube-proxy'' [] [])) in
      if IsMaster node then g1
        (SignKubernetesCtrlMgrAPI \<mapsto> NewTLSGrantPrivilege (Kubernetes auth) False (30 * OneDay)
           ''system:kube-controller-manager'' [] [],
         SignKubernetesSchedulerAPI \<mapsto> NewTLSGrantPrivilege (Kubernetes auth) False (30 * OneDay)
           ''system:kube-scheduler'' [] [],
         SignEtcdClientAPI \<mapsto> NewTLSGrantPrivilege (EtcdClient auth) False (30 * OneDay)
           (''etcd-client-'' @ Hostname node) [dns, Hostname node, NodeIP node] [],
         FetchServiceAccountKeyAPI \<mapsto> NewFetchKeyPrivilege (ServiceAccount auth))
      else g1)"

definition GrantsForNodeAccount ::
  "Context \<Rightarrow> SpireSetup \<Rightarrow> WorldAuthorities \<Rightarrow> string \<Rightarrow> SpireNode \<Rightarrow> (string \<rightharpoonup> Privilege) result" where
  "GrantsForNodeAccount c conf auth princ node =
     and_then (grants_supervisor c node) (\<lambda>grants.
     and_then (GenerateLocalConf node) (\<lambda>localconf.
     and_then (DNS node) (\<lambda>dns.
       let grants = grants
         (RenewKeygrantAPI \<mapsto> NewTLSGrantPrivilege (Keygranting auth) False (OneDay * 40) princ [] [],
          LocalConfAPI \<mapsto> NewConfigurationPrivilege localconf,
          SignSSHHostKeyAPI \<mapsto> NewSSHGrantPrivilege (SshHost auth) True (OneDay * 60)
            (''admitted-'' @ princ) [dns, Hostname node, NodeIP node]) in
       Ok (grants_clients auth node dns (grants_servers conf auth node dns grants)))))"

section \<open>Accounts\<close>

fun node_accounts ::
  "Context \<Rightarrow> SpireSetup \<Rightarrow> WorldAuthorities \<Rightarrow> SpireNode list \<Rightarrow> Account list result" where
  "node_accounts c conf auth [] = Ok []"
| "node_accounts c conf auth (node # nodes) =
     and_then (DNS node) (\<lambda>princ.
     and_then (NetIP node) (\<lambda>ip.
     and_then (GrantsForNodeAccount c conf auth princ node) (\<lambda>privs.
     and_then (node_accounts c conf auth nodes) (\<lambda>accts.
       Ok (\<lparr>Principal = princ, DisableDirectAuth = False, LimitIP = Some ip, Privileges = privs\<rparr>
           # accts)))))"

fun admin_accounts :: "Context \<Rightarrow> WorldAuthorities \<Rightarrow> string list \<Rightarrow> Account list result" where
  "admin_accounts c auth [] = Ok []"
| "admin_accounts c auth (rootAdmin # admins) =
     and_then (GrantsForRootAdminAccount c auth rootAdmin) (\<lambda>privs.
     and_then (admin_accounts c auth admins) (\<lambda>accts.
       Ok (\<lparr>Principal = rootAdmin, DisableDirectAuth = True, LimitIP = None, Privileges = privs\<rparr>
           # accts)))"

fun service_accounts :: "SpireSetup \<Rightarrow> SpireNode list \<Rightarrow> Account list result" where
  "service_accounts conf [] = Ok []"
| "service_accounts conf (node # nodes) =
     (if IsSupervisor node then
        and_then (DNS node) (\<lambda>dns.
        and_then (service_accounts conf nodes) (\<lambda>accts.
          Ok (\<lparr>Principal = ''host/'' @ dns @ ''@'' @ KerberosRealm conf, DisableDirectAuth = True,
               LimitIP = None, Privileges = Map.empty\<rparr> # accts)))
      else service_accounts conf nodes)"

definition MetricsAdmin :: string where
  "MetricsAdmin = ''metrics@NONEXISTENT.REALM.INVALID''"

fun add_accounts :: "(string \<rightharpoonup> Account) \<Rightarrow> Account list \<Rightarrow> (string \<rightharpoonup> Account)" where
  "add_accounts m [] = m"
| "add_accounts m (ac # accts) = add_accounts (m(Principal ac \<mapsto> ac)) accts"

definition GenerateAccounts :: "Context \<Rightarrow> SpireSetup \<Rightarrow> WorldAuthorities \<Rightarrow> Context result" where
  "GenerateAccounts context conf auth =
     and_then (node_accounts context conf auth (Nodes conf)) (\<lambda>nodes.
     and_then (admin_accounts context auth (MetricsAdmin # RootAdmins conf)) (\<lambda>admins.
     and_then (if length (RootAdmins conf) > 0 then service_accounts conf (Nodes conf) else Ok [])
       (\<lambda>services.
       Ok (context\<lparr>
         Accounts := add_accounts (Accounts context) (nodes @ admins @ services),
         GroupStore := (GroupStore context)
           (nodes_group := \<lparr>AllMembers = nodes\<rparr>, kerberos_group := \<lparr>AllMembers = admins @ services\<rparr>)\<rparr>))))"

section \<open>The whole configuration\<close>

fun ValidateStaticFiles :: "(string \<times> StaticFile) list \<Rightarrow> ('a FsWorld_scheme, unit) action" where
  "ValidateStaticFiles [] w = (Ok (), w)"
| "ValidateStaticFiles ((n, static) # statics) w =
     and_thenS (os_Stat (Filepath static) w) (\<lambda>info w.
       if info = Directory then
         (Err (Errorf ''static file at %s is directory'' [Filepath static]), w)
       else ValidateStaticFiles statics w)"

definition AuthorityKeyDirectory :: string where
  "AuthorityKeyDirectory = ''/etc/homeworld/keyserver/authorities/''"
definition ClusterConfigPath :: string where
  "ClusterConfigPath = ''/etc/homeworld/keyserver/static/cluster.conf''"

fun load_authorities ::
  "Lib \<Rightarrow> ConfigAuthority list \<Rightarrow> (string \<rightharpoonup> Authority) \<Rightarrow> ('a FsWorld_scheme, string \<rightharpoonup> Authority) action" where
  "load_authorities L [] m w = (Ok m, w)"
| "load_authorities L (authority # auths) m w =
     and_thenS (ConfigAuthority_Load L authority AuthorityKeyDirectory w) (\<lambda>loaded w.
       load_authorities L auths (m(AName authority \<mapsto> loaded)) w)"

text \<open>The type assertions \<open>context.Authorities[name].(*TLSAuthority)\<close> panic on another type or nil.\<close>

definition assert_TLS :: "(string \<rightharpoonup> Authority) \<Rightarrow> string \<Rightarrow> TLSAuthority result" where
  "assert_TLS m name = (case m name of Some (TLSAuth t) \<Rightarrow> Ok t | _ \<Rightarrow> Panic ''interface conversion'')"

definition assert_SSH :: "(string \<rightharpoonup> Authority) \<Rightarrow> string \<Rightarrow> SSHAuthority result" where
  "assert_SSH m name = (case m name of Some (SSHAuth d) \<Rightarrow> Ok d | _ \<Rightarrow> Panic ''interface conversion'')"

definition assert_authorities :: "(string \<rightharpoonup> Authority) \<Rightarrow> WorldAuthorities result" where
  "assert_authorities m =
     and_then (assert_TLS m KeygrantingAuthority) (\<lambda>keygranting.
     and_then (assert_TLS m ClusterCAAuthority) (\<lambda>clusterca.
     and_then (assert_TLS m EtcdClientAuthority) (\<lambda>etcdclient.
     and_then (assert_TLS m EtcdServerAuthority) (\<lambda>etcdserver.
     and_then (assert_TLS m KubernetesAuthority) (\<lambda>kubernetes.
     and_then (assert_TLS m ServiceAccountAuthority) (\<lambda>serviceaccount.
     and_then (assert_SSH m SSHHostAuthority) (\<lambda>sshhost.
     and_then (assert_SSH m SSHUserAuthority) (\<lambda>sshuser.
       Ok \<lparr>Keygranting = keygranting, AuthClusterCA = clusterca, SshUser = sshuser, SshHost = sshhost,
           EtcdServer = etcdserver, EtcdClient = etcdclient, Kubernetes = kubernetes,
           ServiceAccount = serviceaccount\<rparr>))))))))"

definition empty_context :: "string \<Rightarrow> Context" where
  "empty_context dns = \<lparr>Authorities = Map.empty, Accounts = Map.empty, Registry = Some (),
     AuthenticationAuthority = None, ClusterCA = None,
     StaticFiles = [(ClusterConfStatic, \<lparr>Filepath = ClusterConfigPath\<rparr>)], KeyserverDNS = dns,
     GroupStore = (\<lambda>_. \<lparr>AllMembers = []\<rparr>)\<rparr>"

text \<open>The part of \<open>GenerateConfig\<close> from the context literal on, for the loaded setup and the server's name.\<close>

definition config_for :: "Lib \<Rightarrow> SpireSetup \<Rightarrow> string \<Rightarrow> ('a TokenWorld_scheme, Context) action" where
  "config_for L conf dns w =
     (let context = empty_context dns; w = NewTokenRegistry w in
      and_thenS (ValidateStaticFiles (StaticFiles context) w) (\<lambda>_ w.
      and_thenS (load_authorities L ListAuthorities (Authorities context) w) (\<lambda>m w.
      and_thenS (assert_authorities m, w) (\<lambda>auth w.
        (GenerateAccounts (context\<lparr>Authorities := m, AuthenticationAuthority := Some (Keygranting auth),
           ClusterCA := Some (AuthClusterCA auth)\<rparr>) conf auth, w)))))"

definition GenerateConfig ::
  "Lib \<Rightarrow> (string \<Rightarrow> error + RawSetup) \<Rightarrow> ('a TokenWorld_scheme, Context) action" where
  "GenerateConfig L yaml w =
     and_thenS (LoadSpireSetup yaml SpireSetupPath w) (\<lambda>conf w.
     and_thenS (and_then (Supervisor conf) DNS, w) (\<lambda>dns w. config_for L conf dns w))"

definition AuthorityBits :: nat where "AuthorityBits = 4096"

definition LoadConfiguredKeyserver ::
  "Lib \<Rightarrow> (string \<Rightarrow> error + RawSetup) \<Rightarrow> ('a TokenWorld_scheme, ConfiguredKeyserver) action" where
  "LoadConfiguredKeyserver L yaml w =
     and_thenS (GenerateConfig L yaml w) (\<lambda>ctx w.
     and_thenS (GenerateRSA L AuthorityBits w) (\<lambda>(key, serverKey) w.
       (Ok \<lparr>KContext = ctx, ServerKey = serverKey\<rparr>, w)))"

end
