(* ===== verification/World_Privileges.thy ===== *)
theory World_Privileges
  imports World_Config
begin

text \<open>
  What the generated configuration guarantees, whatever the cluster description says: which accounts
  can authenticate directly and from where, who can impersonate whom, who can obtain cluster
  administrator certificates, that generating it does not panic, and, for the running server, that the
  token registry only ever holds tokens for the principals of cluster nodes.
\<close>

section \<open>Privileges of the generated accounts\<close>

definition grants_satisfy :: "(string \<Rightarrow> Privilege \<Rightarrow> bool) \<Rightarrow> (string \<rightharpoonup> Privilege) \<Rightarrow> bool" where
  "grants_satisfy Q g = (\<forall>api priv. g api = Some priv \<longrightarrow> Q api priv)"

lemma grants_satisfy_empty [intro!]: "grants_satisfy Q Map.empty"
  by (simp add: grants_satisfy_def)

lemma grants_satisfy_upd [intro!]:
  "Q k v \<Longrightarrow> grants_satisfy Q m \<Longrightarrow> grants_satisfy Q (m(k \<mapsto> v))"
  by (simp add: grants_satisfy_def)

text \<open>The privileges that a node account may have, and those that a Kerberos account may have.\<close>

fun node_priv :: "SpireNode \<Rightarrow> string \<Rightarrow> Privilege \<Rightarrow> bool" where
  "node_priv node api (Impersonate g) =
     (IsSupervisor node \<and> g = kerberos_group \<and> api = ImpersonateKerberosAPI)"
| "node_priv node api (Bootstrap g d) =
     (IsSupervisor node \<and> g = nodes_group \<and> d = time_Hour \<and> api = BootstrapKeyserverTokenAPI)"
| "node_priv node api (TLSGrant t ishost d cn names orgs) =
     (d \<le> 40 * OneDay \<and> (''system:masters'' \<in> set orgs \<longrightarrow> IsSupervisor node) \<and> api \<noteq> ImpersonateKerberosAPI)"
| "node_priv node api (SSHGrant t ishost d keyid ps) =
     (ishost \<and> time_Second \<le> d \<and> ps \<noteq> [] \<and> api = SignSSHHostKeyAPI)"
| "node_priv node api (FetchKey t) = (IsMaster node \<and> api = FetchServiceAccountKeyAPI)"
| "node_priv node api (Configuration s) = (api = LocalConfAPI)"

fun admin_priv :: "string \<Rightarrow> Privilege \<Rightarrow> bool" where
  "admin_priv api (Impersonate g) = False"
| "admin_priv api (Bootstrap g d) = (g = nodes_group \<and> d = time_Hour)"
| "admin_priv api (TLSGrant t ishost d cn names orgs) = (\<not> ishost \<and> d = 4 * time_Hour \<and> names = [])"
| "admin_priv api (SSHGrant t ishost d keyid ps) = (\<not> ishost \<and> d = 4 * time_Hour \<and> ps = [''root''])"
| "admin_priv api (FetchKey t) = False"
| "admin_priv api (Configuration s) = False"

lemmas new_privileges = NewTLSGrantPrivilege_def NewSSHGrantPrivilege_def NewImpersonatePrivilege_def
  NewConfigurationPrivilege_def NewFetchKeyPrivilege_def NewBootstrapPrivilege_def

lemma admin_grants:
  "GrantsForRootAdminAccount c auth p = Ok g \<Longrightarrow> grants_satisfy admin_priv g"
  by (auto simp: GrantsForRootAdminAccount_def and_then_Ok_iff new_privileges split: if_splits)

lemma one_kind: "IsSupervisor n \<Longrightarrow> \<not> IsMaster n"
  by (simp add: IsSupervisor_def IsMaster_def kinds)

lemma node_grants:
  assumes "GrantsForNodeAccount c conf auth p node = Ok g"
  shows "grants_satisfy (node_priv node) g"
proof -
  have d: "time_Second \<le> OneDay * 60" "OneDay * 40 \<le> 40 * OneDay" "30 * OneDay \<le> 40 * OneDay"
    by (simp_all add: OneDay_def time_units)
  have names: "RenewKeygrantAPI \<noteq> ImpersonateKerberosAPI" "SignRegistryHostAPI \<noteq> ImpersonateKerberosAPI"
    "SignKubernetesMasterAPI \<noteq> ImpersonateKerberosAPI" "SignEtcdServerAPI \<noteq> ImpersonateKerberosAPI"
    "SignKubernetesSupervisorAPI \<noteq> ImpersonateKerberosAPI" "SignKubernetesWorkerAPI \<noteq> ImpersonateKerberosAPI"
    "SignKubernetesProxyAPI \<noteq> ImpersonateKerberosAPI" "SignKubernetesCtrlMgrAPI \<noteq> ImpersonateKerberosAPI"
    "SignKubernetesSchedulerAPI \<noteq> ImpersonateKerberosAPI" "SignEtcdClientAPI \<noteq> ImpersonateKerberosAPI"
    by (simp_all add: api_names)
  have servers: "grants_satisfy (node_priv node) (grants_servers conf auth node dns g0)"
    if "grants_satisfy (node_priv node) g0" for dns g0
    using that d names by (auto simp: grants_servers_def Let_def new_privileges)
  have clients: "grants_satisfy (node_priv node) (grants_clients auth node dns g0)"
    if "grants_satisfy (node_priv node) g0" for dns g0
    using that d names by (auto simp: grants_clients_def Let_def new_privileges)
  have sup: "grants_satisfy (node_priv node) g0" if "grants_supervisor c node = Ok g0" for g0
    using that by (auto simp: grants_supervisor_def and_then_Ok_iff new_privileges split: if_splits)
  from assms show ?thesis
    using d names
    by (auto simp: GrantsForNodeAccount_def and_then_Ok_iff Let_def new_privileges
        intro!: servers clients dest!: sup)
qed

section \<open>The generated accounts\<close>

definition is_node_account :: "SpireSetup \<Rightarrow> Account \<Rightarrow> bool" where
  "is_node_account conf a = (\<not> DisableDirectAuth a \<and>
     (\<exists>node\<in>set (Nodes conf). DNS node = Ok (Principal a) \<and> NetIP node = Ok (the (LimitIP a)) \<and>
        LimitIP a \<noteq> None \<and> grants_satisfy (node_priv node) (Privileges a)))"

definition is_kerberos_account :: "Account \<Rightarrow> bool" where
  "is_kerberos_account a = (DisableDirectAuth a \<and> grants_satisfy admin_priv (Privileges a))"

lemma node_accounts_Ok:
  assumes "node_accounts c conf auth nodes = Ok accts" and "a \<in> set accts" and "set nodes \<subseteq> set (Nodes conf)"
  shows "is_node_account conf a"
  using assms
proof (induction nodes arbitrary: accts)
  case (Cons node nodes)
  then obtain princ ip privs accts' where n: "DNS node = Ok princ" "NetIP node = Ok ip"
    "GrantsForNodeAccount c conf auth princ node = Ok privs" "node_accounts c conf auth nodes = Ok accts'"
    "accts = \<lparr>Principal = princ, DisableDirectAuth = False, LimitIP = Some ip, Privileges = privs\<rparr> # accts'"
    by (auto simp: and_then_Ok_iff)
  show ?case
  proof (cases "a \<in> set accts'")
    case True
    then show ?thesis using Cons n by simp
  next
    case False
    then show ?thesis using n Cons.prems node_grants [OF n(3)] by (auto simp: is_node_account_def)
  qed
qed simp

lemma admin_accounts_Ok:
  "admin_accounts c auth admins = Ok accts \<Longrightarrow> a \<in> set accts \<Longrightarrow>
     is_kerberos_account a \<and> Principal a \<in> set admins"
proof (induction admins arbitrary: accts)
  case (Cons p admins)
  then obtain privs accts' where n: "GrantsForRootAdminAccount c auth p = Ok privs"
    "admin_accounts c auth admins = Ok accts'"
    "accts = \<lparr>Principal = p, DisableDirectAuth = True, LimitIP = None, Privileges = privs\<rparr> # accts'"
    by (auto simp: and_then_Ok_iff)
  then show ?case using Cons admin_grants [OF n(1)] by (auto simp: is_kerberos_account_def)
qed simp

lemma service_accounts_Ok:
  "service_accounts conf nodes = Ok accts \<Longrightarrow> a \<in> set accts \<Longrightarrow> is_kerberos_account a"
proof (induction nodes arbitrary: accts)
  case (Cons node nodes)
  show ?case
  proof (cases "IsSupervisor node")
    case True
    with Cons.prems(1) obtain d accts' where "service_accounts conf nodes = Ok accts'"
      "accts = \<lparr>Principal = ''host/'' @ d @ ''@'' @ KerberosRealm conf, DisableDirectAuth = True,
                LimitIP = None, Privileges = Map.empty\<rparr> # accts'"
      by (auto simp: and_then_Ok_iff)
    with Cons show ?thesis by (auto simp: is_kerberos_account_def)
  qed (use Cons in auto)
qed simp

lemma add_accounts_Some:
  assumes "add_accounts m accts p = Some a"
  shows "m p = Some a \<or> a \<in> set accts \<and> Principal a = p"
  using assms by (induction m accts rule: add_accounts.induct) (auto split: if_splits)

lemma add_accounts_append: "add_accounts m (xs @ ys) = add_accounts (add_accounts m xs) ys"
  by (induction xs arbitrary: m) simp_all

lemma add_accounts_mem:
  "p \<in> Principal ` set accts \<Longrightarrow> \<exists>a\<in>set accts. add_accounts m accts p = Some a"
proof (induction accts arbitrary: m)
  case (Cons x accts)
  show ?case
  proof (cases "p \<in> Principal ` set accts")
    case False
    then have "add_accounts m' accts p = m' p" for m'
      by (induction m' accts rule: add_accounts.induct) auto
    with False Cons.prems show ?thesis by auto
  qed (use Cons in auto)
qed simp

definition accounts_ok :: "SpireSetup \<Rightarrow> Context \<Rightarrow> bool" where
  "accounts_ok conf c =
     ((\<forall>p a. Accounts c p = Some a \<longrightarrow> Principal a = p \<and> (is_node_account conf a \<or> is_kerberos_account a)) \<and>
      (\<forall>a\<in>set (AllMembers (GroupStore c nodes_group)). is_node_account conf a) \<and>
      (\<forall>p a. HasMember (GroupStore c kerberos_group) p \<longrightarrow> Accounts c p = Some a \<longrightarrow> is_kerberos_account a))"

lemma GenerateAccounts_Ok:
  assumes "GenerateAccounts context conf auth = Ok c" and "Accounts context = Map.empty"
  shows "accounts_ok conf c \<and> Registry c = Registry context \<and>
    AuthenticationAuthority c = AuthenticationAuthority context \<and> ClusterCA c = ClusterCA context"
proof -
  obtain nodes admins services where n: "node_accounts context conf auth (Nodes conf) = Ok nodes"
    and a: "admin_accounts context auth (MetricsAdmin # RootAdmins conf) = Ok admins"
    and s: "(if length (RootAdmins conf) > 0 then service_accounts conf (Nodes conf) else Ok []) = Ok services"
    and c: "c = context\<lparr>Accounts := add_accounts (Accounts context) (nodes @ admins @ services),
         GroupStore := (GroupStore context)
           (nodes_group := \<lparr>AllMembers = nodes\<rparr>, kerberos_group := \<lparr>AllMembers = admins @ services\<rparr>)\<rparr>"
    using assms(1) [unfolded GenerateAccounts_def and_then_Ok_iff result.inject] by blast
  have nodes: "\<forall>x\<in>set nodes. is_node_account conf x" using node_accounts_Ok [OF n] by blast
  have kerb: "\<forall>x\<in>set (admins @ services). is_kerberos_account x"
    using admin_accounts_Ok [OF a] s service_accounts_Ok by (auto split: if_splits)
  have "Principal x = p \<and> (is_node_account conf x \<or> is_kerberos_account x)" if "Accounts c p = Some x" for p x
    using add_accounts_Some [of "Accounts context" "nodes @ admins @ services" p x] that assms(2) nodes kerb
    by (auto simp: c)
  moreover have "AllMembers (GroupStore c nodes_group) = nodes" "AllMembers (GroupStore c kerberos_group) = admins @ services"
    by (simp_all add: c nodes_group_def kerberos_group_def)
  moreover have "is_kerberos_account x"
    if "HasMember (GroupStore c kerberos_group) p" "Accounts c p = Some x" for p x
    using that kerb add_accounts_mem [of p "admins @ services" "add_accounts (Accounts context) nodes"]
    by (auto simp: c HasMember_iff kerberos_group_def add_accounts_append [symmetric])
  ultimately have "accounts_ok conf c" using nodes unfolding accounts_ok_def by simp
  then show ?thesis by (simp add: c)
qed

lemma config_for_Ok:
  assumes "config_for L conf dns w = (Ok c, w')"
  shows "accounts_ok conf c \<and> context_ok c"
proof -
  from assms obtain m auth where g: "GenerateAccounts ((empty_context dns)\<lparr>Authorities := m,
      AuthenticationAuthority := Some (Keygranting auth), ClusterCA := Some (AuthClusterCA auth)\<rparr>) conf auth = Ok c"
    unfolding config_for_def Let_def and_thenS_Ok_iff prod.inject by blast
  from GenerateAccounts_Ok [OF g] show ?thesis by (auto simp: empty_context_def context_ok_def)
qed

lemma GenerateConfig_Ok:
  assumes "GenerateConfig L yaml w = (Ok c, w')"
  obtains conf where "fst (LoadSpireSetup yaml SpireSetupPath w) = Ok conf" "accounts_ok conf c" "context_ok c"
  using assms config_for_Ok unfolding GenerateConfig_def and_thenS_Ok_iff by fastforce

section \<open>Who can act as whom\<close>

text \<open>
  C8: in a generated configuration the accounts that can authenticate directly are those of cluster
  nodes: such an account is named after a node of the setup, and can be used from that node's
  address only. Accounts of people (and the service account) have direct authentication disabled.
\<close>

theorem config_direct_auth:
  assumes "GenerateConfig L yaml w = (Ok c, w')" and "Accounts c p = Some a" and "\<not> DisableDirectAuth a"
  shows "\<exists>conf node ip. fst (LoadSpireSetup yaml SpireSetupPath w) = Ok conf \<and> node \<in> set (Nodes conf) \<and>
    p = Hostname node @ ''.'' @ ExternalDomain conf \<and> ParseIP (NodeIP node) = Some ip \<and> LimitIP a = Some ip"
proof -
  obtain conf where conf: "fst (LoadSpireSetup yaml SpireSetupPath w) = Ok conf" and ok: "accounts_ok conf c"
    using GenerateConfig_Ok [OF assms(1)] by blast
  have "Principal a = p" "is_node_account conf a"
    using ok assms(2,3) unfolding accounts_ok_def is_kerberos_account_def by blast+
  then obtain node where node: "node \<in> set (Nodes conf)" "DNS node = Ok p" "NetIP node = Ok (the (LimitIP a))"
    "LimitIP a \<noteq> None" unfolding is_node_account_def by blast
  with LoadSpireSetup_Ok [OF conf] conf show ?thesis
    by (intro exI [of _ conf] exI [of _ node] exI [of _ "the (LimitIP a)"])
      (auto simp: DNS_def NetIP_def split: option.splits)
qed

lemma acts_next_kerberos:
  assumes "is_kerberos_account a" and "acts_next c a op = Some b"
  shows "b = a"
proof (cases op)
  case (Pair api body)
  then obtain priv where "Privileges a api = Some priv" using assms(2) by (auto split: option.splits)
  moreover from this have "admin_priv api priv"
    using assms(1) by (simp add: is_kerberos_account_def grants_satisfy_def)
  ultimately show ?thesis using assms(2) Pair by (cases priv) auto
qed

lemma acting_kerberos:
  assumes "is_kerberos_account a" and "acting c a ops = Some b"
  shows "b = a"
  using assms
proof (induction ops)
  case (Cons op ops)
  then obtain a1 where "acts_next c a op = Some a1" "acting c a1 ops = Some b"
    by (auto split: option.splits)
  with acts_next_kerberos [OF Cons.prems(1)] Cons show ?case by blast
qed simp

definition supervisor_principal :: "SpireSetup \<Rightarrow> string \<Rightarrow> bool" where
  "supervisor_principal conf p = (\<exists>node\<in>set (Nodes conf). IsSupervisor node \<and> DNS node = Ok p)"

lemma acts_next_node:
  assumes "accounts_ok conf c" and "is_node_account conf a" and "acts_next c a op = Some b"
  shows "b = a \<or> supervisor_principal conf (Principal a) \<and> is_kerberos_account b \<and>
    HasMember (GroupStore c kerberos_group) (Principal b) \<and> Accounts c (Principal b) = Some b"
proof (cases op)
  case (Pair api body)
  then obtain priv where priv: "Privileges a api = Some priv" using assms(3) by (auto split: option.splits)
  obtain node where node: "node \<in> set (Nodes conf)" "DNS node = Ok (Principal a)"
    "grants_satisfy (node_priv node) (Privileges a)" using assms(2) unfolding is_node_account_def by blast
  then have np: "node_priv node api priv" using priv by (simp add: grants_satisfy_def)
  show ?thesis
  proof (cases priv)
    case (Impersonate g)
    then have "supervisor_principal conf (Principal a)" "g = kerberos_group"
      using np node by (auto simp: supervisor_principal_def)
    with assms(1,3) Pair priv Impersonate show ?thesis
      by (auto simp: accounts_ok_def split: if_splits option.splits)
  qed (use assms(3) Pair priv in auto)
qed

lemma acting_node:
  assumes "accounts_ok conf c" and "is_node_account conf a" and "acting c a ops = Some b"
  shows "b = a \<or> supervisor_principal conf (Principal a) \<and> is_kerberos_account b \<and>
    HasMember (GroupStore c kerberos_group) (Principal b) \<and> Accounts c (Principal b) = Some b"
  using assms
proof (induction ops)
  case (Cons op ops)
  then obtain a1 where a1: "acts_next c a op = Some a1" "acting c a1 ops = Some b"
    by (auto split: option.splits)
  show ?case
  proof (cases "a1 = a")
    case False
    with acts_next_node [OF assms(1,2) a1(1)] acting_kerberos [OF _ a1(2)] show ?thesis by blast
  qed (use Cons a1 in blast)
qed simp

lemma acting_account:
  assumes "accounts_ok conf c" and "Accounts c p = Some a" and "acting c a ops = Some b"
  shows "b = a \<or> supervisor_principal conf p \<and> is_kerberos_account b \<and>
    HasMember (GroupStore c kerberos_group) (Principal b) \<and> Accounts c (Principal b) = Some b"
proof -
  have "Principal a = p" "is_node_account conf a \<or> is_kerberos_account a"
    using assms(1,2) unfolding accounts_ok_def by blast+
  with acting_kerberos [OF _ assms(3)] acting_node [OF assms(1) _ assms(3)] show ?thesis by blast
qed

text \<open>
  C7: impersonation in a generated configuration: if an account comes to act as another one, by
  whatever sequence of operations, then it is the account of the supervisor node, and the other is
  a registered account of the Kerberos group, which cannot authenticate directly and cannot
  impersonate anyone itself. So impersonation is one step deep and open to the supervisor only.
\<close>

theorem config_impersonation:
  assumes "GenerateConfig L yaml w = (Ok c, w')" and "Accounts c p = Some a"
    and "acting c a ops = Some b" and "b \<noteq> a"
  shows "\<exists>conf. fst (LoadSpireSetup yaml SpireSetupPath w) = Ok conf \<and> supervisor_principal conf p \<and>
    Accounts c (Principal b) = Some b \<and> HasMember (GroupStore c kerberos_group) (Principal b) \<and>
    DisableDirectAuth b \<and> (\<forall>api g. Privileges b api \<noteq> Some (Impersonate g))"
proof -
  obtain conf where conf: "fst (LoadSpireSetup yaml SpireSetupPath w) = Ok conf" and ok: "accounts_ok conf c"
    using GenerateConfig_Ok [OF assms(1)] by blast
  from acting_account [OF ok assms(2,3)] assms(4) have b: "supervisor_principal conf p" "is_kerberos_account b"
    "HasMember (GroupStore c kerberos_group) (Principal b)" "Accounts c (Principal b) = Some b" by blast+
  then have "DisableDirectAuth b" "\<forall>api g. Privileges b api \<noteq> Some (Impersonate g)"
    unfolding is_kerberos_account_def grants_satisfy_def by (metis admin_priv.simps(1))+
  with b conf show ?thesis by blast
qed

text \<open>
  C6: cluster administrator certificates: if by some sequence of operations an account that can
  authenticate directly comes to hold a privilege that signs certificates for the organization
  \<open>system:masters\<close>, or one that hands out bootstrap tokens, then it is the supervisor's. No master
  or worker node can get there.
\<close>

theorem config_masters:
  assumes "GenerateConfig L yaml w = (Ok c, w')" and "Accounts c p = Some a" and "\<not> DisableDirectAuth a"
    and "acting c a ops = Some b" and "Privileges b api = Some priv"
    and "case priv of TLSGrant t ishost d cn names orgs \<Rightarrow> ''system:masters'' \<in> set orgs
           | Bootstrap g d \<Rightarrow> True | _ \<Rightarrow> False"
  shows "\<exists>conf. fst (LoadSpireSetup yaml SpireSetupPath w) = Ok conf \<and> supervisor_principal conf p"
proof -
  obtain conf where conf: "fst (LoadSpireSetup yaml SpireSetupPath w) = Ok conf" and ok: "accounts_ok conf c"
    using GenerateConfig_Ok [OF assms(1)] by blast
  have a: "Principal a = p" "is_node_account conf a"
    using ok assms(2,3) unfolding accounts_ok_def is_kerberos_account_def by blast+
  then obtain node where node: "node \<in> set (Nodes conf)" "DNS node = Ok p"
    "grants_satisfy (node_priv node) (Privileges a)" unfolding is_node_account_def by blast
  have "supervisor_principal conf p"
  proof (cases "b = a")
    case True
    then have "node_priv node api priv" using node(3) assms(5) by (simp add: grants_satisfy_def)
    then show ?thesis using assms(6) node
      by (cases priv) (auto simp: supervisor_principal_def)
  next
    case False
    with acting_account [OF ok assms(2,4)] show ?thesis by blast
  qed
  with conf show ?thesis by blast
qed

section \<open>Generating the configuration does not panic\<close>

definition of_kind :: "AuthorityType \<Rightarrow> Authority option \<Rightarrow> bool" where
  "of_kind ty a = (case a of
       Some (TLSAuth t) \<Rightarrow> ty = TLSAuthorityType
     | Some (SSHAuth d) \<Rightarrow> ty = SSHAuthorityType
     | None \<Rightarrow> False)"

lemma load_authorities_kinds:
  assumes "load_authorities L as m w = (Ok m', w')" and "distinct (map AName as)"
    and "\<forall>a\<in>set as. AType a \<noteq> InvalidAuthorityType"
  shows "(\<forall>a\<in>set as. of_kind (AType a) (m' (AName a))) \<and> (\<forall>x. x \<notin> AName ` set as \<longrightarrow> m' x = m x)"
  using assms
proof (induction as arbitrary: m w)
  case (Cons a as)
  then obtain auth w1 where l: "ConfigAuthority_Load L a AuthorityKeyDirectory w = (Ok auth, w1)"
    and rest: "load_authorities L as (m(AName a \<mapsto> auth)) w1 = (Ok m', w')"
    by (auto simp: and_thenS_Ok_iff)
  have "of_kind (AType a) (Some auth)"
    using ConfigAuthority_Load_kind [OF l] Cons.prems(3) by (cases "AType a") (auto simp: of_kind_def)
  with Cons.IH [OF rest] Cons.prems(2,3) show ?case by auto
qed simp

lemma load_authorities_no_panic:
  assumes "\<forall>a\<in>set as. AType a \<noteq> InvalidAuthorityType"
  shows "\<not> is_panic (fst (load_authorities L as m w))"
  using assms
  by (induction as arbitrary: m w) (auto simp: is_panic_and_thenS ConfigAuthority_Load_no_panic)

lemma ListAuthorities_facts:
  "distinct (map AName ListAuthorities)" "\<forall>a\<in>set ListAuthorities. AType a \<noteq> InvalidAuthorityType"
  by (simp_all add: ListAuthorities_def config_TLSAuthority_def config_SSHAuthority_def api_names)

lemma assert_authorities_no_panic:
  assumes "load_authorities L ListAuthorities m w = (Ok m', w')"
  shows "\<not> is_panic (assert_authorities m')"
proof -
  have "\<forall>a\<in>set ListAuthorities. of_kind (AType a) (m' (AName a))"
    using load_authorities_kinds [OF assms ListAuthorities_facts] by blast
  then have k: "of_kind TLSAuthorityType (m' KeygrantingAuthority)" "of_kind TLSAuthorityType (m' ClusterCAAuthority)"
    "of_kind TLSAuthorityType (m' EtcdClientAuthority)" "of_kind TLSAuthorityType (m' EtcdServerAuthority)"
    "of_kind TLSAuthorityType (m' KubernetesAuthority)" "of_kind TLSAuthorityType (m' ServiceAccountAuthority)"
    "of_kind SSHAuthorityType (m' SSHHostAuthority)" "of_kind SSHAuthorityType (m' SSHUserAuthority)"
    by (simp_all add: ListAuthorities_def config_TLSAuthority_def config_SSHAuthority_def)
  have "\<not> is_panic (assert_TLS m' n)" if "of_kind TLSAuthorityType (m' n)" for n
    using that by (auto simp: assert_TLS_def of_kind_def split: option.splits Authority.splits)
  moreover have "\<not> is_panic (assert_SSH m' n)" if "of_kind SSHAuthorityType (m' n)" for n
    using that by (auto simp: assert_SSH_def of_kind_def split: option.splits Authority.splits)
  ultimately show ?thesis using k by (simp add: assert_authorities_def is_panic_and_then)
qed

definition node_set_up :: "SpireNode \<Rightarrow> bool" where
  "node_set_up n = (node_setup n \<noteq> None \<and> netIP n \<noteq> None)"

lemma node_calls_no_panic:
  assumes "node_set_up n"
  shows "\<not> is_panic (DNS n)" "\<not> is_panic (NetIP n)" "\<not> is_panic (GenerateLocalConf n)"
  using assms by (auto simp: node_set_up_def DNS_def NetIP_def GenerateLocalConf_def)

lemma GrantsForNodeAccount_no_panic:
  assumes "node_set_up n" and "Registry c \<noteq> None"
  shows "\<not> is_panic (GrantsForNodeAccount c conf auth p n)"
  using assms node_calls_no_panic [OF assms(1)]
  by (simp add: GrantsForNodeAccount_def grants_supervisor_def NewBootstrapPrivilege_def is_panic_and_then Let_def)

lemma accounts_no_panic:
  assumes "\<forall>n\<in>set nodes. node_set_up n" and "Registry c \<noteq> None"
  shows "\<not> is_panic (node_accounts c conf auth nodes)" "\<not> is_panic (service_accounts conf nodes)"
    "\<not> is_panic (admin_accounts c auth admins)"
proof -
  show "\<not> is_panic (node_accounts c conf auth nodes)" using assms
    by (induction nodes) (simp_all add: is_panic_and_then node_calls_no_panic GrantsForNodeAccount_no_panic)
  show "\<not> is_panic (service_accounts conf nodes)" using assms(1)
    by (induction nodes) (simp_all add: is_panic_and_then node_calls_no_panic)
  show "\<not> is_panic (admin_accounts c auth admins)" using assms(2)
    by (induction admins)
      (simp_all add: is_panic_and_then GrantsForRootAdminAccount_def NewBootstrapPrivilege_def)
qed

lemma GenerateAccounts_no_panic:
  assumes "\<forall>n\<in>set (Nodes conf). node_set_up n" and "Registry c \<noteq> None"
  shows "\<not> is_panic (GenerateAccounts c conf auth)"
  using accounts_no_panic [OF assms] 
  by (simp add: GenerateAccounts_def is_panic_and_then del: admin_accounts.simps)

lemma ValidateStaticFiles_no_panic: "\<not> is_panic (fst (ValidateStaticFiles sfs w))"
proof (induction sfs arbitrary: w)
  case (Cons sf sfs)
  have "\<not> is_panic (fst (os_Stat p w))" for p
    by (auto simp: os_Stat_def split: option.splits prod.splits)
  with Cons show ?case by (cases sf) (simp add: is_panic_and_thenS)
qed simp

lemma LoadSpireSetup_no_panic:
  assumes "\<And>content raw. yaml content = Inr raw \<Longrightarrow> None \<notin> set (RawNodes raw)"
  shows "\<not> is_panic (fst (LoadSpireSetup yaml path w))"
  using assms validate_setup_no_panic
  by (auto simp: LoadSpireSetup_def is_panic_and_thenS is_panic_and_then)

lemma config_for_no_panic:
  assumes "\<forall>n\<in>set (Nodes conf). node_set_up n"
  shows "\<not> is_panic (fst (config_for L conf dns w))"
proof -
  have "\<not> is_panic (GenerateAccounts ((empty_context dns)\<lparr>Authorities := m, AuthenticationAuthority := a,
      ClusterCA := ca\<rparr>) conf auth)" for m a ca auth
    by (rule GenerateAccounts_no_panic [OF assms]) (simp add: empty_context_def)
  then show ?thesis
    by (auto simp: config_for_def Let_def is_panic_and_thenS ValidateStaticFiles_no_panic
        load_authorities_no_panic [OF ListAuthorities_facts(2)]
        simp del: ValidateStaticFiles.simps dest: assert_authorities_no_panic)
qed

text \<open>
  Generating the configuration never panics, whatever files it finds, as long as the decoded
  setup has no null node: every authority it loads is of the kind that the type assertions expect, the
  supervisor and the fields of nodes are initialized when they are asked for, and the token registry
  exists when privileges refer to it.
\<close>

theorem GenerateConfig_no_panic:
  assumes "\<And>content raw. yaml content = Inr raw \<Longrightarrow> None \<notin> set (RawNodes raw)"
  shows "\<not> is_panic (fst (GenerateConfig L yaml w))"
proof -
  have conf: "\<not> is_panic (and_then (Supervisor conf) DNS)" "\<forall>n\<in>set (Nodes conf). node_set_up n"
    if "LoadSpireSetup yaml SpireSetupPath w = (Ok conf, w1)" for conf w1
    using LoadSpireSetup_Ok [of yaml SpireSetupPath w conf] that
    by (auto simp: Supervisor_def DNS_def node_set_up_def)
  show ?thesis
    unfolding GenerateConfig_def
  proof (rule no_panic_and_thenS)
    show "\<not> is_panic (fst (LoadSpireSetup yaml SpireSetupPath w))" by (rule LoadSpireSetup_no_panic [OF assms])
    fix conf w1 assume l: "LoadSpireSetup yaml SpireSetupPath w = (Ok conf, w1)"
    show "\<not> is_panic (fst (and_thenS (and_then (Supervisor conf) DNS, w1) (\<lambda>dns w. config_for L conf dns w)))"
      by (rule no_panic_and_thenS) (use conf(1) [OF l] in simp, rule config_for_no_panic [OF conf(2) [OF l]])
  qed
qed

section \<open>The running keyserver\<close>

text \<open>
  The state of the system is the configured server and its state. It starts from
  \<open>LoadConfiguredKeyserver\<close> and takes a step for every request it serves and every handshake.
\<close>

type_synonym KeyserverState = "ConfiguredKeyserver \<times> Server"

definition keyserver_init :: "Lib \<Rightarrow> (string \<Rightarrow> error + RawSetup) \<Rightarrow> KeyserverState \<Rightarrow> bool" where
  "keyserver_init L yaml st =
     (\<exists>w w'. LoadConfiguredKeyserver L yaml w = (Ok (fst st), w') \<and>
        snd st = \<lparr>sworld = w', ServerCert = None\<rparr>)"

inductive keyserver_step :: "Lib \<Rightarrow> KeyserverState \<Rightarrow> KeyserverState \<Rightarrow> bool" for L :: Lib where
  request: "apiToHTTP L ks r (sworld s) = (resp, w) \<Longrightarrow> keyserver_step L (ks, s) (ks, s\<lparr>sworld := w\<rparr>)"
| handshake: "GetValidServerCert L ks s = (cert, s') \<Longrightarrow> keyserver_step L (ks, s) (ks, s')"

definition node_principals :: "Context \<Rightarrow> string set" where
  "node_principals c = Principal ` set (AllMembers (GroupStore c nodes_group))"

definition keyserver_inv :: "KeyserverState \<Rightarrow> bool" where
  "keyserver_inv st = (let c = KContext (fst st) in
     context_ok c \<and> context_bootstraps_in (node_principals c) c \<and> server_inv (node_principals c) (snd st))"

lemma accounts_ok_bootstraps:
  assumes "accounts_ok conf c"
  shows "context_bootstraps_in (node_principals c) c"
  unfolding context_bootstraps_in_def
proof (intro allI impI)
  fix p a api priv assume "Accounts c p = Some a" and priv: "Privileges a api = Some priv"
  with assms consider node where "grants_satisfy (node_priv node) (Privileges a)" | "grants_satisfy admin_priv (Privileges a)"
    unfolding accounts_ok_def is_node_account_def is_kerberos_account_def by blast
  then have "\<exists>node. node_priv node api priv \<or> admin_priv api priv"
    using priv unfolding grants_satisfy_def by cases blast+
  then show "bootstraps_in (node_principals c) (GroupStore c) priv"
    by (cases priv) (auto simp: node_principals_def)
qed

definition no_tokens :: "'a TokenWorld_scheme \<Rightarrow> bool" where "no_tokens w = (byToken w = [])"

lemma fs_calls_no_tokens:
  "no_tokens w \<Longrightarrow> no_tokens (snd (ReadFile p w))" "no_tokens w \<Longrightarrow> no_tokens (snd (os_Stat p w))"
  by (auto simp: no_tokens_def ReadFile_def os_Stat_def syscall_def split: option.splits)

lemma config_for_no_tokens: "no_tokens (snd (config_for L conf dns w))"
proof -
  have valid: "no_tokens w \<Longrightarrow> no_tokens (snd (ValidateStaticFiles sfs w))" for sfs and w :: "'a TokenWorld_scheme"
    by (induction sfs w rule: ValidateStaticFiles.induct)
      (auto intro!: and_thenS_keeps [where P = no_tokens] fs_calls_no_tokens)
  have load1: "no_tokens w \<Longrightarrow> no_tokens (snd (ConfigAuthority_Load L a dir w))" for a dir and w :: "'a TokenWorld_scheme"
    unfolding ConfigAuthority_Load_def
    by (auto intro!: and_thenS_keeps [where P = no_tokens] fs_calls_no_tokens split: prod.splits)
  have load: "no_tokens w \<Longrightarrow> no_tokens (snd (load_authorities L as m w))" for as m and w :: "'a TokenWorld_scheme"
    by (induction as arbitrary: m w) (auto intro!: and_thenS_keeps [where P = no_tokens] load1)
  show ?thesis
    unfolding config_for_def Let_def
    by (intro and_thenS_keeps [where P = no_tokens] valid load)
      (auto simp: no_tokens_def NewTokenRegistry_def intro!: and_thenS_keeps [where P = no_tokens])
qed

lemma keyserver_init_inv:
  assumes "keyserver_init L yaml st"
  shows "keyserver_inv st"
proof -
  obtain w w' where l: "LoadConfiguredKeyserver L yaml w = (Ok (fst st), w')"
    and s: "snd st = \<lparr>sworld = w', ServerCert = None\<rparr>" using assms by (auto simp: keyserver_init_def)
  obtain c w1 key sk where g: "GenerateConfig L yaml w = (Ok c, w1)"
    and k: "GenerateRSA L AuthorityBits w1 = (Ok (key, sk), w')" and st: "fst st = \<lparr>KContext = c, ServerKey = sk\<rparr>"
    using l by (fastforce simp: LoadConfiguredKeyserver_def and_thenS_Ok_iff)
  have c: "KContext (fst st) = c" by (simp add: st)
  obtain conf dns w0 where cf: "config_for L conf dns w0 = (Ok c, w1)"
    using g by (auto simp: GenerateConfig_def and_thenS_Ok_iff)
  have "accounts_ok conf c" "context_ok c" "byToken w1 = []"
    using config_for_Ok [OF cf] config_for_no_tokens [of L conf dns w0] by (auto simp: no_tokens_def cf)
  moreover have "byToken w' = byToken w1"
    using k by (auto simp: GenerateRSA_def draw_def split: option.splits)
  ultimately show ?thesis
    by (simp add: keyserver_inv_def c s accounts_ok_bootstraps server_inv_def registry_inv_def registry_ok_def
        subjects_in_def server_cert_complete_def Let_def)
qed

lemma keyserver_step_inv:
  assumes "keyserver_inv st" and "keyserver_step L st st'"
  shows "keyserver_inv st'"
  using assms(2)
proof (cases rule: keyserver_step.cases)
  case (request ks r s resp w)
  then have w: "w = snd (apiToHTTP L ks r (sworld s))" by simp
  from assms(1) request have "registry_inv (node_principals (KContext ks)) w"
    unfolding w by (intro apiToHTTP_inv) (auto simp: keyserver_inv_def server_inv_def Let_def)
  with assms(1) request show ?thesis
    by (auto simp: keyserver_inv_def server_inv_def server_cert_complete_def Let_def)
next
  case (handshake ks s cert s')
  then have s': "s' = snd (GetValidServerCert L ks s)" by simp
  from assms(1) handshake have "server_inv (node_principals (KContext ks)) s'"
    unfolding s' by (intro GetValidServerCert_inv) (simp add: keyserver_inv_def Let_def)
  with assms(1) handshake show ?thesis by (auto simp: keyserver_inv_def Let_def)
qed

interpretation keyserver: invariant_of "keyserver_init L yaml" "keyserver_step L" keyserver_inv for L yaml
  by unfold_locales (auto intro: keyserver_init_inv keyserver_step_inv)


end
