(* ===== verification/World_Demo.thy ===== *)
theory World_Demo
  imports World_Privileges
begin

text \<open>
  A concrete cluster, from its files to the generated configuration, on which the theorems about
  configurations are evaluated: one supervisor \<open>eggs\<close>, one worker \<open>spam\<close> and one root admin, with
  the library \<open>demo_Lib\<close>.
\<close>

section \<open>Files\<close>

definition demo_key_pem :: string where
  "demo_key_pem = demo_pem_Encode \<lparr>PEM_Type = ''RSA PRIVATE KEY'', PEM_Bytes = ''key''\<rparr>"

definition demo_cert_pem :: string where
  "demo_cert_pem = demo_pem_Encode \<lparr>PEM_Type = ''CERTIFICATE'', PEM_Bytes = ''ca''\<rparr>"

definition demo_file :: "string \<Rightarrow> fnode" where
  "demo_file p =
     (if HasSuffix p ''.key'' then File demo_key_pem 384 0
      else if HasSuffix p ''.pem'' then File demo_cert_pem 420 0
      else if HasSuffix p ''.pub'' then File ''blob'' 420 0
      else if HasSuffix p ''ssh-user'' \<or> HasSuffix p ''ssh-host'' then File ''key'' 384 0
      else if HasSuffix p ''.conf'' \<or> HasSuffix p ''.yaml'' then File [] 420 0
      else Directory)"

definition demo_files :: "'a FsWorld_scheme \<Rightarrow> bool" where
  "demo_files w = (FS w = (\<lambda>p. Some (demo_file p)) \<and> Faults w = (\<lambda>_. None))"

abbreviation used :: "nat \<Rightarrow> 'a FsWorld_scheme \<Rightarrow> 'a FsWorld_scheme" where
  "used n w \<equiv> w\<lparr>Syscalls := Syscalls w + n\<rparr>"

lemma demo_files_used [simp]: "demo_files (w\<lparr>Syscalls := n\<rparr>) = demo_files w"
  by (simp add: demo_files_def)

lemma demo_ReadFile:
  assumes "demo_files w" and "lookup (\<lambda>p. Some (demo_file p)) p = Inr (File c m t)"
  shows "ReadFile p w = (Ok c, used 1 w)"
  using assms by (simp add: ReadFile_def syscall_def demo_files_def)

lemma demo_Stat:
  assumes "demo_files w" and "lookup (\<lambda>p. Some (demo_file p)) p = Inr n"
  shows "os_Stat p w = (Ok n, used 1 w)"
  using assms by (simp add: os_Stat_def syscall_def demo_files_def)

definition demo_tls :: TLSAuthority where
  "demo_tls = \<lparr>tls_key = demo_key, keyEncoded = demo_key_pem,
     tls_cert = zero_Certificate\<lparr>Raw := ''ca'', CertPublicKeyAlgorithm := RSA,
        CertPublicKey := RSA_PublicKey 15, CommonName := ''ca'', NotAfter := 1000000000000\<rparr>,
     certEncoded = demo_cert_pem\<rparr>"

definition demo_ssh :: SSHAuthority where
  "demo_ssh = \<lparr>ssh_key = demo_signer, ssh_pubkey = ''blob''\<rparr>"

lemma demo_LoadTLS: "LoadTLSAuthority demo_Lib demo_key_pem demo_cert_pem = Ok (TLSAuth demo_tls)"
  by (simp add: LoadTLSAuthority_def LoadRSAKeyFromPEM_def LoadX509CertFromPEM_def LoadSinglePEMBlock_def
      demo_Lib_def demo_pem_Decode_def demo_pem_Encode_def demo_key_pem_def demo_cert_pem_def demo_key_def
      demo_tls_def pem_header_def HasPrefix_def zero_Certificate_def Let_def)

lemma demo_LoadSSH: "LoadSSHAuthority demo_Lib ''key'' ''blob'' = Ok (SSHAuth demo_ssh)"
  by (simp add: LoadSSHAuthority_def parseSingleSSHKey_def arePublicKeysEqual_def demo_Lib_def
      demo_signer_def demo_ssh_def)

lemma demo_load_TLS:
  assumes "demo_files w" and "lookup (\<lambda>p. Some (demo_file p)) (path_Join AuthorityKeyDirectory (n @ ''.key'')) = Inr (File demo_key_pem m t)"
    and "lookup (\<lambda>p. Some (demo_file p)) (path_Join AuthorityKeyDirectory (n @ ''.pem'')) = Inr (File demo_cert_pem m' t')"
  shows "ConfigAuthority_Load demo_Lib (config_TLSAuthority n) AuthorityKeyDirectory w = (Ok (TLSAuth demo_tls), used 2 w)"
  using assms
  by (simp add: ConfigAuthority_Load_def Filenames_def config_TLSAuthority_def demo_ReadFile demo_LoadTLS
      AuthorityKeyDirectory_def)

lemma demo_load_SSH:
  assumes "demo_files w" and "lookup (\<lambda>p. Some (demo_file p)) (path_Join AuthorityKeyDirectory n) = Inr (File ''key'' m t)"
    and "lookup (\<lambda>p. Some (demo_file p)) (path_Join AuthorityKeyDirectory (n @ ''.pub'')) = Inr (File ''blob'' m' t')"
  shows "ConfigAuthority_Load demo_Lib (config_SSHAuthority n) AuthorityKeyDirectory w = (Ok (SSHAuth demo_ssh), used 2 w)"
  using assms
  by (simp add: ConfigAuthority_Load_def Filenames_def config_SSHAuthority_def demo_ReadFile demo_LoadSSH
      AuthorityKeyDirectory_def)

lemma demo_lookups:
  "lookup (\<lambda>p. Some (demo_file p)) (path_Join AuthorityKeyDirectory (KeygrantingAuthority @ ''.key'')) = Inr (File demo_key_pem 384 0)"
  "lookup (\<lambda>p. Some (demo_file p)) (path_Join AuthorityKeyDirectory (KeygrantingAuthority @ ''.pem'')) = Inr (File demo_cert_pem 420 0)"
  "lookup (\<lambda>p. Some (demo_file p)) (path_Join AuthorityKeyDirectory (ClusterCAAuthority @ ''.key'')) = Inr (File demo_key_pem 384 0)"
  "lookup (\<lambda>p. Some (demo_file p)) (path_Join AuthorityKeyDirectory (ClusterCAAuthority @ ''.pem'')) = Inr (File demo_cert_pem 420 0)"
  "lookup (\<lambda>p. Some (demo_file p)) (path_Join AuthorityKeyDirectory (KubernetesAuthority @ ''.key'')) = Inr (File demo_key_pem 384 0)"
  "lookup (\<lambda>p. Some (demo_file p)) (path_Join AuthorityKeyDirectory (KubernetesAuthority @ ''.pem'')) = Inr (File demo_cert_pem 420 0)"
  "lookup (\<lambda>p. Some (demo_file p)) (path_Join AuthorityKeyDirectory (EtcdServerAuthority @ ''.key'')) = Inr (File demo_key_pem 384 0)"
  "lookup (\<lambda>p. Some (demo_file p)) (path_Join AuthorityKeyDirectory (EtcdServerAuthority @ ''.pem'')) = Inr (File demo_cert_pem 420 0)"
  "lookup (\<lambda>p. Some (demo_file p)) (path_Join AuthorityKeyDirectory (EtcdClientAuthority @ ''.key'')) = Inr (File demo_key_pem 384 0)"
  "lookup (\<lambda>p. Some (demo_file p)) (path_Join AuthorityKeyDirectory (EtcdClientAuthority @ ''.pem'')) = Inr (File demo_cert_pem 420 0)"
  "lookup (\<lambda>p. Some (demo_file p)) (path_Join AuthorityKeyDirectory (ServiceAccountAuthority @ ''.key'')) = Inr (File demo_key_pem 384 0)"
  "lookup (\<lambda>p. Some (demo_file p)) (path_Join AuthorityKeyDirectory (ServiceAccountAuthority @ ''.pem'')) = Inr (File demo_cert_pem 420 0)"
  "lookup (\<lambda>p. Some (demo_file p)) (path_Join AuthorityKeyDirectory SSHUserAuthority) = Inr (File ''key'' 384 0)"
  "lookup (\<lambda>p. Some (demo_file p)) (path_Join AuthorityKeyDirectory (SSHUserAuthority @ ''.pub'')) = Inr (File ''blob'' 420 0)"
  "lookup (\<lambda>p. Some (demo_file p)) (path_Join AuthorityKeyDirectory SSHHostAuthority) = Inr (File ''key'' 384 0)"
  "lookup (\<lambda>p. Some (demo_file p)) (path_Join AuthorityKeyDirectory (SSHHostAuthority @ ''.pub'')) = Inr (File ''blob'' 420 0)"
  "lookup (\<lambda>p. Some (demo_file p)) SpireSetupPath = Inr (File [] 420 0)"
  "lookup (\<lambda>p. Some (demo_file p)) ClusterConfigPath = Inr (File [] 420 0)"
  by code_simp+

section \<open>Configuration\<close>

definition demo_authorities :: "string \<rightharpoonup> Authority" where
  "demo_authorities = [KeygrantingAuthority \<mapsto> TLSAuth demo_tls, ClusterCAAuthority \<mapsto> TLSAuth demo_tls,
     SSHUserAuthority \<mapsto> SSHAuth demo_ssh, SSHHostAuthority \<mapsto> SSHAuth demo_ssh,
     KubernetesAuthority \<mapsto> TLSAuth demo_tls, EtcdServerAuthority \<mapsto> TLSAuth demo_tls,
     EtcdClientAuthority \<mapsto> TLSAuth demo_tls, ServiceAccountAuthority \<mapsto> TLSAuth demo_tls]"

lemma demo_load_authorities:
  assumes "demo_files w"
  shows "load_authorities demo_Lib ListAuthorities Map.empty w = (Ok demo_authorities, used 16 w)"
proof -
  have "demo_files (w\<lparr>Syscalls := n\<rparr>)" for n using assms by simp
  note l = demo_load_TLS [OF this demo_lookups(1,2)] demo_load_TLS [OF this demo_lookups(3,4)]
    demo_load_TLS [OF this demo_lookups(5,6)] demo_load_TLS [OF this demo_lookups(7,8)]
    demo_load_TLS [OF this demo_lookups(9,10)] demo_load_TLS [OF this demo_lookups(11,12)]
    demo_load_SSH [OF this demo_lookups(13,14)] demo_load_SSH [OF this demo_lookups(15,16)]
  have name: "AName (config_TLSAuthority n) = n" "AName (config_SSHAuthority n) = n" for n
    by (simp_all add: config_TLSAuthority_def config_SSHAuthority_def)
  show ?thesis
    by (simp add: ListAuthorities_def demo_load_TLS [OF assms demo_lookups(1,2)] l name demo_authorities_def)
qed

definition demo_auth :: WorldAuthorities where
  "demo_auth = \<lparr>Keygranting = demo_tls, AuthClusterCA = demo_tls, SshUser = demo_ssh, SshHost = demo_ssh,
     EtcdServer = demo_tls, EtcdClient = demo_tls, Kubernetes = demo_tls, ServiceAccount = demo_tls\<rparr>"

lemma demo_assert: "assert_authorities demo_authorities = Ok demo_auth"
  by (simp add: assert_authorities_def assert_TLS_def assert_SSH_def demo_authorities_def demo_auth_def api_names)

definition demo_eggs :: SpireNode where
  "demo_eggs = \<lparr>Hostname = ''eggs'', NodeIP = dotted 18 4 60 5, netIP = Some (v4InV6Prefix @ [18, 4, 60, 5]),
     node_setup = Some ''hw.example'', Kind = SupervisorKind\<rparr>"

definition demo_spam :: SpireNode where
  "demo_spam = \<lparr>Hostname = ''spam'', NodeIP = dotted 18 4 60 6, netIP = Some (v4InV6Prefix @ [18, 4, 60, 6]),
     node_setup = Some ''hw.example'', Kind = WorkerKind\<rparr>"

definition demo_conf :: SpireSetup where
  "demo_conf = \<lparr>ExternalDomain = ''hw.example'', InternalDomain = ''hw.internal'', KerberosRealm = ''EXAMPLE'',
     ServiceAPI = ''172.28.0.1'', RootAdmins = [''admin@EXAMPLE''], Nodes = [demo_eggs, demo_spam],
     supervisor = Some demo_eggs\<rparr>"

definition demo_yaml :: "string \<Rightarrow> error + RawSetup" where
  "demo_yaml content = Inr demo_raw"

lemma demo_validate: "validate_setup demo_raw = Ok demo_conf"
proof -
  have ip: "ParseIP (dotted 18 4 60 5) = Some (v4InV6Prefix @ [18, 4, 60, 5])"
    "ParseIP (dotted 18 4 60 6) = Some (v4InV6Prefix @ [18, 4, 60, 6])" by (simp_all add: ParseIP_dotted)
  show ?thesis
    unfolding validate_setup_Ok_iff
    using demo_raw_valid
    by (intro exI [of _ "map the (RawNodes demo_raw)"] conjI)
      (assumption, simp add: demo_conf_def demo_raw_def demo_eggs_def demo_spam_def node_ready_def
        supervisors_def IsSupervisor_def kinds ip)
qed

lemma demo_LoadSpireSetup:
  assumes "demo_files w"
  shows "LoadSpireSetup demo_yaml SpireSetupPath w = (Ok demo_conf, used 1 w)"
  by (simp add: LoadSpireSetup_def demo_ReadFile [OF assms demo_lookups(17)] demo_yaml_def demo_validate)

definition demo_base :: Context where
  "demo_base = (empty_context ''eggs.hw.example'')\<lparr>Authorities := demo_authorities,
     AuthenticationAuthority := Some demo_tls, ClusterCA := Some demo_tls\<rparr>"

lemma demo_kinds:
  "IsSupervisor demo_eggs" "\<not> IsMaster demo_eggs" "\<not> IsWorker demo_eggs"
  "\<not> IsSupervisor demo_spam" "\<not> IsMaster demo_spam" "IsWorker demo_spam"
  "DNS demo_eggs = Ok ''eggs.hw.example''" "DNS demo_spam = Ok ''spam.hw.example''"
  "NetIP demo_eggs = Ok (v4InV6Prefix @ [18, 4, 60, 5])" "NetIP demo_spam = Ok (v4InV6Prefix @ [18, 4, 60, 6])"
  by (simp_all add: demo_eggs_def demo_spam_def IsSupervisor_def IsMaster_def IsWorker_def kinds DNS_def NetIP_def)

lemma demo_accounts:
  "\<exists>c eggs admin. GenerateAccounts demo_base demo_conf demo_auth = Ok c \<and>
     Accounts c ''eggs.hw.example'' = Some eggs \<and> Principal eggs = ''eggs.hw.example'' \<and> \<not> DisableDirectAuth eggs \<and>
     LimitIP eggs = Some (v4InV6Prefix @ [18, 4, 60, 5]) \<and>
     Accounts c ''admin@EXAMPLE'' = Some admin \<and> Principal admin = ''admin@EXAMPLE'' \<and> DisableDirectAuth admin \<and>
     Privileges eggs ImpersonateKerberosAPI = Some (Impersonate kerberos_group) \<and>
     Privileges admin ''bootstrap'' = Some (Bootstrap nodes_group time_Hour) \<and>
     HasMember (GroupStore c kerberos_group) ''admin@EXAMPLE'' \<and>
     HasMember (GroupStore c nodes_group) ''spam.hw.example'' \<and>
     Privileges eggs BootstrapKeyserverTokenAPI = Some (Bootstrap nodes_group time_Hour)"
  by (simp add: GenerateAccounts_def demo_conf_def demo_kinds GrantsForNodeAccount_def grants_supervisor_def
      NewBootstrapPrivilege_def NewImpersonatePrivilege_def GenerateLocalConf_def grants_servers_def
      grants_clients_def GrantsForRootAdminAccount_def demo_base_def empty_context_def Let_def
      MetricsAdmin_def api_names HasMember_def nodes_group_def kerberos_group_def)

definition demo_start :: TokenWorld where
  "demo_start = \<lparr>Clock = int, Ticks = 0, Entropy = Some, Draws = 0, FS = (\<lambda>p. Some (demo_file p)),
     Faults = (\<lambda>_. None), Syscalls = 0, byToken = [], Onces = []\<rparr>"

lemma demo_GenerateConfig_any:
  fixes w :: "'a TokenWorld_scheme"
  assumes "GenerateAccounts demo_base demo_conf demo_auth = Ok c" and w: "demo_files w" "byToken w = []"
  shows "GenerateConfig demo_Lib demo_yaml w = (Ok c, used 18 w)"
proof -
  have f: "demo_files (w\<lparr>Syscalls := n\<rparr>)" for n using w(1) by simp
  have reg: "NewTokenRegistry (w\<lparr>Syscalls := n\<rparr>) = w\<lparr>Syscalls := n\<rparr>" for n using w(2) by (simp add: NewTokenRegistry_def)
  have sup: "and_then (Supervisor demo_conf) DNS = Ok ''eggs.hw.example''"
    by (simp add: Supervisor_def demo_conf_def demo_kinds)
  have stat: "ValidateStaticFiles (StaticFiles (empty_context ''eggs.hw.example'')) (w\<lparr>Syscalls := n\<rparr>) =
      (Ok (), w\<lparr>Syscalls := Suc n\<rparr>)" for n
    by (simp add: empty_context_def demo_Stat [OF f demo_lookups(18)])
  have auths: "Authorities (empty_context ''eggs.hw.example'') = Map.empty" by (simp add: empty_context_def)
  have "config_for demo_Lib demo_conf ''eggs.hw.example'' (used 1 w) = (Ok c, used 18 w)"
    using assms
    by (simp add: config_for_def Let_def reg stat auths demo_load_authorities [OF f] demo_assert demo_base_def demo_auth_def)
  then show ?thesis by (simp add: GenerateConfig_def demo_LoadSpireSetup [OF w(1)] sup)
qed

lemma demo_GenerateConfig:
  assumes "GenerateAccounts demo_base demo_conf demo_auth = Ok c"
  shows "GenerateConfig demo_Lib demo_yaml demo_start = (Ok c, used 18 demo_start)"
  by (rule demo_GenerateConfig_any [OF assms]) (simp_all add: demo_files_def demo_start_def)

section \<open>The theorems on the concrete cluster\<close>

theorem config_direct_auth_witness:
  "\<exists>c w' a. GenerateConfig demo_Lib demo_yaml demo_start = (Ok c, w') \<and>
     Accounts c ''eggs.hw.example'' = Some a \<and> \<not> DisableDirectAuth a \<and>
     (\<exists>conf node ip. fst (LoadSpireSetup demo_yaml SpireSetupPath demo_start) = Ok conf \<and> node \<in> set (Nodes conf) \<and>
        ''eggs.hw.example'' = Hostname node @ ''.'' @ ExternalDomain conf \<and> ParseIP (NodeIP node) = Some ip \<and>
        LimitIP a = Some ip)"
proof -
  obtain c eggs where c: "GenerateAccounts demo_base demo_conf demo_auth = Ok c"
    "Accounts c ''eggs.hw.example'' = Some eggs" "\<not> DisableDirectAuth eggs" using demo_accounts by blast
  from demo_GenerateConfig [OF c(1)] config_direct_auth [OF demo_GenerateConfig [OF c(1)] c(2,3)] c(2,3)
  show ?thesis by blast
qed

text \<open>The supervisor acts as the root admin after one operation.\<close>

lemma demo_acting:
  "\<exists>c eggs admin. GenerateConfig demo_Lib demo_yaml demo_start = (Ok c, used 18 demo_start) \<and>
     Accounts c ''eggs.hw.example'' = Some eggs \<and> \<not> DisableDirectAuth eggs \<and>
     acting c eggs [(ImpersonateKerberosAPI, ''admin@EXAMPLE'')] = Some admin \<and> admin \<noteq> eggs \<and>
     Principal admin = ''admin@EXAMPLE'' \<and> Privileges admin ''bootstrap'' = Some (Bootstrap nodes_group time_Hour)"
proof -
  obtain c eggs admin where c: "GenerateAccounts demo_base demo_conf demo_auth = Ok c"
    "Accounts c ''eggs.hw.example'' = Some eggs" "\<not> DisableDirectAuth eggs" "Principal eggs = ''eggs.hw.example''"
    "Accounts c ''admin@EXAMPLE'' = Some admin" "Principal admin = ''admin@EXAMPLE''"
    "Privileges eggs ImpersonateKerberosAPI = Some (Impersonate kerberos_group)"
    "HasMember (GroupStore c kerberos_group) ''admin@EXAMPLE''"
    "Privileges admin ''bootstrap'' = Some (Bootstrap nodes_group time_Hour)"
    using demo_accounts by blast
  then have "acting c eggs [(ImpersonateKerberosAPI, ''admin@EXAMPLE'')] = Some admin" "admin \<noteq> eggs" by auto
  with c demo_GenerateConfig [OF c(1)] show ?thesis by blast
qed

theorem config_impersonation_witness:
  "\<exists>c w' a b. GenerateConfig demo_Lib demo_yaml demo_start = (Ok c, w') \<and>
     Accounts c ''eggs.hw.example'' = Some a \<and>
     acting c a [(ImpersonateKerberosAPI, ''admin@EXAMPLE'')] = Some b \<and> b \<noteq> a \<and> DisableDirectAuth b"
proof -
  obtain c eggs admin where c: "GenerateConfig demo_Lib demo_yaml demo_start = (Ok c, used 18 demo_start)"
    "Accounts c ''eggs.hw.example'' = Some eggs"
    "acting c eggs [(ImpersonateKerberosAPI, ''admin@EXAMPLE'')] = Some admin" "admin \<noteq> eggs"
    using demo_acting by blast
  from c config_impersonation [OF c] show ?thesis by blast
qed

theorem config_masters_witness:
  "\<exists>c w' a b. GenerateConfig demo_Lib demo_yaml demo_start = (Ok c, w') \<and>
     Accounts c ''eggs.hw.example'' = Some a \<and> \<not> DisableDirectAuth a \<and>
     acting c a [(ImpersonateKerberosAPI, ''admin@EXAMPLE'')] = Some b \<and>
     (\<exists>conf. fst (LoadSpireSetup demo_yaml SpireSetupPath demo_start) = Ok conf \<and>
        supervisor_principal conf ''eggs.hw.example'')"
proof -
  obtain c eggs admin where c: "GenerateConfig demo_Lib demo_yaml demo_start = (Ok c, used 18 demo_start)"
    "Accounts c ''eggs.hw.example'' = Some eggs" "\<not> DisableDirectAuth eggs"
    "acting c eggs [(ImpersonateKerberosAPI, ''admin@EXAMPLE'')] = Some admin"
    "Privileges admin ''bootstrap'' = Some (Bootstrap nodes_group time_Hour)"
    using demo_acting by blast
  from c config_masters [OF c] show ?thesis by auto
qed

theorem GenerateConfig_no_panic_witness:
  "\<not> is_panic (fst (GenerateConfig demo_Lib demo_yaml demo_start))"
  by (rule GenerateConfig_no_panic) (auto simp: demo_yaml_def demo_raw_def)

section \<open>A run of the server\<close>

text \<open>The supervisor, with its certificate and from its address, impersonates the admin and asks for a token.\<close>

definition demo_cert_request :: http_Request where
  "demo_cert_request = \<lparr>Header = (\<lambda>_. []), TLS = Some [[zero_Certificate\<lparr>CommonName := ''eggs.hw.example''\<rparr>]],
     RemoteAddr = dotted 18 4 60 5 @ '':'' @ dec 4242, URLPath = ''/apirequest'', ReqBody = Inr []\<rparr>"

lemma GrantToken_first:
  assumes "byToken w = []" and "Entropy w (Draws w) = Some x" and "\<And>s. length (sha256_Sum256 L s) = 32"
  shows "\<exists>t w'. GrantToken L p d w = (Ok (Token t), w') \<and> byToken w' = [(Token t, t)] \<and> list_all visible (Token t)"
proof -
  have e: "expireOldEntries w = w" using assms(1) by (simp add: expireOldEntries_def)
  obtain tid where "generateTokenID L w = (Ok tid, w\<lparr>Draws := Suc (Draws w)\<rparr>)" "list_all visible tid"
    using generateTokenID_Some [OF assms(3,2)] by blast
  then obtain t w1 where "GenerateToken L p d w = (Ok t, w1)" "list_all visible (Token t)"
    by (auto simp: GenerateToken_def time_Now_def)
  with assms(1) GenerateToken_Ok(5) [of L p d w t w1] show ?thesis
    by (auto simp: GrantToken_def e addToken_def)
qed

lemma demo_ip_allowed:
  assumes "LimitIP a = Some (v4InV6Prefix @ [18, 4, 60, 5])"
  shows "ip_allowed a demo_cert_request"
proof -
  have "ParseRemoteAddress (dotted 18 4 60 5 @ '':'' @ dec 4242) = Ok (v4InV6Prefix @ [18, 4, 60, 5])"
    unfolding ParseRemoteAddress_Ok_iff
    using ParseIP_dotted [of 18 4 60 5] ParseUint_dec [of 4242 16]
    by (intro exI [of _ "dotted 18 4 60 5"] exI [of _ "dec 4242"] exI [of _ 4242])
      (simp add: dotted_def dec_no_sep)
  with assms show ?thesis by (simp add: ip_allowed_def demo_cert_request_def IP_Equal_def)
qed

lemma demo_authenticated:
  assumes "Accounts c ''eggs.hw.example'' = Some a" and "Principal a = ''eggs.hw.example''"
    and "\<not> DisableDirectAuth a" and "LimitIP a = Some (v4InV6Prefix @ [18, 4, 60, 5])"
    and "AuthenticationAuthority c = Some t"
  shows "attemptAuthentication demo_Lib c demo_cert_request w = (Ok a, snd (time_Now w))"
proof -
  have v: "TLSAuthority_HasAttempt demo_cert_request" "\<not> TokenVerifier_HasAttempt demo_cert_request"
    by (simp_all add: demo_cert_request_def TLSAuthority_HasAttempt_def TokenVerifier_HasAttempt_def Header_Get_def)
  have t: "TLSAuthority_Verify demo_Lib t demo_cert_request w = (Ok ''eggs.hw.example'', snd (time_Now w))"
    using v by (simp add: TLSAuthority_Verify_def demo_cert_request_def time_Now_def demo_Lib_def)
  have "GetAccount c ''eggs.hw.example'' = Ok a" using assms by (simp add: GetAccount_Ok_iff)
  moreover have "verifyAccountIP a demo_cert_request = Ok ()"
    using demo_ip_allowed [OF assms(4)] by (simp add: verifyAccountIP_Ok_iff)
  ultimately show ?thesis
    using v assms(3,5) t by (simp add: attemptAuthentication_def verifiers_def auth_Verify_def)
qed

lemma demo_request_grants:
  assumes c: "GenerateAccounts demo_base demo_conf demo_auth = Ok c" and "byToken w = []" and "Entropy w = Some"
  shows "\<exists>resp t w'. apiToHTTP demo_Lib \<lparr>KContext = c, ServerKey = sk\<rparr> demo_cert_request w = (resp, w') \<and>
    byToken w' = [(Token t, t)]"
proof -
  obtain eggs admin where a: "Accounts c ''eggs.hw.example'' = Some eggs" "Principal eggs = ''eggs.hw.example''"
    "\<not> DisableDirectAuth eggs" "LimitIP eggs = Some (v4InV6Prefix @ [18, 4, 60, 5])"
    and b: "Accounts c ''admin@EXAMPLE'' = Some admin" "Principal admin = ''admin@EXAMPLE''"
    "Privileges eggs ImpersonateKerberosAPI = Some (Impersonate kerberos_group)"
    "Privileges admin ''bootstrap'' = Some (Bootstrap nodes_group time_Hour)"
    "HasMember (GroupStore c kerberos_group) ''admin@EXAMPLE''" "HasMember (GroupStore c nodes_group) ''spam.hw.example''"
    using demo_accounts c by auto
  have auth: "AuthenticationAuthority c = Some demo_tls"
    using GenerateAccounts_Ok [OF c] by (simp add: demo_base_def empty_context_def)
  let ?w = "snd (time_Now w)"
  have w: "byToken ?w = []" "Entropy ?w (Draws ?w) = Some (Draws w)"
    using assms(2,3) by (simp_all add: time_Now_def)
  obtain t w' where g: "GrantToken demo_Lib ''spam.hw.example'' time_Hour ?w = (Ok (Token t), w')"
    "byToken w' = [(Token t, t)]"
    using GrantToken_first [OF w, of demo_Lib "''spam.hw.example''" time_Hour] by (auto simp: demo_Lib_def)
  have "GetAccount c ''admin@EXAMPLE'' = Ok admin" using b by (simp add: GetAccount_Ok_iff)
  then have "fst (InvokeAPIOperationSet demo_Lib (Some eggs) c [] ?w) =
      Ok (json_strings demo_Lib [[], Token t]) \<and> snd (InvokeAPIOperationSet demo_Lib (Some eggs) c [] ?w) = w'"
    using b g by (simp add: InvokeAPIOperationSet_def demo_Lib_def [THEN arg_cong [of _ _ json_Parse]]
        InvokeAPIOperation_def impersonate_call_def bootstrap_call_def api_names)
  then have "snd (HandleAPIRequest demo_Lib \<lparr>KContext = c, ServerKey = sk\<rparr> demo_cert_request w) = w'"
    by (simp add: HandleAPIRequest_def demo_authenticated [OF a auth] demo_cert_request_def
        [THEN arg_cong [of _ _ ReqBody]])
  moreover have "cleanPath ''/apirequest'' = ''/apirequest''" by code_simp
  ultimately have "snd (apiToHTTP demo_Lib \<lparr>KContext = c, ServerKey = sk\<rparr> demo_cert_request w) = w'"
    by (simp add: apiToHTTP_def demo_cert_request_def [THEN arg_cong [of _ _ URLPath]])
  with g(2) show ?thesis by (metis prod.collapse)
qed


section \<open>Authentication and the server certificate\<close>

theorem attemptAuthentication_iff_witness:
  "\<exists>c a. GenerateConfig demo_Lib demo_yaml demo_start = (Ok c, used 18 demo_start) \<and>
     fst (attemptAuthentication demo_Lib c demo_cert_request demo_start) = Ok a \<and>
     cert_authenticates demo_Lib c demo_cert_request 0 (Principal a)"
proof -
  obtain c eggs where c: "GenerateAccounts demo_base demo_conf demo_auth = Ok c"
    and a: "Accounts c ''eggs.hw.example'' = Some eggs" "Principal eggs = ''eggs.hw.example''"
    "\<not> DisableDirectAuth eggs" "LimitIP eggs = Some (v4InV6Prefix @ [18, 4, 60, 5])" using demo_accounts by blast
  have cx: "AuthenticationAuthority c = Some demo_tls" "Registry c \<noteq> None"
    using GenerateAccounts_Ok [OF c] by (simp_all add: demo_base_def empty_context_def)
  have ok: "fst (attemptAuthentication demo_Lib c demo_cert_request demo_start) = Ok eggs"
    by (simp add: demo_authenticated [OF a cx(1)])
  have reg: "registry_ok demo_start" and law: "x509_Verify_chains demo_Lib"
    by (simp_all add: registry_ok_def demo_start_def x509_Verify_chains_def demo_Lib_def)
  have "Header_Get demo_cert_request TokenHeader = []" "now demo_start = 0"
    by (simp_all add: Header_Get_def demo_cert_request_def now_def demo_start_def)
  with ok attemptAuthentication_iff [OF reg cx(2) law, of demo_cert_request eggs]
  have "cert_authenticates demo_Lib c demo_cert_request 0 (Principal eggs)" by simp
  with ok demo_GenerateConfig [OF c] show ?thesis by blast
qed

theorem apiToHTTP_no_panic_witness:
  "\<exists>c. GenerateConfig demo_Lib demo_yaml demo_start = (Ok c, used 18 demo_start) \<and>
     deliberate (fst (apiToHTTP demo_Lib \<lparr>KContext = c, ServerKey = []\<rparr> demo_cert_request demo_start))"
proof -
  obtain c where c: "GenerateAccounts demo_base demo_conf demo_auth = Ok c" using demo_accounts by blast
  have "context_ok c" using GenerateAccounts_Ok [OF c] by (simp add: context_ok_def demo_base_def empty_context_def)
  moreover have "registry_ok demo_start" by (simp add: registry_ok_def demo_start_def)
  ultimately have "deliberate (fst (apiToHTTP demo_Lib \<lparr>KContext = c, ServerKey = []\<rparr> demo_cert_request demo_start))"
    by (intro apiToHTTP_no_panic) (simp_all add: demo_Lib_def)
  with demo_GenerateConfig [OF c] show ?thesis by blast
qed

text \<open>A library whose certificates carry their expiry, so that it can be read back.\<close>

definition demo_cert_Lib :: Lib where
  "demo_cert_Lib = demo_Lib\<lparr>
     x509_CreateCertificate := (\<lambda>t _ _ _.
       if NotAfter t < 0 \<or> 2 ^ 64 \<le> nat (NotAfter t div time_Second) then Inl (LibError ''out of range'')
       else Inr (dec (nat (NotAfter t div time_Second)))),
     x509_ParseCertificate := (\<lambda>s. case ParseUint s 64 of
         Ok n \<Rightarrow> Inr (zero_Certificate\<lparr>Raw := s, NotAfter := int n * time_Second\<rparr>)
       | _ \<Rightarrow> Inl (LibError ''malformed'')),
     tls_X509KeyPair := (\<lambda>c _. case demo_pem_Decode c of
         (Some b, _) \<Rightarrow> Inr \<lparr>Chain = [PEM_Bytes b], ChainKey = RSA_Key demo_key, Leaf = None\<rparr>
       | _ \<Rightarrow> Inl (LibError ''no certificate''))\<rparr>"

lemma demo_cert_Lib_sel:
  "x509_CreateCertificate demo_cert_Lib t p k key = (if NotAfter t < 0 \<or> 2 ^ 64 \<le> nat (NotAfter t div time_Second)
     then Inl (LibError ''out of range'') else Inr (dec (nat (NotAfter t div time_Second))))"
  "x509_ParseCertificate demo_cert_Lib s = (case ParseUint s 64 of
     Ok n \<Rightarrow> Inr (zero_Certificate\<lparr>Raw := s, NotAfter := int n * time_Second\<rparr>) | _ \<Rightarrow> Inl (LibError ''malformed''))"
  "pem_EncodeToMemory demo_cert_Lib = demo_pem_Encode" "pem_Decode demo_cert_Lib = demo_pem_Decode"
  by (simp_all add: demo_cert_Lib_def demo_Lib_def)

lemma demo_pem_roundtrip:
  "demo_pem_Decode (demo_pem_Encode \<lparr>PEM_Type = ''CERTIFICATE'', PEM_Bytes = b\<rparr>) =
     (Some \<lparr>PEM_Type = ''CERTIFICATE'', PEM_Bytes = b\<rparr>, [])"
  "demo_pem_Decode (demo_pem_Encode \<lparr>PEM_Type = ''CERTIFICATE REQUEST'', PEM_Bytes = b\<rparr>) =
     (Some \<lparr>PEM_Type = ''CERTIFICATE REQUEST'', PEM_Bytes = b\<rparr>, [])"
  by (simp_all add: demo_pem_Decode_def demo_pem_Encode_def)

lemma demo_X509KeyPair:
  "tls_X509KeyPair demo_cert_Lib (demo_pem_Encode \<lparr>PEM_Type = ''CERTIFICATE'', PEM_Bytes = der\<rparr>) k =
     Inr \<lparr>Chain = [der], ChainKey = RSA_Key demo_key, Leaf = None\<rparr>"
  by (simp add: demo_cert_Lib_def demo_pem_roundtrip)

lemma demo_x509_created: "x509_created demo_cert_Lib"
  unfolding x509_created_def
proof (intro allI impI conjI)
  fix t parent k key der assume der: "x509_CreateCertificate demo_cert_Lib t parent k key = Inr der"
  show "Chain pair = [der]" if "tls_X509KeyPair demo_cert_Lib
      (pem_EncodeToMemory demo_cert_Lib \<lparr>PEM_Type = ''CERTIFICATE'', PEM_Bytes = der\<rparr>) k' = Inr pair" for k' pair
    using that by (auto simp: demo_cert_Lib_sel demo_X509KeyPair)
  show "NotAfter cert = NotAfter t div time_Second * time_Second"
    if "x509_ParseCertificate demo_cert_Lib der = Inr cert" for cert
    using that der by (auto simp: demo_cert_Lib_sel ParseUint_dec time_Second_def pos_imp_zdiv_nonneg_iff
        split: if_splits)
qed

definition demo_ks :: ConfiguredKeyserver where
  "demo_ks = \<lparr>KContext = demo_base, ServerKey = demo_key_pem\<rparr>"

lemma demo_server_cert:
  "\<exists>sc s'. GetValidServerCert demo_cert_Lib demo_ks \<lparr>sworld = demo_start, ServerCert = None\<rparr> = (Ok sc, s')"
proof -
  have csr: "BuildTLSCSR demo_cert_Lib demo_key_pem = Ok (demo_pem_Encode \<lparr>PEM_Type = ''CERTIFICATE REQUEST'',
      PEM_Bytes = ''invalid-cn-temporary-request''\<rparr>)"
    by (simp add: BuildTLSCSR_def LoadRSAKeyFromPEM_def LoadSinglePEMBlock_def demo_cert_Lib_def demo_Lib_def
        demo_key_pem_def demo_pem_Decode_def demo_pem_Encode_def pem_header_def HasPrefix_def)
  have load: "LoadX509CSRFromPEM demo_cert_Lib (demo_pem_Encode \<lparr>PEM_Type = ''CERTIFICATE REQUEST'', PEM_Bytes = b\<rparr>) =
      Ok \<lparr>CSR_Raw = b, CSR_PublicKey = RSA_PublicKey 15\<rparr>" for b
    by (simp add: LoadX509CSRFromPEM_def LoadSinglePEMBlock_def demo_cert_Lib_sel demo_pem_roundtrip)
      (simp add: demo_cert_Lib_def demo_Lib_def demo_pem_Encode_def pem_header_def HasPrefix_def)
  have sig: "x509_CheckSignature demo_cert_Lib x = None" for x by (simp add: demo_cert_Lib_def demo_Lib_def)
  have "ParseUint (dec 86400) 64 = Ok 86400" by (rule ParseUint_dec) simp
  then show ?thesis
    by (simp add: GetValidServerCert_def newServerCert_def demo_ks_def csr demo_base_def TLSAuthority_Sign_def load
        sig time_Now_def demo_start_def FinishCertificate_def rand_Int_def draw_def demo_cert_Lib_sel
        ValidityInterval_def time_units storeServerCert_def demo_X509KeyPair Let_def)
qed

theorem GetValidServerCert_fresh_witness:
  "\<exists>sc s' leaf. GetValidServerCert demo_cert_Lib demo_ks \<lparr>sworld = demo_start, ServerCert = None\<rparr> = (Ok sc, s') \<and>
     Leaf sc = Some leaf \<and> ServerCert s' = Some sc \<and>
     Clock (sworld s') (Ticks (sworld s') - 1) + RenewalMargin < NotAfter leaf"
proof -
  obtain sc s' where g: "GetValidServerCert demo_cert_Lib demo_ks \<lparr>sworld = demo_start, ServerCert = None\<rparr> = (Ok sc, s')"
    using demo_server_cert by blast
  have "server_cert_complete \<lparr>sworld = demo_start, ServerCert = None\<rparr>" by (simp add: server_cert_complete_def)
  from GetValidServerCert_fresh [OF this demo_x509_created g] g show ?thesis by blast
qed

end
