(* ===== verification/Client_Api.thy ===== *)
theory Client_Api
  imports World_Names Cert_Util Str_Util Operations
begin

text \<open>
  The client side of the keyserver API: \<open>api/endpoint/endpoint.go\<close>, \<open>api/reqtarget\<close>, \<open>api/server\<close>,
  \<open>api/knc/knc.go\<close> and \<open>api/config.go\<close>. The network is a parameter: a function from an outgoing
  request and the state \<open>'p\<close> of everything at the other end to the response and the state after it.
  The Go interface \<open>RequestTarget\<close> is the locale \<open>request_target\<close>, whose law is that there is one
  result for each request; \<open>SendRequest\<close> and impersonation are clients of it.
\<close>

section \<open>The network\<close>

record Outgoing =
  OutMethod :: string
  OutURL :: string
  OutHeaders :: "string \<rightharpoonup> string"
  OutCerts :: "tls_Certificate list"
  OutRoots :: "Certificate list"
  OutBody :: string

text \<open>
  \<open>http_NewRequest\<close> is the check of method and URL by \<open>http.NewRequest\<close>; \<open>client_Do\<close> performs the
  request and delivers the status and what reading the body gives; \<open>knc_Output\<close> runs the program
  \<open>/usr/bin/knc\<close> with its arguments, the changes to its environment and its input.
\<close>

record 'p Net =
  http_NewRequest :: "string \<Rightarrow> string \<Rightarrow> error option"
  client_Do :: "Outgoing \<Rightarrow> 'p \<Rightarrow> (error + nat \<times> (error + string)) \<times> 'p"
  knc_Output :: "string list \<Rightarrow> (string \<times> string) option \<Rightarrow> string \<Rightarrow> 'p \<Rightarrow> (error + string) \<times> 'p"
  url_Hostname :: "string \<Rightarrow> error + string"

section \<open>endpoint.go\<close>

record ServerEndpoint =
  rootCAs :: "Certificate list"
  baseURL :: string
  extraHeaders :: "string \<rightharpoonup> string"
  certificates :: "tls_Certificate list"

definition NewServerEndpoint :: "string \<Rightarrow> Certificate list \<Rightarrow> ServerEndpoint result" where
  "NewServerEndpoint url authorities =
     (if url = [] then Err (ErrorNew ''empty base URL'')
      else if \<not> HasSuffix url ''/'' then Err (ErrorNew ''base URL must end in a slash'')
      else Ok \<lparr>rootCAs = authorities, baseURL = url, extraHeaders = Map.empty, certificates = []\<rparr>)"

definition WithHeader :: "ServerEndpoint \<Rightarrow> string \<Rightarrow> string \<Rightarrow> ServerEndpoint" where
  "WithHeader s key value = s\<lparr>extraHeaders := (extraHeaders s)(key \<mapsto> value)\<rparr>"

definition WithCertificate :: "ServerEndpoint \<Rightarrow> tls_Certificate \<Rightarrow> ServerEndpoint" where
  "WithCertificate s cert = s\<lparr>certificates := certificates s @ [cert]\<rparr>"

definition endpoint_Request ::
  "'p Net \<Rightarrow> ServerEndpoint \<Rightarrow> string \<Rightarrow> string \<Rightarrow> string \<Rightarrow> ('p, string) action" where
  "endpoint_Request net s path method reqbody p =
     (case path of
        [] \<Rightarrow> (Panic ''index out of range'', p)
      | c # rest \<Rightarrow>
          if c \<noteq> CHR ''/'' then
            (Err (ErrorNew ''while validating request: path must be absolute''), p)
          else case http_NewRequest net method (baseURL s @ rest) of
              Some e \<Rightarrow> (Err (Wrap e ''while preparing request''), p)
            | None \<Rightarrow>
                (case client_Do net \<lparr>OutMethod = method, OutURL = baseURL s @ rest, OutHeaders = extraHeaders s,
                     OutCerts = certificates s, OutRoots = rootCAs s, OutBody = reqbody\<rparr> p of
                   (Inl e, p') \<Rightarrow> (Err (Wrap e ''while processing request''), p')
                 | (Inr (status, body), p') \<Rightarrow>
                     if status \<noteq> 200 then
                       if status = 403 then (Err OperationForbidden, p')
                       else (Err (Errorf ''unexpected status code: %d'' [dec status]), p')
                     else (case body of
                         Inl e \<Rightarrow> (Err (Wrap e ''while receiving response''), p')
                       | Inr b \<Rightarrow> (Ok b, p'))))"

definition endpoint_Get :: "'p Net \<Rightarrow> ServerEndpoint \<Rightarrow> string \<Rightarrow> ('p, string) action" where
  "endpoint_Get net s path p = endpoint_Request net s path ''GET'' [] p"

text \<open>\<open>json.Unmarshal\<close> into \<open>[]string\<close>, on the parsed value.\<close>

fun decode_list :: "json list \<Rightarrow> string list result" where
  "decode_list [] = Ok []"
| "decode_list (j # js) = and_then (decode_string j) (\<lambda>s. and_then (decode_list js) (\<lambda>ss. Ok (s # ss)))"

fun decode_strings :: "json \<Rightarrow> string list result" where
  "decode_strings (JArray js) = decode_list js"
| "decode_strings JNull = Ok []"
| "decode_strings _ = Err type_error"

definition PostJSON ::
  "Lib \<Rightarrow> 'p Net \<Rightarrow> ServerEndpoint \<Rightarrow> string \<Rightarrow> json \<Rightarrow> ('p, string list) action" where
  "PostJSON L net s path input p =
     (case endpoint_Request net s path ''POST'' (json_Print L input) p of (r, p') \<Rightarrow>
        and_thenS (wrap_err ''while posting request'' r, p') (\<lambda>body p.
          (wrap_err ''while unmarshalling json from response''
             (and_then (lift (json_Parse L body)) decode_strings), p)))"

section \<open>reqtarget\<close>

record Request =
  API :: string
  Body :: string

definition json_Request :: "Request \<Rightarrow> json" where
  "json_Request r = JObject [(''api'', JString (API r)), (''body'', JString (Body r))]"

definition json_Requests :: "Request list \<Rightarrow> json" where
  "json_Requests reqs = JArray (map json_Request reqs)"

type_synonym 'p Target = "Request list \<Rightarrow> ('p, string list) action"

definition SendRequest :: "'p Target \<Rightarrow> string \<Rightarrow> string \<Rightarrow> ('p, string) action" where
  "SendRequest send api body p =
     and_thenS (send [\<lparr>API = api, Body = body\<rparr>] p) (\<lambda>strs p.
       if length strs \<noteq> 1 then
         (Err (Errorf ''wrong number of results: %d != 1'' [dec (length strs)]), p)
       else (Ok (hd strs), p))"

definition impersonated_SendRequests :: "'p Target \<Rightarrow> string \<Rightarrow> string \<Rightarrow> 'p Target" where
  "impersonated_SendRequests base api user reqs p =
     (let new_requests = \<lparr>API = api, Body = user\<rparr> # reqs in
      and_thenS (base new_requests p) (\<lambda>responses p.
        if length responses \<noteq> length new_requests then
          (Err (ErrorNew ''count mismatch during impersonation response verification''), p)
        else (Ok (tl responses), p)))"

definition reqtarget_Impersonate :: "'p Target \<Rightarrow> string \<Rightarrow> string \<Rightarrow> ('p, 'p Target) action" where
  "reqtarget_Impersonate rt api user p =
     (if api = [] then (Err (ErrorNew ''invalid API call''), p)
      else if user = [] then (Err (ErrorNew ''invalid user''), p)
      else let rt2 = impersonated_SendRequests rt api user in
        case rt2 [] p of (r, p') \<Rightarrow>
          and_thenS (wrap_err ''while verifying impersonation functionality'' r, p') (\<lambda>_ p. (Ok rt2, p)))"

section \<open>server\<close>

record Keyserver =
  endpoint :: ServerEndpoint

definition NewKeyserver :: "Lib \<Rightarrow> string \<Rightarrow> string \<Rightarrow> Keyserver result" where
  "NewKeyserver L authority hostname =
     and_then (wrap_err ''while parsing authority certificate'' (LoadX509CertFromPEM L authority)) (\<lambda>cert.
     and_then (NewServerEndpoint (''https://'' @ hostname @ ''/'') [cert]) (\<lambda>ep. Ok \<lparr>endpoint = ep\<rparr>))"

definition GetStatic :: "'p Net \<Rightarrow> Keyserver \<Rightarrow> string \<Rightarrow> ('p, string) action" where
  "GetStatic net k staticname p =
     (if staticname = [] then (Err (ErrorNew ''static filename is empty''), p)
      else endpoint_Get net (endpoint k) (''/static/'' @ staticname) p)"

definition GetPubkey :: "'p Net \<Rightarrow> Keyserver \<Rightarrow> string \<Rightarrow> ('p, string) action" where
  "GetPubkey net k authorityname p =
     (if authorityname = [] then (Err (ErrorNew ''authority name is empty''), p)
      else endpoint_Get net (endpoint k) (''/pub/'' @ authorityname) p)"

definition authenticated_SendRequests :: "Lib \<Rightarrow> 'p Net \<Rightarrow> ServerEndpoint \<Rightarrow> 'p Target" where
  "authenticated_SendRequests L net ep reqs p =
     and_thenS (PostJSON L net ep ''/apirequest'' (json_Requests reqs) p) (\<lambda>outputs p.
       if length outputs \<noteq> length reqs then
         (Err (ErrorNew ''while finalizing response: wrong number of responses''), p)
       else (Ok outputs, p))"

definition AuthenticateWithToken :: "Lib \<Rightarrow> 'p Net \<Rightarrow> Keyserver \<Rightarrow> string \<Rightarrow> 'p Target result" where
  "AuthenticateWithToken L net k token =
     (if token = [] then Err (ErrorNew ''invalid token'')
      else Ok (authenticated_SendRequests L net (WithHeader (endpoint k) ''X-Bootstrap-Token'' token)))"

definition AuthenticateWithCert :: "Lib \<Rightarrow> 'p Net \<Rightarrow> Keyserver \<Rightarrow> tls_Certificate \<Rightarrow> 'p Target result" where
  "AuthenticateWithCert L net k cert =
     Ok (authenticated_SendRequests L net (WithCertificate (endpoint k) cert))"

section \<open>knc\<close>

record KncServer =
  KncHostname :: string
  KerberosTicketCache :: string

definition kncRequest :: "'p Net \<Rightarrow> KncServer \<Rightarrow> string \<Rightarrow> ('p, string) action" where
  "kncRequest net k data p =
     (case knc_Output net [''host@'' @ KncHostname k, ''20575'']
        (if KerberosTicketCache k \<noteq> [] then Some (''KRB5CCNAME'', KerberosTicketCache k) else None) data p of
        (r, p') \<Rightarrow> (lift r, p'))"

definition quoted :: "string \<Rightarrow> string" where
  "quoted s = [CHR 0x27] @ s @ [CHR 0x27]"

definition knc_SendRequests :: "Lib \<Rightarrow> 'p Net \<Rightarrow> KncServer \<Rightarrow> 'p Target" where
  "knc_SendRequests L net k reqs p =
     (let raw_reqs = json_Print L (json_Requests reqs) in
      case kncRequest net k raw_reqs p of (r, p') \<Rightarrow>
      and_thenS (wrap_err ''while performing request'' r, p') (\<lambda>raw_resps p.
        if length raw_resps = 0 then
          (Err (ErrorNew
             ''empty response, likely because the server does not recognize your Kerberos identity''), p)
        else and_thenS (wrap_err (''while unpacking json ('' @ quoted raw_reqs @ '' -> '' @ quoted raw_resps @ '')'')
            (and_then (lift (json_Parse L raw_resps)) decode_strings), p) (\<lambda>resps p.
          if length resps \<noteq> length reqs then (Err (ErrorNew ''wrong number of results''), p)
          else (Ok resps, p))))"

definition AuthenticateWithKerberosTicketsInCache ::
  "Lib \<Rightarrow> 'p Net \<Rightarrow> Keyserver \<Rightarrow> string \<Rightarrow> 'p Target result" where
  "AuthenticateWithKerberosTicketsInCache L net k ticketcache =
     and_then (lift (url_Hostname net (baseURL (endpoint k)))) (\<lambda>host.
       Ok (knc_SendRequests L net \<lparr>KncHostname = host, KerberosTicketCache = ticketcache\<rparr>))"

definition AuthenticateWithKerberosTickets :: "Lib \<Rightarrow> 'p Net \<Rightarrow> Keyserver \<Rightarrow> 'p Target result" where
  "AuthenticateWithKerberosTickets L net k = AuthenticateWithKerberosTicketsInCache L net k []"

section \<open>config.go\<close>

definition LoadDefaultKeyserver :: "Lib \<Rightarrow> ('a FsWorld_scheme, Keyserver) action" where
  "LoadDefaultKeyserver L w =
     (case ReadFile KeyserverTLSCert w of (r, w) \<Rightarrow>
      and_thenS (wrap_err ''while loading authority'' r, w) (\<lambda>authoritydata w.
      case GetKeyserver w of (r, w) \<Rightarrow>
      and_thenS (wrap_err ''while determining keyserver'' r, w) (\<lambda>keyserver w.
        (NewKeyserver L authoritydata keyserver, w))))"

definition LoadX509KeyPair :: "Lib \<Rightarrow> string \<Rightarrow> string \<Rightarrow> ('a FsWorld_scheme, tls_Certificate) action" where
  "LoadX509KeyPair L certFile keyFile w =
     and_thenS (ReadFile certFile w) (\<lambda>certPEM w.
     and_thenS (ReadFile keyFile w) (\<lambda>keyPEM w. (lift (tls_X509KeyPair L certPEM keyPEM), w)))"

definition LoadDefaultKeyserverWithCert ::
  "Lib \<Rightarrow> 'p Net \<Rightarrow> ('a FsWorld_scheme, Keyserver \<times> 'p Target) action" where
  "LoadDefaultKeyserverWithCert L net w =
     and_thenS (LoadDefaultKeyserver L w) (\<lambda>k w.
     case LoadX509KeyPair L GrantingCertPath GrantingKeyPath w of (r, w) \<Rightarrow>
     and_thenS (wrap_err ''while loading keypair'' r, w) (\<lambda>keypair w.
     and_thenS (wrap_err ''while preparing authentication'' (AuthenticateWithCert L net k keypair), w) (\<lambda>rt w.
       (Ok (k, rt), w))))"

section \<open>The contract of a request target\<close>

locale request_target =
  fixes send :: "'p Target"
  assumes count: "send reqs p = (Ok rs, p') \<Longrightarrow> length rs = length reqs"
    and target_no_panic: "\<not> is_panic (fst (send reqs p))"
begin

text \<open>\<open>SendRequest\<close> returns the one result of the target, or its error unchanged, and nothing else.\<close>

lemma SendRequest_eq:
  "SendRequest send api body p = (case send [\<lparr>API = api, Body = body\<rparr>] p of
       (Ok rs, p') \<Rightarrow> (Ok (hd rs), p') | (Err e, p') \<Rightarrow> (Err e, p') | (Panic m, p') \<Rightarrow> (Panic m, p'))"
  using count [of "[\<lparr>API = api, Body = body\<rparr>]" p]
  by (auto simp: SendRequest_def split: prod.splits result.splits)

lemma SendRequest_no_panic: "\<not> is_panic (fst (SendRequest send api body p))"
  using target_no_panic [of "[\<lparr>API = api, Body = body\<rparr>]" p]
  by (auto simp: SendRequest_eq split: prod.splits result.splits)

text \<open>An impersonated target is a request target again: the count check never fails.\<close>

lemma impersonated_eq:
  "impersonated_SendRequests send api user reqs p = (case send (\<lparr>API = api, Body = user\<rparr> # reqs) p of
       (Ok rs, p') \<Rightarrow> (Ok (tl rs), p') | (Err e, p') \<Rightarrow> (Err e, p') | (Panic m, p') \<Rightarrow> (Panic m, p'))"
  using count [of "\<lparr>API = api, Body = user\<rparr> # reqs" p]
  by (auto simp: impersonated_SendRequests_def Let_def split: prod.splits result.splits)

lemma impersonated_target: "request_target (impersonated_SendRequests send api user)"
proof
  fix reqs p
  show "\<not> is_panic (fst (impersonated_SendRequests send api user reqs p))"
    using target_no_panic [of "\<lparr>API = api, Body = user\<rparr> # reqs" p]
    by (auto simp: impersonated_eq split: prod.splits result.splits)
  fix rs p' assume "impersonated_SendRequests send api user reqs p = (Ok rs, p')"
  then show "length rs = length reqs"
    using count [of "\<lparr>API = api, Body = user\<rparr> # reqs" p]
    by (auto simp: impersonated_eq split: prod.splits result.splits)
qed

end

lemma is_panic_decode_strings [simp]: "\<not> is_panic (decode_strings j)"
proof -
  have s: "\<not> is_panic (decode_string j)" for j by (cases j rule: decode_string.cases) auto
  have "\<not> is_panic (decode_list js)" for js by (induction js) (auto simp: is_panic_and_then s)
  then show ?thesis by (cases j rule: decode_strings.cases) auto
qed

lemma endpoint_Request_no_panic: "\<not> is_panic (fst (endpoint_Request net s (c # path) m b p))"
  by (auto simp: endpoint_Request_def split: option.splits prod.splits sum.splits)

lemma PostJSON_no_panic: "\<not> is_panic (fst (PostJSON L net s (c # path) j p))"
proof -
  obtain r p' where r: "endpoint_Request net s (c # path) ''POST'' (json_Print L j) p = (r, p')" by fastforce
  then have "\<not> is_panic r" using endpoint_Request_no_panic by (metis fst_conv)
  then show ?thesis by (cases r) (auto simp: PostJSON_def r is_panic_and_then)
qed

interpretation authenticated: request_target "authenticated_SendRequests L net ep" for L net ep
proof
  fix reqs p
  show "\<not> is_panic (fst (authenticated_SendRequests L net ep reqs p))"
    using PostJSON_no_panic [of L net ep "CHR ''/''" "''apirequest''"]
    by (auto simp: authenticated_SendRequests_def is_panic_and_thenS)
  show "length rs = length reqs" if "authenticated_SendRequests L net ep reqs p = (Ok rs, p')" for rs p'
    using that by (auto simp: authenticated_SendRequests_def and_thenS_Ok_iff split: if_splits)
qed

interpretation knc: request_target "knc_SendRequests L net k" for L net k
proof
  fix reqs p
  obtain r p' where r: "kncRequest net k (json_Print L (json_Requests reqs)) p = (r, p')" by fastforce
  have "\<not> is_panic r" using r by (auto simp: kncRequest_def split: prod.splits)
  then show "\<not> is_panic (fst (knc_SendRequests L net k reqs p))"
    by (cases r) (auto simp: knc_SendRequests_def r Let_def is_panic_and_thenS is_panic_and_then)
  show "length rs = length reqs" if "knc_SendRequests L net k reqs p = (Ok rs, p')" for rs p'
    using that by (auto simp: knc_SendRequests_def r Let_def and_thenS_Ok_iff split: if_splits)
qed

interpretation impersonated: request_target "impersonated_SendRequests (authenticated_SendRequests L net ep) api user"
  for L net ep api user
  by (rule authenticated.impersonated_target)

end
