(* ===== verification/End_To_End.thy ===== *)
theory End_To_End
  imports Client_Api Key_Server
begin

text \<open>
  The client and the server together: the client's network is connected to the server's handler. The
  TLS layer between them is a parameter, the function from the certificates that the client holds to
  the verified chains that the server sees. The main result is an equation: what \<open>SendRequests\<close>
  returns to the client is the outcome of authentication and of the operations at the server, seen
  through the status codes.
\<close>

section \<open>Connecting the client to the server\<close>

text \<open>The path of an \<open>https\<close> URL.\<close>

definition url_path :: "string \<Rightarrow> string" where
  "url_path url = dropWhile (\<lambda>c. c \<noteq> CHR ''/'') (drop (length ''https://'') url)"

definition incoming ::
  "(tls_Certificate list \<Rightarrow> Certificate list list option) \<Rightarrow> string \<Rightarrow> Outgoing \<Rightarrow> http_Request" where
  "incoming chs addr out = \<lparr>Header = (\<lambda>k. case OutHeaders out k of None \<Rightarrow> [] | Some v \<Rightarrow> [v]),
     TLS = chs (OutCerts out), RemoteAddr = addr, URLPath = url_path (OutURL out), ReqBody = Inr (OutBody out)\<rparr>"

text \<open>A panic in a handler makes the server close the connection.\<close>

definition loopback ::
  "Lib \<Rightarrow> ConfiguredKeyserver \<Rightarrow> (tls_Certificate list \<Rightarrow> Certificate list list option) \<Rightarrow> string \<Rightarrow>
    'a TokenWorld_scheme Net" where
  "loopback L ks chs addr = \<lparr>
     http_NewRequest = (\<lambda>_ _. None),
     client_Do = (\<lambda>out w. case apiToHTTP L ks (incoming chs addr out) w of
         (Ok resp, w') \<Rightarrow> (Inr (StatusCode resp, Inr (RespBody resp)), w')
       | (_, w') \<Rightarrow> (Inl (LibError ''EOF''), w')),
     knc_Output = (\<lambda>_ _ _ w. (Inl (LibError ''no gateway''), w)),
     url_Hostname = (\<lambda>url. Inr (takeWhile (\<lambda>c. c \<noteq> CHR ''/'') (drop (length ''https://'') url)))\<rparr>"

section \<open>The wire format\<close>

text \<open>
  JSON of ASCII strings is read back as it was written; other bytes may be replaced, since the
  encoder replaces what is not UTF-8.
\<close>

definition ascii :: "string \<Rightarrow> bool" where
  "ascii s = list_all (\<lambda>c. of_char c < (128 :: nat)) s"

definition json_ascii :: "Lib \<Rightarrow> bool" where
  "json_ascii L =
     ((\<forall>reqs. list_all (\<lambda>r. ascii (API r) \<and> ascii (Body r)) reqs \<longrightarrow>
         json_Parse L (json_Print L (json_Requests reqs)) = Inr (json_Requests reqs)) \<and>
      (\<forall>rs. list_all ascii rs \<longrightarrow> json_Parse L (json_strings L rs) = Inr (JArray (map JString rs))))"

definition request_map :: "Request \<Rightarrow> (string \<rightharpoonup> string)" where
  "request_map r = op_map (API r, Body r)"

lemma decode_json_Requests: "decode_ops (json_Requests reqs) = Ok (map request_map reqs)"
proof -
  have "decode_map (json_Request r) = Ok (request_map r)" for r
    by (simp add: json_Request_def request_map_def op_map_def)
  then show ?thesis by (induction reqs) (simp_all add: json_Requests_def)
qed

lemma decode_list_JString [simp]: "decode_list (map JString rs) = Ok rs"
  by (induction rs) simp_all

section \<open>Requests end to end\<close>

text \<open>What the server does with a list of requests, and how the client sees it.\<close>

definition server_outcome ::
  "Lib \<Rightarrow> Context \<Rightarrow> http_Request \<Rightarrow> Request list \<Rightarrow> 'a TokenWorld_scheme \<Rightarrow>
    string list result \<times> 'a TokenWorld_scheme" where
  "server_outcome L c r reqs w =
     and_thenS (attemptAuthentication L c r w) (\<lambda>ac w.
       case ops_loop L c (map request_map reqs) (\<lparr>ctxAccount = Some ac\<rparr>, w) of (res, ctx, w') \<Rightarrow> (res, w'))"

fun client_view :: "string list result \<Rightarrow> string list result" where
  "client_view (Ok rs) = Ok rs"
| "client_view (Err (OperationForbiddenError p api)) = Err (Wrap OperationForbidden ''while posting request'')"
| "client_view (Err e) = Err (Wrap (Errorf ''unexpected status code: %d'' [dec 400]) ''while posting request'')"
| "client_view (Panic m) = Err (Wrap (Wrap (LibError ''EOF'') ''while processing request'') ''while posting request'')"

definition post_request ::
  "Lib \<Rightarrow> (tls_Certificate list \<Rightarrow> Certificate list list option) \<Rightarrow> string \<Rightarrow> ServerEndpoint \<Rightarrow> Request list \<Rightarrow>
    http_Request" where
  "post_request L chs addr ep reqs = incoming chs addr \<lparr>OutMethod = ''POST'', OutURL = baseURL ep @ ''apirequest'',
     OutHeaders = extraHeaders ep, OutCerts = certificates ep, OutRoots = rootCAs ep,
     OutBody = json_Print L (json_Requests reqs)\<rparr>"

lemma url_path_https:
  assumes "CHR ''/'' \<notin> set host"
  shows "url_path (''https://'' @ host @ ''/'' @ rest) = CHR ''/'' # rest"
proof -
  have "dropWhile (\<lambda>c. c \<noteq> CHR ''/'') (host @ CHR ''/'' # rest) = CHR ''/'' # rest"
    using assms by (induction host) auto
  then show ?thesis by (simp add: url_path_def)
qed

lemma cleanPath_apirequest: "cleanPath ''/apirequest'' = ''/apirequest''"
  by code_simp

lemma apiToHTTP_post:
  assumes "baseURL ep = ''https://'' @ host @ ''/''" and "CHR ''/'' \<notin> set host"
  shows "apiToHTTP L ks (post_request L chs addr ep reqs) w =
    respond api_error (HandleAPIRequest L ks (post_request L chs addr ep reqs) w)"
proof -
  have "URLPath (post_request L chs addr ep reqs) = ''/apirequest''"
    using url_path_https [OF assms(2), of "''apirequest''"] by (simp add: post_request_def incoming_def assms(1))
  then show ?thesis by (simp add: apiToHTTP_def cleanPath_apirequest)
qed

lemma HandleAPIRequest_post:
  assumes "json_Parse L (json_Print L (json_Requests reqs)) = Inr (json_Requests reqs)"
  shows "HandleAPIRequest L ks (post_request L chs addr ep reqs) w =
    (case server_outcome L (KContext ks) (post_request L chs addr ep reqs) reqs w of (r, w') \<Rightarrow>
       (and_then r (\<lambda>rs. Ok (json_strings L rs)), w'))"
proof -
  let ?r = "post_request L chs addr ep reqs"
  have body: "ReqBody ?r = Inr (json_Print L (json_Requests reqs))"
    by (simp add: post_request_def incoming_def)
  obtain a w1 where a: "attemptAuthentication L (KContext ks) ?r w = (a, w1)" by fastforce
  show ?thesis
  proof (cases a)
    case (Ok ac)
    obtain res ctx w2 where "ops_loop L (KContext ks) (map request_map reqs) (\<lparr>ctxAccount = Some ac\<rparr>, w1) =
      (res, ctx, w2)" by (metis prod_cases3)
    then show ?thesis
      by (simp add: HandleAPIRequest_def body a Ok server_outcome_def InvokeAPIOperationSet_def assms
          decode_json_Requests)
  qed (simp_all add: HandleAPIRequest_def body a server_outcome_def)
qed

lemma server_outcome_count:
  assumes "server_outcome L c r reqs w = (Ok rs, w')"
  shows "length rs = length reqs"
proof -
  obtain ac w1 where o: "(case ops_loop L c (map request_map reqs) (\<lparr>ctxAccount = Some ac\<rparr>, w1) of
      (res, ctx, w') \<Rightarrow> (res, w')) = (Ok rs, w')"
    using assms by (auto simp: server_outcome_def and_thenS_Ok_iff)
  obtain res ctx w2 where l: "ops_loop L c (map request_map reqs) (\<lparr>ctxAccount = Some ac\<rparr>, w1) = (res, ctx, w2)"
    by (metis prod_cases3)
  with o have "res = Ok rs" by simp
  with ops_loop_Ok [of L c "map request_map reqs" ac w1 rs] l show ?thesis by simp
qed

lemma client_server_view:
  assumes "json_ascii L" and "list_all (\<lambda>r. ascii (API r) \<and> ascii (Body r)) reqs"
    and "baseURL ep = ''https://'' @ host @ ''/''" and "CHR ''/'' \<notin> set host"
    and "server_outcome L (KContext ks) (post_request L chs addr ep reqs) reqs w = (res, w')"
    and "case res of Ok rs \<Rightarrow> list_all ascii rs | _ \<Rightarrow> True"
  shows "authenticated_SendRequests L (loopback L ks chs addr) ep reqs w = (client_view res, w')"
proof -
  let ?r = "post_request L chs addr ep reqs"
  let ?n = "loopback L ks chs addr"
  have rt: "json_Parse L (json_Print L (json_Requests reqs)) = Inr (json_Requests reqs)"
    using assms(1,2) by (simp add: json_ascii_def)
  have do: "endpoint_Request ?n ep ''/apirequest'' ''POST'' (json_Print L (json_Requests reqs)) w =
      (case respond api_error (and_then res (\<lambda>rs. Ok (json_strings L rs)), w') of
         (Ok resp, w') \<Rightarrow>
           if StatusCode resp \<noteq> 200 then
             if StatusCode resp = 403 then (Err OperationForbidden, w')
             else (Err (Errorf ''unexpected status code: %d'' [dec (StatusCode resp)]), w')
           else (Ok (RespBody resp), w')
       | (_, w') \<Rightarrow> (Err (Wrap (LibError ''EOF'') ''while processing request''), w'))"
    using apiToHTTP_post [OF assms(3,4), of L ks chs addr reqs w] HandleAPIRequest_post [OF rt, of ks chs addr ep w] assms(5)
    by (auto simp: endpoint_Request_def loopback_def post_request_def split: result.splits prod.splits)
  show ?thesis
  proof (cases res)
    case (Ok rs)
    then have "json_Parse L (json_strings L rs) = Inr (JArray (map JString rs))" "length rs = length reqs"
      using assms(1,5,6) server_outcome_count by (auto simp: json_ascii_def)
    with Ok do show ?thesis
      by (simp add: authenticated_SendRequests_def PostJSON_def http_OK_def)
  next
    case (Err e)
    with do show ?thesis
      by (cases e) (simp_all add: authenticated_SendRequests_def PostJSON_def http_Error_def)
  next
    case (Panic m)
    with do show ?thesis by (simp add: authenticated_SendRequests_def PostJSON_def)
  qed
qed

text \<open>
  C10: the client gets what the server did: sending requests over an endpoint that leads to the server
  returns, in the same state, exactly the results of the operations, one for each request, if
  authentication and all operations succeed; an error whose cause is \<open>OperationForbidden\<close> if an
  operation was refused for lack of a privilege; and another error in every other case.
\<close>

theorem client_server:
  assumes "json_ascii L" and "list_all (\<lambda>r. ascii (API r) \<and> ascii (Body r)) reqs"
    and "baseURL ep = ''https://'' @ host @ ''/''" and "CHR ''/'' \<notin> set host"
    and "server_outcome L (KContext ks) (post_request L chs addr ep reqs) reqs w = (res, w')"
    and "case res of Ok rs \<Rightarrow> list_all ascii rs | _ \<Rightarrow> True"
  shows "authenticated_SendRequests L (loopback L ks chs addr) ep reqs w = (client_view res, w')"
  using assms by (rule client_server_view)

section \<open>Evaluation on a concrete connection\<close>

text \<open>
  A wire format that is read back, to stand for JSON: every character is preceded by a mark, and
  every string is closed by another.
\<close>

fun wire :: "string list \<Rightarrow> string" where
  "wire [] = []"
| "wire (s # ss) = concat (map (\<lambda>c. [CHR ''x'', c]) s) @ CHR ''e'' # wire ss"

fun unwire :: "string \<Rightarrow> string \<Rightarrow> string list" where
  "unwire acc [] = []"
| "unwire acc [c] = [rev acc]"
| "unwire acc (c # d # cs) = (if c = CHR ''x'' then unwire (d # acc) cs else rev acc # unwire [] (d # cs))"

lemma unwire_wire: "unwire acc (concat (map (\<lambda>c. [CHR ''x'', c]) s) @ CHR ''e'' # wire ss) =
    (rev acc @ s) # unwire [] (wire ss)"
proof (induction s arbitrary: acc)
  case Nil
  then show ?case by (cases "wire ss") auto
qed simp

lemma unwire_inverse: "unwire [] (wire ss) = ss"
  by (induction ss) (simp_all add: unwire_wire del: append_Cons)

fun pair_up :: "string list \<Rightarrow> json list" where
  "pair_up (a # b # ss) = json_Request \<lparr>API = a, Body = b\<rparr> # pair_up ss"
| "pair_up ss = []"

fun field_strings :: "json list \<Rightarrow> string list" where
  "field_strings (JString s # js) = s # field_strings js"
| "field_strings (JObject [(k, JString a), (k', JString b)] # js) = a # b # field_strings js"
| "field_strings js = []"

definition demo_print :: "json \<Rightarrow> string" where
  "demo_print j = (case j of
       JArray (JObject o' # js) \<Rightarrow> CHR ''r'' # wire (field_strings (JObject o' # js))
     | JArray js \<Rightarrow> CHR ''a'' # wire (field_strings js)
     | _ \<Rightarrow> [])"

definition demo_parse :: "string \<Rightarrow> error + json" where
  "demo_parse s = (case s of
       [] \<Rightarrow> Inl (LibError ''unexpected end of JSON input'')
     | c # cs \<Rightarrow> Inr (JArray (if c = CHR ''r'' then pair_up (unwire [] cs) else map JString (unwire [] cs))))"

definition demo_wire_Lib :: Lib where
  "demo_wire_Lib = demo_Lib\<lparr>json_Print := demo_print, json_Parse := demo_parse\<rparr>"

lemma demo_json_roundtrip: "demo_parse (demo_print (json_Requests reqs)) = Inr (json_Requests reqs)"
proof (cases reqs)
  case (Cons r reqs')
  have req: "pair_up (field_strings (map json_Request rs)) = map json_Request rs" for rs
    by (induction rs) (simp_all add: json_Request_def)
  from Cons have "demo_print (json_Requests reqs) = CHR ''r'' # wire (field_strings (map json_Request reqs))"
    by (simp add: demo_print_def json_Requests_def json_Request_def)
  then show ?thesis by (simp add: demo_parse_def unwire_inverse req json_Requests_def)
qed (simp add: demo_print_def demo_parse_def json_Requests_def)

lemma demo_json_ascii: "json_ascii demo_wire_Lib"
proof -
  have str: "field_strings (map JString rs) = rs" for rs by (induction rs) simp_all
  have "demo_parse (demo_print (JArray (map JString rs))) = Inr (JArray (map JString rs))" for rs
    by (cases rs) (simp_all add: demo_print_def demo_parse_def unwire_inverse str del: wire.simps)
  with demo_json_roundtrip show ?thesis by (simp add: json_ascii_def json_strings_def demo_wire_Lib_def)
qed

definition demo_endpoint :: ServerEndpoint where
  "demo_endpoint = \<lparr>rootCAs = [], baseURL = ''https://'' @ ''ks'' @ ''/'', extraHeaders = [TokenHeader \<mapsto> ''abc''],
     certificates = []\<rparr>"

definition demo_config_request :: Request where
  "demo_config_request = \<lparr>API = ''get-local-config'', Body = []\<rparr>"

lemma demo_outcome:
  "server_outcome demo_wire_Lib demo_context
     (post_request demo_wire_Lib (\<lambda>_. None) (dotted 18 181 0 97 @ '':'' @ dec 4242) demo_endpoint [demo_config_request])
     [demo_config_request] demo_world = (Ok [''KIND=worker''], demo_world\<lparr>Ticks := 1, Onces := [True]\<rparr>)"
proof -
  let ?r = "post_request demo_wire_Lib (\<lambda>_. None) (dotted 18 181 0 97 @ '':'' @ dec 4242) demo_endpoint
    [demo_config_request]"
  have h: "Header_Get ?r TokenHeader = ''abc''"
    by (simp add: post_request_def incoming_def demo_endpoint_def Header_Get_def)
  then have t: "TokenVerifier_Verify ?r demo_world = (Ok ''node.example'', demo_world\<lparr>Ticks := 1, Onces := [True]\<rparr>)"
    using demo_Verify(2) by (simp add: TokenVerifier_Verify_def demo_request_def Header_Get_def)
  have "ParseRemoteAddress (dotted 18 181 0 97 @ '':'' @ dec 4242) = Ok (v4InV6Prefix @ [18, 181, 0, 97])"
    unfolding ParseRemoteAddress_Ok_iff
    using ParseIP_dotted [of 18 181 0 97] ParseUint_dec [of 4242 16]
    by (intro exI [of _ "dotted 18 181 0 97"] exI [of _ "dec 4242"] exI [of _ 4242])
      (simp add: dotted_def dec_no_sep)
  then have "verifyAccountIP demo_node ?r = Ok ()"
    by (simp add: verifyAccountIP_Ok_iff ip_allowed_def post_request_def incoming_def demo_node_def)
  moreover have "GetAccount demo_context ''node.example'' = Ok demo_node" "\<not> DisableDirectAuth demo_node"
    "Registry demo_context = Some ()"
    by (simp_all add: GetAccount_def demo_ctx_defs)
  ultimately have "attemptAuthentication demo_wire_Lib demo_context ?r demo_world =
      (Ok demo_node, demo_world\<lparr>Ticks := 1, Onces := [True]\<rparr>)"
    using h t by (simp add: attemptAuthentication_def verifiers_def TokenVerifier_HasAttempt_def token_Verify_def)
  then show ?thesis
    by (simp add: server_outcome_def request_map_def op_map_def demo_config_request_def InvokeAPIOperation_def
        demo_node_def)
qed

theorem client_server_witness:
  "authenticated_SendRequests demo_wire_Lib
     (loopback demo_wire_Lib \<lparr>KContext = demo_context, ServerKey = []\<rparr> (\<lambda>_. None) (dotted 18 181 0 97 @ '':'' @ dec 4242))
     demo_endpoint [demo_config_request] demo_world = (Ok [''KIND=worker''], demo_world\<lparr>Ticks := 1, Onces := [True]\<rparr>)"
proof -
  have "authenticated_SendRequests demo_wire_Lib
     (loopback demo_wire_Lib \<lparr>KContext = demo_context, ServerKey = []\<rparr> (\<lambda>_. None) (dotted 18 181 0 97 @ '':'' @ dec 4242))
     demo_endpoint [demo_config_request] demo_world = (client_view (Ok [''KIND=worker'']), demo_world\<lparr>Ticks := 1, Onces := [True]\<rparr>)"
    by (rule client_server [where host = "''ks''", OF demo_json_ascii])
      (use demo_outcome in \<open>simp_all add: demo_config_request_def demo_endpoint_def ascii_def\<close>)
  then show ?thesis by simp
qed

end
