(* ===== verification/Key_Gateway.thy ===== *)
theory Key_Gateway
  imports End_To_End World_Privileges
begin

text \<open>
  \<open>keygateway/keygateway.go\<close>: the program that the Kerberos network server runs for every connection.
  It takes the requests of a user who has authenticated with Kerberos, and sends them to the keyserver
  with the supervisor's certificate, after one request to impersonate that user. The result is about
  the gateway and the keyserver together: no request of a user is performed with the privileges of
  anyone else.
\<close>

section \<open>keygateway.go\<close>

text \<open>
  \<open>json.Unmarshal\<close> into \<open>[]reqtarget.Request\<close>, on the parsed value: the keys are compared without
  regard to case, other keys are ignored, \<open>null\<close> leaves a field as it is.
\<close>

definition lower :: "char \<Rightarrow> char" where
  "lower c = (let n = of_char c :: nat in if 65 \<le> n \<and> n \<le> 90 then char_of (n + 32) else c)"

definition set_field :: "string \<Rightarrow> string \<Rightarrow> Request \<Rightarrow> Request" where
  "set_field k v r =
     (if map lower k = ''api'' then r\<lparr>API := v\<rparr> else if map lower k = ''body'' then r\<lparr>Body := v\<rparr> else r)"

definition is_field :: "string \<Rightarrow> bool" where
  "is_field k = (map lower k = ''api'' \<or> map lower k = ''body'')"

fun decode_request_fields :: "Request \<Rightarrow> (string \<times> json) list \<Rightarrow> Request result" where
  "decode_request_fields r [] = Ok r"
| "decode_request_fields r ((k, v) # kvs) =
     (if \<not> is_field k then decode_request_fields r kvs
      else case v of
          JString s \<Rightarrow> decode_request_fields (set_field k s r) kvs
        | JNull \<Rightarrow> decode_request_fields r kvs
        | _ \<Rightarrow> Err type_error)"

fun decode_request :: "json \<Rightarrow> Request result" where
  "decode_request (JObject kvs) = decode_request_fields \<lparr>API = [], Body = []\<rparr> kvs"
| "decode_request JNull = Ok \<lparr>API = [], Body = []\<rparr>"
| "decode_request _ = Err type_error"

fun decode_request_list :: "json list \<Rightarrow> Request list result" where
  "decode_request_list [] = Ok []"
| "decode_request_list (j # js) =
     and_then (decode_request j) (\<lambda>r. and_then (decode_request_list js) (\<lambda>rs. Ok (r # rs)))"

fun decode_requests :: "json \<Rightarrow> Request list result" where
  "decode_requests (JArray js) = decode_request_list js"
| "decode_requests JNull = Ok []"
| "decode_requests _ = Err type_error"

text \<open>The process: its files, the network, the environment variable and the standard streams.\<close>

record 'p Gateway = FsWorld +
  GwPeer :: 'p
  KNC_CREDS :: string
  Stdin :: "error + string"
  Stdout :: string

definition with_gateway :: "('p, 'b) action \<Rightarrow> ('p Gateway, 'b) action" where
  "with_gateway f w = (case f (GwPeer w) of (r, p) \<Rightarrow> (r, w\<lparr>GwPeer := p\<rparr>))"

definition gateway_HandleRequest :: "Lib \<Rightarrow> 'p Net \<Rightarrow> string \<Rightarrow> string \<Rightarrow> ('p Gateway, string) action" where
  "gateway_HandleRequest L net princ request_data w =
     and_thenS (and_then (lift (json_Parse L request_data)) decode_requests, w) (\<lambda>requests w.
     and_thenS (LoadDefaultKeyserverWithCert L net w) (\<lambda>(_, rt) w.
     and_thenS (with_gateway (reqtarget_Impersonate rt ImpersonateKerberosAPI princ) w) (\<lambda>reqt w.
     and_thenS (with_gateway (reqt requests) w) (\<lambda>results w.
       if length results \<noteq> length requests then (Err (ErrorNew ''wrong number of results''), w)
       else (Ok (json_strings L results), w)))))"

definition write_stdout :: "string \<Rightarrow> ('p Gateway, unit) action" where
  "write_stdout s w = (case syscall w of
       (Some k, w') \<Rightarrow> (Err io_error, w'\<lparr>Stdout := Stdout w' @ take k s\<rparr>)
     | (None, w') \<Rightarrow> (Ok (), w'\<lparr>Stdout := Stdout w' @ s\<rparr>))"

definition gateway_Process :: "Lib \<Rightarrow> 'p Net \<Rightarrow> ('p Gateway, unit) action" where
  "gateway_Process L net w =
     (let kncCreds = KNC_CREDS w in
      if kncCreds = [] then (Err (ErrorNew ''no credentials supplied''), w)
      else and_thenS (lift (Stdin w), w) (\<lambda>request_data w.
        if length request_data = 0 then (Err (ErrorNew ''empty request''), w)
        else and_thenS (gateway_HandleRequest L net kncCreds request_data w) (\<lambda>results w.
          write_stdout results w)))"

section \<open>What the keyserver performs\<close>

text \<open>
  What \<open>encoding/json\<close> guarantees for arbitrary strings: requests are read back as as many requests,
  with the same strings where these are ASCII (bytes that are not UTF-8 are replaced).
\<close>

definition json_shape :: "Lib \<Rightarrow> bool" where
  "json_shape L = (\<forall>reqs. \<exists>reqs'. json_Parse L (json_Print L (json_Requests reqs)) = Inr (json_Requests reqs') \<and>
     list_all2 (\<lambda>r r'. (ascii (API r) \<longrightarrow> API r' = API r) \<and> (ascii (Body r) \<longrightarrow> Body r' = Body r)) reqs reqs')"

text \<open>In a generated configuration the API for impersonation impersonates, or is not there at all.\<close>

lemma impersonate_privilege:
  assumes "accounts_ok conf c" and "Accounts c p = Some a" and "\<not> DisableDirectAuth a"
    and "Privileges a ImpersonateKerberosAPI = Some priv"
  shows "priv = Impersonate kerberos_group"
proof -
  have "is_node_account conf a"
    using assms(1-3) unfolding accounts_ok_def is_kerberos_account_def by blast
  then obtain node where "node_priv node ImpersonateKerberosAPI priv"
    using assms(4) unfolding is_node_account_def grants_satisfy_def by blast
  then show ?thesis by (cases priv) (simp_all add: api_names)
qed

text \<open>A client that gets results has had all its operations performed for the authenticated account.\<close>

lemma client_server_Ok:
  assumes "authenticated_SendRequests L (loopback L ks chs addr) ep reqs w = (Ok rs, w')"
    and "baseURL ep = ''https://'' @ host @ ''/''" and "CHR ''/'' \<notin> set host"
    and "json_Parse L (json_Print L (json_Requests reqs)) = Inr (json_Requests reqs')"
  shows "\<exists>ac w1 res ctx. attemptAuthentication L (KContext ks) (post_request L chs addr ep reqs) w = (Ok ac, w1) \<and>
    ops_loop L (KContext ks) (map request_map reqs') (\<lparr>ctxAccount = Some ac\<rparr>, w1) = (Ok res, ctx, w')"
proof -
  let ?r = "post_request L chs addr ep reqs"
  obtain resp w2 where do: "apiToHTTP L ks ?r w = (Ok resp, w2)" "StatusCode resp = 200" "w2 = w'"
    using assms(1)
    by (auto simp: authenticated_SendRequests_def PostJSON_def endpoint_Request_def loopback_def and_thenS_Ok_iff
        post_request_def split: prod.splits result.splits sum.splits if_splits)
  have body: "ReqBody ?r = Inr (json_Print L (json_Requests reqs))" by (simp add: post_request_def incoming_def)
  obtain h where h: "HandleAPIRequest L ks ?r w = h" by simp
  have err: "StatusCode (api_error e) \<noteq> 200" for e by (cases e) (simp_all add: http_Error_def)
  from do obtain out where "HandleAPIRequest L ks ?r w = (Ok out, w')"
    unfolding apiToHTTP_post [OF assms(2,3)] h by (cases "(api_error, h)" rule: respond.cases) (auto simp: err)
  then obtain ac w1 where "attemptAuthentication L (KContext ks) ?r w = (Ok ac, w1)"
    "InvokeAPIOperationSet L (Some ac) (KContext ks) (json_Print L (json_Requests reqs)) w1 = (Ok out, w')"
    by (auto simp: HandleAPIRequest_def body and_thenS_Ok_iff)
  moreover from this(2) obtain res ctx where
    "ops_loop L (KContext ks) (map request_map reqs') (\<lparr>ctxAccount = Some ac\<rparr>, w1) = (Ok res, ctx, w')"
    by (rule InvokeAPIOperationSet_Ok) (use assms(4) decode_json_Requests [of reqs'] in auto)
  ultimately show ?thesis by blast
qed

text \<open>A Kerberos account acts for itself throughout, so it needs a privilege for every operation.\<close>

lemma kerberos_authorized:
  assumes "is_kerberos_account b" and "authorized c b ops" and "(api, body) \<in> set ops"
  shows "Privileges b api \<noteq> None"
  using assms(2,3)
proof (induction ops)
  case (Cons op ops)
  then obtain b' where b': "acts_next c b op = Some b'" "authorized c b' ops" by (auto split: option.splits)
  with acts_next_kerberos [OF assms(1)] have "authorized c b ops" by blast
  with Cons b'(1) show ?case by (cases op) (auto split: option.splits)
qed simp

lemma attemptAuthentication_direct:
  assumes "attemptAuthentication L c r w = (Ok ac, w')"
  shows "Accounts c (Principal ac) = Some ac \<and> \<not> DisableDirectAuth ac"
proof -
  have "Accounts c (Principal ac) = Some ac \<and> \<not> DisableDirectAuth ac" if "auth_loop c r vs w = (Ok ac, w')" for vs
    using that
  proof (induction vs)
    case (Cons hv vs)
    then show ?case using auth_loop_Ok [of c r "fst hv" "snd hv" vs w ac w'] by (auto split: if_splits)
  qed simp
  then show ?thesis using assms by (simp add: attemptAuthentication_def)
qed

text \<open>The gateway reaches the keyserver at the host its configuration names.\<close>

lemma set_trim_left: "set (trim_left rs s) \<subseteq> set s"
proof (induction rs s rule: trim_left.induct)
  case (1 rs s)
  then show ?case by (subst trim_left.simps) (auto dest!: subsetD dest: in_set_dropD)
qed

lemma set_TrimSpace: "set (TrimSpace s) \<subseteq> set s"
  using set_trim_left unfolding TrimSpace_def trim_right_def by (metis set_rev subset_trans)

lemma LoadDefaultKeyserverWithCert_Ok:
  assumes "LoadDefaultKeyserverWithCert L net w = (Ok (k, rt), w')"
  obtains ep d m t where "rt = authenticated_SendRequests L net ep"
    "baseURL ep = ''https://'' @ (TrimSpace d @ '':20557'') @ ''/''"
    "lookup (FS w) ''/etc/homeworld/config/keyserver.domain'' = Inr (File d m t)"
proof -
  obtain w1 pair where load: "LoadDefaultKeyserver L w = (Ok k, w1)"
    and rt: "rt = authenticated_SendRequests L net (WithCertificate (endpoint k) pair)"
    using assms
    by (auto simp: LoadDefaultKeyserverWithCert_def and_thenS_Ok_iff AuthenticateWithCert_def case_prod_unfold)
  obtain r2 w2 where r2: "ReadFile KeyserverTLSCert w = (r2, w2)" by fastforce
  obtain r3 w3 where r3: "ReadFile ''/etc/homeworld/config/keyserver.domain'' w2 = (r3, w3)" by fastforce
  from load obtain a d where read: "ReadFile KeyserverTLSCert w = (Ok a, w2)"
    "ReadFile ''/etc/homeworld/config/keyserver.domain'' w2 = (Ok d, w3)"
    and new: "NewKeyserver L a (TrimSpace d @ '':20557'') = Ok k"
    using r2 r3 by (cases r2; cases r3) (auto simp: LoadDefaultKeyserver_def GetKeyserver_def)
  from new have "baseURL (endpoint k) = ''https://'' @ (TrimSpace d @ '':20557'') @ ''/''"
    by (auto simp: NewKeyserver_def and_then_Ok_iff NewServerEndpoint_def split: if_splits)
  moreover obtain m t where "lookup (FS w) ''/etc/homeworld/config/keyserver.domain'' = Inr (File d m t)"
    using ReadFile_lookup [OF read(2)] ReadFile_FS [OF read(1)] by auto
  ultimately show thesis using that [OF rt] by (auto simp: WithCertificate_def)
qed

lemma gateway_HandleRequest_Ok:
  assumes "gateway_HandleRequest L net princ data w = (Ok out, w')"
  obtains requests ep d m t p rs where "and_then (lift (json_Parse L data)) decode_requests = Ok requests"
    "baseURL ep = ''https://'' @ (TrimSpace d @ '':20557'') @ ''/''"
    "lookup (FS w) ''/etc/homeworld/config/keyserver.domain'' = Inr (File d m t)"
    "authenticated_SendRequests L net ep (\<lparr>API = ImpersonateKerberosAPI, Body = princ\<rparr> # requests) p = (Ok rs, GwPeer w')"
proof -
  obtain requests k rt w1 reqt w2 results where dec: "and_then (lift (json_Parse L data)) decode_requests = Ok requests"
    and load: "LoadDefaultKeyserverWithCert L net w = (Ok (k, rt), w1)"
    and imp: "with_gateway (reqtarget_Impersonate rt ImpersonateKerberosAPI princ) w1 = (Ok reqt, w2)"
    and send: "with_gateway (reqt requests) w2 = (Ok results, w')"
    using assms by (auto simp: gateway_HandleRequest_def and_thenS_Ok_iff split: if_splits)
  have "reqt = impersonated_SendRequests rt ImpersonateKerberosAPI princ"
    using imp by (auto simp: with_gateway_def reqtarget_Impersonate_def Let_def and_thenS_Ok_iff split: prod.splits if_splits)
  with send obtain rs where "rt (\<lparr>API = ImpersonateKerberosAPI, Body = princ\<rparr> # requests) (GwPeer w2) = (Ok rs, GwPeer w')"
    by (auto simp: with_gateway_def impersonated_SendRequests_def Let_def and_thenS_Ok_iff split: prod.splits if_splits)
  with dec load that show thesis by (elim LoadDefaultKeyserverWithCert_Ok) blast
qed


end
