(* ===== verification/Gateway_Demo.thy ===== *)
theory Gateway_Demo
  imports Key_Gateway World_Demo
begin

text \<open>
  The gateway on the concrete cluster: the root admin asks, over Kerberos, for a bootstrap token.
\<close>

definition demo_addr :: string where "demo_addr = dotted 18 4 60 5 @ '':'' @ dec 4242"

definition demo_chains :: "tls_Certificate list \<Rightarrow> Certificate list list option" where
  "demo_chains cs = Some [[zero_Certificate\<lparr>CommonName := ''eggs.hw.example''\<rparr>]]"

lemma demo_wire_sel:
  "x509_Verify demo_wire_Lib = x509_Verify demo_Lib" "sha256_Sum256 demo_wire_Lib = sha256_Sum256 demo_Lib"
  "tls_X509KeyPair demo_wire_Lib = tls_X509KeyPair demo_Lib" "pem_Decode demo_wire_Lib = pem_Decode demo_Lib"
  "x509_ParseCertificate demo_wire_Lib = x509_ParseCertificate demo_Lib"
  by (simp_all add: demo_wire_Lib_def)

lemma demo_eggs_authenticated:
  assumes "Accounts c ''eggs.hw.example'' = Some a" and "Principal a = ''eggs.hw.example''"
    and "\<not> DisableDirectAuth a" and "LimitIP a = Some (v4InV6Prefix @ [18, 4, 60, 5])"
    and "AuthenticationAuthority c = Some t"
    and r: "Header r = (\<lambda>_. [])" "TLS r = demo_chains []" "RemoteAddr r = demo_addr"
  shows "attemptAuthentication demo_wire_Lib c r w = (Ok a, snd (time_Now w))"
proof -
  have v: "TLSAuthority_HasAttempt r" "\<not> TokenVerifier_HasAttempt r"
    using r by (simp_all add: TLSAuthority_HasAttempt_def TokenVerifier_HasAttempt_def Header_Get_def demo_chains_def)
  have t: "TLSAuthority_Verify demo_wire_Lib t r w = (Ok ''eggs.hw.example'', snd (time_Now w))"
    using v r by (simp add: TLSAuthority_Verify_def time_Now_def demo_wire_sel demo_Lib_def demo_chains_def)
  have "GetAccount c ''eggs.hw.example'' = Ok a" using assms by (simp add: GetAccount_Ok_iff)
  moreover have "ip_allowed a r"
    using demo_ip_allowed [OF assms(4)] r(3) by (simp add: ip_allowed_def demo_cert_request_def demo_addr_def)
  then have "verifyAccountIP a r = Ok ()" by (simp add: verifyAccountIP_Ok_iff)
  ultimately show ?thesis
    using v assms(3,5) t by (simp add: attemptAuthentication_def verifiers_def auth_Verify_def)
qed

definition demo_domain_files :: "string \<rightharpoonup> fnode" where
  "demo_domain_files = [KeyserverTLSCert \<mapsto> File demo_cert_pem 420 0,
     ''/etc/homeworld/config/keyserver.domain'' \<mapsto> File ''eggs'' 420 0,
     GrantingCertPath \<mapsto> File demo_cert_pem 420 0, GrantingKeyPath \<mapsto> File demo_key_pem 384 0]"

definition demo_token_request :: Request where
  "demo_token_request = \<lparr>API = ''bootstrap'', Body = ''spam.hw.example''\<rparr>"

definition demo_gateway :: "TokenWorld Gateway" where
  "demo_gateway = \<lparr>Clock = int, Ticks = 0, Entropy = Some, Draws = 0, FS = demo_domain_files,
     Faults = (\<lambda>_. None), Syscalls = 0, GwPeer = demo_start, KNC_CREDS = ''admin@EXAMPLE'',
     Stdin = Inr (demo_print (json_Requests [demo_token_request])), Stdout = []\<rparr>"

definition demo_gateway_endpoint :: ServerEndpoint where
  "demo_gateway_endpoint = \<lparr>rootCAs = [tls_cert demo_tls], baseURL = ''https://'' @ ''eggs:20557'' @ ''/'',
     extraHeaders = Map.empty,
     certificates = [\<lparr>Chain = [demo_cert_pem], ChainKey = RSA_Key demo_key, Leaf = None\<rparr>]\<rparr>"

lemma demo_domain_lookup:
  "lookup demo_domain_files KeyserverTLSCert = Inr (File demo_cert_pem 420 0)"
  "lookup demo_domain_files ''/etc/homeworld/config/keyserver.domain'' = Inr (File ''eggs'' 420 0)"
  "lookup demo_domain_files GrantingCertPath = Inr (File demo_cert_pem 420 0)"
  "lookup demo_domain_files GrantingKeyPath = Inr (File demo_key_pem 384 0)"
  by (simp_all add: lookup_def demo_domain_files_def path_names ancestors_def upt_rec)

lemma demo_gateway_load:
  "LoadDefaultKeyserverWithCert demo_wire_Lib net demo_gateway =
     (Ok (\<lparr>endpoint = demo_gateway_endpoint\<lparr>certificates := []\<rparr>\<rparr>,
        authenticated_SendRequests demo_wire_Lib net demo_gateway_endpoint), demo_gateway\<lparr>Syscalls := 4\<rparr>)"
proof -
  have read: "ReadFile p (demo_gateway\<lparr>Syscalls := i\<rparr>) = (Ok d, demo_gateway\<lparr>Syscalls := Suc i\<rparr>)"
    if "lookup demo_domain_files p = Inr (File d m t)" for p d m t i
    using that by (simp add: ReadFile_def syscall_def demo_gateway_def)
  note r = read [OF demo_domain_lookup(1)] read [OF demo_domain_lookup(2)] read [OF demo_domain_lookup(3)]
    read [OF demo_domain_lookup(4)]
  have trim: "TrimSpace ''eggs'' = ''eggs''" by (rule TrimSpace_visible) (simp add: visible_def)
  have cert: "LoadX509CertFromPEM demo_wire_Lib demo_cert_pem = Ok (tls_cert demo_tls)"
    by (simp add: LoadX509CertFromPEM_def LoadSinglePEMBlock_def demo_wire_sel demo_Lib_def demo_pem_Decode_def
        demo_pem_Encode_def demo_cert_pem_def demo_tls_def pem_header_def HasPrefix_def)
  have load: "LoadDefaultKeyserver demo_wire_Lib (demo_gateway\<lparr>Syscalls := 0\<rparr>) =
      (Ok \<lparr>endpoint = demo_gateway_endpoint\<lparr>certificates := []\<rparr>\<rparr>, demo_gateway\<lparr>Syscalls := 2\<rparr>)"
    by (simp add: LoadDefaultKeyserver_def GetKeyserver_def r trim NewKeyserver_def cert NewServerEndpoint_def
        HasSuffix_def demo_gateway_endpoint_def numeral_2_eq_2)
  have "LoadX509KeyPair demo_wire_Lib GrantingCertPath GrantingKeyPath (demo_gateway\<lparr>Syscalls := 2\<rparr>) =
      (Ok \<lparr>Chain = [demo_cert_pem], ChainKey = RSA_Key demo_key, Leaf = None\<rparr>, demo_gateway\<lparr>Syscalls := 4\<rparr>)"
    by (simp add: LoadX509KeyPair_def r demo_wire_sel demo_Lib_def)
  moreover have "demo_gateway\<lparr>Syscalls := 0\<rparr> = demo_gateway" by (simp add: demo_gateway_def)
  ultimately show ?thesis
    using load by (simp add: LoadDefaultKeyserverWithCert_def AuthenticateWithCert_def WithCertificate_def
        demo_gateway_endpoint_def)
qed

text \<open>The keyserver's side: it impersonates the admin, and then grants the token.\<close>

abbreviation demo_impersonation :: Request where
  "demo_impersonation \<equiv> \<lparr>API = ImpersonateKerberosAPI, Body = ''admin@EXAMPLE''\<rparr>"

lemma demo_gateway_outcomes:
  fixes w :: TokenWorld
  assumes c: "GenerateAccounts demo_base demo_conf demo_auth = Ok c"
  defines "out \<equiv> \<lambda>reqs. server_outcome demo_wire_Lib c
    (post_request demo_wire_Lib demo_chains demo_addr demo_gateway_endpoint reqs) reqs"
  shows "out [demo_impersonation] w = (Ok [[]], snd (time_Now w))"
    and "byToken w = [] \<Longrightarrow> Entropy w = Some \<Longrightarrow> \<exists>t w'. list_all visible t \<and>
      out [demo_impersonation, demo_token_request] w = (Ok [[], t], w')"
proof -
  obtain eggs admin where a: "Accounts c ''eggs.hw.example'' = Some eggs" "Principal eggs = ''eggs.hw.example''"
    "\<not> DisableDirectAuth eggs" "LimitIP eggs = Some (v4InV6Prefix @ [18, 4, 60, 5])"
    and b: "Accounts c ''admin@EXAMPLE'' = Some admin" "Principal admin = ''admin@EXAMPLE''"
    "Privileges eggs ImpersonateKerberosAPI = Some (Impersonate kerberos_group)"
    "Privileges admin ''bootstrap'' = Some (Bootstrap nodes_group time_Hour)"
    "HasMember (GroupStore c kerberos_group) ''admin@EXAMPLE''" "HasMember (GroupStore c nodes_group) ''spam.hw.example''"
    using demo_accounts c by auto
  have auth: "AuthenticationAuthority c = Some demo_tls"
    using GenerateAccounts_Ok [OF c] by (simp add: demo_base_def empty_context_def)
  have post: "attemptAuthentication demo_wire_Lib c (post_request demo_wire_Lib demo_chains demo_addr demo_gateway_endpoint reqs) v =
      (Ok eggs, snd (time_Now v))" for reqs and v :: TokenWorld
    by (rule demo_eggs_authenticated [OF a auth])
      (simp_all add: post_request_def incoming_def demo_gateway_endpoint_def demo_chains_def)
  have "GetAccount c ''admin@EXAMPLE'' = Ok admin" using b by (simp add: GetAccount_Ok_iff)
  then have imp: "InvokeAPIOperation demo_wire_Lib c ImpersonateKerberosAPI ''admin@EXAMPLE'' (\<lparr>ctxAccount = Some eggs\<rparr>, v) =
      (Ok [], \<lparr>ctxAccount = Some admin\<rparr>, v)" for v :: TokenWorld
    using b by (simp add: InvokeAPIOperation_def impersonate_call_def)
  then show "out [demo_impersonation] w = (Ok [[]], snd (time_Now w))"
    by (simp add: out_def server_outcome_def post request_map_def op_map_def)
  assume w: "byToken w = []" "Entropy w = Some"
  then have w': "byToken (snd (time_Now w)) = []" "Entropy (snd (time_Now w)) (Draws (snd (time_Now w))) = Some (Draws w)"
    by (simp_all add: time_Now_def)
  obtain t :: ScopedToken and v where "GrantToken demo_wire_Lib ''spam.hw.example'' time_Hour (snd (time_Now w)) = (Ok (Token t), v)"
    "list_all visible (Token t)"
    using GrantToken_first [OF w', of demo_wire_Lib "''spam.hw.example''" time_Hour]
    by (simp add: demo_wire_sel demo_Lib_def) blast
  with imp b show "\<exists>t w'. list_all visible t \<and> out [demo_impersonation, demo_token_request] w = (Ok [[], t], w')"
    by (simp add: out_def server_outcome_def post request_map_def op_map_def demo_token_request_def InvokeAPIOperation_def
        bootstrap_call_def)
qed

lemma demo_json_shape: "json_shape demo_wire_Lib"
proof -
  have "json_Parse demo_wire_Lib (json_Print demo_wire_Lib (json_Requests reqs)) = Inr (json_Requests reqs)" for reqs
    using demo_json_roundtrip by (simp add: demo_wire_Lib_def)
  moreover have "list_all2 (\<lambda>r r'. (ascii (API r) \<longrightarrow> API r' = API r) \<and> (ascii (Body r) \<longrightarrow> Body r' = Body r)) reqs reqs" for reqs
    by (simp add: list_all2_same)
  ultimately show ?thesis unfolding json_shape_def by blast
qed

lemma demo_gateway_run:
  assumes c: "GenerateAccounts demo_base demo_conf demo_auth = Ok c"
  shows "\<exists>out w'. gateway_HandleRequest demo_wire_Lib (loopback demo_wire_Lib \<lparr>KContext = c, ServerKey = []\<rparr> demo_chains demo_addr)
    ''admin@EXAMPLE'' (demo_print (json_Requests [demo_token_request])) demo_gateway = (Ok out, w')"
proof -
  let ?net = "loopback demo_wire_Lib \<lparr>KContext = c, ServerKey = []\<rparr> demo_chains demo_addr"
  let ?send = "authenticated_SendRequests demo_wire_Lib ?net demo_gateway_endpoint"
  have "json_Parse demo_wire_Lib (demo_print (json_Requests [demo_token_request])) = Inr (json_Requests [demo_token_request])"
    using demo_json_roundtrip by (simp add: demo_wire_Lib_def)
  then have dec: "and_then (lift (json_Parse demo_wire_Lib (demo_print (json_Requests [demo_token_request])))) decode_requests =
      Ok [demo_token_request]"
    by (simp add: json_Requests_def json_Request_def is_field_def set_field_def lower_def demo_token_request_def
        Let_def of_char_Char)
  let ?w = "snd (time_Now demo_start)"
  have w: "byToken ?w = []" "Entropy ?w = Some" by (simp_all add: time_Now_def demo_start_def)
  obtain t w' where t: "list_all visible t" and out: "server_outcome demo_wire_Lib c
      (post_request demo_wire_Lib demo_chains demo_addr demo_gateway_endpoint [demo_impersonation, demo_token_request])
      [demo_impersonation, demo_token_request] ?w = (Ok [[], t], w')"
    using demo_gateway_outcomes(2) [OF c w] by blast
  have url: "baseURL demo_gateway_endpoint = ''https://'' @ ''eggs:20557'' @ ''/''" "CHR ''/'' \<notin> set ''eggs:20557''"
    by (simp_all add: demo_gateway_endpoint_def)
  have ascii_t: "ascii t" using t by (auto simp: ascii_def visible_def list_all_iff)
  have s1: "?send [demo_impersonation] demo_start = (client_view (Ok [[]]), ?w)"
    by (rule client_server_view [OF demo_json_ascii _ url])
      (use demo_gateway_outcomes(1) [OF c] in \<open>simp_all add: ascii_def api_names\<close>)
  have s2: "?send [demo_impersonation, demo_token_request] ?w = (client_view (Ok [[], t]), w')"
    by (rule client_server_view [OF demo_json_ascii _ url])
      (use out ascii_t in \<open>simp_all add: ascii_def api_names demo_token_request_def\<close>)
  have "ImpersonateKerberosAPI \<noteq> []" by (simp add: api_names)
  with s1 have imp: "reqtarget_Impersonate ?send ImpersonateKerberosAPI ''admin@EXAMPLE'' demo_start =
      (Ok (impersonated_SendRequests ?send ImpersonateKerberosAPI ''admin@EXAMPLE''), ?w)"
    by (simp add: reqtarget_Impersonate_def impersonated_SendRequests_def)
  have send: "impersonated_SendRequests ?send ImpersonateKerberosAPI ''admin@EXAMPLE'' [demo_token_request] ?w = (Ok [t], w')"
    using s2 by (simp add: impersonated_SendRequests_def)
  have "GwPeer (demo_gateway\<lparr>Syscalls := 4\<rparr>) = demo_start" by (simp add: demo_gateway_def)
  with imp send show ?thesis
    by (simp add: gateway_HandleRequest_def dec demo_gateway_load with_gateway_def)
qed


end
