(* ===== verification/Key_Client.thy ===== *)
theory Key_Client
  imports Client_Api
begin

text \<open>
  The keyclient daemon of every node: its state (\<open>keyclient/state/state.go\<close>), the loop that runs the
  actions (\<open>keyclient/actloop/actloop.go\<close>), the actions (\<open>keyclient/actions\<close>) and the list of them
  (\<open>worldconfig/keyclient.go\<close>). The state is one record: the world with its file system, the state
  \<open>Peer\<close> of the network, the machine's hostname, the fields of \<open>ClientState\<close> and those of
  \<open>NewActionContext\<close>. An action is the call of a function of type \<open>NewAction\<close>: it returns nothing, or
  panics. \<open>Errored\<close> only logs, so it leaves the state alone; the log messages that print durations are
  left out.
\<close>

section \<open>state.go and NewActionContext\<close>

text \<open>The programs that are run, with whether they succeeded, and the sleeps, in order.\<close>

datatype event = Command "string list" bool | Sleep int

record 'p Client = FsWorld +
  Peer :: 'p
  OSHostname :: string
  Hostnamectl :: "string \<Rightarrow> string"
  Cwd :: string
  DirTime :: "string \<Rightarrow> int"
  csKeyserver :: Keyserver
  Keygrant :: "tls_Certificate option"
  RetryAt :: "string \<rightharpoonup> int"
  BlockedBy :: "error list"
  Performed :: bool
  Trace :: "event list"

text \<open>A call over the network, and a command that is run: both may fail.\<close>

definition with_peer :: "('p, 'b) action \<Rightarrow> ('p Client, 'b) action" where
  "with_peer f w = (case f (Peer w) of (r, p) \<Rightarrow> (r, w\<lparr>Peer := p\<rparr>))"

definition run_command :: "string list \<Rightarrow> ('p Client, unit) action" where
  "run_command args w = (case syscall w of
       (Some _, w') \<Rightarrow> (Err io_error, w'\<lparr>Trace := Trace w' @ [Command args False]\<rparr>)
     | (None, w') \<Rightarrow> (Ok (), w'\<lparr>Trace := Trace w' @ [Command args True]\<rparr>))"

definition time_Sleep :: "int \<Rightarrow> 'p Client \<Rightarrow> 'p Client" where
  "time_Sleep d w = w\<lparr>Trace := Trace w @ [Sleep d]\<rparr>"

definition Errored :: "string \<Rightarrow> error \<Rightarrow> 'p Client \<Rightarrow> 'p Client" where
  "Errored info err w = w"

definition Blocked :: "error \<Rightarrow> 'p Client \<Rightarrow> 'p Client" where
  "Blocked err w = w\<lparr>BlockedBy := BlockedBy w @ [err]\<rparr>"

definition NotifyPerformed :: "string \<Rightarrow> 'p Client \<Rightarrow> 'p Client" where
  "NotifyPerformed info w = w\<lparr>Performed := True\<rparr>"

type_synonym 'p NewAction = "('p Client, unit) action"

text \<open>What the actions do with the error of the work they call.\<close>

definition report_error :: "string \<Rightarrow> unit result \<times> 'p Client \<Rightarrow> unit result \<times> 'p Client" where
  "report_error info rw = (case rw of
       (Err err, w) \<Rightarrow> (Ok (), Errored info err w)
     | (Panic m, w) \<Rightarrow> (Panic m, w)
     | (Ok _, w) \<Rightarrow> (Ok (), w))"

definition report :: "string \<Rightarrow> unit result \<times> 'p Client \<Rightarrow> unit result \<times> 'p Client" where
  "report info rw = (case rw of
       (Err err, w) \<Rightarrow> (Ok (), Errored info err w)
     | (Panic m, w) \<Rightarrow> (Panic m, w)
     | (Ok _, w) \<Rightarrow> (Ok (), NotifyPerformed info w))"

definition RetryAfter :: int where "RetryAfter = time_Hour * 12"

definition RetryFailed :: "string \<Rightarrow> 'p Client \<Rightarrow> 'p Client" where
  "RetryFailed api w = (case time_Now w of (n, w) \<Rightarrow> w\<lparr>RetryAt := (RetryAt w)(api \<mapsto> n + RetryAfter)\<rparr>)"

definition CanRetry :: "string \<Rightarrow> 'p Client \<Rightarrow> bool \<times> 'p Client" where
  "CanRetry api w = (case RetryAt w api of
       None \<Rightarrow> (True, w)
     | Some retryAt \<Rightarrow> (case time_Now w of (n, w) \<Rightarrow> (retryAt < n, w)))"

definition ReloadKeygrantingCert :: "Lib \<Rightarrow> ('p Client, unit) action" where
  "ReloadKeygrantingCert L w =
     (case Exists GrantingKeyPath w of (e1, w) \<Rightarrow>
      case (if e1 then Exists GrantingCertPath w else (False, w)) of (e2, w) \<Rightarrow>
      if e1 \<and> e2 then
        (case LoadX509KeyPair L GrantingCertPath GrantingKeyPath w of (r, w) \<Rightarrow>
           and_thenS (wrap_err ''failed to reload keygranting certificate'' r, w) (\<lambda>cert w.
             (Ok (), w\<lparr>Keygrant := Some cert\<rparr>)))
      else (Err (ErrorNew ''no keygranting certificate found''), w))"

definition ReplaceKeygrantingCert :: "Lib \<Rightarrow> string \<Rightarrow> ('p Client, unit) action" where
  "ReplaceKeygrantingCert L data w =
     and_thenS (EnsureIsFolder (path_Dir GrantingCertPath) w) (\<lambda>_ w.
     and_thenS (WriteFile GrantingCertPath data 420 w) (\<lambda>_ w.
     case ReloadKeygrantingCert L w of (r, w) \<Rightarrow>
       (wrap_err ''expected properly loaded keygrant certificate'' r, w)))"

text \<open>\<open>NewClientState\<close> returns the state and a warning.\<close>

definition NewClientState :: "Lib \<Rightarrow> Keyserver \<Rightarrow> ('p Client, error option) action" where
  "NewClientState L keyserver w =
     (case ReloadKeygrantingCert L (w\<lparr>csKeyserver := keyserver, Keygrant := None, RetryAt := Map.empty\<rparr>) of
        (Err e, w) \<Rightarrow> (Ok (Some (Wrap e ''keygranting cert not yet available'')), w)
      | (Panic m, w) \<Rightarrow> (Panic m, w)
      | (Ok _, w) \<Rightarrow> (Ok None, w))"

section \<open>actions/keygen\<close>

definition DefaultRSAKeyLength :: nat where "DefaultRSAKeyLength = 4096"

definition keygen :: "Lib \<Rightarrow> string \<Rightarrow> ('p Client, unit) action" where
  "keygen L keypath w =
     (let dirname = path_Dir keypath in
      case EnsureIsFolder dirname w of (r, w) \<Rightarrow>
      and_thenS (wrap_err (''failed to prepare directory '' @ dirname @ '' for generated key'') r, w) (\<lambda>_ w.
      case GenerateRSA L DefaultRSAKeyLength w of (r, w) \<Rightarrow>
      and_thenS (wrap_err (''failed to generate '' @ dec DefaultRSAKeyLength @ ''-bit RSA key for '' @ keypath) r, w)
        (\<lambda>(_, privateKeyPEM) w.
           case CreateFile keypath privateKeyPEM 384 w of (r, w) \<Rightarrow>
             (wrap_err ''failed to create file for generated key'' r, w))))"

definition GenerateKey :: "Lib \<Rightarrow> string \<Rightarrow> 'p NewAction" where
  "GenerateKey L keypath w =
     (case Exists keypath w of (e, w) \<Rightarrow>
      if e then (Ok (), w)
      else report (''generate key '' @ keypath) (keygen L keypath w))"

section \<open>actions/bootstrap\<close>

text \<open>
  The loop over the runes of the token: a byte from 128 on starts a rune above 127 (or the
  replacement character, also above 127), and among the others the printable ones that are no space
  pass.
\<close>

fun check_token :: "string \<Rightarrow> unit result" where
  "check_token [] = Ok ()"
| "check_token (c # cs) =
     (let n = of_char c :: nat; isPrint = (0x20 \<le> n \<and> n \<le> 0x7E) in
      if \<not> isPrint \<or> c = CHR '' '' \<or> 127 < n then Err (Errorf ''invalid token found: bad character %c'' [])
      else check_token cs)"

definition getToken :: "('a FsWorld_scheme, string) action" where
  "getToken w =
     and_thenS (ReadFile BootstrapTokenPath w) (\<lambda>contents w.
       let token = TrimSpace contents in
       if length token = 0 then (Err (ErrorNew ''blank token found''), w)
       else (and_then (check_token token) (\<lambda>_. Ok token), w))"

definition buildCSR :: "Lib \<Rightarrow> ('a FsWorld_scheme, string) action" where
  "buildCSR L w =
     and_thenS (ReadFile GrantingKeyPath w) (\<lambda>privkey w. (BuildTLSCSR L privkey, w))"

fun is_OperationForbidden :: "error \<Rightarrow> bool" where
  "is_OperationForbidden OperationForbidden = True"
| "is_OperationForbidden e = False"

definition bootstrap_sendRequest ::
  "Lib \<Rightarrow> 'p Net \<Rightarrow> string \<Rightarrow> string \<Rightarrow> ('p Client, string) action" where
  "bootstrap_sendRequest L net api param w =
     and_thenS (getToken w) (\<lambda>token w.
     and_thenS (AuthenticateWithToken L net (csKeyserver w) token, w) (\<lambda>rt w.
       case with_peer (SendRequest rt api param) w of
         (Err e, w) \<Rightarrow> (Err e, if is_OperationForbidden (errors_Cause e) then RetryFailed api w else w)
       | (Panic m, w) \<Rightarrow> (Panic m, w)
       | (Ok res, w) \<Rightarrow>
           and_thenS (os_Remove BootstrapTokenPath w) (\<lambda>_ w. (Ok res, w))))"

definition bootstrap_run :: "Lib \<Rightarrow> 'p Net \<Rightarrow> string \<Rightarrow> ('p Client, unit) action" where
  "bootstrap_run L net api w =
     and_thenS (buildCSR L w) (\<lambda>csr w.
     and_thenS (bootstrap_sendRequest L net api csr w) (\<lambda>certbytes w.
       if length certbytes = 0 then (Err (ErrorNew ''received empty response''), w)
       else ReplaceKeygrantingCert L certbytes w))"

definition Bootstrap_action :: "Lib \<Rightarrow> 'p Net \<Rightarrow> string \<Rightarrow> 'p NewAction" where
  "Bootstrap_action L net api w =
     (case CanRetry api w of (can, w) \<Rightarrow>
      if \<not> can then (Ok (), w)
      else if Keygrant w \<noteq> None then (Ok (), w)
      else case Exists BootstrapTokenPath w of (e1, w) \<Rightarrow>
        if \<not> e1 then (Ok (), w)
        else case Exists GrantingKeyPath w of (e2, w) \<Rightarrow>
          if \<not> e2 then (Ok (), Blocked (Errorf ''key does not yet exist: %s'' [GrantingKeyPath]) w)
          else report (''bootstrap with token API '' @ api @ '' from path '' @ BootstrapTokenPath)
                 (bootstrap_run L net api w))"

section \<open>actions/download\<close>

record download_config =
  Path :: string
  Refresh :: int
  Mode :: nat

type_synonym 'p FetchFunc = "('p Client, string) action"

definition nonempty_response :: "string \<Rightarrow> string result" where
  "nonempty_response res = (if length res = 0 then Err (ErrorNew ''empty response'') else Ok res)"

definition fetchAuthority :: "'p Net \<Rightarrow> string \<Rightarrow> 'p FetchFunc" where
  "fetchAuthority net authority w =
     and_thenS (with_peer (GetPubkey net (csKeyserver w) authority) w) (\<lambda>res w. (nonempty_response res, w))"

definition fetchStatic :: "'p Net \<Rightarrow> string \<Rightarrow> 'p FetchFunc" where
  "fetchStatic net static w =
     and_thenS (with_peer (GetStatic net (csKeyserver w) static) w) (\<lambda>res w. (nonempty_response res, w))"

definition fetchAPI :: "Lib \<Rightarrow> 'p Net \<Rightarrow> string \<Rightarrow> 'p FetchFunc" where
  "fetchAPI L net api w =
     (case CanRetry api w of (can, w) \<Rightarrow>
      if \<not> can then (Ok [], w)
      else case Keygrant w of
          None \<Rightarrow> (Ok [], Blocked (ErrorNew ''no keygranting certificate ready'') w)
        | Some cert \<Rightarrow>
            and_thenS (AuthenticateWithCert L net (csKeyserver w) cert, w) (\<lambda>rt w.
              case with_peer (SendRequest rt api []) w of
                (Err e, w) \<Rightarrow> (Err e, if is_OperationForbidden (errors_Cause e) then RetryFailed api w else w)
              | (Panic m, w) \<Rightarrow> (Panic m, w)
              | (Ok resp, w) \<Rightarrow> (nonempty_response resp, w)))"

definition ModTime :: "string \<Rightarrow> fnode \<Rightarrow> 'p Client \<Rightarrow> int" where
  "ModTime p n w = (case n of File _ _ t \<Rightarrow> t | Directory \<Rightarrow> DirTime w p)"

definition needsRefresh :: "download_config \<Rightarrow> ('p Client, bool) action" where
  "needsRefresh da w =
     (case os_Stat (Path da) w of
        (Ok statinfo, w1) \<Rightarrow>
          (case time_Now w1 of (n, w2) \<Rightarrow> (Ok (Refresh da < n - ModTime (Path da) statinfo w2), w2))
      | (Err e, w1) \<Rightarrow> if os_IsNotExist e then (Ok True, w1) else (Ok False, Errored [] e w1)
      | (Panic m, w1) \<Rightarrow> (Panic m, w1))"

definition SystemCertificatesBase :: string where
  "SystemCertificatesBase = ''/usr/local/share/ca-certificates/extra/''"

definition refresh :: "download_config \<Rightarrow> 'p FetchFunc \<Rightarrow> ('p Client, unit) action" where
  "refresh da fetcher w =
     and_thenS (fetcher w) (\<lambda>data w.
       if length data = 0 then (Ok (), w)
       else
         and_thenS (EnsureIsFolder (path_Dir (Path da)) w) (\<lambda>_ w.
         and_thenS (WriteFile (Path da) data (Mode da) w) (\<lambda>_ w.
         and_thenS (if HasPrefix (Path da) SystemCertificatesBase then run_command [''update-ca-certificates''] w else (Ok (), w)) (\<lambda>_ w.
           (Ok (), NotifyPerformed [] w)))))"

definition Download :: "download_config \<Rightarrow> 'p FetchFunc \<Rightarrow> 'p NewAction" where
  "Download da fetcher w =
     and_thenS (needsRefresh da w) (\<lambda>needs w.
       if needs then report_error [] (refresh da fetcher w) else (Ok (), w))"

definition DownloadAuthority :: "'p Net \<Rightarrow> string \<Rightarrow> string \<Rightarrow> int \<Rightarrow> 'p NewAction" where
  "DownloadAuthority net name path refreshPeriod w =
     Download \<lparr>Path = path, Refresh = refreshPeriod, Mode = 420\<rparr> (fetchAuthority net name) w"

definition DownloadStatic :: "'p Net \<Rightarrow> string \<Rightarrow> string \<Rightarrow> int \<Rightarrow> 'p NewAction" where
  "DownloadStatic net name path refreshPeriod w =
     Download \<lparr>Path = path, Refresh = refreshPeriod, Mode = 420\<rparr> (fetchStatic net name) w"

definition DownloadFromAPI :: "Lib \<Rightarrow> 'p Net \<Rightarrow> string \<Rightarrow> string \<Rightarrow> int \<Rightarrow> nat \<Rightarrow> 'p NewAction" where
  "DownloadFromAPI L net api path refreshPeriod m w =
     Download \<lparr>Path = path, Refresh = refreshPeriod, Mode = m\<rparr> (fetchAPI L net api) w"

section \<open>actions/hostname\<close>

fun config_lines :: "(string \<rightharpoonup> string) \<Rightarrow> string list \<Rightarrow> (string \<rightharpoonup> string) result" where
  "config_lines kvs [] = Ok kvs"
| "config_lines kvs (line # rest) =
     (let line = TrimSpace line in
      if length line > 0 \<and> hd line \<noteq> CHR ''#'' then
        (case SplitN2 line (CHR ''='') of
           [k, v] \<Rightarrow> config_lines (kvs(TrimSpace k \<mapsto> TrimSpace v)) rest
         | _ \<Rightarrow> Err (ErrorNew ''incorrectly formatted local.conf''))
      else config_lines kvs rest)"

definition readConfig :: "string \<Rightarrow> ('a FsWorld_scheme, string \<rightharpoonup> string) action" where
  "readConfig path w =
     and_thenS (ReadFile path w) (\<lambda>conf w. (config_lines Map.empty (Split conf (CHR 0x0A)), w))"

definition os_Hostname :: "('p Client, string) action" where
  "os_Hostname w = (case syscall w of (Some _, w') \<Rightarrow> (Err io_error, w') | (None, w') \<Rightarrow> (Ok (OSHostname w'), w'))"

text \<open>
  \<open>hostnamectl set-hostname\<close> is a program outside the sources: \<open>Hostnamectl\<close> is the hostname the machine
  has after a successful run.
\<close>

definition set_hostname :: "string \<Rightarrow> ('p Client, unit) action" where
  "set_hostname h w = and_thenS (run_command [''hostnamectl'', ''set-hostname'', h] w) (\<lambda>_ w.
       (Ok (), w\<lparr>OSHostname := Hostnamectl w h\<rparr>))"

definition performReload :: "string \<Rightarrow> 'p NewAction" where
  "performReload path w =
     (case readConfig path w of
        (Err err, w) \<Rightarrow> if os_IsNotExist err then (Ok (), Blocked err w) else (Err err, w)
      | (Panic m, w) \<Rightarrow> (Panic m, w)
      | (Ok conf, w) \<Rightarrow>
          (case conf ''HOST_NODE'' of
             None \<Rightarrow> (Err (ErrorNew ''no HOST_NODE entry in local.conf''), w)
           | Some hostname \<Rightarrow>
               and_thenS (os_Hostname w) (\<lambda>currentHostname w.
                 if hostname = currentHostname then (Ok (), w)
                 else and_thenS (set_hostname hostname w) (\<lambda>_ w. (Ok (), NotifyPerformed ''reload hostname'' w)))))"

definition ReloadHostnameFrom :: "string \<Rightarrow> 'p NewAction" where
  "ReloadHostnameFrom path w = report_error ''reload hostname'' (performReload path w)"

section \<open>actions/keyreq\<close>

record RequestOrRenewAction =
  InAdvance :: int
  raAPI :: string
  CheckExpiration :: "string \<Rightarrow> int result"
  GenCSR :: "string \<Rightarrow> string result"
  KeyFile :: string
  CertFile :: string

definition shouldRegenerate :: "RequestOrRenewAction \<Rightarrow> ('p Client, bool) action" where
  "shouldRegenerate ra w =
     (case ReadFile (CertFile ra) w of
        (Err err, w1) \<Rightarrow> (Ok True, if \<not> os_IsNotExist err then Errored [] err w1 else w1)
      | (Panic m, w1) \<Rightarrow> (Panic m, w1)
      | (Ok existing, w1) \<Rightarrow>
          (case CheckExpiration ra existing of
             Err err \<Rightarrow>
               (Ok True, Errored [] (Wrap err ''while trying to check expiration status of certificate'') w1)
           | Panic m \<Rightarrow> (Panic m, w1)
           | Ok expiration \<Rightarrow>
               let renewAt = expiration - InAdvance ra in
               (case time_Now w1 of (n, w2) \<Rightarrow> if n < renewAt then (Ok False, w2) else (Ok True, w2))))"

definition filepath_Abs :: "string \<Rightarrow> ('p Client, string) action" where
  "filepath_Abs p w =
     (if HasPrefix p ''/'' then (Ok (path_Clean p), w)
      else case syscall w of
          (Some _, w') \<Rightarrow> (Err io_error, w')
        | (None, w') \<Rightarrow> (Ok (path_Join (Cwd w') p), w'))"

definition checkReload :: "Lib \<Rightarrow> RequestOrRenewAction \<Rightarrow> ('p Client, unit) action" where
  "checkReload L ra w =
     and_thenS (filepath_Abs (CertFile ra) w) (\<lambda>certabs w.
     and_thenS (filepath_Abs GrantingCertPath w) (\<lambda>grantabs w.
       if certabs = grantabs then ReloadKeygrantingCert L w else (Ok (), w)))"

definition generateCSR :: "RequestOrRenewAction \<Rightarrow> ('a FsWorld_scheme, string) action" where
  "generateCSR ra w =
     (case ReadFile (KeyFile ra) w of (r, w) \<Rightarrow>
      and_thenS (wrap_err ''while reading keyfile'' r, w) (\<lambda>keydata w.
        (wrap_err ''while generating CSR'' (GenCSR ra keydata), w)))"

definition requestSignature ::
  "Lib \<Rightarrow> 'p Net \<Rightarrow> RequestOrRenewAction \<Rightarrow> string \<Rightarrow> ('p Client, string) action" where
  "requestSignature L net ra csr w =
     (case Keygrant w of
        None \<Rightarrow> (Panic ''nil pointer dereference'', w)
      | Some cert \<Rightarrow>
          and_thenS (wrap_err ''while authenticating with cert''
              (AuthenticateWithCert L net (csKeyserver w) cert), w) (\<lambda>rt w.
            case with_peer (SendRequest rt (raAPI ra) csr) w of
              (Err e, w) \<Rightarrow>
                (Err (Wrap e ''while sending request''),
                 if is_OperationForbidden e then RetryFailed (raAPI ra) w else w)
            | (Panic m, w) \<Rightarrow> (Panic m, w)
            | (Ok res, w) \<Rightarrow>
                if length res = 0 then (Err (ErrorNew ''while sending request: received empty response''), w)
                else (Ok res, w)))"

definition regenerate :: "Lib \<Rightarrow> 'p Net \<Rightarrow> RequestOrRenewAction \<Rightarrow> ('p Client, unit) action" where
  "regenerate L net ra w =
     and_thenS (generateCSR ra w) (\<lambda>csr w.
     and_thenS (requestSignature L net ra csr w) (\<lambda>cert w.
     case WriteFile (CertFile ra) cert 420 w of (r, w) \<Rightarrow>
     and_thenS (wrap_err ''while writing result'' r, w) (\<lambda>_ w.
     case checkReload L ra w of (r, w) \<Rightarrow> (wrap_err ''while reloading granting cert'' r, w))))"

definition keyreq_Act :: "Lib \<Rightarrow> 'p Net \<Rightarrow> RequestOrRenewAction \<Rightarrow> 'p NewAction" where
  "keyreq_Act L net ra w =
     (case CanRetry (raAPI ra) w of (can, w) \<Rightarrow>
      if \<not> can then (Ok (), w)
      else and_thenS (shouldRegenerate ra w) (\<lambda>should w.
        if \<not> should then (Ok (), w)
        else if Keygrant w = None then (Ok (), Blocked (ErrorNew ''no keygranting certificate ready'') w)
        else case Exists (KeyFile ra) w of (e, w) \<Rightarrow>
          if \<not> e then (Ok (), Blocked (Errorf ''key does not yet exist: %s'' [KeyFile ra]) w)
          else report [] (regenerate L net ra w)))"

definition RequestOrRenewTLSKey ::
  "Lib \<Rightarrow> 'p Net \<Rightarrow> string \<Rightarrow> string \<Rightarrow> string \<Rightarrow> int \<Rightarrow> 'p NewAction" where
  "RequestOrRenewTLSKey L net key cert api inadvance w =
     keyreq_Act L net \<lparr>InAdvance = inadvance, raAPI = api, CheckExpiration = CheckTLSCertExpiration L,
       GenCSR = BuildTLSCSR L, KeyFile = key, CertFile = cert\<rparr> w"

definition RequestOrRenewSSHKey ::
  "Lib \<Rightarrow> 'p Net \<Rightarrow> string \<Rightarrow> string \<Rightarrow> string \<Rightarrow> int \<Rightarrow> 'p NewAction" where
  "RequestOrRenewSSHKey L net key cert api inadvance w =
     keyreq_Act L net \<lparr>InAdvance = inadvance, raAPI = api, CheckExpiration = CheckSSHCertExpiration L,
       GenCSR = BuildSSHCSR L, KeyFile = key, CertFile = cert\<rparr> w"

end
