(* ===== verification/Converge.thy ===== *)
theory Converge
  imports Key_Client Reach
begin

text \<open>
  The keyclient as a whole: the list of actions (\<open>worldconfig/keyclient.go\<close>), the loop that runs it
  (\<open>keyclient/actloop/actloop.go\<close>) and its start (\<open>keyclient/setup/load.go\<close>).
\<close>

section \<open>worldconfig/keyclient.go\<close>

definition TLSKey :: "Lib \<Rightarrow> 'p Net \<Rightarrow> string \<Rightarrow> string \<Rightarrow> string \<Rightarrow> int \<Rightarrow> 'p NewAction" where
  "TLSKey L net key cert api inadvance w =
     and_thenS (GenerateKey L key w) (\<lambda>_ w. RequestOrRenewTLSKey L net key cert api inadvance w)"

text \<open>The statements of a function body that only calls actions, one after the other.\<close>

fun in_order :: "'p NewAction list \<Rightarrow> 'p NewAction" where
  "in_order [] w = (Ok (), w)"
| "in_order (a # as) w = and_thenS (a w) (\<lambda>_ w. in_order as w)"

definition converge_actions :: "Lib \<Rightarrow> 'p Net \<Rightarrow> 'p NewAction list" where
  "converge_actions L net =
     [GenerateKey L GrantingKeyPath,
      Bootstrap_action L net RenewKeygrantAPI,
      DownloadAuthority net KubernetesAuthority KubernetesCAPath OneDay,
      DownloadAuthority net ClusterCAAuthority ''/usr/local/share/ca-certificates/extra/cluster.tls.crt'' OneDay,
      DownloadAuthority net SSHUserAuthority ''/etc/ssh/ssh_user_ca.pub'' OneWeek,
      DownloadStatic net ClusterConfStatic ClusterConfPath OneDay,
      DownloadFromAPI L net LocalConfAPI LocalConfPath OneDay 420,
      ReloadHostnameFrom LocalConfPath,
      DownloadAuthority net ServiceAccountAuthority ''/etc/homeworld/keys/serviceaccount.pem'' OneDay,
      DownloadAuthority net EtcdClientAuthority ''/etc/homeworld/authorities/etcd-client.pem'' OneDay,
      DownloadAuthority net EtcdServerAuthority ''/etc/homeworld/authorities/etcd-server.pem'' OneDay,
      DownloadFromAPI L net FetchServiceAccountKeyAPI ''/etc/homeworld/keys/serviceaccount.key'' OneDay 384,
      TLSKey L net ''/etc/homeworld/keyclient/granting.key'' ''/etc/homeworld/keyclient/granting.pem''
        RenewKeygrantAPI (2 * OneWeek),
      RequestOrRenewSSHKey L net ''/etc/ssh/ssh_host_rsa_key.pub'' ''/etc/ssh/ssh_host_rsa_cert''
        SignSSHHostKeyAPI OneWeek,
      TLSKey L net KubernetesWorkerKey KubernetesWorkerCert SignKubernetesWorkerAPI OneWeek,
      TLSKey L net KubernetesSupervisorKey KubernetesSupervisorCert SignKubernetesSupervisorAPI OneWeek,
      TLSKey L net ''/etc/homeworld/ssl/homeworld.private.key'' ''/etc/homeworld/ssl/homeworld.private.pem''
        SignRegistryHostAPI OneWeek,
      TLSKey L net KubernetesMasterKey KubernetesMasterCert SignKubernetesMasterAPI OneWeek,
      TLSKey L net KubernetesCtrlMgrKey KubernetesCtrlMgrCert SignKubernetesCtrlMgrAPI OneWeek,
      TLSKey L net KubernetesProxyKey KubernetesProxyCert SignKubernetesProxyAPI OneWeek,
      TLSKey L net KubernetesSchedulerKey KubernetesSchedulerCert SignKubernetesSchedulerAPI OneWeek,
      TLSKey L net ''/etc/homeworld/keys/etcd-server.key'' ''/etc/homeworld/keys/etcd-server.pem''
        SignEtcdServerAPI OneWeek,
      TLSKey L net ''/etc/homeworld/keys/etcd-client.key'' ''/etc/homeworld/keys/etcd-client.pem''
        SignEtcdClientAPI OneWeek]"

definition ConvergeState :: "Lib \<Rightarrow> 'p Net \<Rightarrow> 'p NewAction" where
  "ConvergeState L net w = in_order (converge_actions L net) w"

section \<open>actloop.go\<close>

record 'p ActLoop =
  actions :: "'p NewAction"
  shouldStop :: bool

definition NewActLoop :: "'p NewAction \<Rightarrow> 'p ActLoop" where
  "NewActLoop acts = \<lparr>actions = acts, shouldStop = False\<rparr>"

definition Cancel :: "'p ActLoop \<Rightarrow> 'p ActLoop" where
  "Cancel m = m\<lparr>shouldStop := True\<rparr>"

definition IsCancelled :: "'p ActLoop \<Rightarrow> bool" where
  "IsCancelled m = shouldStop m"

text \<open>One round of the loop in \<open>Run\<close>; the value is \<open>wasStabilized\<close> for the next round.\<close>

definition run_round ::
  "'p ActLoop \<Rightarrow> int \<Rightarrow> int \<Rightarrow> 'p NewAction option \<Rightarrow> bool \<Rightarrow> ('p Client, bool) action" where
  "run_round m cycletime pausetime onReady wasStabilized w =
     and_thenS (actions m (w\<lparr>BlockedBy := [], Performed := False\<rparr>)) (\<lambda>_ w.
       if Performed w then (Ok False, time_Sleep cycletime w)
       else
         and_thenS (if \<not> wasStabilized \<and> \<not> 0 < length (BlockedBy w)
                    then (case onReady of Some f \<Rightarrow> f w | None \<Rightarrow> (Ok (), w))
                    else (Ok (), w)) (\<lambda>_ w.
           (Ok True, time_Sleep pausetime w)))"

text \<open>
  \<open>Run\<close> as a transition system, because \<open>Cancel\<close> may be called by another goroutine at any moment.
  The actions do not read \<open>shouldStop\<close>, so a \<open>Cancel\<close> during a round is one before the next test.
\<close>

datatype 'p run =
    Running "'p ActLoop" bool "'p Client"
  | Returned "'p Client"
  | Crashed string "'p Client"

fun client_of :: "'p run \<Rightarrow> 'p Client" where
  "client_of (Running m ws w) = w"
| "client_of (Returned w) = w"
| "client_of (Crashed p w) = w"

inductive Run_step :: "int \<Rightarrow> int \<Rightarrow> 'p NewAction option \<Rightarrow> 'p run \<Rightarrow> 'p run \<Rightarrow> bool"
  for cycletime pausetime :: int and onReady :: "'p NewAction option"
where
  Round: "\<lbrakk>\<not> IsCancelled m; run_round m cycletime pausetime onReady ws w = (Ok ws', w')\<rbrakk> \<Longrightarrow>
     Run_step cycletime pausetime onReady (Running m ws w) (Running m ws' w')"
| Panicked: "\<lbrakk>\<not> IsCancelled m; run_round m cycletime pausetime onReady ws w = (Panic p, w')\<rbrakk> \<Longrightarrow>
     Run_step cycletime pausetime onReady (Running m ws w) (Crashed p w')"
| Cancelled: "Run_step cycletime pausetime onReady (Running m ws w) (Running (Cancel m) ws w)"
| Return: "IsCancelled m \<Longrightarrow> Run_step cycletime pausetime onReady (Running m ws w) (Returned w)"

inductive_cases Run_stepE: "Run_step cycletime pausetime onReady s s'"
inductive_simps Run_step_Running: "Run_step cycletime pausetime onReady (Running m ws w) s'"

definition Run_start :: "'p ActLoop \<Rightarrow> 'p Client \<Rightarrow> 'p run" where
  "Run_start m w = Running m False w"

section \<open>setup/load.go\<close>

definition ready_command :: "string list" where
  "ready_command = [''systemd-notify'', ''--ready'']"

definition notifyReady :: "'p NewAction" where
  "notifyReady w = (case run_command ready_command w of
       (Panic p, w) \<Rightarrow> (Panic p, w)
     | (_, w) \<Rightarrow> (Ok (), w))"

text \<open>
  The value is the loop that is started in a goroutine of its own, with \<open>time.Second*2\<close>,
  \<open>time.Minute*5\<close> and \<open>notifyReady\<close> as its arguments; the warning is only logged.
\<close>

definition LoadAndLaunchDefault :: "Lib \<Rightarrow> 'p NewAction \<Rightarrow> ('p Client, 'p run) action" where
  "LoadAndLaunchDefault L acts w =
     (case LoadDefaultKeyserver L w of (r, w) \<Rightarrow>
      and_thenS (wrap_err ''while preparing setup'' r, w) (\<lambda>ks w.
      and_thenS (NewClientState L ks w) (\<lambda>warning w.
        (Ok (Run_start (NewActLoop acts) w), w))))"

definition keyclient_step :: "'p run \<Rightarrow> 'p run \<Rightarrow> bool" where
  "keyclient_step = Run_step (time_Second * 2) (time_Minute * 5) (Some notifyReady)"

end
