(* ===== verification/Client_Frame.thy ===== *)
theory Client_Frame
  imports Converge
begin

text \<open>
  What the actions of the keyclient change. The locale \<open>client_calls\<close> is the contract between the
  actions and the calls they are made of: a reflexive and transitive relation \<open>R\<close> between the state
  before and after, which every call keeps that an action makes, writes being restricted to a set \<open>W\<close>
  of paths. It gives that the key generation keeps \<open>R\<close>; \<open>client_reads\<close> adds the network and the
  certificate requests, and \<open>client_frame\<close> the calls of the other actions and gives the same for \<open>ConvergeState\<close>. The interpretations
  are the facts about the files, the keygranting certificate and the recorded retries.
\<close>

section \<open>A refusal reaches the actions wrapped\<close>

lemma PostJSON_error: "PostJSON L net s path j p = (Err e, p') \<Longrightarrow> \<not> is_OperationForbidden e"
  by (cases "endpoint_Request net s path ''POST'' (json_Print L j) p"; cases "fst (endpoint_Request net s path ''POST'' (json_Print L j) p)")
     (auto simp: PostJSON_def)

lemma and_thenS_ErrE:
  assumes "and_thenS rs k = (Err e, s')"
  obtains "rs = (Err e, s')" | x s where "rs = (Ok x, s)" and "k x s = (Err e, s')"
  using assms by (cases rs; cases "fst rs") auto

lemma authenticated_error:
  "authenticated_SendRequests L net ep reqs p = (Err e, p') \<Longrightarrow> \<not> is_OperationForbidden e"
  unfolding authenticated_SendRequests_def
  by (erule and_thenS_ErrE) (auto dest: PostJSON_error split: if_splits)

lemma SendRequest_error:
  "SendRequest (authenticated_SendRequests L net ep) api body p = (Err e, p') \<Longrightarrow> \<not> is_OperationForbidden e"
  unfolding SendRequest_def
  by (erule and_thenS_ErrE) (auto dest: authenticated_error split: if_splits)

lemma with_peer_Err: "with_peer f w = (Err e, w') \<Longrightarrow> \<exists>p'. f (Peer w) = (Err e, p')"
  by (auto simp: with_peer_def split: prod.splits)

section \<open>Contract\<close>

text \<open>The files that the actions overwrite or remove: everything but the private keys they generate.\<close>

definition managed_paths :: "string list" where
  "managed_paths =
     [BootstrapTokenPath, GrantingCertPath, KubernetesCAPath,
      ''/usr/local/share/ca-certificates/extra/cluster.tls.crt'', ''/etc/ssh/ssh_user_ca.pub'',
      ClusterConfPath, LocalConfPath, ''/etc/homeworld/keys/serviceaccount.pem'',
      ''/etc/homeworld/authorities/etcd-client.pem'', ''/etc/homeworld/authorities/etcd-server.pem'',
      ''/etc/homeworld/keys/serviceaccount.key'', ''/etc/ssh/ssh_host_rsa_cert'',
      KubernetesWorkerCert, KubernetesSupervisorCert, ''/etc/homeworld/ssl/homeworld.private.pem'',
      KubernetesMasterCert, KubernetesCtrlMgrCert, KubernetesProxyCert, KubernetesSchedulerCert,
      ''/etc/homeworld/keys/etcd-server.pem'', ''/etc/homeworld/keys/etcd-client.pem'']"

locale client_calls =
  fixes R :: "'p Client \<Rightarrow> 'p Client \<Rightarrow> bool" and W :: "string set"
  assumes refl: "R w w"
    and trans: "R w w' \<Longrightarrow> R w' w'' \<Longrightarrow> R w w''"
    and tick: "R w (snd (time_Now w))"
    and drawn: "R w (snd (draw w))"
    and called: "R w (snd (syscall w))"
    and blocked: "R w (Blocked e w)"
    and performed: "R w (NotifyPerformed i w)"
    and granted: "R w (w\<lparr>Keygrant := Some c\<rparr>)"
    and made_dir: "FS w q = None \<Longrightarrow> R w (w\<lparr>FS := (FS w)(q \<mapsto> Directory)\<rparr>)"
    and created: "R w (snd (CreateFile q d m w))"
    and written: "q \<in> W \<Longrightarrow> R w (snd (WriteFile q d m w))"
begin

lemma bind:
  assumes "R w (snd rs)" and "\<And>x s. rs = (Ok x, s) \<Longrightarrow> R s (snd (k x s))"
  shows "R w (snd (and_thenS rs k))"
  using assms trans by (cases rs; cases "fst rs") fastforce+

lemma split_call:
  assumes "R w (snd p)" and "\<And>r s. p = (r, s) \<Longrightarrow> R s (snd (k r s))"
  shows "R w (snd (case p of (r, s) \<Rightarrow> k r s))"
  using assms trans by (cases p) fastforce

lemma wrapped: "R w (snd p) \<Longrightarrow> R w (snd (case p of (r, s) \<Rightarrow> (f r, s)))"
  by (cases p) simp

lemma in_state: "R w s \<Longrightarrow> R w (snd (r, s))"
  by simp

lemma report_keeps: "R w (snd rw) \<Longrightarrow> R w (snd (report i rw))"
  by (cases rw; cases "fst rw") (auto simp: report_def Errored_def intro: trans [OF _ performed])

lemma report_error_keeps: "R w (snd rw) \<Longrightarrow> R w (snd (report_error i rw))"
  by (cases rw; cases "fst rw") (auto simp: report_error_def Errored_def)

lemma ReadFile_keeps: "R w (snd (ReadFile p w))"
  using called [of w] by (auto simp: ReadFile_def split: prod.splits option.splits)

lemma os_Stat_keeps: "R w (snd (os_Stat p w))"
  using called [of w] by (auto simp: os_Stat_def split: prod.splits option.splits)

lemma Exists_keeps: "R w (snd (Exists p w))"
  using called [of w] by (auto simp: Exists_def split: prod.splits option.splits sum.splits)

lemma mkdirs_keeps: "R w (snd (mkdirs qs w))"
proof (induction qs w rule: mkdirs.induct)
  case (2 q qs w)
  let ?w = "snd (syscall w)"
  let ?v = "?w\<lparr>FS := (FS ?w)(q \<mapsto> Directory)\<rparr>"
  show ?case
  proof (cases "FS w q")
    case None
    then have made: "R w ?v" by (intro trans [OF called made_dir]) (simp add: syscall_def)
    show ?thesis
    proof (cases "fst (syscall w)")
      case None
      then have "R ?v (snd (mkdirs qs ?v))"
        using 2(1) [OF \<open>FS w q = None\<close>, of None ?w] by (simp add: prod_eq_iff)
      with \<open>FS w q = None\<close> None made show ?thesis
        by (auto simp: case_prod_unfold intro: trans)
    qed (use \<open>FS w q = None\<close> called [of w] in \<open>simp add: case_prod_unfold\<close>)
  next
    case (Some n)
    with 2(2) show ?thesis by (cases n) (simp_all add: refl)
  qed
qed (simp add: refl)

lemma EnsureIsFolder_keeps: "R w (snd (EnsureIsFolder d w))"
proof (cases "os_Stat d w")
  case (Pair r w1)
  moreover have "R w w1" using os_Stat_keeps [of w d] Pair by simp
  moreover have "R w1 (snd (and_thenS (os_MkdirAll d w1) (\<lambda>_ w2.
      and_thenS (os_Stat d w2) (\<lambda>i w3. (check_IsDir i, w3)))))"
    by (intro bind) (auto simp: os_MkdirAll_def mkdirs_keeps os_Stat_keeps refl)
  ultimately show ?thesis by (auto simp: EnsureIsFolder_def split: result.splits intro: trans)
qed

lemma CanRetry_keeps: "R w (snd (CanRetry api w))"
  using tick [of w] by (auto simp: CanRetry_def refl split: option.splits prod.splits)

lemma GenerateRSA_keeps: "R w (snd (GenerateRSA L n w))"
  using drawn [of w] by (auto simp: GenerateRSA_def split: prod.splits option.splits)

lemma keygen_keeps: "R w (snd (keygen L k w))"
  unfolding keygen_def Let_def
proof (rule split_call [OF EnsureIsFolder_keeps], rule bind)
  fix r :: "unit result" and s :: "'p Client"
  show "R s (snd (wrap_err m r, s))" for m by (simp add: refl)
next
  fix s :: "'p Client" and m
  show "R s (snd (case GenerateRSA L DefaultRSAKeyLength s of (r, w) \<Rightarrow>
          and_thenS (wrap_err m r, w) (\<lambda>(_, privateKeyPEM) w.
            case CreateFile k privateKeyPEM 384 w of (r, w) \<Rightarrow>
              (wrap_err ''failed to create file for generated key'' r, w))))"
    by (rule split_call [OF GenerateRSA_keeps], rule bind)
       (auto simp: refl intro!: wrapped created)
qed

lemma GenerateKey_keeps: "R w (snd (GenerateKey L k w))"
  unfolding GenerateKey_def
  by (rule split_call [OF Exists_keeps]) (simp add: report_keeps keygen_keeps refl)

lemma LoadX509KeyPair_keeps: "R w (snd (LoadX509KeyPair L c k w))"
  unfolding LoadX509KeyPair_def
  by (intro bind ReadFile_keeps in_state refl)

lemma ReloadKeygrantingCert_keeps: "R w (snd (ReloadKeygrantingCert L w))"
proof -
  have "R w (snd (case LoadX509KeyPair L GrantingCertPath GrantingKeyPath w of (r, w) \<Rightarrow>
      and_thenS (wrap_err m r, w) (\<lambda>cert w. (Ok (), w\<lparr>Keygrant := Some cert\<rparr>))))" for w m
    by (rule split_call [OF LoadX509KeyPair_keeps], rule bind) (simp_all add: refl granted)
  then show ?thesis
    unfolding ReloadKeygrantingCert_def
    by (intro split_call [OF Exists_keeps] split_call) (simp_all add: refl Exists_keeps)
qed

lemma shouldRegenerate_keeps: "R w (snd (shouldRegenerate ra w))"
proof (cases "ReadFile (CertFile ra) w")
  case (Pair r w1)
  then have "R w w1" using ReadFile_keeps [of w "CertFile ra"] by simp
  moreover have "R w1 (snd (time_Now w1))" by (rule tick)
  ultimately show ?thesis
    using Pair trans [of w w1]
    by (auto simp: shouldRegenerate_def Errored_def Let_def split: result.splits prod.splits)
qed

lemma checkReload_keeps: "R w (snd (checkReload L ra w))"
proof -
  have "R w (snd (filepath_Abs p w))" for p w
    using called [of w] by (auto simp: filepath_Abs_def refl split: prod.splits option.splits)
  then show ?thesis
    unfolding checkReload_def by (intro bind) (simp_all add: refl ReloadKeygrantingCert_keeps)
qed

lemma generateCSR_keeps: "R w (snd (generateCSR ra w))"
  unfolding generateCSR_def
  by (rule split_call [OF ReadFile_keeps], rule bind) (simp_all add: refl)

end

text \<open>The calls over the network.\<close>

locale client_reads = client_calls +
  assumes peer: "R w (w\<lparr>Peer := p\<rparr>)"
begin

lemma with_peer_keeps: "R w (snd (with_peer f w))"
  by (auto simp: with_peer_def peer split: prod.splits)

lemma requestSignature_keeps: "R w (snd (requestSignature L net ra csr w))"
proof (cases "Keygrant w")
  case (Some cert)
  define f where "f = SendRequest (authenticated_SendRequests L net (WithCertificate (endpoint (csKeyserver w)) cert))
    (raAPI ra) csr"
  have "R w (snd (with_peer f w))" by (rule with_peer_keeps)
  moreover have "with_peer f w = (Err e, w') \<Longrightarrow> \<not> is_OperationForbidden e" for e w'
    by (auto simp: f_def dest!: with_peer_Err SendRequest_error)
  ultimately show ?thesis
    using Some
    by (cases "with_peer f w")
       (auto simp: requestSignature_def AuthenticateWithCert_def f_def [symmetric] split: result.splits)
qed (simp add: requestSignature_def refl)

lemma regenerate_keeps: "CertFile ra \<in> W \<Longrightarrow> R w (snd (regenerate L net ra w))"
  unfolding regenerate_def
  by (intro bind [OF generateCSR_keeps] bind [OF requestSignature_keeps] split_call [OF written] bind)
     (auto simp: refl intro!: wrapped checkReload_keeps)

lemma keyreq_Act_keeps: "CertFile ra \<in> W \<Longrightarrow> R w (snd (keyreq_Act L net ra w))"
  unfolding keyreq_Act_def
  by (rule split_call [OF CanRetry_keeps])
     (auto simp: refl blocked
        intro!: bind [OF shouldRegenerate_keeps] split_call [OF Exists_keeps] report_keeps regenerate_keeps)

lemma RequestOrRenewTLSKey_keeps: "c \<in> W \<Longrightarrow> R w (snd (RequestOrRenewTLSKey L net k c api t w))"
  by (simp add: RequestOrRenewTLSKey_def keyreq_Act_keeps)

lemma RequestOrRenewSSHKey_keeps: "c \<in> W \<Longrightarrow> R w (snd (RequestOrRenewSSHKey L net k c api t w))"
  by (simp add: RequestOrRenewSSHKey_def keyreq_Act_keeps)

lemma TLSKey_keeps: "c \<in> W \<Longrightarrow> R w (snd (TLSKey L net k c api t w))"
  unfolding TLSKey_def by (intro bind GenerateKey_keeps RequestOrRenewTLSKey_keeps)

end

text \<open>The calls of the other actions.\<close>

locale client_frame = client_reads +
  assumes refused: "R w (RetryFailed api w)"
    and ran: "args \<noteq> ready_command \<Longrightarrow> R w (snd (run_command args w))"
    and renamed: "R w (w\<lparr>OSHostname := h\<rparr>)"
    and removed: "BootstrapTokenPath \<in> W \<Longrightarrow> R w (snd (os_Remove BootstrapTokenPath w))"
    and fresh_context: "R w (w\<lparr>BlockedBy := [], Performed := False\<rparr>)"
    and slept: "R w (time_Sleep d w)"
    and managed: "set managed_paths \<subseteq> W"
begin

lemma managed_one: "BootstrapTokenPath \<in> W" "GrantingCertPath \<in> W"
  using managed by (auto simp: managed_paths_def)

lemma sent_keeps:
  assumes "\<And>res s. R s (snd (k res s))"
  shows "R w (snd (case with_peer f w of
       (Err e, w) \<Rightarrow> (Err e, if P e then RetryFailed api w else w)
     | (Panic m, w) \<Rightarrow> (Panic m, w)
     | (Ok res, w) \<Rightarrow> k res w))"
  using with_peer_keeps [of w f] refused assms
  by (cases "with_peer f w"; cases "fst (with_peer f w)") (auto intro: trans)

lemma bootstrap_sendRequest_keeps: "R w (snd (bootstrap_sendRequest L net api csr w))"
proof -
  have "R w (snd (getToken w))" for w
    unfolding getToken_def by (intro bind ReadFile_keeps) (simp add: Let_def refl)
  then show ?thesis
    unfolding bootstrap_sendRequest_def
    by (intro bind sent_keeps removed) (simp_all add: refl managed_one)
qed

lemma ReplaceKeygrantingCert_keeps: "R w (snd (ReplaceKeygrantingCert L d w))"
  unfolding ReplaceKeygrantingCert_def
  by (intro bind EnsureIsFolder_keeps written managed_one wrapped ReloadKeygrantingCert_keeps)

lemma Bootstrap_action_keeps: "R w (snd (Bootstrap_action L net api w))"
proof -
  have "R w (snd (buildCSR L w))" for w
    unfolding buildCSR_def by (intro bind ReadFile_keeps) (simp add: refl)
  then have "R w (snd (bootstrap_run L net api w))" for w
    unfolding bootstrap_run_def
    by (intro bind bootstrap_sendRequest_keeps) (simp_all add: refl ReplaceKeygrantingCert_keeps)
  then show ?thesis
    unfolding Bootstrap_action_def
    by (intro split_call [OF CanRetry_keeps])
       (auto simp: refl blocked intro!: split_call [OF Exists_keeps] report_keeps)
qed

lemma Download_keeps:
  assumes "\<And>w. R w (snd (fetcher w))" and "Path da \<in> W"
  shows "R w (snd (Download da fetcher w))"
proof -
  have needs: "R w (snd (needsRefresh da w))" for w
  proof (cases "os_Stat (Path da) w")
    case (Pair r w1)
    then have "R w w1" using os_Stat_keeps [of w "Path da"] by simp
    then show ?thesis
      using Pair trans [OF _ tick]
      by (auto simp: needsRefresh_def Errored_def split: result.splits prod.splits)
         (metis (no_types, lifting) snd_conv)
  qed
  have "R w (snd (if b then run_command [''update-ca-certificates''] w else (Ok (), w)))" for b w
    by (simp add: ran refl ready_command_def)
  then have "R w (snd (refresh da fetcher w))" for w
    unfolding refresh_def using assms
    by (auto simp: refl performed intro!: bind EnsureIsFolder_keeps written)
  with needs show ?thesis
    unfolding Download_def by (intro bind) (simp_all add: refl report_error_keeps)
qed

lemma fetchers_keep:
  "R w (snd (fetchAuthority net a w))" "R w (snd (fetchStatic net a w))" "R w (snd (fetchAPI L net a w))"
  unfolding fetchAuthority_def fetchStatic_def fetchAPI_def AuthenticateWithCert_def
  by (auto simp: refl blocked split: option.split
      intro!: bind with_peer_keeps split_call [OF CanRetry_keeps] sent_keeps)

lemma DownloadAuthority_keeps: "p \<in> W \<Longrightarrow> R w (snd (DownloadAuthority net n p t w))"
  by (simp add: DownloadAuthority_def Download_keeps fetchers_keep)

lemma DownloadStatic_keeps: "p \<in> W \<Longrightarrow> R w (snd (DownloadStatic net n p t w))"
  by (simp add: DownloadStatic_def Download_keeps fetchers_keep)

lemma DownloadFromAPI_keeps: "p \<in> W \<Longrightarrow> R w (snd (DownloadFromAPI L net n p t m w))"
  by (simp add: DownloadFromAPI_def Download_keeps fetchers_keep)

lemma ReloadHostnameFrom_keeps: "R w (snd (ReloadHostnameFrom p w))"
proof -
  have read: "R w (snd (readConfig p w))" for w
    unfolding readConfig_def by (intro bind ReadFile_keeps) (simp add: refl)
  have hostname: "R w (snd (os_Hostname w))" for w
    using called [of w] by (auto simp: os_Hostname_def split: prod.splits option.splits)
  have "R w (snd (set_hostname h w))" for h w
    unfolding set_hostname_def by (intro bind ran) (simp_all add: renamed ready_command_def)
  then have "R w (snd (and_thenS (os_Hostname w) (\<lambda>currentHostname w.
      if h = currentHostname then (Ok (), w)
      else and_thenS (set_hostname h w) (\<lambda>_ w. (Ok (), NotifyPerformed i w)))))" for h i w
    by (auto simp: refl performed intro!: bind hostname)
  with read [of w] have "R w (snd (performReload p w))"
    unfolding performReload_def
    by (cases "readConfig p w"; cases "fst (readConfig p w)")
       (auto simp: trans [OF _ blocked] trans split: option.splits)
  then show ?thesis by (simp add: ReloadHostnameFrom_def report_error_keeps)
qed

lemma in_order_keeps: "(\<And>a w. a \<in> set as \<Longrightarrow> R w (snd (a w))) \<Longrightarrow> R w (snd (in_order as w))"
  by (induction as arbitrary: w) (auto simp: refl intro!: bind)

lemma ConvergeState_keeps: "R w (snd (ConvergeState L net w))"
  unfolding ConvergeState_def
proof (rule in_order_keeps)
  fix a w assume "a \<in> set (converge_actions L net)"
  then show "R w (snd (a w))"
    using managed unfolding converge_actions_def managed_paths_def path_names
    by (auto intro!: GenerateKey_keeps Bootstrap_action_keeps DownloadAuthority_keeps DownloadStatic_keeps
        DownloadFromAPI_keeps ReloadHostnameFrom_keeps TLSKey_keeps RequestOrRenewSSHKey_keeps)
qed

lemma run_round_keeps:
  assumes "\<And>w. R w (snd (actions m w))" and "\<And>f w. onReady = Some f \<Longrightarrow> R w (snd (f w))"
  shows "R w (snd (run_round m ct pt onReady ws w))"
proof -
  let ?w = "w\<lparr>BlockedBy := [], Performed := False\<rparr>"
  have "R ?w (snd (run_round m ct pt onReady ws w))"
    unfolding run_round_def using assms
    by (auto simp: refl slept split: option.split intro!: bind)
  then show ?thesis using fresh_context trans by blast
qed

end

text \<open>The daemon also tells systemd that it is ready.\<close>

locale client_daemon = client_frame +
  assumes notified: "R w (snd (run_command ready_command w))"
begin

lemma notifyReady_keeps: "R w (snd (notifyReady w))"
  using notified [of w]
  by (cases "run_command ready_command w"; cases "fst (run_command ready_command w)")
     (simp_all add: notifyReady_def)

text \<open>So does the whole daemon, whatever the interleaving with \<open>Cancel\<close>.\<close>

lemma keyclient_keeps:
  assumes "keyclient_step\<^sup>*\<^sup>* (Running m ws w) s" and "actions m = ConvergeState L net"
  shows "R w (client_of s)"
proof -
  have "R w (client_of s) \<and> (\<forall>m' ws' w'. s = Running m' ws' w' \<longrightarrow> actions m' = ConvergeState L net)"
    using assms(1)
  proof (induction rule: rtranclp_induct)
    case base
    then show ?case using assms(2) by (simp add: refl)
  next
    case (step s t)
    have round: "R v v'" if "actions m' = ConvergeState L net"
      "run_round m' ct pt (Some notifyReady) ws' v = (r, v')" for m' ct pt ws' v r v'
      using run_round_keeps [of m' "Some notifyReady" v ct pt ws'] that ConvergeState_keeps notifyReady_keeps
      by simp
    from step.hyps(2) step.IH show ?case
      unfolding keyclient_step_def
      by (cases rule: Run_step.cases) (auto simp: Cancel_def dest: round intro: trans)
  qed
  then show ?thesis ..
qed

end

end
