(* ===== verification/Client_Files.thy ===== *)
theory Client_Files
  imports Client_Frame
begin

text \<open>
  The contract of \<open>Client_Frame\<close> on three relations: the files that stay as they are, the keyserver and
  the keygranting certificate that stay known, and the recorded retries that certificate requests do
  not touch. The properties of the running keyclient follow.
\<close>

section \<open>Files\<close>

definition keeps :: "string set \<Rightarrow> 'a FsWorld_scheme \<Rightarrow> 'a FsWorld_scheme \<Rightarrow> bool" where
  "keeps S w w' = (\<forall>p n. p \<notin> S \<longrightarrow> FS w p = Some n \<longrightarrow> FS w' p = Some n)"

lemma keeps_same: "FS w' = FS w \<Longrightarrow> keeps S w w'"
  by (simp add: keeps_def)

lemma keeps_new: "FS w q = None \<Longrightarrow> (\<And>p. p \<noteq> q \<Longrightarrow> FS w' p = FS w p) \<Longrightarrow> keeps S w w'"
  by (metis keeps_def option.distinct(1))

lemma keeps_at: "q \<in> S \<Longrightarrow> (\<And>p. p \<noteq> q \<Longrightarrow> FS w' p = FS w p) \<Longrightarrow> keeps S w w'"
  by (metis keeps_def)

lemma open_excl_new: "open_excl q m w = (Ok x, w') \<Longrightarrow> FS w q = None"
  by (auto simp: open_excl_def syscall_def lookup_def split: option.splits sum.splits error.splits if_splits)

lemma open_excl_elsewhere: "p \<noteq> q \<Longrightarrow> FS (snd (open_excl q m w)) p = FS w p"
  by (auto simp: open_excl_def syscall_def time_Now_def split: option.splits sum.splits error.splits)

lemma open_excl_failed: "open_excl q m w = (r, w') \<Longrightarrow> \<not> is_ok r \<Longrightarrow> FS w' = FS w"
  by (auto simp: open_excl_def syscall_def time_Now_def split: option.splits sum.splits error.splits if_splits)

lemma file_Close_same [simp]: "FS (snd (file_Close w)) = FS w"
  by (auto simp: file_Close_def syscall_def split: option.splits)

text \<open>
  \<open>CreateFile\<close> touches its path only if it has opened it, and then nothing was there: the removal
  after a failed write never hits an older file.
\<close>

lemma CreateFile_keeps: "keeps S w (snd (CreateFile q d m w))"
proof (cases "open_excl q m w")
  case (Pair r w1)
  show ?thesis
  proof (cases "is_ok r")
    case True
    then obtain x where r: "r = Ok x" by (auto simp: is_ok_iff)
    obtain r2 w3 where rest: "(case write_open q m d w1 of (Ok _, w2) \<Rightarrow> file_Close w2
        | (e, w2) \<Rightarrow> (e, snd (file_Close w2))) = (r2, w3)" by fastforce
    obtain r' w2 where w2: "write_open q m d w1 = (r', w2)" by fastforce
    with rest have "FS w3 = FS w2"
      using file_Close_same [of w2] by (cases r') auto
    then have w3: "FS w3 p = FS w p" if "p \<noteq> q" for p
      using w2 Pair that write_open_elsewhere [of p q m d w1] open_excl_elsewhere [of p q m w] by simp
    then have "FS (snd (CreateFile q d m w)) p = FS w p" if "p \<noteq> q" for p
      using that Pair r rest os_Remove_elsewhere [of p q w3]
      by (auto simp: CreateFile_def split: result.splits prod.splits)
    then show ?thesis using open_excl_new Pair r keeps_new by blast
  next
    case False
    then show ?thesis
      using Pair open_excl_failed [OF Pair] by (cases r) (auto simp: CreateFile_def keeps_same)
  qed
qed

lemma keeps_trans: "keeps S w w' \<Longrightarrow> keeps S w' w'' \<Longrightarrow> keeps S w w''"
  by (simp add: keeps_def)

lemma FS_unchanged [simp]:
  "FS (snd (time_Now w)) = FS w" "FS (snd (draw w)) = FS w" "FS (snd (syscall w)) = FS w"
  "FS (Blocked e c) = FS c" "FS (NotifyPerformed i c) = FS c" "FS (RetryFailed api c) = FS c"
  "FS (time_Sleep d c) = FS c" "FS (snd (run_command args c)) = FS c"
  by (simp_all add: time_Now_def draw_def syscall_def Blocked_def NotifyPerformed_def RetryFailed_def
      time_Sleep_def run_command_def split: option.splits)

interpretation files: client_daemon "keeps (set managed_paths)" "set managed_paths"
  by unfold_locales
     (simp_all add: keeps_same CreateFile_keeps keeps_new keeps_at WriteFile_elsewhere os_Remove_elsewhere
        keeps_trans)

section \<open>The keyserver and the keygranting certificate\<close>

definition stays_granted :: "'p Client \<Rightarrow> 'p Client \<Rightarrow> bool" where
  "stays_granted w w' = (csKeyserver w' = csKeyserver w \<and> (Keygrant w \<noteq> None \<longrightarrow> Keygrant w' \<noteq> None))"

lemma write_open_client [simp]:
  "csKeyserver (snd (write_open q m d w)) = csKeyserver w" "Keygrant (snd (write_open q m d w)) = Keygrant w"
  "RetryAt (snd (write_open q m d w)) = RetryAt w"
  by (simp_all add: write_open_def syscall_def time_Now_def split: option.splits)

lemma file_Close_client [simp]:
  "csKeyserver (snd (file_Close w)) = csKeyserver w" "Keygrant (snd (file_Close w)) = Keygrant w"
  "RetryAt (snd (file_Close w)) = RetryAt w"
  by (simp_all add: file_Close_def syscall_def split: option.splits)

lemma os_Remove_client [simp]:
  "csKeyserver (snd (os_Remove q w)) = csKeyserver w" "Keygrant (snd (os_Remove q w)) = Keygrant w"
  "RetryAt (snd (os_Remove q w)) = RetryAt w"
  by (simp_all add: os_Remove_def syscall_def split: option.splits sum.splits fnode.splits)

lemma WriteFile_client [simp]:
  "csKeyserver (snd (WriteFile q d m w)) = csKeyserver w" "Keygrant (snd (WriteFile q d m w)) = Keygrant w"
  "RetryAt (snd (WriteFile q d m w)) = RetryAt w"
  by (simp_all add: WriteFile_def syscall_def split: option.splits sum.splits fnode.splits error.splits)

lemma open_excl_client [simp]:
  "csKeyserver (snd (open_excl q m w)) = csKeyserver w" "Keygrant (snd (open_excl q m w)) = Keygrant w"
  "RetryAt (snd (open_excl q m w)) = RetryAt w"
  by (simp_all add: open_excl_def syscall_def time_Now_def split: option.splits sum.splits error.splits)

lemma calls_Peer [simp]:
  "Peer (snd (write_open q m d w)) = Peer w" "Peer (snd (file_Close w)) = Peer w"
  "Peer (snd (os_Remove q w)) = Peer w" "Peer (snd (open_excl q m w)) = Peer w"
  by (simp_all add: write_open_def file_Close_def os_Remove_def open_excl_def syscall_def time_Now_def
      split: option.splits sum.splits fnode.splits error.splits)

lemma WriteFile_Peer [simp]: "Peer (snd (WriteFile q d m w)) = Peer w"
  by (simp add: WriteFile_def syscall_def split: option.splits sum.splits fnode.splits error.splits)

text \<open>A field that the calls inside \<open>CreateFile\<close> leave alone is left alone by it.\<close>

lemma CreateFile_field:
  assumes "\<And>w. f (snd (open_excl q m w)) = f w" and "\<And>w. f (snd (write_open q m d w)) = f w"
    and "\<And>w. f (snd (file_Close w)) = f w" and "\<And>w. f (snd (os_Remove q w)) = f w"
  shows "f (snd (CreateFile q d m w)) = f w"
proof -
  have g: "f (snd (case write_open q m d v of (Ok _, w2) \<Rightarrow> file_Close w2
      | (e, w2) \<Rightarrow> (e, snd (file_Close w2)))) = f v" for v
    using assms(2) [of v] assms(3) [of "snd (write_open q m d v)"]
    by (cases "write_open q m d v"; cases "fst (write_open q m d v)") auto
  have h: "f (snd (let (r, w3) = rw in
       case r of
         Err e \<Rightarrow> (case os_Remove q w3 of
             (Err e2, w4) \<Rightarrow>
               if \<not> os_IsNotExist e2 then
                 (Err (Errorf ''multiple errors while creating file: %s | %s'' []), w4)
               else (Err e, w4)
           | (_, w4) \<Rightarrow> (Err e, w4))
       | ok \<Rightarrow> (ok, w3))) = f (snd rw)" for rw
    using assms(4) [of "snd rw"]
    by (cases rw; cases "fst rw"; cases "os_Remove q (snd rw)"; cases "fst (os_Remove q (snd rw))") simp_all
  show ?thesis
    unfolding CreateFile_def
    by (rule and_thenS_keeps [where P = "\<lambda>s. f s = f w"]) (simp_all only: assms(1) g h)
qed

lemma client_unchanged [simp]:
  "csKeyserver (snd (time_Now w)) = csKeyserver w" "Keygrant (snd (time_Now w)) = Keygrant w"
  "RetryAt (snd (time_Now w)) = RetryAt w"
  "csKeyserver (snd (draw w)) = csKeyserver w" "Keygrant (snd (draw w)) = Keygrant w"
  "RetryAt (snd (draw w)) = RetryAt w"
  "csKeyserver (snd (syscall w)) = csKeyserver w" "Keygrant (snd (syscall w)) = Keygrant w"
  "RetryAt (snd (syscall w)) = RetryAt w"
  "csKeyserver (snd (run_command args w)) = csKeyserver w" "Keygrant (snd (run_command args w)) = Keygrant w"
  by (simp_all add: time_Now_def draw_def syscall_def run_command_def split: option.splits)

interpretation grant: client_daemon stays_granted UNIV
  by unfold_locales
     (simp_all add: stays_granted_def CreateFile_field Blocked_def NotifyPerformed_def RetryFailed_def
        time_Sleep_def time_Now_def)

section \<open>The recorded retries and the network\<close>

interpretation offline: client_calls "\<lambda>w w'. Peer w' = Peer w" UNIV
  by unfold_locales
     (simp_all add: CreateFile_field Blocked_def NotifyPerformed_def time_Now_def draw_def syscall_def)

interpretation retries: client_reads "\<lambda>w w'. RetryAt w' = RetryAt w" UNIV
  by unfold_locales (simp_all add: CreateFile_field Blocked_def NotifyPerformed_def)

section \<open>The notifications of readiness\<close>

definition ready_count :: "'p Client \<Rightarrow> nat" where
  "ready_count w = length (filter (\<lambda>e. case e of Command args _ \<Rightarrow> args = ready_command | Sleep _ \<Rightarrow> False) (Trace w))"

lemma CreateFile_Trace: "Trace (snd (CreateFile q d m w)) = Trace w"
  by (rule CreateFile_field)
     (simp_all add: open_excl_def write_open_def file_Close_def os_Remove_def syscall_def time_Now_def
        split: option.splits sum.splits error.splits fnode.splits)

lemma ready_count_same: "Trace w' = Trace w \<Longrightarrow> ready_count w' = ready_count w"
  by (simp add: ready_count_def)

interpretation readiness: client_frame "\<lambda>w w'. ready_count w' = ready_count w" UNIV
  by unfold_locales
     (simp_all add: ready_count_def CreateFile_Trace Blocked_def NotifyPerformed_def RetryFailed_def
        time_Sleep_def time_Now_def draw_def syscall_def run_command_def WriteFile_def write_open_def os_Remove_def
        split: option.splits sum.splits error.splits fnode.splits)

end
