(* ===== verification/Client_Safety.thy ===== *)
theory Client_Safety
  imports Client_Files
begin

text \<open>
  No action of the keyclient panics, so its loop goes on until it is cancelled. The only dereference
  that could fail is the one of \<open>Keygrant\<close> in \<open>requestSignature\<close>, which \<open>Act\<close> guards.
\<close>

named_theorems no_panics \<open>calls that do not panic\<close>

definition safe :: "'a result \<times> 's \<Rightarrow> bool" where
  "safe rs = (\<not> is_panic (fst rs))"

lemma safe_pair [simp]: "safe (r, s) \<longleftrightarrow> \<not> is_panic r"
  by (simp add: safe_def)

lemma safe_split:
  assumes "\<And>r s. p = (r, s) \<Longrightarrow> safe (k r s)"
  shows "safe (case p of (r, s) \<Rightarrow> k r s)"
  using assms by (cases p) simp

lemma safe_bind:
  assumes "safe rs" and "\<And>x s. rs = (Ok x, s) \<Longrightarrow> safe (k x s)"
  shows "safe (and_thenS rs k)"
  using assms by (cases rs; cases "fst rs") auto

lemma safe_bind_wrap:
  assumes "safe p" and "\<And>x s. p = (Ok x, s) \<Longrightarrow> safe (k x s)"
  shows "safe (case p of (r, s) \<Rightarrow> and_thenS (wrap_err m r, s) k)"
  using assms by (cases p; cases "fst p") auto

lemma safe_wrap: "safe p \<Longrightarrow> safe (case p of (r, s) \<Rightarrow> (wrap_err m r, s))"
  by (cases p) simp

lemma report_no_panics [no_panics]:
  "safe rw \<Longrightarrow> safe (report i rw)"
  "safe rw \<Longrightarrow> safe (report_error i rw)"
  by (auto simp: report_def report_error_def split: result.splits prod.splits)

section \<open>Calls\<close>

lemma ReadFile_no_panic [no_panics]: "safe (ReadFile p w)"
  by (simp add: safe_def)

lemma os_Stat_no_panic [no_panics]: "safe (os_Stat p w)"
  by (auto simp: os_Stat_def split: option.splits prod.splits)

lemma write_open_no_panic: "safe (write_open p m d w)"
  by (auto simp: write_open_def split: option.splits prod.splits)

lemma WriteFile_no_panic [no_panics]: "safe (WriteFile p d m w)"
  by (auto simp: WriteFile_def write_open_no_panic
      split: option.splits prod.splits sum.splits fnode.splits error.splits)

lemma os_Remove_no_panic [no_panics]: "safe (os_Remove p w)"
  by (auto simp: os_Remove_def split: option.splits prod.splits sum.splits fnode.splits)

lemma mkdirs_no_panic: "safe (mkdirs qs w)"
  by (induction qs w rule: mkdirs.induct) (auto split: option.splits fnode.splits prod.splits)

lemma check_IsDir_no_panic [no_panics]: "\<not> is_panic (check_IsDir n)"
  by (simp add: check_IsDir_def)

lemma EnsureIsFolder_no_panic [no_panics]: "safe (EnsureIsFolder d w)"
proof (cases "os_Stat d w")
  case (Pair r w1)
  have "safe (and_thenS (os_MkdirAll d w1) (\<lambda>_ w2.
      and_thenS (os_Stat d w2) (\<lambda>i w3. (check_IsDir i, w3))))"
    by (intro safe_bind) (simp_all add: os_MkdirAll_def mkdirs_no_panic no_panics)
  with Pair os_Stat_no_panic [of d w] show ?thesis
    by (cases r) (auto simp: EnsureIsFolder_def no_panics)
qed

lemma CreateFile_no_panic [no_panics]: "safe (CreateFile p d m w)"
proof -
  have close: "safe (file_Close v)" for v :: "'a FsWorld_scheme"
    by (auto simp: file_Close_def split: option.splits prod.splits)
  have written: "safe (case write_open p m d v of (Ok _, w2) \<Rightarrow> file_Close w2
      | (e, w2) \<Rightarrow> (e, snd (file_Close w2)))" for v :: "'a FsWorld_scheme"
    using write_open_no_panic [of p m d v] by (auto simp: close split: prod.splits result.splits)
  have rest: "safe (let (r, w3) = rw in
       case r of
         Err e \<Rightarrow> (case os_Remove p w3 of
             (Err e2, w4) \<Rightarrow>
               if \<not> os_IsNotExist e2 then
                 (Err (Errorf ''multiple errors while creating file: %s | %s'' []), w4)
               else (Err e, w4)
           | (_, w4) \<Rightarrow> (Err e, w4))
       | ok \<Rightarrow> (ok, w3))" if "safe rw" for rw :: "unit result \<times> 'a FsWorld_scheme"
    using that by (cases rw; cases "fst rw") (auto split: prod.splits result.splits)
  have "safe (open_excl p m w)"
    by (auto simp: open_excl_def split: option.splits prod.splits sum.splits error.splits)
  then show ?thesis
    unfolding CreateFile_def by (intro safe_bind rest written)
qed

lemma GenerateRSA_no_panic [no_panics]: "safe (GenerateRSA L n w)"
  by (auto simp: GenerateRSA_def is_panic_and_then split: option.splits prod.splits)

lemma with_peer_no_panic [no_panics]: "safe (f (Peer w)) \<Longrightarrow> safe (with_peer f w)"
  by (auto simp: with_peer_def split: prod.splits)

lemma run_command_no_panic [no_panics]: "safe (run_command args w)"
  by (auto simp: run_command_def split: option.splits prod.splits)

lemma LoadX509KeyPair_no_panic [no_panics]: "safe (LoadX509KeyPair L c k w)"
  unfolding LoadX509KeyPair_def by (intro safe_bind no_panics) simp

lemma ReloadKeygrantingCert_no_panic [no_panics]: "safe (ReloadKeygrantingCert L w)"
  unfolding ReloadKeygrantingCert_def
  by (intro safe_split) (simp add: safe_bind_wrap no_panics)

lemma SendRequest_no_panics [no_panics]:
  "safe (SendRequest (authenticated_SendRequests L net ep) api body p)"
  using authenticated.SendRequest_no_panic by (simp add: safe_def)

section \<open>Actions\<close>

lemma GenerateKey_no_panic [no_panics]:
  fixes w :: "'p Client"
  shows "safe (GenerateKey L k w)"
proof -
  have "safe (keygen L k w)" for w :: "'p Client"
    unfolding keygen_def Let_def
    by (rule safe_bind_wrap [OF EnsureIsFolder_no_panic], rule safe_bind_wrap [OF GenerateRSA_no_panic])
       (auto intro!: safe_wrap no_panics)
  then show ?thesis
    unfolding GenerateKey_def by (intro safe_split) (auto intro: no_panics)
qed

lemma sent_safe:
  assumes "safe (with_peer f w)" and "\<And>res s. safe (k res s)"
  shows "safe (case with_peer f w of
       (Err e, w) \<Rightarrow> (Err (g e), h e w) | (Panic m, w) \<Rightarrow> (Panic m, w) | (Ok res, w) \<Rightarrow> k res w)"
  using assms by (cases "with_peer f w"; cases "fst (with_peer f w)") auto

lemma check_token_no_panic: "\<not> is_panic (check_token cs)"
  by (induction cs) (auto simp: Let_def)

lemma Bootstrap_action_no_panic [no_panics]:
  fixes w :: "'p Client"
  shows "safe (Bootstrap_action L net api w)"
proof -
  have token: "safe (getToken w)" for w :: "'p Client"
    unfolding getToken_def
    by (intro safe_bind no_panics) (simp add: Let_def is_panic_and_then check_token_no_panic)
  have send: "safe (bootstrap_sendRequest L net api csr w)" for csr and w :: "'p Client"
  proof -
    have "safe (and_thenS (AuthenticateWithToken L net (csKeyserver w) token, w) (\<lambda>rt w.
       case with_peer (SendRequest rt api csr) w of
         (Err e, w) \<Rightarrow> (Err e, if is_OperationForbidden (errors_Cause e) then RetryFailed api w else w)
       | (Panic m, w) \<Rightarrow> (Panic m, w)
       | (Ok res, w) \<Rightarrow> and_thenS (os_Remove BootstrapTokenPath w) (\<lambda>_ w. (Ok res, w))))" for token and w :: "'p Client"
      by (cases "token = []")
         (auto simp: AuthenticateWithToken_def intro!: sent_safe [where g = "\<lambda>e. e"] no_panics safe_bind)
    then show ?thesis unfolding bootstrap_sendRequest_def by (intro safe_bind [OF token])
  qed
  have csr: "safe (buildCSR L w)" for w :: "'p Client"
    unfolding buildCSR_def by (intro safe_bind no_panics) simp
  have "safe (ReplaceKeygrantingCert L d w)" for d and w :: "'p Client"
    unfolding ReplaceKeygrantingCert_def by (intro safe_bind no_panics safe_wrap)
  then have "safe (bootstrap_run L net api w)" for w :: "'p Client"
    unfolding bootstrap_run_def by (intro safe_bind send csr) simp
  then show ?thesis
    unfolding Bootstrap_action_def by (intro safe_split) (auto intro!: safe_split no_panics)
qed

lemma Download_no_panic:
  fixes w :: "'p Client"
  assumes "\<And>w. safe (fetcher w)"
  shows "safe (Download da fetcher w)"
proof -
  have needs: "safe (needsRefresh da w)" for w :: "'p Client"
    using os_Stat_no_panic [of "Path da" w]
    by (auto simp: needsRefresh_def split: result.splits prod.splits)
  have "safe (if b then run_command args w else (Ok (), w))" for b args and w :: "'p Client"
    by (simp add: no_panics)
  then have "safe (refresh da fetcher w)" for w :: "'p Client"
    unfolding refresh_def using assms by (auto intro!: safe_bind no_panics)
  with needs show ?thesis unfolding Download_def by (intro safe_bind) (auto intro!: no_panics)
qed

lemma fetchers_no_panic:
  "safe (fetchAuthority net a w)" "safe (fetchStatic net a w)" "safe (fetchAPI L net a w)"
proof -
  have response: "\<not> is_panic (nonempty_response res)" for res by (simp add: nonempty_response_def)
  have "safe (endpoint_Get net ep (c # cs) p)" for ep c cs p
    using endpoint_Request_no_panic by (simp add: endpoint_Get_def safe_def)
  then have "safe (GetPubkey net k a p)" "safe (GetStatic net k a p)" for k p
    by (simp_all add: GetPubkey_def GetStatic_def)
  then show "safe (fetchAuthority net a w)" "safe (fetchStatic net a w)"
    unfolding fetchAuthority_def fetchStatic_def by (auto simp: response intro!: safe_bind no_panics)
  show "safe (fetchAPI L net a w)"
    unfolding fetchAPI_def AuthenticateWithCert_def
    by (rule safe_split)
       (auto simp: response split: option.split intro!: sent_safe [where g = "\<lambda>e. e"] no_panics)
qed

lemma downloads_no_panic [no_panics]:
  "safe (DownloadAuthority net n p t w)" "safe (DownloadStatic net n p t w)"
  "safe (DownloadFromAPI L net n p t m w)"
  by (simp_all add: DownloadAuthority_def DownloadStatic_def DownloadFromAPI_def Download_no_panic
      fetchers_no_panic)

lemma ReloadHostnameFrom_no_panic [no_panics]:
  fixes w :: "'p Client"
  shows "safe (ReloadHostnameFrom p w)"
proof -
  have "\<not> is_panic (config_lines kvs ls)" for kvs ls
    by (induction ls arbitrary: kvs) (auto simp: Let_def split: list.splits)
  then have read: "safe (readConfig p w)" for w :: "'p Client"
    unfolding readConfig_def by (intro safe_bind no_panics) simp
  have "safe (os_Hostname w)" "safe (set_hostname h w)" for w :: "'p Client" and h
    by (auto simp: os_Hostname_def set_hostname_def split: option.splits prod.splits
        intro!: safe_bind no_panics)
  then have "safe (and_thenS (os_Hostname w) (\<lambda>currentHostname w.
      if h = currentHostname then (Ok (), w)
      else and_thenS (set_hostname h w) (\<lambda>_ w. (Ok (), NotifyPerformed i w))))" for h i and w :: "'p Client"
    by (auto intro!: safe_bind)
  with read [of w] have "safe (performReload p w)"
    unfolding performReload_def
    by (cases "readConfig p w"; cases "fst (readConfig p w)") (auto split: option.splits)
  then show ?thesis by (simp add: ReloadHostnameFrom_def no_panics)
qed

text \<open>The actions on keys: the expiration check and the request builder do not panic either.\<close>

lemma keyreq_Act_no_panic:
  fixes w :: "'p Client"
  assumes "\<And>d. \<not> is_panic (CheckExpiration ra d)" and "\<And>d. \<not> is_panic (GenCSR ra d)"
  shows "safe (keyreq_Act L net ra w)"
proof -
  have should: "safe (shouldRegenerate ra w)" for w :: "'p Client"
    using ReadFile_no_panic [of "CertFile ra" w] assms(1)
    by (auto simp: shouldRegenerate_def Let_def split: result.splits prod.splits) (metis is_panic.simps(1))
  have csr: "safe (generateCSR ra w)" for w :: "'p Client"
    unfolding generateCSR_def by (rule safe_bind_wrap [OF ReadFile_no_panic]) (simp add: assms)
  have sign: "safe (requestSignature L net ra c w)" if "Keygrant w \<noteq> None" for c and w :: "'p Client"
    using that
    by (auto simp: requestSignature_def AuthenticateWithCert_def intro!: sent_safe no_panics)
  have abs: "safe (filepath_Abs p w)" for p and w :: "'p Client"
    by (auto simp: filepath_Abs_def split: option.splits prod.splits)
  have reload: "safe (checkReload L ra w)" for w :: "'p Client"
    unfolding checkReload_def by (auto intro!: safe_bind abs no_panics)
  have granted: "Keygrant s \<noteq> None" if "generateCSR ra w = (r, s)" "Keygrant w \<noteq> None" for r s and w :: "'p Client"
    using grant.generateCSR_keeps [of w ra] that by (simp add: stays_granted_def)
  have "safe (regenerate L net ra w)" if "Keygrant w \<noteq> None" for w :: "'p Client"
    unfolding regenerate_def using that granted
    by (intro safe_bind [OF csr] safe_bind [OF sign] safe_bind_wrap safe_wrap no_panics reload) auto
  then show ?thesis
    unfolding keyreq_Act_def
    by (intro safe_split) (auto simp: Exists_def syscall_def intro!: safe_bind [OF should] safe_split no_panics
        split: option.splits sum.splits)
qed

lemma requests_no_panic [no_panics]:
  "safe (RequestOrRenewTLSKey L net k c api t w)" "safe (RequestOrRenewSSHKey L net k c api t w)"
  unfolding RequestOrRenewTLSKey_def RequestOrRenewSSHKey_def
  by (rule keyreq_Act_no_panic; simp add: CheckTLSCertExpiration_def CheckSSHCertExpiration_def
        BuildSSHCSR_def is_panic_and_then split: sum.split result.split ssh_PublicKey.split)+

lemma TLSKey_no_panic [no_panics]: "safe (TLSKey L net k c api t w)"
  unfolding TLSKey_def by (intro safe_bind no_panics)

lemma in_order_no_panic: "(\<And>a w. a \<in> set as \<Longrightarrow> safe (a w)) \<Longrightarrow> safe (in_order as w)"
  by (induction as arbitrary: w) (auto intro!: safe_bind)

lemma ConvergeState_no_panic: "safe (ConvergeState L net w)"
  unfolding ConvergeState_def
  by (rule in_order_no_panic) (auto simp: converge_actions_def no_panics)

end
