(* ===== verification/Key_Generation.thy ===== *)
theory Key_Generation
  imports World_Config
begin

text \<open>
  \<open>keygen/generate.go\<close>: the program that makes the authorities of a new cluster, a key pair and a
  self-signed certificate or a public key for each, as files in one directory. The result is about
  this program and the keyserver together: the keyserver loads what it has written.
\<close>

section \<open>generate.go\<close>

definition self_signed_template :: "int \<Rightarrow> string \<Rightarrow> Certificate" where
  "self_signed_template issueat name = zero_Certificate\<lparr>
     CertKeyUsage := [KeyUsageDigitalSignature, KeyUsageCertSign],
     CertExtKeyUsage := [ExtKeyUsageServerAuth, ExtKeyUsageClientAuth],
     BasicConstraintsValid := True, IsCA := True, MaxPathLen := 1,
     NotBefore := issueat, NotAfter := time_Unix (issueat div time_Second + 86400 * 1000000),
     CommonName := ''homeworld-authority-'' @ name\<rparr>"

definition GenerateTLSSelfSignedCert :: "Lib \<Rightarrow> rsa_PrivateKey \<Rightarrow> string \<Rightarrow> ('a World_scheme, string) action" where
  "GenerateTLSSelfSignedCert L key name w =
     (case time_Now w of (issueat, w) \<Rightarrow>
        let certTemplate = self_signed_template issueat name in
        FinishCertificate L certTemplate certTemplate (RSA_PublicKey (N key)) key w)"

text \<open>One iteration of the loop, and the loop.\<close>

definition generate_authority :: "Lib \<Rightarrow> string \<Rightarrow> ConfigAuthority \<Rightarrow> ('a FsWorld_scheme, unit) action" where
  "generate_authority L dir authority w =
     and_thenS (GenerateRSA L AuthorityBits w) (\<lambda>(privkey, privkeybytes) w.
     and_thenS (Filenames authority, w) (\<lambda>(keyfile, certfile) w.
     and_thenS (WriteFile (path_Join dir keyfile) privkeybytes 384 w) (\<lambda>_ w.
       case AType authority of
         TLSAuthorityType \<Rightarrow>
           and_thenS (GenerateTLSSelfSignedCert L privkey (AName authority) w) (\<lambda>cert w.
             WriteFile (path_Join dir certfile) cert 420 w)
       | SSHAuthorityType \<Rightarrow>
           and_thenS (lift (ssh_NewPublicKey L (RSA_PublicKey (N privkey))), w) (\<lambda>pkey w.
             WriteFile (path_Join dir certfile) (ssh_MarshalAuthorizedKey L pkey) 420 w)
       | InvalidAuthorityType \<Rightarrow> (Panic ''invalid authority type in GenerateKeys'', w))))"

fun generate_authorities :: "Lib \<Rightarrow> string \<Rightarrow> ConfigAuthority list \<Rightarrow> ('a FsWorld_scheme, unit) action" where
  "generate_authorities L dir [] w = (Ok (), w)"
| "generate_authorities L dir (authority # auths) w =
     and_thenS (generate_authority L dir authority w) (\<lambda>_ w. generate_authorities L dir auths w)"

definition GenerateKeys :: "Lib \<Rightarrow> string \<Rightarrow> ('a FsWorld_scheme, unit) action" where
  "GenerateKeys L dir w =
     and_thenS (os_Stat dir w) (\<lambda>info w.
       if info \<noteq> Directory then (Err (ErrorNew ''expected authority directory, not authority file''), w)
       else generate_authorities L dir ListAuthorities w)"

section \<open>What the libraries read back\<close>

text \<open>
  Documented behaviour of \<open>encoding/pem\<close>, \<open>crypto/x509\<close> and \<open>x/crypto/ssh\<close>: a PEM block without
  headers and an encoded key are read back; a parsed certificate has the key, the name, the CA flag
  and, up to a second, the end of validity that it was created with; a public key in the format of
  \<open>authorized_keys\<close> is read back as an equal one; and \<open>ssh\<close> reads the same key pair from the PEM
  block as \<open>x509\<close>.
\<close>

definition key_pem :: "Lib \<Rightarrow> rsa_PrivateKey \<Rightarrow> string" where
  "key_pem L k = pem_EncodeToMemory L \<lparr>PEM_Type = ''RSA PRIVATE KEY'', PEM_Bytes = x509_MarshalPKCS1PrivateKey L k\<rparr>"

definition pem_law :: "Lib \<Rightarrow> bool" where
  "pem_law L = (\<forall>b. PEM_Type b \<in> {''RSA PRIVATE KEY'', ''CERTIFICATE''} \<longrightarrow>
     HasPrefix (pem_EncodeToMemory L b) pem_header \<and> pem_Decode L (pem_EncodeToMemory L b) = (Some b, []))"

definition key_law :: "Lib \<Rightarrow> bool" where
  "key_law L = (\<forall>r n k. rsa_GenerateKey L r n = Inr k \<longrightarrow>
     x509_ParsePKCS1PrivateKey L (x509_MarshalPKCS1PrivateKey L k) = Inr k)"

definition cert_law :: "Lib \<Rightarrow> bool" where
  "cert_law L = (\<forall>t parent n k der. x509_CreateCertificate L t parent (RSA_PublicKey n) k = Inr der \<longrightarrow>
     (\<exists>c. x509_ParseCertificate L der = Inr c \<and> CertPublicKeyAlgorithm c = RSA \<and> CertPublicKey c = RSA_PublicKey n \<and>
        CommonName c = CommonName t \<and> IsCA c = IsCA t \<and> NotAfter c = NotAfter t div time_Second * time_Second))"

definition ssh_law :: "Lib \<Rightarrow> bool" where
  "ssh_law L = (\<forall>r n k p. rsa_GenerateKey L r n = Inr k \<longrightarrow> ssh_NewPublicKey L (RSA_PublicKey (N k)) = Inr p \<longrightarrow>
     (\<exists>p' s. ssh_ParseAuthorizedKey L (ssh_MarshalAuthorizedKey L p) = Inr (p', []) \<and>
        ssh_ParsePrivateKey L (key_pem L k) = Inr s \<and>
        ssh_Type L p' = ssh_Type L (SignerPublicKey s) \<and> ssh_Marshal L p' = ssh_Marshal L (SignerPublicKey s)))"

section \<open>One authority\<close>

text \<open>An authority is ready when its files are there and the keyserver accepts their contents.\<close>

definition authority_matches :: "'a World_scheme \<Rightarrow> ConfigAuthority \<Rightarrow> Authority \<Rightarrow> bool" where
  "authority_matches w a auth = (case auth of
       TLSAuth t \<Rightarrow> AType a = TLSAuthorityType \<and> CommonName (tls_cert t) = ''homeworld-authority-'' @ AName a \<and>
         IsCA (tls_cert t) \<and>
         (\<exists>i \<ge> Ticks w. Clock w i + 86400 * 1000000 * time_Second < NotAfter (tls_cert t) + time_Second)
     | SSHAuth d \<Rightarrow> AType a = SSHAuthorityType)"

text \<open>The same clock, read on.\<close>

definition later :: "'a World_scheme \<Rightarrow> 'a World_scheme \<Rightarrow> bool" where
  "later w w' = (Clock w' = Clock w \<and> Ticks w \<le> Ticks w')"

lemma later_refl [simp]: "later w w"
  by (simp add: later_def)

lemma later_trans: "later w1 w2 \<Longrightarrow> later w2 w3 \<Longrightarrow> later w1 w3"
  by (simp add: later_def)

lemma authority_matches_later: "later w w' \<Longrightarrow> authority_matches w' a auth \<Longrightarrow> authority_matches w a auth"
  by (cases auth) (auto simp: authority_matches_def later_def intro: order_trans)

definition key_path :: "string \<Rightarrow> ConfigAuthority \<Rightarrow> string" where
  "key_path dir a = path_Join dir (AName a @ (if AType a = TLSAuthorityType then ''.key'' else []))"

definition cert_path :: "string \<Rightarrow> ConfigAuthority \<Rightarrow> string" where
  "cert_path dir a = path_Join dir (AName a @ (if AType a = TLSAuthorityType then ''.pem'' else ''.pub''))"

definition load_pair :: "Lib \<Rightarrow> ConfigAuthority \<Rightarrow> string \<Rightarrow> string \<Rightarrow> Authority result" where
  "load_pair L a keydata certdata =
     (if AType a = TLSAuthorityType then LoadTLSAuthority L keydata certdata else LoadSSHAuthority L keydata certdata)"

definition authority_ready ::
  "Lib \<Rightarrow> string \<Rightarrow> 'a World_scheme \<Rightarrow> (string \<rightharpoonup> fnode) \<Rightarrow> ConfigAuthority \<Rightarrow> bool" where
  "authority_ready L dir w fs a = (\<exists>k mk tk c mc tc auth.
     lookup fs (key_path dir a) = Inr (File k mk tk) \<and> lookup fs (cert_path dir a) = Inr (File c mc tc) \<and>
     load_pair L a k c = Ok auth \<and> authority_matches w a auth)"

lemma Filenames_paths:
  assumes "AType a \<noteq> InvalidAuthorityType"
  obtains kf cf where "Filenames a = Ok (kf, cf)" "path_Join dir kf = key_path dir a" "path_Join dir cf = cert_path dir a"
  using assms that by (cases "AType a") (auto simp: Filenames_def key_path_def cert_path_def)

lemma GenerateRSA_later: "later w (snd (GenerateRSA L n w))"
  by (simp add: GenerateRSA_def draw_def later_def split: option.splits)

lemma GenerateTLSSelfSignedCert_later: "later w (snd (GenerateTLSSelfSignedCert L k n w))"
  by (simp add: GenerateTLSSelfSignedCert_def FinishCertificate_world time_Now_def rand_Int_def draw_def Let_def
      later_def split: option.splits)

lemma WriteFile_later: "later w (snd (WriteFile p d m w))"
  by (simp add: WriteFile_def write_open_def syscall_def time_Now_def later_def
      split: option.splits sum.splits fnode.splits error.splits)

lemma GenerateRSA_FS: "FS (snd (GenerateRSA L n w)) = FS (w :: 'a FsWorld_scheme)"
  by (simp add: GenerateRSA_def draw_def split: option.splits)

lemma GenerateTLSSelfSignedCert_FS: "FS (snd (GenerateTLSSelfSignedCert L k n w)) = FS (w :: 'a FsWorld_scheme)"
  by (simp add: GenerateTLSSelfSignedCert_def FinishCertificate_world time_Now_def rand_Int_def draw_def Let_def
      split: option.splits)

lemma LoadRSAKeyFromPEM_key_pem:
  assumes "pem_law L" and "key_law L" and "rsa_GenerateKey L r n = Inr k"
  shows "LoadRSAKeyFromPEM L (key_pem L k) = Ok k"
proof -
  have "LoadSinglePEMBlock L (key_pem L k) [''RSA PRIVATE KEY'', ''PRIVATE KEY''] = Ok (x509_MarshalPKCS1PrivateKey L k)"
    using assms(1) by (auto simp: LoadSinglePEMBlock_Ok_iff pem_law_def key_pem_def)
  with assms(2,3) show ?thesis by (auto simp: LoadRSAKeyFromPEM_def key_law_def)
qed

lemma self_signed_loads:
  assumes "pem_law L" and "key_law L" and "cert_law L" and "rsa_GenerateKey L r n = Inr k"
    and "GenerateTLSSelfSignedCert L k (AName a) w = (Ok cert, w')" and "AType a = TLSAuthorityType"
  shows "\<exists>auth. LoadTLSAuthority L (key_pem L k) cert = Ok auth \<and> authority_matches w a auth"
proof -
  let ?t = "self_signed_template (now w) (AName a)"
  obtain serial der where der: "x509_CreateCertificate L (?t\<lparr>CertSignatureAlgorithm := SHA256WithRSA, SerialNumber := serial\<rparr>)
      ?t (RSA_PublicKey (N k)) k = Inr der"
    and cert: "cert = pem_EncodeToMemory L \<lparr>PEM_Type = ''CERTIFICATE'', PEM_Bytes = der\<rparr>"
  proof -
    have "FinishCertificate L ?t ?t (RSA_PublicKey (N k)) k (snd (time_Now w)) = (Ok cert, w')"
      using assms(5) by (simp add: GenerateTLSSelfSignedCert_def time_Now_def now_def Let_def)
    from FinishCertificate_Ok [OF this] that show thesis by blast
  qed
  obtain c where c: "x509_ParseCertificate L der = Inr c" "CertPublicKeyAlgorithm c = RSA" "CertPublicKey c = RSA_PublicKey (N k)"
    "CommonName c = CommonName ?t" "IsCA c" "NotAfter c = NotAfter ?t div time_Second * time_Second"
    using assms(3) der unfolding cert_law_def by (fastforce simp: self_signed_template_def)
  have "LoadSinglePEMBlock L cert [''CERTIFICATE''] = Ok der"
    using assms(1) by (auto simp: LoadSinglePEMBlock_Ok_iff pem_law_def cert)
  then have "LoadX509CertFromPEM L cert = Ok c" using c(1) by (simp add: LoadX509CertFromPEM_def)
  moreover have "Clock w (Ticks w) + 86400 * 1000000 * time_Second < NotAfter c + time_Second"
    by (simp add: c(6) self_signed_template_def time_Unix_def time_Second_def now_def algebra_simps)
  ultimately show ?thesis
    using c assms(6) LoadRSAKeyFromPEM_key_pem [OF assms(1,2,4)]
    by (auto simp: LoadTLSAuthority_def authority_matches_def self_signed_template_def)
qed

lemma ssh_pair_loads:
  assumes "ssh_law L" and "rsa_GenerateKey L r n = Inr k" and "ssh_NewPublicKey L (RSA_PublicKey (N k)) = Inr p"
  shows "\<exists>d. LoadSSHAuthority L (key_pem L k) (ssh_MarshalAuthorizedKey L p) = Ok (SSHAuth d)"
proof -
  obtain p' s where "ssh_ParseAuthorizedKey L (ssh_MarshalAuthorizedKey L p) = Inr (p', [])"
    "ssh_ParsePrivateKey L (key_pem L k) = Inr s"
    "ssh_Type L p' = ssh_Type L (SignerPublicKey s)" "ssh_Marshal L p' = ssh_Marshal L (SignerPublicKey s)"
    using assms unfolding ssh_law_def by blast
  then show ?thesis by (simp add: LoadSSHAuthority_def parseSingleSSHKey_def arePublicKeysEqual_def)
qed

lemma generate_authority_Ok:
  assumes laws: "pem_law L" "key_law L" "cert_law L" "ssh_law L"
    and run: "generate_authority L dir a w = (Ok u, w')" and "AType a \<noteq> InvalidAuthorityType"
    and sep: "cert_path dir a \<noteq> key_path dir a" "cert_path dir a \<notin> set (ancestors (key_path dir a))"
  shows "authority_ready L dir w (FS w') a \<and> later w w' \<and> (\<exists>n1 n2. FS w' = (FS w)(key_path dir a \<mapsto> n1, cert_path dir a \<mapsto> n2))"
proof -
  obtain kf cf where f: "Filenames a = Ok (kf, cf)" "path_Join dir kf = key_path dir a" "path_Join dir cf = cert_path dir a"
    using Filenames_paths [OF assms(6)] by blast
  obtain k kb w1 w2 where gen: "GenerateRSA L AuthorityBits w = (Ok (k, kb), w1)"
    and key: "WriteFile (key_path dir a) kb 384 w1 = (Ok (), w2)"
    using run by (auto simp: generate_authority_def f and_thenS_Ok_iff)
  obtain r where kb: "kb = key_pem L k" and r: "rsa_GenerateKey L r AuthorityBits = Inr k"
    using gen by (auto simp: GenerateRSA_def draw_def and_then_Ok_iff key_pem_def split: option.splits)
  obtain cd w3 auth where cert: "WriteFile (cert_path dir a) cd 420 w3 = (Ok u, w')" "FS w3 = FS w2" "later w2 w3"
    and load: "load_pair L a kb cd = Ok auth" "authority_matches w2 a auth"
  proof (cases "AType a")
    case TLSAuthorityType
    then obtain cd w3 where g: "GenerateTLSSelfSignedCert L k (AName a) w2 = (Ok cd, w3)"
      and "WriteFile (cert_path dir a) cd 420 w3 = (Ok u, w')"
      using run by (auto simp: generate_authority_def f gen key and_thenS_Ok_iff)
    moreover from self_signed_loads [OF laws(1-3) r g TLSAuthorityType] obtain auth where
      "load_pair L a kb cd = Ok auth" "authority_matches w2 a auth"
      by (auto simp: load_pair_def kb TLSAuthorityType)
    ultimately show thesis using that GenerateTLSSelfSignedCert_FS [of L k "AName a" w2]
        GenerateTLSSelfSignedCert_later [of w2 L k "AName a"] by simp
  next
    case SSHAuthorityType
    then obtain pk where pk: "ssh_NewPublicKey L (RSA_PublicKey (N k)) = Inr pk"
      and "WriteFile (cert_path dir a) (ssh_MarshalAuthorizedKey L pk) 420 w2 = (Ok u, w')"
      using run by (auto simp: generate_authority_def f gen key and_thenS_Ok_iff)
    moreover from ssh_pair_loads [OF laws(4) r pk] obtain d where
      "load_pair L a kb (ssh_MarshalAuthorizedKey L pk) = Ok (SSHAuth d)" by (auto simp: load_pair_def kb SSHAuthorityType)
    ultimately show thesis using that SSHAuthorityType by (simp add: authority_matches_def)
  qed (use assms(6) in simp)
  from WriteFile_Ok [OF key] obtain m1 t1 where 1: "FS w2 = (FS w1)(key_path dir a \<mapsto> File kb m1 t1)"
    "lookup (FS w2) (key_path dir a) = Inr (File kb m1 t1)" by blast
  from WriteFile_Ok [OF cert(1)] obtain m2 t2 where 2: "FS w' = (FS w2)(cert_path dir a \<mapsto> File cd m2 t2)"
    "lookup (FS w') (cert_path dir a) = Inr (File cd m2 t2)" using cert(2) by auto
  have "lookup (FS w') (key_path dir a) = Inr (File kb m1 t1)" using 1(2) lookup_elsewhere [OF sep] by (simp add: 2(1))
  moreover have l: "later w w1" "later w1 w2" "later w3 w'"
    using GenerateRSA_later [of w L AuthorityBits] WriteFile_later [of w1 "key_path dir a" kb 384]
      WriteFile_later [of w3 "cert_path dir a" cd 420] gen key cert(1) by simp_all
  then have ww2: "later w w2" by (blast intro: later_trans)
  ultimately have "authority_ready L dir w (FS w') a"
    using 2(2) load authority_matches_later unfolding authority_ready_def by blast
  moreover have "FS w1 = FS w" using GenerateRSA_FS [of L AuthorityBits w] gen by simp
  moreover have "later w w'" using ww2 cert(3) l(3) by (blast intro: later_trans)
  ultimately show ?thesis using 1(1) 2(1) by auto
qed

section \<open>All authorities\<close>

definition authority_files :: "string \<Rightarrow> ConfigAuthority list \<Rightarrow> string list" where
  "authority_files dir auths = concat (map (\<lambda>a. [key_path dir a, cert_path dir a]) auths)"

text \<open>No file of one authority is another one or an ancestor of it.\<close>

definition files_apart :: "string list \<Rightarrow> bool" where
  "files_apart ps = (distinct ps \<and> list_all (\<lambda>p. list_all (\<lambda>q. q \<notin> set (ancestors p)) ps) ps)"

lemma authority_ready_elsewhere:
  assumes "authority_ready L dir w1 fs a" and "list_all (\<lambda>p. lookup fs' p = lookup fs p) [key_path dir a, cert_path dir a]"
    and "later w w1"
  shows "authority_ready L dir w fs' a"
  using assms authority_matches_later [OF assms(3)] by (auto simp add: authority_ready_def)

lemma generate_authorities_Ok:
  assumes laws: "pem_law L" "key_law L" "cert_law L" "ssh_law L"
    and "generate_authorities L dir auths w = (Ok u, w')" and "\<forall>a\<in>set auths. AType a \<noteq> InvalidAuthorityType"
    and "files_apart (authority_files dir auths)"
  shows "(\<forall>a\<in>set auths. authority_ready L dir w (FS w') a) \<and>
    (\<forall>p. p \<notin> set (authority_files dir auths) \<longrightarrow> FS w' p = FS w p)"
  using assms(5-7)
proof (induction auths arbitrary: w)
  case (Cons a auths)
  let ?ps = "authority_files dir auths"
  have fs: "authority_files dir (a # auths) = key_path dir a # cert_path dir a # ?ps" by (simp add: authority_files_def)
  have apart: "cert_path dir a \<noteq> key_path dir a" "cert_path dir a \<notin> set (ancestors (key_path dir a))"
    "\<forall>p\<in>set ?ps. p \<noteq> key_path dir a \<and> p \<noteq> cert_path dir a \<and> p \<notin> set (ancestors (key_path dir a)) \<and> p \<notin> set (ancestors (cert_path dir a))"
    "files_apart ?ps"
    using Cons.prems(3) unfolding fs files_apart_def by (auto simp: list_all_iff)
  obtain w1 where one: "generate_authority L dir a w = (Ok (), w1)" and rest: "generate_authorities L dir auths w1 = (Ok u, w')"
    using Cons.prems(1) by (auto simp: and_thenS_Ok_iff)
  have ready: "authority_ready L dir w (FS w1) a" and l: "later w w1"
    and same: "\<And>p. p \<noteq> key_path dir a \<Longrightarrow> p \<noteq> cert_path dir a \<Longrightarrow> FS w1 p = FS w p"
    using generate_authority_Ok [OF laws one _ apart(1,2)] Cons.prems(2) by auto
  have IH: "\<forall>a\<in>set auths. authority_ready L dir w1 (FS w') a" "\<And>p. p \<notin> set ?ps \<Longrightarrow> FS w' p = FS w1 p"
    using Cons.IH [OF rest] Cons.prems(2) apart(4) by auto
  have "lookup (FS w') p = lookup (FS w1) p" if "p = key_path dir a \<or> p = cert_path dir a" for p
  proof -
    have "FS w' q = FS w1 q" if "q = p \<or> q \<in> set (ancestors p)" for q
      using IH(2) [of q] apart(3) \<open>p = key_path dir a \<or> p = cert_path dir a\<close> that by blast
    then show ?thesis by (simp add: lookup_def list_ex_iff cong: bex_cong)
  qed
  then have "authority_ready L dir w (FS w') a" using authority_ready_elsewhere [OF ready] by simp
  moreover have "\<forall>a\<in>set auths. authority_ready L dir w (FS w') a"
    using IH(1) authority_ready_elsewhere [OF _ _ l] by (metis (mono_tags, lifting) list_all_iff)
  ultimately show ?case using IH(2) same unfolding fs by auto
qed simp

lemma ready_load:
  assumes "authority_ready L dir w (FS v) a" and "no_faults v" and "dir \<noteq> []" and "AType a \<noteq> InvalidAuthorityType"
  shows "\<exists>auth. ConfigAuthority_Load L a dir v = (Ok auth, v\<lparr>Syscalls := Syscalls v + 2\<rparr>) \<and>
    authority_matches w a auth"
proof -
  obtain kf cf where f: "Filenames a = Ok (kf, cf)" "path_Join dir kf = key_path dir a" "path_Join dir cf = cert_path dir a"
    using Filenames_paths [OF assms(4)] by blast
  obtain k mk tk c mc tc auth where r: "lookup (FS v) (key_path dir a) = Inr (File k mk tk)"
    "lookup (FS v) (cert_path dir a) = Inr (File c mc tc)" "load_pair L a k c = Ok auth" "authority_matches w a auth"
    using assms(1) unfolding authority_ready_def by blast
  let ?v = "v\<lparr>Syscalls := Suc (Syscalls v)\<rparr>"
  have "no_faults ?v" "FS ?v = FS v" using assms(2) by (simp_all add: no_faults_def)
  then have "ReadFile (cert_path dir a) ?v = (Ok c, v\<lparr>Syscalls := Syscalls v + 2\<rparr>)"
    using ReadFile_no_faults [of ?v "cert_path dir a" c mc tc] r(2) by simp
  with ReadFile_no_faults [OF assms(2) r(1)] r(3,4) assms(3,4) show ?thesis
    by (cases "AType a") (auto simp: ConfigAuthority_Load_def f load_pair_def)
qed

lemma load_authorities_ready:
  assumes "\<forall>a\<in>set auths. authority_ready L AuthorityKeyDirectory w (FS v) a \<and> AType a \<noteq> InvalidAuthorityType"
    and "no_faults v" and "distinct (map AName auths)"
  shows "\<exists>m' v'. load_authorities L auths m v = (Ok m', v') \<and> (\<forall>n. n \<notin> AName ` set auths \<longrightarrow> m' n = m n) \<and>
    (\<forall>a\<in>set auths. \<exists>auth. m' (AName a) = Some auth \<and> authority_matches w a auth)"
  using assms
proof (induction auths arbitrary: m v)
  case (Cons a auths)
  let ?v = "v\<lparr>Syscalls := Syscalls v + 2\<rparr>"
  have "AuthorityKeyDirectory \<noteq> []" by (simp add: AuthorityKeyDirectory_def)
  then obtain auth where l: "ConfigAuthority_Load L a AuthorityKeyDirectory v = (Ok auth, ?v)" "authority_matches w a auth"
    using ready_load [of L AuthorityKeyDirectory w v a] Cons.prems by auto
  have "no_faults ?v" "FS ?v = FS v" using Cons.prems(2) by (simp_all add: no_faults_def)
  with Cons.prems have "\<exists>m' v'. load_authorities L auths (m(AName a \<mapsto> auth)) ?v = (Ok m', v') \<and>
      (\<forall>n. n \<notin> AName ` set auths \<longrightarrow> m' n = (m(AName a \<mapsto> auth)) n) \<and>
      (\<forall>a\<in>set auths. \<exists>auth. m' (AName a) = Some auth \<and> authority_matches w a auth)"
    by (intro Cons.IH) auto
  then obtain m' v' where "load_authorities L auths (m(AName a \<mapsto> auth)) ?v = (Ok m', v')"
    "\<forall>n. n \<notin> AName ` set auths \<longrightarrow> m' n = (m(AName a \<mapsto> auth)) n"
    "\<forall>a\<in>set auths. \<exists>auth. m' (AName a) = Some auth \<and> authority_matches w a auth" by blast
  with l Cons.prems(3) show ?case by auto
qed simp

lemma authority_files_apart: "files_apart (authority_files AuthorityKeyDirectory ListAuthorities)"
  by code_simp

lemma ListAuthorities_types: "\<forall>a\<in>set ListAuthorities. AType a \<noteq> InvalidAuthorityType"
  "distinct (map AName ListAuthorities)"
  by (simp_all add: ListAuthorities_def config_TLSAuthority_def config_SSHAuthority_def api_names)

lemma assert_authorities_ok:
  assumes "\<And>n. n \<in> {KeygrantingAuthority, ClusterCAAuthority, EtcdClientAuthority, EtcdServerAuthority, KubernetesAuthority,
      ServiceAccountAuthority} \<Longrightarrow> \<exists>t. assert_TLS m n = Ok t"
    and "\<And>n. n \<in> {SSHHostAuthority, SSHUserAuthority} \<Longrightarrow> \<exists>d. assert_SSH m n = Ok d"
  shows "is_ok (assert_authorities m)"
proof -
  obtain a b c d e f where "assert_TLS m KeygrantingAuthority = Ok a" "assert_TLS m ClusterCAAuthority = Ok b"
    "assert_TLS m EtcdClientAuthority = Ok c" "assert_TLS m EtcdServerAuthority = Ok d"
    "assert_TLS m KubernetesAuthority = Ok e" "assert_TLS m ServiceAccountAuthority = Ok f"
    using assms(1) by (meson insertCI)
  moreover obtain g h where "assert_SSH m SSHHostAuthority = Ok g" "assert_SSH m SSHUserAuthority = Ok h"
    using assms(2) by (meson insertCI)
  ultimately show ?thesis by (simp add: assert_authorities_def)
qed

text \<open>
  C11: what \<open>GenerateKeys\<close> writes, the keyserver loads: if it succeeds on the authority directory, then
  a keyserver that finds these files loads every authority it knows, of the kind it expects, so that
  its type assertions succeed; every TLS authority is a certificate authority with its own name in its
  certificate, valid for a million days. No other file has changed.
\<close>

theorem GenerateKeys_loads:
  assumes "pem_law L" and "key_law L" and "cert_law L" and "ssh_law L"
    and "GenerateKeys L AuthorityKeyDirectory w = (Ok (), w')"
    and "FS v = FS w'" and "no_faults v"
  shows "(\<exists>m v'. load_authorities L ListAuthorities Map.empty v = (Ok m, v') \<and> is_ok (assert_authorities m) \<and>
      (\<forall>a\<in>set ListAuthorities. \<exists>auth. m (AName a) = Some auth \<and> authority_matches w a auth)) \<and>
    (\<forall>p. p \<notin> set (authority_files AuthorityKeyDirectory ListAuthorities) \<longrightarrow> FS w' p = FS w p)"
proof -
  let ?w1 = "w\<lparr>Syscalls := Suc (Syscalls w)\<rparr>"
  have stat: "FS ?w1 = FS w" "later w ?w1" by (simp_all add: later_def)
  have gen: "generate_authorities L AuthorityKeyDirectory ListAuthorities ?w1 = (Ok (), w')"
    using assms(5) by (auto simp: GenerateKeys_def and_thenS_Ok_iff os_Stat_def syscall_def split: option.splits if_splits)
  note ok = generate_authorities_Ok [OF assms(1-4) gen ListAuthorities_types(1) authority_files_apart]
  have "authority_ready L AuthorityKeyDirectory w (FS v) a" if "a \<in> set ListAuthorities" for a
    by (rule authority_ready_elsewhere [OF _ _ stat(2), of _ _ "FS v"]) (use ok that assms(6) in simp_all)
  then obtain m v' where m: "load_authorities L ListAuthorities Map.empty v = (Ok m, v')"
    "\<forall>a\<in>set ListAuthorities. \<exists>auth. m (AName a) = Some auth \<and> authority_matches w a auth"
    using load_authorities_ready [of ListAuthorities L w v Map.empty] assms(7) ListAuthorities_types by blast
  have "\<exists>t. assert_TLS m n = Ok t" if "config_TLSAuthority n \<in> set ListAuthorities" for n
    using m(2) that by (fastforce simp: config_TLSAuthority_def assert_TLS_def authority_matches_def split: Authority.splits)
  moreover have "\<exists>d. assert_SSH m n = Ok d" if "config_SSHAuthority n \<in> set ListAuthorities" for n
    using m(2) that by (fastforce simp: config_SSHAuthority_def assert_SSH_def authority_matches_def split: Authority.splits)
  ultimately have "is_ok (assert_authorities m)"
    by (intro assert_authorities_ok) (auto simp: ListAuthorities_def)
  with m ok stat(1) show ?thesis by auto
qed

section \<open>When nothing fails\<close>

text \<open>The directory is there and holds at most files of authorities; calls, entropy and libraries work.\<close>

definition generation_ready :: "(nat \<Rightarrow> int) \<Rightarrow> 'a FsWorld_scheme \<Rightarrow> bool" where
  "generation_ready clock w = (Clock w = clock \<and> no_faults w \<and> (\<forall>i. Entropy w i \<noteq> None) \<and>
     (\<forall>p. is_file (FS w p) \<longrightarrow> p \<in> set (authority_files AuthorityKeyDirectory ListAuthorities)) \<and>
     (\<forall>p\<in>set (authority_files AuthorityKeyDirectory ListAuthorities).
        FS w p \<noteq> Some Directory \<and> FS w (path_Dir p) = Some Directory))"

definition libraries_work :: "Lib \<Rightarrow> (nat \<Rightarrow> int) \<Rightarrow> bool" where
  "libraries_work L clock = ((\<forall>r. rsa_GenerateKey L r AuthorityBits \<in> range Inr) \<and> (\<forall>k. ssh_NewPublicKey L k \<in> range Inr) \<and>
     (\<forall>r k i n s. rsa_GenerateKey L r AuthorityBits = Inr k \<longrightarrow>
        x509_CreateCertificate L ((self_signed_template (clock i) n)\<lparr>CertSignatureAlgorithm := SHA256WithRSA, SerialNumber := s\<rparr>)
          (self_signed_template (clock i) n) (RSA_PublicKey (N k)) k \<in> range Inr))"

lemma generation_ready_file:
  assumes "generation_ready clock w" and "p \<in> set (authority_files AuthorityKeyDirectory ListAuthorities)"
  shows "\<exists>w'. WriteFile p d m w = (Ok (), w') \<and> generation_ready clock w'"
proof -
  let ?ps = "authority_files AuthorityKeyDirectory ListAuthorities"
  have "\<not> list_ex (\<lambda>q. is_file (FS w q)) (ancestors p)"
    using assms authority_files_apart by (auto simp: generation_ready_def files_apart_def list_ex_iff list_all_iff)
  then obtain m' where w: "WriteFile p d m w = (Ok (), w\<lparr>Syscalls := Syscalls w + 2, Ticks := Suc (Ticks w),
     FS := (FS w)(p \<mapsto> File d m' (now w))\<rparr>)"
    using WriteFile_no_faults [of w p d m] assms unfolding generation_ready_def by blast
  have "path_Dir q \<notin> set ?ps" if "q \<in> set ?ps" for q
    using assms(1) that unfolding generation_ready_def by metis
  then show ?thesis using w assms by (auto simp: generation_ready_def no_faults_def)
qed

lemma generation_ready_later:
  assumes "generation_ready clock w" and "libraries_work L clock"
  shows "\<exists>k kb r w'. GenerateRSA L AuthorityBits w = (Ok (k, kb), w') \<and> rsa_GenerateKey L r AuthorityBits = Inr k \<and>
      generation_ready clock w'"
    and "rsa_GenerateKey L r' AuthorityBits = Inr k \<Longrightarrow>
      \<exists>cert w'. GenerateTLSSelfSignedCert L k n w = (Ok cert, w') \<and> generation_ready clock w'"
proof -
  obtain r where e: "Entropy w (Draws w) = Some r" using assms(1) unfolding generation_ready_def by blast
  from assms(2) obtain key where "rsa_GenerateKey L r AuthorityBits = Inr key" unfolding libraries_work_def by blast
  then show "\<exists>k kb r w'. GenerateRSA L AuthorityBits w = (Ok (k, kb), w') \<and> rsa_GenerateKey L r AuthorityBits = Inr k \<and>
      generation_ready clock w'"
    using e assms(1) by (auto simp: GenerateRSA_def draw_def generation_ready_def no_faults_def)
  assume "rsa_GenerateKey L r' AuthorityBits = Inr k"
  with assms obtain der where "x509_CreateCertificate L ((self_signed_template (now w) n)
        \<lparr>CertSignatureAlgorithm := SHA256WithRSA, SerialNumber := r mod 2 ^ 159\<rparr>)
      (self_signed_template (now w) n) (RSA_PublicKey (N k)) k = Inr der"
    unfolding libraries_work_def generation_ready_def now_def by blast
  then show "\<exists>cert w'. GenerateTLSSelfSignedCert L k n w = (Ok cert, w') \<and> generation_ready clock w'"
    using e assms(1) by (simp add: GenerateTLSSelfSignedCert_def time_Now_def now_def FinishCertificate_def rand_Int_def Let_def
        draw_def generation_ready_def no_faults_def)
qed

lemma generate_authority_succeeds:
  assumes "libraries_work L clock" and "generation_ready clock w" and "a \<in> set ListAuthorities"
  shows "\<exists>w'. generate_authority L AuthorityKeyDirectory a w = (Ok (), w') \<and> generation_ready clock w'"
proof -
  have kind: "AType a \<noteq> InvalidAuthorityType" using assms(3) ListAuthorities_types by blast
  obtain kf cf where f: "Filenames a = Ok (kf, cf)" "path_Join AuthorityKeyDirectory kf = key_path AuthorityKeyDirectory a"
    "path_Join AuthorityKeyDirectory cf = cert_path AuthorityKeyDirectory a" using Filenames_paths [OF kind] by blast
  have files: "key_path AuthorityKeyDirectory a \<in> set (authority_files AuthorityKeyDirectory ListAuthorities)"
    "cert_path AuthorityKeyDirectory a \<in> set (authority_files AuthorityKeyDirectory ListAuthorities)"
    using assms(3) by (auto simp: authority_files_def)
  obtain k kb r w1 where 1: "GenerateRSA L AuthorityBits w = (Ok (k, kb), w1)" "generation_ready clock w1"
    "rsa_GenerateKey L r AuthorityBits = Inr k" using generation_ready_later(1) [OF assms(2,1)] by blast
  obtain w2 where 2: "WriteFile (key_path AuthorityKeyDirectory a) kb 384 w1 = (Ok (), w2)" "generation_ready clock w2"
    using generation_ready_file [OF 1(2) files(1)] by blast
  show ?thesis
  proof (cases "AType a")
    case TLSAuthorityType
    obtain cert w3 where 3: "GenerateTLSSelfSignedCert L k (AName a) w2 = (Ok cert, w3)" "generation_ready clock w3"
      using generation_ready_later(2) [OF 2(2) assms(1) 1(3)] by blast
    from generation_ready_file [OF 3(2) files(2), of cert 420] show ?thesis
      by (auto simp: generate_authority_def f 1 2 3 TLSAuthorityType)
  next
    case SSHAuthorityType
    obtain p where "ssh_NewPublicKey L (RSA_PublicKey (N k)) = Inr p" using assms(1) unfolding libraries_work_def by blast
    with generation_ready_file [OF 2(2) files(2), of "ssh_MarshalAuthorizedKey L p" 420] show ?thesis
      by (auto simp: generate_authority_def f 1 2 SSHAuthorityType)
  qed (use kind in simp)
qed

lemma GenerateKeys_succeeds:
  assumes "libraries_work L clock" and "generation_ready clock w" and "lookup (FS w) AuthorityKeyDirectory = Inr Directory"
  shows "\<exists>w'. GenerateKeys L AuthorityKeyDirectory w = (Ok (), w')"
proof -
  have loop: "\<exists>w'. generate_authorities L AuthorityKeyDirectory auths v = (Ok (), w')"
    if "generation_ready clock v" "set auths \<subseteq> set ListAuthorities" for auths v
    using that
  proof (induction auths arbitrary: v)
    case (Cons a auths)
    then obtain v' where "generate_authority L AuthorityKeyDirectory a v = (Ok (), v')" "generation_ready clock v'"
      using generate_authority_succeeds [OF assms(1), of v a] by auto
    with Cons show ?case by simp
  qed simp
  have "generation_ready clock (w\<lparr>Syscalls := Suc (Syscalls w)\<rparr>)" using assms(2) by (simp add: generation_ready_def no_faults_def)
  from loop [OF this subset_refl] show ?thesis
    using assms(2,3) by (simp add: GenerateKeys_def os_Stat_def syscall_def generation_ready_def no_faults_def)
qed

text \<open>An instance: one key, one moment, and certificates that keep their name.\<close>

definition demo_authority_end :: int where "demo_authority_end = time_Unix (86400 * 1000000)"

definition demo_keygen_Lib :: Lib where
  "demo_keygen_Lib = demo_Lib\<lparr>rsa_GenerateKey := (\<lambda>_ _. Inr demo_key), ssh_ParsePrivateKey := (\<lambda>_. Inr demo_signer),
     x509_CreateCertificate := (\<lambda>t _ pub _. if IsCA t \<and> pub = RSA_PublicKey 15 \<and> NotAfter t = demo_authority_end
        then Inr (CommonName t) else Inl (LibError ''not an authority'')),
     x509_ParseCertificate := (\<lambda>s. Inr (zero_Certificate\<lparr>CertPublicKeyAlgorithm := RSA, CertPublicKey := RSA_PublicKey 15,
        CommonName := s, IsCA := True, NotAfter := demo_authority_end\<rparr>))\<rparr>"

definition demo_keygen :: FsWorld where
  "demo_keygen = \<lparr>Clock = (\<lambda>_. 0), Ticks = 0, Entropy = Some, Draws = 0,
     FS = [''/etc/homeworld/keyserver/authorities'' \<mapsto> Directory, AuthorityKeyDirectory \<mapsto> Directory],
     Faults = (\<lambda>_. None), Syscalls = 0\<rparr>"

lemma demo_keygen_laws: "pem_law demo_keygen_Lib" "key_law demo_keygen_Lib" "cert_law demo_keygen_Lib" "ssh_law demo_keygen_Lib"
  "libraries_work demo_keygen_Lib (\<lambda>_. 0)"
proof -
  have "demo_pem_Decode (demo_pem_Encode b) = (Some b, [])" "HasPrefix (demo_pem_Encode b) pem_header"
    if "PEM_Type b \<in> {''RSA PRIVATE KEY'', ''CERTIFICATE''}" for b
    using that by (auto simp: demo_pem_Decode_def demo_pem_Encode_def HasPrefix_def pem_header_def)
  then show "pem_law demo_keygen_Lib" by (simp add: pem_law_def demo_keygen_Lib_def demo_Lib_def)
  show "key_law demo_keygen_Lib" "ssh_law demo_keygen_Lib"
    by (auto simp: key_law_def ssh_law_def demo_keygen_Lib_def demo_Lib_def demo_signer_def)
  have "demo_authority_end div time_Second * time_Second = demo_authority_end"
    by (simp add: demo_authority_end_def time_Unix_def time_Second_def)
  then show "cert_law demo_keygen_Lib" by (auto simp: cert_law_def demo_keygen_Lib_def split: if_splits)
  show "libraries_work demo_keygen_Lib (\<lambda>_. 0)"
    by (simp add: libraries_work_def demo_keygen_Lib_def demo_Lib_def demo_key_def self_signed_template_def demo_authority_end_def)
qed

lemma demo_keygen_ready: "generation_ready (\<lambda>_. 0) demo_keygen"
  "lookup (FS demo_keygen) AuthorityKeyDirectory = Inr Directory"
proof -
  have "list_all (\<lambda>p. p \<noteq> ''/etc/homeworld/keyserver/authorities'' \<and> p \<noteq> AuthorityKeyDirectory \<and>
      path_Dir p = ''/etc/homeworld/keyserver/authorities'') (authority_files AuthorityKeyDirectory ListAuthorities)"
    by code_simp
  then show "generation_ready (\<lambda>_. 0) demo_keygen"
    by (auto simp: generation_ready_def demo_keygen_def no_faults_def list_all_iff AuthorityKeyDirectory_def)
  show "lookup (FS demo_keygen) AuthorityKeyDirectory = Inr Directory"
    by (simp add: lookup_def demo_keygen_def AuthorityKeyDirectory_def ancestors_def upt_rec)
qed

theorem GenerateKeys_loads_witness:
  "\<exists>w' m v'. GenerateKeys demo_keygen_Lib AuthorityKeyDirectory demo_keygen = (Ok (), w') \<and>
     load_authorities demo_keygen_Lib ListAuthorities Map.empty (demo_keygen\<lparr>FS := FS w'\<rparr>) = (Ok m, v') \<and>
     is_ok (assert_authorities m)"
proof -
  obtain w' where w': "GenerateKeys demo_keygen_Lib AuthorityKeyDirectory demo_keygen = (Ok (), w')"
    using GenerateKeys_succeeds [OF demo_keygen_laws(5) demo_keygen_ready] by blast
  have "FS (demo_keygen\<lparr>FS := FS w'\<rparr>) = FS w'" "no_faults (demo_keygen\<lparr>FS := FS w'\<rparr>)"
    by (simp_all add: no_faults_def demo_keygen_def)
  from GenerateKeys_loads [OF demo_keygen_laws(1-4) w' this] w' show ?thesis by blast
qed

end
