(* ===== verification/User_Grant.thy ===== *)
theory User_Grant
  imports Client_Api Key_Api
begin

text \<open>
  \<open>user-grant/grant.go\<close>: the web service that gives a user, who shows a certificate of the upstream
  authority with an email address in it, a namespace of the Kubernetes cluster and a certificate for it.
  Also \<open>wraputil/file.go\<close>, which it reads its keys with. The Kubernetes API is a parameter: two calls
  that change the state of the cluster and may fail. The listener and \<open>main\<close> are not modelled.
\<close>

section \<open>wraputil/file.go\<close>

definition LoadRSAKeyFromPath :: "Lib \<Rightarrow> string \<Rightarrow> ('a FsWorld_scheme, rsa_PrivateKey) action" where
  "LoadRSAKeyFromPath L path w =
     and_thenS (ReadFile path w) (\<lambda>cert w. (LoadRSAKeyFromPEM L cert, w))"

definition LoadX509FromPath :: "Lib \<Rightarrow> string \<Rightarrow> ('a FsWorld_scheme, Certificate) action" where
  "LoadX509FromPath L path w =
     and_thenS (ReadFile path w) (\<lambda>cert w. (LoadX509CertFromPEM L cert, w))"

section \<open>The Kubernetes API\<close>

text \<open>An error of the client is a \<open>*StatusError\<close> with a reason, or of another type.\<close>

datatype kube_error = StatusError string | OtherError string

record RoleBinding =
  rbName :: string
  rbNamespace :: string
  RoleRef :: "string \<times> string"
  Subjects :: "(string \<times> string) list"

record 'k KubeClient =
  Namespaces_Create :: "string \<Rightarrow> 'k \<Rightarrow> kube_error option \<times> 'k"
  RoleBindings_Create :: "string \<Rightarrow> RoleBinding \<Rightarrow> 'k \<Rightarrow> kube_error option \<times> 'k"

definition StatusReasonAlreadyExists :: string where "StatusReasonAlreadyExists = ''AlreadyExists''"

section \<open>grant.go\<close>

record 'k Config =
  Address :: string
  ApiserverAddress :: string
  EmailAuthDomain :: string
  UpstreamCA :: Certificate
  KubeCA :: string
  IssuerCert :: Certificate
  IssuerKey :: rsa_PrivateKey
  ServerTLS :: tls_Certificate
  KubeAPI :: "'k KubeClient"

record 'k GrantWorld = FsWorld +
  Cluster :: 'k

definition CertificateLifespan :: int where "CertificateLifespan = time_Hour * 24 * 90"

text \<open>The regular expression \<open>^[-a-zA-Z0-9_/~+=.]+$\<close>.\<close>

definition whitelisted :: "char \<Rightarrow> bool" where
  "whitelisted c = (let n = of_char c :: nat in
     97 \<le> n \<and> n \<le> 122 \<or> 65 \<le> n \<and> n \<le> 90 \<or> 48 \<le> n \<and> n \<le> 57 \<or> c \<in> set ''-_/~+=.'')"

definition validateCharset :: "string \<Rightarrow> unit result" where
  "validateCharset s =
     (if \<not> (s \<noteq> [] \<and> list_all whitelisted s) then Err (Errorf ''not a valid string: %v'' [s]) else Ok ())"

record response =
  Namespace :: string
  KeyBase64 :: string
  CertBase64 :: string
  AuthorityBase64 :: string
  Server :: string

fun validate_loop :: "string list \<Rightarrow> unit result" where
  "validate_loop [] = Ok ()"
| "validate_loop (s # ss) = and_then (validateCharset s) (\<lambda>_. validate_loop ss)"

definition response_Validate :: "response \<Rightarrow> unit result" where
  "response_Validate r = validate_loop [Namespace r, KeyBase64 r, CertBase64 r, AuthorityBase64 r, Server r]"

text \<open>
  \<open>html/template\<close>: an action in text is escaped for HTML, by the library's table; a plus sign is in
  that table.
\<close>

definition html_escape_char :: "char \<Rightarrow> string" where
  "html_escape_char c =
     (if c = CHR 0x22 then ''&#34;'' else if c = CHR ''&'' then ''&amp;'' else if c = CHR 0x27 then ''&#39;''
      else if c = CHR ''+'' then ''&#43;'' else if c = CHR ''<'' then ''&lt;'' else if c = CHR ''>'' then ''&gt;''
      else if c = CHR 0x00 then [CHR 0xEF, CHR 0xBF, CHR 0xBD] else [c])"

definition html_escape :: "string \<Rightarrow> string" where
  "html_escape s = concat (map html_escape_char s)"

definition text_lines :: "string list \<Rightarrow> string" where
  "text_lines ls = concat (map (\<lambda>l. l @ [CHR 0x0A]) ls)"

text \<open>The page, with the function that the fields pass through as an argument.\<close>

definition pageTemplate :: "(string \<Rightarrow> string) \<Rightarrow> response \<Rightarrow> string" where
  "pageTemplate esc r = text_lines
     [''# place this file in ~/.kube/config'',
      ''# keep this file secret; it allows authenticating to the Hyades cluster as you'',
      ''# this certificate will last 90 days, at which point you will need to request a new one'',
      [],
      ''current-context: hyades'',
      ''apiVersion: v1'',
      ''kind: Config'',
      ''clusters:'',
      ''- cluster:'',
      ''    api-version: v1'',
      ''    certificate-authority-data: \"'' @ esc (AuthorityBase64 r) @ ''\"'',
      ''    server: https://'' @ esc (Server r) @ '':443'',
      ''  name: hyades-cluster'',
      ''users:'',
      ''- name: kubectl-auth'',
      ''  user:'',
      ''    client-certificate-data: \"'' @ esc (CertBase64 r) @ ''\"'',
      ''    client-key-data: \"'' @ esc (KeyBase64 r) @ ''\"'',
      ''contexts:'',
      ''- context:'',
      ''    cluster: hyades-cluster'',
      ''    namespace: \"'' @ esc (Namespace r) @ ''\"'',
      ''    user: kubectl-auth'',
      ''  name: hyades'']"

definition template_Execute :: "response \<Rightarrow> string" where
  "template_Execute r = pageTemplate html_escape r"

fun email_loop :: "string \<Rightarrow> (nat list \<times> attribute_value) list \<Rightarrow> string result" where
  "email_loop suffix [] = Err (ErrorNew ''cannot find email attribute in certificate name'')"
| "email_loop suffix ((typ, value) # attrs) =
     (if IsOIDEqual typ OIDEmailAddress then
        (case value of
           AttrOther _ \<Rightarrow> Err (ErrorNew ''value in AttributeTypeAndValue was not a string'')
         | AttrString r \<Rightarrow>
             if \<not> HasSuffix r suffix then Err (Errorf (''email '%s' had no suffix '%s'' @ [CHR 0x27]) [r, suffix])
             else Ok (take (length r - length suffix) r))
      else email_loop suffix attrs)"

definition ExtractEmail :: "'k Config \<Rightarrow> Certificate \<Rightarrow> string result" where
  "ExtractEmail c cert = email_loop (''@'' @ EmailAuthDomain c) (Names cert)"

definition grant_GetClientCAs :: "'k Config \<Rightarrow> Certificate list" where
  "grant_GetClientCAs c = [UpstreamCA c]"

definition Authenticate :: "Lib \<Rightarrow> 'k Config \<Rightarrow> http_Request \<Rightarrow> ('k GrantWorld, string) action" where
  "Authenticate L c request w = (case TLS request of
       None \<Rightarrow> (Err (ErrorNew ''no TLS''), w)
     | Some [] \<Rightarrow> (Err (ErrorNew ''no verified client chains''), w)
     | Some ([] # _) \<Rightarrow> (Err (ErrorNew ''no certificates in verified chain''), w)
     | Some ((firstCert # _) # _) \<Rightarrow>
         (case time_Now w of (n, w) \<Rightarrow>
          case x509_Verify L n firstCert (grant_GetClientCAs c) [ExtKeyUsageClientAuth] of (chs, err) \<Rightarrow>
            if length chs = 0 \<or> err \<noteq> None then
              (Err (Errorf ''certificate not valid under this authority: %v'' []), w)
            else (ExtractEmail c firstCert, w)))"

definition user_template :: "int \<Rightarrow> string \<Rightarrow> Certificate" where
  "user_template issueAt user = zero_Certificate\<lparr>
     CertKeyUsage := [KeyUsageDigitalSignature], CertExtKeyUsage := [ExtKeyUsageClientAuth],
     BasicConstraintsValid := True, IsCA := False, MaxPathLen := 0, MaxPathLenZero := True,
     NotBefore := issueAt, NotAfter := issueAt + CertificateLifespan, CommonName := ''user:'' @ user\<rparr>"

definition CertGen :: "Lib \<Rightarrow> 'k Config \<Rightarrow> pubkey \<Rightarrow> string \<Rightarrow> ('a World_scheme, string) action" where
  "CertGen L c key user w =
     (case time_Now w of (issueAt, w) \<Rightarrow>
        FinishCertificate L (user_template issueAt user) (IssuerCert c) key (IssuerKey c) w)"

text \<open>The type assertion on the error of a call panics for an error of another type.\<close>

definition tolerate_existing :: "string \<Rightarrow> kube_error option \<Rightarrow> unit result" where
  "tolerate_existing msg err = (case err of
       None \<Rightarrow> Ok ()
     | Some (StatusError reason) \<Rightarrow>
         if reason = StatusReasonAlreadyExists then Ok () else Err (Wrap (LibError reason) msg)
     | Some (OtherError e) \<Rightarrow> Panic ''interface conversion'')"

definition CreateNamespace :: "'k Config \<Rightarrow> string \<Rightarrow> ('k GrantWorld, unit) action" where
  "CreateNamespace c namespace w =
     (if \<not> HasPrefix namespace ''user-'' then
        (Err (Errorf (''namespace '%s' did not start with 'user-'' @ [CHR 0x27]) [namespace]), w)
      else case Namespaces_Create (KubeAPI c) namespace (Cluster w) of (err, k) \<Rightarrow>
        (tolerate_existing (''while creating namespace '' @ namespace) err, w\<lparr>Cluster := k\<rparr>))"

definition user_binding :: "string \<Rightarrow> string \<Rightarrow> RoleBinding" where
  "user_binding namespace user = \<lparr>rbName = ''auto-grant-'' @ user, rbNamespace = namespace,
     RoleRef = (''ClusterRole'', ''admin''), Subjects = [(''User'', ''user:'' @ user)]\<rparr>"

definition GrantAccess :: "'k Config \<Rightarrow> string \<Rightarrow> string \<Rightarrow> ('k GrantWorld, unit) action" where
  "GrantAccess c namespace user w =
     (case RoleBindings_Create (KubeAPI c) namespace (user_binding namespace user) (Cluster w) of (err, k) \<Rightarrow>
        (tolerate_existing (''while checking whether rolebinding existed for user '' @ user) err, w\<lparr>Cluster := k\<rparr>))"

definition base64_string :: "string \<Rightarrow> string" where
  "base64_string s = base64_Std (bytes_of_string s)"

text \<open>The error of \<open>CertGen\<close> is not looked at: the certificate is then empty.\<close>

definition grant_HandleRequest :: "Lib \<Rightarrow> 'k Config \<Rightarrow> http_Request \<Rightarrow> ('k GrantWorld, string) action" where
  "grant_HandleRequest L c request w =
     and_thenS (Authenticate L c request w) (\<lambda>user w.
     let namespace = ''user-'' @ user in
     and_thenS (CreateNamespace c namespace w) (\<lambda>_ w.
     and_thenS (GrantAccess c namespace user w) (\<lambda>_ w.
     and_thenS (GenerateRSA L 2048 w) (\<lambda>(key, keyx) w.
     case CertGen L c (RSA_PublicKey (N key)) user w of (gen, w) \<Rightarrow>
       let cert = (case gen of Ok cert \<Rightarrow> cert | _ \<Rightarrow> []);
           resp = \<lparr>Namespace = namespace, KeyBase64 = base64_string keyx, CertBase64 = base64_string cert,
                   AuthorityBase64 = base64_string (KubeCA c), Server = ApiserverAddress c\<rparr> in
       and_thenS (response_Validate resp, w) (\<lambda>_ w. (Ok (template_Execute resp), w))))))"

definition grant_handler :: "Lib \<Rightarrow> 'k Config \<Rightarrow> http_Request \<Rightarrow> ('k GrantWorld, http_Response) action" where
  "grant_handler L c request w =
     respond (\<lambda>_. http_Error ''Grant processing failed. See server logs for details.'' StatusBadRequest)
       (grant_HandleRequest L c request w)"

text \<open>
  \<open>LoadConfig\<close>. A \<open>log.Fatalln\<close> ends the process with status 1, which is also what \<open>main\<close> does with an
  error, so both are errors here. The client of the API, made by the library, is an argument.
\<close>

definition default_args :: "string \<rightharpoonup> string" where
  "default_args = [''upstream-ca'' \<mapsto> [], ''kube-ca'' \<mapsto> [], ''server-key'' \<mapsto> [], ''server-cert'' \<mapsto> [], ''issuer-key'' \<mapsto> [],
     ''issuer-cert'' \<mapsto> [], ''apiserver'' \<mapsto> [], ''address'' \<mapsto> '':443'', ''email-domain'' \<mapsto> []]"

fun args_loop :: "(string \<rightharpoonup> string) \<Rightarrow> string list \<Rightarrow> (string \<rightharpoonup> string) result" where
  "args_loop args [] = Ok args"
| "args_loop args (arg # rawArgs) =
     (case SplitN2 arg (CHR ''='') of
        k # v # _ \<Rightarrow>
          if args k = None then Err (Errorf ''unexpected argument: %s'' [k])
          else args_loop (args(k \<mapsto> v)) rawArgs
      | _ \<Rightarrow> Err (ErrorNew ''expected argument to be key/value format''))"

definition LoadConfig ::
  "Lib \<Rightarrow> error + 'k KubeClient \<Rightarrow> string list \<Rightarrow> ('a FsWorld_scheme, 'k Config) action" where
  "LoadConfig L client rawArgs w =
     and_thenS (args_loop default_args rawArgs, w) (\<lambda>args w.
     let arg = (\<lambda>k. the (args k)) in
     if arg ''address'' = [] then (Err (ErrorNew ''no bind address specified''), w)
     else if arg ''apiserver'' = [] then (Err (ErrorNew ''no apiserver address specified''), w)
     else if arg ''email-domain'' = [] then (Err (ErrorNew ''no email authentication domain specified''), w)
     else
       and_thenS (LoadX509FromPath L (arg ''upstream-ca'') w) (\<lambda>upstreamCA w.
       and_thenS (ReadFile (arg ''kube-ca'') w) (\<lambda>kubeCA w.
       and_thenS (LoadX509FromPath L (arg ''issuer-cert'') w) (\<lambda>issuerCert w.
       and_thenS (LoadRSAKeyFromPath L (arg ''issuer-key'') w) (\<lambda>issuerKey w.
       and_thenS (LoadX509KeyPair L (arg ''server-cert'') (arg ''server-key'') w) (\<lambda>serverTLS w.
       and_thenS (lift client, w) (\<lambda>kubeAPI w.
         (Ok \<lparr>Address = arg ''address'', ApiserverAddress = arg ''apiserver'', EmailAuthDomain = arg ''email-domain'',
              UpstreamCA = upstreamCA, KubeCA = kubeCA, IssuerCert = issuerCert, IssuerKey = issuerKey,
              ServerTLS = serverTLS, KubeAPI = kubeAPI\<rparr>, w))))))))"

section \<open>Authentication\<close>

lemma email_loop_Ok:
  assumes "email_loop suffix attrs = Ok user"
  shows "find (\<lambda>(t, _). t = OIDEmailAddress) attrs = Some (OIDEmailAddress, AttrString (user @ suffix))"
  using assms
proof (induction attrs)
  case (Cons attr attrs)
  obtain t v where attr: "attr = (t, v)" by force
  show ?case
  proof (cases "t = OIDEmailAddress")
    case True
    with Cons.prems attr obtain r where v: "v = AttrString r" and "HasSuffix r suffix" "user = take (length r - length suffix) r"
      by (auto simp: IsOIDEqual_eq split: attribute_value.splits if_splits)
    then have "r = user @ suffix" unfolding HasSuffix_def by (metis append_take_drop_id)
    with True attr v show ?thesis by simp
  next
    case False
    with Cons attr show ?thesis by (simp add: IsOIDEqual_eq)
  qed
qed simp

text \<open>The certificate that the connection was verified with, if there is one.\<close>

definition client_cert :: "http_Request \<Rightarrow> Certificate option" where
  "client_cert request = (case TLS request of Some ((cert # _) # _) \<Rightarrow> Some cert | _ \<Rightarrow> None)"

definition entitled_user :: "Lib \<Rightarrow> 'k Config \<Rightarrow> http_Request \<Rightarrow> int \<Rightarrow> string \<Rightarrow> bool" where
  "entitled_user L c request n user = (\<exists>cert chs. client_cert request = Some cert \<and>
     x509_Verify L n cert [UpstreamCA c] [ExtKeyUsageClientAuth] = (chs, None) \<and> chs \<noteq> [] \<and>
     find (\<lambda>(t, _). t = OIDEmailAddress) (Names cert) =
       Some (OIDEmailAddress, AttrString (user @ ''@'' @ EmailAuthDomain c)))"

lemma Authenticate_Ok:
  assumes "Authenticate L c request w = (Ok user, w')"
  shows "entitled_user L c request (now w) user \<and> w' = snd (time_Now w)"
  using assms email_loop_Ok
  by (fastforce simp: Authenticate_def entitled_user_def client_cert_def grant_GetClientCAs_def ExtractEmail_def time_Now_def
      now_def split: option.splits list.splits prod.splits if_splits)

lemma email_loop_no_panic [simp]: "\<not> is_panic (email_loop suffix attrs)"
  by (induction suffix attrs rule: email_loop.induct) (auto split: attribute_value.splits)

lemma Authenticate_no_panic: "\<not> is_panic (fst (Authenticate L c request w))"
  by (auto simp: Authenticate_def ExtractEmail_def split: option.splits list.splits prod.splits)

lemma Authenticate_Cluster: "Cluster (snd (Authenticate L c request w)) = Cluster w"
  by (auto simp: Authenticate_def time_Now_def split: option.splits list.splits prod.splits)

section \<open>The response\<close>

lemma validate_loop_Ok: "validate_loop ss = Ok u \<longleftrightarrow> (\<forall>s\<in>set ss. s \<noteq> [] \<and> list_all whitelisted s)"
  by (induction ss) (auto simp: validateCharset_def)

lemma validate_loop_no_panic [simp]: "\<not> is_panic (validate_loop ss)"
  by (induction ss) (auto simp: validateCharset_def)

lemma response_Validate_no_panic [simp]: "\<not> is_panic (response_Validate r)"
  unfolding response_Validate_def by (rule validate_loop_no_panic)

lemma base64_string_Nil [simp]: "base64_string [] = []"
  by (simp add: base64_string_def base64_Std_def bytes_of_string_def)

lemma Cluster_GenerateRSA: "Cluster (snd (GenerateRSA L n w)) = Cluster w"
  by (simp add: GenerateRSA_def draw_def split: option.splits)

lemma Cluster_CertGen: "Cluster (snd (CertGen L c key user w)) = Cluster w"
  by (simp add: CertGen_def FinishCertificate_world rand_Int_def draw_def time_Now_def split: option.splits)

text \<open>What the cluster is told for a user.\<close>

definition cluster_after :: "'k Config \<Rightarrow> string \<Rightarrow> 'k \<Rightarrow> 'k" where
  "cluster_after c user k = snd (RoleBindings_Create (KubeAPI c) (''user-'' @ user) (user_binding (''user-'' @ user) user)
     (snd (Namespaces_Create (KubeAPI c) (''user-'' @ user) k)))"

lemma grant_cluster_calls:
  assumes "CreateNamespace c (''user-'' @ user) w = (Ok u, w1)" and "GrantAccess c (''user-'' @ user) user w1 = (Ok v, w2)"
  shows "w2 = w\<lparr>Cluster := cluster_after c user (Cluster w)\<rparr>"
  using assms
  by (auto simp: CreateNamespace_def GrantAccess_def cluster_after_def HasPrefix_def split: prod.splits)

text \<open>
  C12: a page is sent only to a client whose certificate was verified under the upstream authority for
  client authentication and whose first email address is in the configured domain; the user is what
  stands before the domain. The cluster was then told exactly two things: to make the namespace of this
  user, and to make the user admin of it. The page holds, in whitelisted characters only, this namespace,
  a new key, and a certificate that the issuer made for this key, in the name of this user, with no
  organization, for client authentication only, not for an authority, and for 90 days.
\<close>

theorem grant_confined:
  assumes "grant_HandleRequest L c request w = (Ok page, w')"
  shows "\<exists>user key cert r t issueAt serial. entitled_user L c request (now w) user \<and>
    Cluster w' = cluster_after c user (Cluster w) \<and>
    t = (user_template issueAt user)\<lparr>CertSignatureAlgorithm := SHA256WithRSA, SerialNumber := serial\<rparr> \<and>
    CommonName t = ''user:'' @ user \<and> Organization t = [] \<and> \<not> IsCA t \<and> CertExtKeyUsage t = [ExtKeyUsageClientAuth] \<and>
    NotAfter t - NotBefore t = 90 * 24 * time_Hour \<and>
    x509_CreateCertificate L t (IssuerCert c) (RSA_PublicKey (N key)) (IssuerKey c) = Inr cert \<and>
    r = \<lparr>Namespace = ''user-'' @ user,
         KeyBase64 = base64_string (pem_EncodeToMemory L \<lparr>PEM_Type = ''RSA PRIVATE KEY'', PEM_Bytes = x509_MarshalPKCS1PrivateKey L key\<rparr>),
         CertBase64 = base64_string (pem_EncodeToMemory L \<lparr>PEM_Type = ''CERTIFICATE'', PEM_Bytes = cert\<rparr>),
         AuthorityBase64 = base64_string (KubeCA c), Server = ApiserverAddress c\<rparr> \<and>
    (\<forall>s\<in>{Namespace r, KeyBase64 r, CertBase64 r, AuthorityBase64 r, Server r}. s \<noteq> [] \<and> list_all whitelisted s) \<and>
    page = pageTemplate html_escape r"
proof -
  obtain user w1 w2 w3 key keyx w4 where auth: "Authenticate L c request w = (Ok user, w1)"
    and ns: "CreateNamespace c (''user-'' @ user) w1 = (Ok (), w2)" and rb: "GrantAccess c (''user-'' @ user) user w2 = (Ok (), w3)"
    and rsa: "GenerateRSA L 2048 w3 = (Ok (key, keyx), w4)"
    using assms by (auto simp: grant_HandleRequest_def and_thenS_Ok_iff Let_def)
  obtain gen w5 where "CertGen L c (RSA_PublicKey (N key)) user w4 = (gen, w5)" by fastforce
  moreover from this have "w5 = w'"
    using assms by (auto simp: grant_HandleRequest_def auth ns [simplified] rb [simplified] rsa Let_def and_thenS_Ok_iff)
  ultimately have gen: "CertGen L c (RSA_PublicKey (N key)) user w4 = (gen, w')" by simp
  define cert where "cert = (case gen of Ok cert \<Rightarrow> cert | _ \<Rightarrow> [])"
  define r where "r = \<lparr>Namespace = ''user-'' @ user, KeyBase64 = base64_string keyx, CertBase64 = base64_string cert,
    AuthorityBase64 = base64_string (KubeCA c), Server = ApiserverAddress c\<rparr>"
  have page: "response_Validate r = Ok ()" "page = pageTemplate html_escape r"
    using assms
    by (auto simp: grant_HandleRequest_def auth ns [simplified] rb [simplified] rsa gen Let_def and_thenS_Ok_iff cert_def r_def
        template_Execute_def)
  have valid: "\<forall>s\<in>{Namespace r, KeyBase64 r, CertBase64 r, AuthorityBase64 r, Server r}. s \<noteq> [] \<and> list_all whitelisted s"
    using page(1) unfolding response_Validate_def validate_loop_Ok by simp
  then have "cert \<noteq> []" by (auto simp: r_def)
  then have gen_ok: "gen = Ok cert" by (auto simp: cert_def split: result.splits)
  then obtain serial der where der: "x509_CreateCertificate L ((user_template (now w4) user)\<lparr>CertSignatureAlgorithm := SHA256WithRSA,
      SerialNumber := serial\<rparr>) (IssuerCert c) (RSA_PublicKey (N key)) (IssuerKey c) = Inr der"
    and cert: "cert = pem_EncodeToMemory L \<lparr>PEM_Type = ''CERTIFICATE'', PEM_Bytes = der\<rparr>"
    using gen FinishCertificate_Ok [of L "user_template (now w4) user" "IssuerCert c" "RSA_PublicKey (N key)" "IssuerKey c"
        "snd (time_Now w4)" cert w'] by (auto simp: CertGen_def time_Now_def now_def)
  have keyx: "keyx = pem_EncodeToMemory L \<lparr>PEM_Type = ''RSA PRIVATE KEY'', PEM_Bytes = x509_MarshalPKCS1PrivateKey L key\<rparr>"
    using rsa by (auto simp: GenerateRSA_def and_then_Ok_iff split: option.splits prod.splits)
  have "Cluster w' = Cluster w3"
    using Cluster_GenerateRSA [of L 2048 w3] Cluster_CertGen [of L c "RSA_PublicKey (N key)" user w4] rsa gen by simp
  then have "Cluster w' = cluster_after c user (Cluster w)"
    using grant_cluster_calls [OF ns rb] Authenticate_Cluster [of L c request w] auth by simp
  moreover have "entitled_user L c request (now w) user" using Authenticate_Ok [OF auth] by simp
  ultimately show ?thesis
    using der page(2) valid
    by (intro exI [of _ user] exI [of _ key] exI [of _ der] exI [of _ r] exI [of _ "(user_template (now w4) user)
        \<lparr>CertSignatureAlgorithm := SHA256WithRSA, SerialNumber := serial\<rparr>"] exI [of _ "now w4"] exI [of _ serial])
      (auto simp: r_def keyx cert user_template_def zero_Certificate_def CertificateLifespan_def)
qed

section \<open>The page\<close>

definition fields :: "response \<Rightarrow> string list" where
  "fields r = [Namespace r, KeyBase64 r, CertBase64 r, AuthorityBase64 r, Server r]"

lemma html_escape_char_whitelisted:
  assumes "whitelisted c"
  shows "html_escape_char c = (if c = CHR ''+'' then ''&#43;'' else [c])"
  using assms by (auto simp: html_escape_char_def whitelisted_def)

lemma html_escape_whitelisted:
  assumes "list_all whitelisted s"
  shows "CHR ''+'' \<notin> set s \<Longrightarrow> html_escape s = s" and "length s \<le> length (html_escape s)"
    and "CHR ''+'' \<in> set s \<Longrightarrow> length s < length (html_escape s)"
  using assms by (induction s) (auto simp: html_escape_def html_escape_char_whitelisted)

text \<open>Text in ASCII without the characters \<open>>\<close> and \<open>~\<close>, which PEM is.\<close>

definition plain_text :: "string \<Rightarrow> bool" where
  "plain_text s = list_all (\<lambda>c. of_char c < (128 :: nat) \<and> c \<noteq> CHR ''>'' \<and> c \<noteq> CHR ''~'') s"

lemma base64_char_plus: "n < 64 \<Longrightarrow> base64_char n = CHR ''+'' \<longleftrightarrow> n = 62"
proof -
  have "list_all (\<lambda>n. base64_char n = CHR ''+'' \<longleftrightarrow> n = 62) [0..<64]" by code_simp
  then show "n < 64 \<Longrightarrow> base64_char n = CHR ''+'' \<longleftrightarrow> n = 62" by (simp add: list_all_iff)
qed

lemma ascii_sextets:
  fixes a b c :: nat
  assumes "a < 128" "b < 128" "c < 128"
  shows "base64_char (a div 4) \<noteq> CHR ''+''" "base64_char (a mod 4 * 16 + b div 16) \<noteq> CHR ''+''"
    "base64_char (b mod 16 * 4 + c div 64) \<noteq> CHR ''+''"
    "base64_char (a mod 4 * 16) \<noteq> CHR ''+''" "base64_char (b mod 16 * 4) \<noteq> CHR ''+''"
proof -
  have lin: "x < 4 \<Longrightarrow> y < 8 \<Longrightarrow> x * 16 + y < 64 \<and> x * 16 + y \<noteq> 62" "z < 16 \<Longrightarrow> t < 2 \<Longrightarrow> z * 4 + t < 64 \<and> z * 4 + t \<noteq> 62"
    for x y z t :: nat by presburger+
  have "a div 4 < 32" "b div 16 < 8" "c div 64 < 2" using assms by auto
  then show "base64_char (a div 4) \<noteq> CHR ''+''" "base64_char (a mod 4 * 16 + b div 16) \<noteq> CHR ''+''"
    "base64_char (b mod 16 * 4 + c div 64) \<noteq> CHR ''+''"
    using lin(1) [of "a mod 4" "b div 16"] lin(2) [of "b mod 16" "c div 64"] by (simp_all add: base64_char_plus)
  show "base64_char (a mod 4 * 16) \<noteq> CHR ''+''" "base64_char (b mod 16 * 4) \<noteq> CHR ''+''"
    using lin(1) [of "a mod 4" 0] lin(2) [of "b mod 16" 0] by (simp_all add: base64_char_plus)
qed

lemma base64_no_plus:
  assumes "\<forall>b\<in>set bs. b < 128 \<and> b mod 64 \<noteq> 62"
  shows "CHR ''+'' \<notin> set (base64_RawStd bs)"
  using assms
proof (induction bs rule: base64_RawStd.induct)
  case (1 a b c bs)
  then have lt: "a < 128" "b < 128" "c < 128" and c: "c mod 64 \<noteq> 62" by auto
  then have "base64_char (c mod 64) \<noteq> CHR ''+''" by (simp add: base64_char_plus)
  with 1 ascii_sextets [OF lt] show ?case by auto
next
  case (2 a b)
  then show ?case using ascii_sextets [of a b 0] by auto
next
  case (3 a)
  then show ?case using ascii_sextets [of a 0 0] by auto
qed simp

lemma mod_64_62:
  fixes b :: nat
  assumes "b < 128" and "b mod 64 = 62"
  shows "b = 62 \<or> b = 126"
proof (cases "b < 64")
  case False
  then have "b mod 64 = b - 64" using assms(1) by (simp add: le_mod_geq)
  then show ?thesis using assms(2) by (simp only: disj_imp) linarith
qed (use assms in simp)

lemma base64_string_no_plus: "plain_text s \<Longrightarrow> CHR ''+'' \<notin> set (base64_string s)"
proof -
  assume s: "plain_text s"
  have "b < 128 \<and> b mod 64 \<noteq> 62" if b: "b \<in> set (bytes_of_string s)" for b
  proof -
    obtain c where c: "c \<in> set s" "b = of_char c" using b by (auto simp: bytes_of_string_def)
    with s have c': "of_char c < (128 :: nat)" "c \<noteq> CHR ''>''" "c \<noteq> CHR ''~''"
      by (auto simp: plain_text_def list_all_iff)
    have "of_char (CHR ''>'') = (62 :: nat)" "of_char (CHR ''~'') = (126 :: nat)" by simp_all
    with c'(2,3) have "of_char c \<noteq> (62 :: nat)" "of_char c \<noteq> (126 :: nat)" by (metis of_char_eq_iff)+
    then have n: "b < 128" "b \<noteq> 62" "b \<noteq> 126" using c(2) c'(1) by simp_all
    then show ?thesis using mod_64_62 by blast
  qed
  then have "CHR ''+'' \<notin> set (base64_RawStd (bytes_of_string s))" by (intro base64_no_plus) blast
  then show ?thesis by (auto simp: base64_string_def base64_Std_def)
qed

lemma sum_list_less:
  fixes f g :: "'a \<Rightarrow> nat"
  assumes "\<And>x. x \<in> set xs \<Longrightarrow> f x \<le> g x" and "s \<in> set xs" and "f s < g s"
  shows "sum_list (map f xs) < sum_list (map g xs)"
  using assms
proof (induction xs)
  case (Cons x xs)
  have le: "f x \<le> g x" "sum_list (map f xs) \<le> sum_list (map g xs)" using Cons.prems(1) by (auto intro: sum_list_mono)
  show ?case
  proof (cases "s = x")
    case False
    with Cons have "sum_list (map f xs) < sum_list (map g xs)" by auto
    with le show ?thesis by simp
  qed (use le Cons.prems(3) in simp)
qed simp

text \<open>
  C13: the fields of a validated response reach the page as they are exactly if none of them has a plus
  sign, which \<open>html/template\<close> escapes although the page is no HTML. The encoding of text that is ASCII
  without the characters \<open>>\<close> and \<open>~\<close>, such as PEM, never has one, so certificates and keys arrive intact.
\<close>

theorem grant_page_verbatim:
  assumes "response_Validate r = Ok ()"
  shows "(template_Execute r = pageTemplate id r \<longleftrightarrow> (\<forall>s\<in>set (fields r). CHR ''+'' \<notin> set s)) \<and>
    (\<forall>key cert ca. KeyBase64 r = base64_string key \<and> CertBase64 r = base64_string cert \<and> AuthorityBase64 r = base64_string ca \<and>
       plain_text key \<and> plain_text cert \<and> plain_text ca \<and> CHR ''+'' \<notin> set (Namespace r @ Server r) \<longrightarrow>
       template_Execute r = pageTemplate id r)"
proof -
  have v: "\<forall>s\<in>set (fields r). list_all whitelisted s"
    using assms unfolding response_Validate_def validate_loop_Ok fields_def by simp
  have len: "length (pageTemplate f r) = length (pageTemplate (\<lambda>_. []) r) + sum_list (map (length \<circ> f) (fields r))" for f
    by (simp add: pageTemplate_def text_lines_def fields_def)
  have iff: "template_Execute r = pageTemplate id r \<longleftrightarrow> (\<forall>s\<in>set (fields r). CHR ''+'' \<notin> set s)"
  proof
    assume "\<forall>s\<in>set (fields r). CHR ''+'' \<notin> set s"
    then show "template_Execute r = pageTemplate id r"
      using v by (simp add: template_Execute_def pageTemplate_def fields_def html_escape_whitelisted(1))
  next
    assume eq: "template_Execute r = pageTemplate id r"
    show "\<forall>s\<in>set (fields r). CHR ''+'' \<notin> set s"
    proof (rule ccontr)
      assume "\<not> (\<forall>s\<in>set (fields r). CHR ''+'' \<notin> set s)"
      then obtain s where s: "s \<in> set (fields r)" "CHR ''+'' \<in> set s" by blast
      have "sum_list (map length (fields r)) < sum_list (map (length \<circ> html_escape) (fields r))"
        using v s html_escape_whitelisted(2,3) by (intro sum_list_less [OF _ s(1)]) auto
      with eq len [of html_escape] len [of id] show False by (simp add: template_Execute_def)
    qed
  qed
  then show ?thesis using base64_string_no_plus by (auto simp: fields_def)
qed

section \<open>Failures\<close>

definition foreign :: "kube_error option \<Rightarrow> bool" where
  "foreign err = (case err of Some (OtherError _) \<Rightarrow> True | _ \<Rightarrow> False)"

lemma tolerate_existing_panic [simp]: "is_panic (tolerate_existing msg err) \<longleftrightarrow> foreign err"
  by (simp add: tolerate_existing_def foreign_def split: option.splits kube_error.splits)

lemma CreateNamespace_user:
  "CreateNamespace c (''user-'' @ user) w =
     (tolerate_existing (''while creating namespace '' @ ''user-'' @ user) (fst (Namespaces_Create (KubeAPI c) (''user-'' @ user) (Cluster w))),
      w\<lparr>Cluster := snd (Namespaces_Create (KubeAPI c) (''user-'' @ user) (Cluster w))\<rparr>)"
  by (simp add: CreateNamespace_def HasPrefix_def case_prod_beta)

lemma GrantAccess_panic:
  "is_panic (fst (GrantAccess c namespace user w)) \<longleftrightarrow>
     foreign (fst (RoleBindings_Create (KubeAPI c) namespace (user_binding namespace user) (Cluster w)))"
  by (simp add: GrantAccess_def case_prod_beta)

lemma page_no_panic:
  "\<not> is_panic (fst (and_thenS (GenerateRSA L n w) (\<lambda>(key, keyx) w.
     case CertGen L c (RSA_PublicKey (N key)) user w of (gen, w) \<Rightarrow>
       and_thenS (response_Validate (resp key keyx gen), w) (\<lambda>_ w. (Ok (template_Execute (resp key keyx gen)), w)))))"
proof -
  have "\<not> is_panic (fst (GenerateRSA L n w))" by (simp add: GenerateRSA_def draw_def is_panic_and_then split: option.splits)
  then show ?thesis
    by (intro no_panic_and_thenS) (auto simp: is_panic_and_thenS split: prod.splits)
qed

text \<open>
  C14: the service panics on a request exactly if the client is authenticated and one of the two calls of
  the Kubernetes API fails with an error that is no \<open>StatusError\<close>, for example because the connection
  fails: the type assertion on the error is unchecked. No other failure panics.
\<close>

theorem grant_panics_iff:
  "is_panic (fst (grant_HandleRequest L c request w)) \<longleftrightarrow>
     (\<exists>user w1 err k. Authenticate L c request w = (Ok user, w1) \<and>
        Namespaces_Create (KubeAPI c) (''user-'' @ user) (Cluster w) = (err, k) \<and>
        (foreign err \<or> is_ok (tolerate_existing [] err) \<and>
           foreign (fst (RoleBindings_Create (KubeAPI c) (''user-'' @ user) (user_binding (''user-'' @ user) user) k))))"
proof (cases "Authenticate L c request w")
  case (Pair r w1)
  show ?thesis
  proof (cases r)
    case (Ok user)
    obtain err k where ns: "Namespaces_Create (KubeAPI c) (''user-'' @ user) (Cluster w) = (err, k)" by fastforce
    have cl: "Cluster w1 = Cluster w" using Authenticate_Cluster [of L c request w] Pair by simp
    define resp where "resp = (\<lambda>(key :: rsa_PrivateKey) keyx gen. \<lparr>Namespace = ''user-'' @ user, KeyBase64 = base64_string keyx,
      CertBase64 = base64_string (case gen of Ok cert \<Rightarrow> cert | _ \<Rightarrow> []), AuthorityBase64 = base64_string (KubeCA c),
      Server = ApiserverAddress c\<rparr>)"
    define rest where "rest = (\<lambda>w :: 'a GrantWorld. and_thenS (GenerateRSA L 2048 w) (\<lambda>(key, keyx) w.
      case CertGen L c (RSA_PublicKey (N key)) user w of (gen, w) \<Rightarrow>
        and_thenS (response_Validate (resp key keyx gen), w) (\<lambda>_ w. (Ok (template_Execute (resp key keyx gen)), w))))"
    define n where "n = ''user-'' @ user"
    define m where "m = ''while creating namespace '' @ n"
    have rest: "\<not> is_panic (fst (rest v))" for v unfolding rest_def by (rule page_no_panic)
    have "grant_HandleRequest L c request w =
        and_thenS (CreateNamespace c n w1) (\<lambda>_ w. and_thenS (GrantAccess c n user w) (\<lambda>_ w. rest w))"
      by (simp add: grant_HandleRequest_def Pair Ok Let_def resp_def rest_def n_def)
    also have "CreateNamespace c n w1 = (tolerate_existing m err, w1\<lparr>Cluster := k\<rparr>)"
      unfolding n_def m_def using CreateNamespace_user [of c user w1] by (simp only: cl ns fst_conv snd_conv)
    finally have "is_panic (fst (grant_HandleRequest L c request w)) \<longleftrightarrow> foreign err \<or> tolerate_existing m err = Ok () \<and>
        foreign (fst (RoleBindings_Create (KubeAPI c) n (user_binding n user) k))"
      using rest by (simp add: is_panic_and_thenS GrantAccess_panic)
    moreover have "tolerate_existing m err = Ok () \<longleftrightarrow> is_ok (tolerate_existing [] err)"
      by (simp add: tolerate_existing_def split: option.splits kube_error.splits)
    ultimately have "is_panic (fst (grant_HandleRequest L c request w)) \<longleftrightarrow> foreign err \<or> is_ok (tolerate_existing [] err) \<and>
        foreign (fst (RoleBindings_Create (KubeAPI c) (''user-'' @ user) (user_binding (''user-'' @ user) user) k))"
      by (simp only: n_def)
    with Pair Ok ns show ?thesis by auto
  next
    case (Panic m)
    with Authenticate_no_panic [of L c request w] Pair show ?thesis by simp
  qed (simp add: grant_HandleRequest_def Pair)
qed

section \<open>Evaluation on a concrete request\<close>

lemma whitelisted_base64: "list_all whitelisted (base64_string s)"
proof -
  have "n < 26 \<Longrightarrow> whitelisted (char_of (65 + n))" "26 \<le> n \<Longrightarrow> n < 52 \<Longrightarrow> whitelisted (char_of (71 + n))"
    "52 \<le> n \<Longrightarrow> n < 62 \<Longrightarrow> whitelisted (char_of (n - 4))" for n :: nat
    by (simp_all add: whitelisted_def Let_def) linarith
  moreover have "whitelisted (CHR ''/'')" "whitelisted (CHR ''+'')" by (simp_all add: whitelisted_def)
  ultimately have c: "whitelisted (base64_char n)" for n by (simp add: base64_char_def)
  have "list_all whitelisted (base64_RawStd bs)" for bs by (induction bs rule: base64_RawStd.induct) (simp_all add: c)
  moreover have "whitelisted (CHR ''='')" by (simp add: whitelisted_def)
  ultimately show ?thesis by (auto simp: base64_string_def base64_Std_def list_all_iff)
qed

lemma base64_string_not_Nil: "s \<noteq> [] \<Longrightarrow> base64_string s \<noteq> []"
proof -
  have "bs \<noteq> [] \<Longrightarrow> base64_RawStd bs \<noteq> []" for bs by (cases bs rule: base64_RawStd.cases) simp_all
  then show "s \<noteq> [] \<Longrightarrow> base64_string s \<noteq> []" by (simp add: base64_string_def base64_Std_def bytes_of_string_def)
qed

definition demo_kube :: "string list KubeClient" where
  "demo_kube = \<lparr>Namespaces_Create = (\<lambda>n k. (None, n # k)),
     RoleBindings_Create = (\<lambda>n rb k. (Some (StatusError StatusReasonAlreadyExists), rbName rb # k))\<rparr>"

definition demo_grant_config :: "string list Config" where
  "demo_grant_config = \<lparr>Address = '':443'', ApiserverAddress = ''kube.example'', EmailAuthDomain = ''EXAMPLE'',
     UpstreamCA = zero_Certificate, KubeCA = ''ca'', IssuerCert = zero_Certificate, IssuerKey = demo_key,
     ServerTLS = \<lparr>Chain = [], ChainKey = RSA_Key demo_key, Leaf = None\<rparr>, KubeAPI = demo_kube\<rparr>"

definition demo_user_cert :: Certificate where
  "demo_user_cert = zero_Certificate\<lparr>Names := [([2, 5, 4, 3], AttrString ''Alice''), (OIDEmailAddress, AttrString ''alice@EXAMPLE'')]\<rparr>"

definition demo_grant_request :: http_Request where
  "demo_grant_request = \<lparr>Header = (\<lambda>_. []), TLS = Some [[demo_user_cert]], RemoteAddr = [], URLPath = ''/'', ReqBody = Inr []\<rparr>"

definition demo_grant_world :: "string list GrantWorld" where
  "demo_grant_world = \<lparr>Clock = int, Ticks = 0, Entropy = Some, Draws = 0, FS = Map.empty, Faults = (\<lambda>_. None), Syscalls = 0,
     Cluster = []\<rparr>"

lemma demo_grant_run: "\<exists>page w'. grant_HandleRequest demo_Lib demo_grant_config demo_grant_request demo_grant_world = (Ok page, w')"
proof -
  have oid: "IsOIDEqual OIDEmailAddress OIDEmailAddress" "\<not> IsOIDEqual [2, 5, 4, 3] OIDEmailAddress"
    by (simp_all add: IsOIDEqual_eq OIDEmailAddress_def)
  have auth: "Authenticate demo_Lib demo_grant_config demo_grant_request demo_grant_world = (Ok ''alice'', snd (time_Now demo_grant_world))"
    using oid by (simp add: Authenticate_def demo_grant_request_def demo_grant_config_def demo_Lib_def ExtractEmail_def
        demo_user_cert_def time_Now_def HasSuffix_def)
  define w1 where "w1 = (snd (time_Now demo_grant_world))\<lparr>Cluster := [''auto-grant-alice'', ''user-alice'']\<rparr>"
  have ns: "CreateNamespace demo_grant_config ''user-alice'' (snd (time_Now demo_grant_world)) =
      (Ok (), (snd (time_Now demo_grant_world))\<lparr>Cluster := [''user-alice'']\<rparr>)"
    by (simp add: CreateNamespace_def HasPrefix_def demo_grant_config_def demo_kube_def tolerate_existing_def
        demo_grant_world_def time_Now_def)
  have rb: "GrantAccess demo_grant_config ''user-alice'' ''alice'' ((snd (time_Now demo_grant_world))\<lparr>Cluster := [''user-alice'']\<rparr>) = (Ok (), w1)"
    by (simp add: GrantAccess_def demo_grant_config_def demo_kube_def tolerate_existing_def user_binding_def w1_def)
  obtain key keyx w2 where rsa: "GenerateRSA demo_Lib 2048 w1 = (Ok (key, keyx), w2)" "keyx \<noteq> []" "Entropy w2 = Some"
    by (simp add: GenerateRSA_def draw_def w1_def demo_grant_world_def time_Now_def demo_Lib_def demo_pem_Encode_def)
  then obtain cert w3 where gen: "CertGen demo_Lib demo_grant_config (RSA_PublicKey (N key)) ''alice'' w2 = (Ok cert, w3)" "cert \<noteq> []"
    by (simp add: CertGen_def FinishCertificate_def rand_Int_def draw_def time_Now_def demo_Lib_def demo_pem_Encode_def)
  have "base64_string ''ca'' \<noteq> []" by (rule base64_string_not_Nil) simp
  then have "response_Validate \<lparr>Namespace = ''user-alice'', KeyBase64 = base64_string keyx, CertBase64 = base64_string cert,
      AuthorityBase64 = base64_string ''ca'', Server = ''kube.example''\<rparr> = Ok ()"
    using rsa(2) gen(2) base64_string_not_Nil whitelisted_base64
    unfolding response_Validate_def validate_loop_Ok by (simp add: whitelisted_def)
  then show ?thesis
    by (simp add: grant_HandleRequest_def auth ns rb rsa(1) gen(1) demo_grant_config_def [THEN arg_cong [of _ _ KubeCA]]
        demo_grant_config_def [THEN arg_cong [of _ _ ApiserverAddress]])
qed

theorem grant_confined_witness:
  "\<exists>page w'. grant_HandleRequest demo_Lib demo_grant_config demo_grant_request demo_grant_world = (Ok page, w') \<and>
     Cluster w' = [''auto-grant-alice'', ''user-alice'']"
proof -
  obtain page w' where run: "grant_HandleRequest demo_Lib demo_grant_config demo_grant_request demo_grant_world = (Ok page, w')"
    using demo_grant_run by blast
  from grant_confined [OF run] obtain user where
    user: "entitled_user demo_Lib demo_grant_config demo_grant_request (now demo_grant_world) user"
      "Cluster w' = cluster_after demo_grant_config user (Cluster demo_grant_world)" by blast
  have "user = ''alice''"
    using user(1) by (auto simp: entitled_user_def client_cert_def demo_grant_request_def demo_user_cert_def OIDEmailAddress_def
        demo_grant_config_def append_eq_Cons_conv)
  with user(2) run show ?thesis
    by (auto simp: cluster_after_def demo_grant_config_def demo_kube_def demo_grant_world_def user_binding_def)
qed

definition demo_response :: response where
  "demo_response = \<lparr>Namespace = ''user-alice'', KeyBase64 = base64_string ''key'', CertBase64 = base64_string ''cert'',
     AuthorityBase64 = base64_string ''ca'', Server = ''kube.example''\<rparr>"

theorem grant_page_verbatim_witness: "template_Execute demo_response = pageTemplate id demo_response"
proof -
  have "response_Validate demo_response = Ok ()"
    using base64_string_not_Nil whitelisted_base64
    unfolding response_Validate_def validate_loop_Ok by (simp add: demo_response_def whitelisted_def)
  from grant_page_verbatim [OF this] show ?thesis by (simp add: demo_response_def plain_text_def)
qed

end
