(* ===== verification/Key_Req.thy ===== *)
theory Key_Req
  imports Client_Api
begin

text \<open>
  \<open>keyreq/keyreq.go\<close>: the command with which an administrator, who has Kerberos tickets, gets certificates and bootstrap
  tokens through the gateway. The result of the program is its exit code. \<open>or_exit\<close> is the idiom
  \<open>if err != nil { logger.Print(err); os.Exit(code) }\<close>; a panic would end a Go program with the code 2.
\<close>

section \<open>keyreq.go\<close>

abbreviation ERR_UNKNOWN_FAILURE :: nat where "ERR_UNKNOWN_FAILURE \<equiv> 1"
abbreviation ERR_CANNOT_ESTABLISH_CONNECTION :: nat where "ERR_CANNOT_ESTABLISH_CONNECTION \<equiv> 2"
abbreviation ERR_NO_ACCESS :: nat where "ERR_NO_ACCESS \<equiv> 3"
abbreviation ERR_INVALID_CONFIG :: nat where "ERR_INVALID_CONFIG \<equiv> 254"
abbreviation ERR_INVALID_INVOCATION :: nat where "ERR_INVALID_INVOCATION \<equiv> 255"

record 'p KeyreqWorld = FsWorld +
  KrPeer :: 'p
  KrStdout :: string

type_synonym 'w program = "'w \<Rightarrow> nat \<times> 'w"

fun or_exit :: "nat \<Rightarrow> 'b result \<times> 'w \<Rightarrow> ('b \<Rightarrow> 'w program) \<Rightarrow> nat \<times> 'w" where
  "or_exit code (Ok x, w) k = k x w"
| "or_exit code (Err e, w) k = (code, w)"
| "or_exit code (Panic p, w) k = (2, w)"

definition with_peer :: "('p, 'b) action \<Rightarrow> ('p KeyreqWorld, 'b) action" where
  "with_peer f w = (case f (KrPeer w) of (r, p) \<Rightarrow> (r, w\<lparr>KrPeer := p\<rparr>))"

definition get_keyserver :: "Lib \<Rightarrow> string \<Rightarrow> string \<Rightarrow> (Keyserver \<Rightarrow> 'p KeyreqWorld program) \<Rightarrow> 'p KeyreqWorld program" where
  "get_keyserver L authority_path keyserver_domain k w =
     or_exit ERR_INVALID_INVOCATION (ReadFile authority_path w) (\<lambda>authoritydata w.
     or_exit ERR_INVALID_CONFIG (NewKeyserver L authoritydata keyserver_domain, w) k)"

definition auth_kerberos ::
  "Lib \<Rightarrow> 'p Net \<Rightarrow> string \<Rightarrow> string \<Rightarrow> (Keyserver \<times> 'p Target \<Rightarrow> 'p KeyreqWorld program) \<Rightarrow> 'p KeyreqWorld program" where
  "auth_kerberos L net authority_path keyserver_domain k w =
     get_keyserver L authority_path keyserver_domain (\<lambda>ks w.
     or_exit ERR_INVALID_INVOCATION (AuthenticateWithKerberosTickets L net ks, w) (\<lambda>rt w.
     or_exit ERR_CANNOT_ESTABLISH_CONNECTION (with_peer (rt []) w) (\<lambda>_ w. k (ks, rt) w))) w"

definition keyreq_ssh_cert :: "Lib \<Rightarrow> 'p Net \<Rightarrow> string list \<Rightarrow> 'p KeyreqWorld program" where
  "keyreq_ssh_cert L net args w =
     (if length args < 6 then (ERR_INVALID_INVOCATION, w)
      else auth_kerberos L net (args ! 2) (args ! 3) (\<lambda>(_, rt) w.
        or_exit ERR_UNKNOWN_FAILURE (GenerateRSA L 2048 w) (\<lambda>(pkey, privkey) w.
        or_exit ERR_UNKNOWN_FAILURE (lift (ssh_NewPublicKey L (RSA_PublicKey (N pkey))), w) (\<lambda>pubkey_tmp w.
        let pubkey = ssh_MarshalAuthorizedKey L pubkey_tmp in
        or_exit ERR_NO_ACCESS (with_peer (SendRequest rt AccessSSHAPI pubkey) w) (\<lambda>req w.
        if req = [] then (ERR_UNKNOWN_FAILURE, w)
        else
          or_exit 1 (WriteFile (args ! 4) privkey 0x180 w) (\<lambda>_ w.
          or_exit 1 (WriteFile (args ! 4 @ ''.pub'') pubkey 0x1A4 w) (\<lambda>_ w.
          or_exit ERR_UNKNOWN_FAILURE (WriteFile (args ! 5) req 0x1A4 w) (\<lambda>_ w. (0, w)))))))) w)"

text \<open>\<open>kube-cert\<close> and \<open>etcd-cert\<close> are the same code with another API and another authority.\<close>

definition keyreq_tls_cert :: "Lib \<Rightarrow> 'p Net \<Rightarrow> string \<Rightarrow> string \<Rightarrow> string list \<Rightarrow> 'p KeyreqWorld program" where
  "keyreq_tls_cert L net api authority args w =
     (if length args < 7 then (ERR_INVALID_INVOCATION, w)
      else auth_kerberos L net (args ! 2) (args ! 3) (\<lambda>(ks, rt) w.
        or_exit ERR_UNKNOWN_FAILURE (GenerateRSA L 2048 w) (\<lambda>(_, privkey) w.
        or_exit ERR_UNKNOWN_FAILURE (BuildTLSCSR L privkey, w) (\<lambda>csr w.
        or_exit ERR_NO_ACCESS (with_peer (SendRequest rt api csr) w) (\<lambda>req w.
        if req = [] then (ERR_UNKNOWN_FAILURE, w)
        else
          or_exit ERR_INVALID_INVOCATION (WriteFile (args ! 4) privkey 0x180 w) (\<lambda>_ w.
          or_exit ERR_INVALID_INVOCATION (WriteFile (args ! 5) req 0x1A4 w) (\<lambda>_ w.
          or_exit ERR_CANNOT_ESTABLISH_CONNECTION (with_peer (GetPubkey net ks authority) w) (\<lambda>ca w.
          or_exit ERR_INVALID_INVOCATION (WriteFile (args ! 6) ca 0x1A4 w) (\<lambda>_ w. (0, w))))))))) w)"

definition keyreq_kube_cert :: "Lib \<Rightarrow> 'p Net \<Rightarrow> string list \<Rightarrow> 'p KeyreqWorld program" where
  "keyreq_kube_cert L net = keyreq_tls_cert L net AccessKubernetesAPI KubernetesAuthority"

definition keyreq_etcd_cert :: "Lib \<Rightarrow> 'p Net \<Rightarrow> string list \<Rightarrow> 'p KeyreqWorld program" where
  "keyreq_etcd_cert L net = keyreq_tls_cert L net AccessEtcdAPI EtcdServerAuthority"

definition keyreq_bootstrap_token :: "Lib \<Rightarrow> 'p Net \<Rightarrow> string list \<Rightarrow> 'p KeyreqWorld program" where
  "keyreq_bootstrap_token L net args w =
     (if length args < 5 then (ERR_INVALID_INVOCATION, w)
      else auth_kerberos L net (args ! 2) (args ! 3) (\<lambda>(_, rt) w.
        or_exit ERR_NO_ACCESS (with_peer (SendRequest rt ''bootstrap'' (args ! 4)) w) (\<lambda>token w.
          (0, w\<lparr>KrStdout := KrStdout w @ token @ [CHR 0x0A]\<rparr>))) w)"

text \<open>\<open>main\<close>, on \<open>os.Args\<close>.\<close>

definition keyreq_main :: "Lib \<Rightarrow> 'p Net \<Rightarrow> string list \<Rightarrow> 'p KeyreqWorld program" where
  "keyreq_main L net args w =
     (if length args < 2 then (ERR_INVALID_INVOCATION, w)
      else if args ! 1 = ''check'' then
        (if length args < 4 then (ERR_INVALID_INVOCATION, w)
         else auth_kerberos L net (args ! 2) (args ! 3) (\<lambda>_ w. (0, w)) w)
      else if args ! 1 = ''ssh-cert'' then keyreq_ssh_cert L net args w
      else if args ! 1 = ''kube-cert'' then keyreq_kube_cert L net args w
      else if args ! 1 = ''etcd-cert'' then keyreq_etcd_cert L net args w
      else if args ! 1 = ''bootstrap-token'' then keyreq_bootstrap_token L net args w
      else (ERR_INVALID_INVOCATION, w))"

section \<open>What the command writes\<close>

lemma or_exit_rule:
  assumes "\<And>e v. rs = (Err e, v) \<Longrightarrow> P (code, v)" and "\<And>p v. rs = (Panic p, v) \<Longrightarrow> P (2, v)" and "\<And>x v. rs = (Ok x, v) \<Longrightarrow> P (k x v)"
  shows "P (or_exit code rs k)"
  using assms by (cases rs; cases "fst rs") auto

text \<open>The answer of the gateway to a request for one of the certificates, sent with the Kerberos tickets of the user.\<close>

definition granted :: "Lib \<Rightarrow> 'p Net \<Rightarrow> string \<Rightarrow> bool" where
  "granted L net reply \<longleftrightarrow> reply \<noteq> [] \<and> (\<exists>host api body p p'. api \<in> {AccessSSHAPI, AccessKubernetesAPI, AccessEtcdAPI} \<and>
     SendRequest (knc_SendRequests L net \<lparr>KncHostname = host, KerberosTicketCache = []\<rparr>) api body p = (Ok reply, p'))"

definition same_except :: "string set \<Rightarrow> 'p KeyreqWorld \<Rightarrow> 'p KeyreqWorld \<Rightarrow> bool" where
  "same_except outs w v \<longleftrightarrow> (\<forall>p. p \<notin> outs \<longrightarrow> FS v p = FS w p)"

definition effect :: "Lib \<Rightarrow> 'p Net \<Rightarrow> string set \<Rightarrow> 'p KeyreqWorld \<Rightarrow> nat \<times> 'p KeyreqWorld \<Rightarrow> bool" where
  "effect L net outs w cw \<longleftrightarrow> fst cw \<in> {0, 1, 2, 3, 254, 255} \<and> same_except outs w (snd cw) \<and>
     (FS (snd cw) \<noteq> FS w \<longrightarrow> fst cw \<notin> {3, 254} \<and> (\<exists>reply. granted L net reply))"

lemma effect_same: "FS v = FS w \<Longrightarrow> code \<in> {0, 1, 2, 3, 254, 255} \<Longrightarrow> effect L net outs w (code, v)"
  by (simp add: effect_def same_except_def)

lemma effect_changed:
  "same_except outs w v \<Longrightarrow> granted L net reply \<Longrightarrow> code \<in> {0, 1, 2, 255} \<Longrightarrow> effect L net outs w (code, v)"
  by (auto simp: effect_def)

lemma with_peer_FS: "with_peer f v = (r, v') \<Longrightarrow> FS v' = FS v"
  by (auto simp: with_peer_def split: prod.splits)

lemma GenerateRSA_keeps_FS: "GenerateRSA L n v = (r, v') \<Longrightarrow> FS v' = FS v"
  for v v' :: "'p KeyreqWorld"
  by (auto simp: GenerateRSA_def draw_def split: option.splits)

text \<open>Steps before a certificate is granted leave all files alone; so do those that talk to the server afterwards.\<close>

lemma exit_effect:
  assumes "FS v = FS w" and "code \<in> {0, 1, 2, 3, 254, 255}" and "\<And>r v'. f v = (r, v') \<Longrightarrow> FS v' = FS v"
    and "\<And>x v'. f v = (Ok x, v') \<Longrightarrow> FS v' = FS w \<Longrightarrow> effect L net outs w (k x v')"
  shows "effect L net outs w (or_exit code (f v) k)"
  using assms by (cases "f v"; cases "fst (f v)") (auto intro!: effect_same)

lemma exit_effect_pure:
  assumes "FS v = FS w" and "code \<in> {0, 1, 2, 3, 254, 255}" and "\<And>x. r = Ok x \<Longrightarrow> effect L net outs w (k x v)"
  shows "effect L net outs w (or_exit code (r, v) k)"
  using assms by (cases r) (auto intro!: effect_same)

lemma changed_effect:
  assumes "same_except outs w v" and "granted L net reply" and "code \<in> {0, 1, 2, 255}"
    and "\<And>r v'. f v = (r, v') \<Longrightarrow> same_except outs v v'"
    and "\<And>x v'. f v = (Ok x, v') \<Longrightarrow> same_except outs w v' \<Longrightarrow> effect L net outs w (k x v')"
  shows "effect L net outs w (or_exit code (f v) k)"
proof -
  have "same_except outs w v'" if "f v = (r, v')" for r v' using assms(1) assms(4) [OF that] by (simp add: same_except_def)
  with assms(2,3,5) show ?thesis by (cases "f v"; cases "fst (f v)") (auto intro: effect_changed)
qed

lemma WriteFile_same: "q \<in> outs \<Longrightarrow> WriteFile q data m v = (r, v') \<Longrightarrow> same_except outs v v'"
  using WriteFile_elsewhere [of _ q data m v] unfolding same_except_def by (metis snd_conv)

lemma with_peer_same: "with_peer f v = (r, v') \<Longrightarrow> same_except outs v v'"
  by (simp add: same_except_def with_peer_FS)

abbreviation tickets :: "Lib \<Rightarrow> 'p Net \<Rightarrow> string \<Rightarrow> 'p Target" where
  "tickets L net host \<equiv> knc_SendRequests L net \<lparr>KncHostname = host, KerberosTicketCache = []\<rparr>"

lemma auth_kerberos_effect:
  assumes "\<And>ks host v. FS v = FS w \<Longrightarrow> effect L net outs w (k (ks, tickets L net host) v)"
  shows "effect L net outs w (auth_kerberos L net a d k w)"
  unfolding auth_kerberos_def get_keyserver_def
proof (rule exit_effect, simp, simp, erule ReadFile_FS, rule exit_effect_pure, assumption, simp, rule exit_effect_pure, assumption, simp,
    rule exit_effect, assumption, simp, erule with_peer_FS)
  fix data v ks rt x and v' :: "'a KeyreqWorld"
  assume "AuthenticateWithKerberosTickets L net ks = Ok rt" and "FS v' = FS w"
  then show "effect L net outs w (k (ks, rt) v')"
    using assms by (auto simp: AuthenticateWithKerberosTickets_def AuthenticateWithKerberosTicketsInCache_def and_then_Ok_iff)
qed

lemma granted_intro:
  assumes "with_peer (SendRequest (tickets L net host) api body) v = (Ok reply, v')" and "reply \<noteq> []"
    and "api \<in> {AccessSSHAPI, AccessKubernetesAPI, AccessEtcdAPI}"
  shows "granted L net reply"
proof -
  obtain p' where "SendRequest (tickets L net host) api body (KrPeer v) = (Ok reply, p')"
    using assms(1) by (auto simp: with_peer_def split: prod.splits)
  with assms(2,3) show ?thesis unfolding granted_def by blast
qed

lemma same_except_refl: "FS v = FS w \<Longrightarrow> same_except outs w v" by (simp add: same_except_def)

lemma write_effect:
  assumes "granted L net reply" and "same_except outs w v" and "code \<in> {0, 1, 2, 255}" and "q \<in> outs"
    and "\<And>v'. same_except outs w v' \<Longrightarrow> effect L net outs w (k () v')"
  shows "effect L net outs w (or_exit code (WriteFile q data m v) k)"
  by (rule changed_effect [OF assms(2,1,3)]) (auto intro: WriteFile_same [OF assms(4)] assms(5))

lemma keyreq_ssh_cert_effect:
  assumes "args ! 4 \<in> outs" and "args ! 4 @ ''.pub'' \<in> outs" and "args ! 5 \<in> outs"
  shows "effect L net outs w (keyreq_ssh_cert L net args w)"
proof (cases "length args < 6")
  case False
  show ?thesis
    unfolding keyreq_ssh_cert_def if_not_P [OF False] Let_def
  proof (rule auth_kerberos_effect, unfold prod.case, rule exit_effect, assumption, simp, erule GenerateRSA_keeps_FS)
    fix ks host v and x :: "rsa_PrivateKey \<times> string" and v1 :: "'a KeyreqWorld"
    assume v1: "FS v1 = FS w"
    obtain pkey privkey where x: "x = (pkey, privkey)" by fastforce
    show "effect L net outs w ((case x of (pkey, privkey) \<Rightarrow> \<lambda>w.
        or_exit 1 (lift (ssh_NewPublicKey L (RSA_PublicKey (N pkey))), w) (\<lambda>pubkey_tmp w.
        or_exit 3 (with_peer (SendRequest (tickets L net host) AccessSSHAPI (ssh_MarshalAuthorizedKey L pubkey_tmp)) w) (\<lambda>req w.
        if req = [] then (1, w)
        else
          or_exit 1 (WriteFile (args ! 4) privkey 0x180 w) (\<lambda>_ w.
          or_exit 1 (WriteFile (args ! 4 @ ''.pub'') (ssh_MarshalAuthorizedKey L pubkey_tmp) 0x1A4 w) (\<lambda>_ w.
          or_exit 1 (WriteFile (args ! 5) req 0x1A4 w) (\<lambda>_ w. (0, w))))))) v1)"
      unfolding x prod.case
    proof (rule exit_effect_pure [OF v1], simp, rule exit_effect [OF v1], simp, erule with_peer_FS)
      fix pk req v2
      assume send: "with_peer (SendRequest (tickets L net host) AccessSSHAPI (ssh_MarshalAuthorizedKey L pk)) v1 = (Ok req, v2)" and v2: "FS v2 = FS w"
      show "effect L net outs w (if req = [] then (1, v2)
        else
          or_exit 1 (WriteFile (args ! 4) privkey 0x180 v2) (\<lambda>_ w.
          or_exit 1 (WriteFile (args ! 4 @ ''.pub'') (ssh_MarshalAuthorizedKey L pk) 0x1A4 w) (\<lambda>_ w.
          or_exit 1 (WriteFile (args ! 5) req 0x1A4 w) (\<lambda>_ w. (0, w)))))"
      proof (cases "req = []")
        case nonempty: False
        note g = granted_intro [OF send nonempty, simplified]
        show ?thesis unfolding if_not_P [OF nonempty]
          by (intro write_effect [OF g] effect_changed [OF _ g] assms) (auto simp: same_except_refl [OF v2])
      qed (simp add: effect_same v2)
    qed
  qed
qed (simp add: keyreq_ssh_cert_def effect_same)

lemma keyreq_tls_cert_effect:
  assumes "api \<in> {AccessSSHAPI, AccessKubernetesAPI, AccessEtcdAPI}" and "args ! 4 \<in> outs" and "args ! 5 \<in> outs" and "args ! 6 \<in> outs"
  shows "effect L net outs w (keyreq_tls_cert L net api authority args w)"
proof (cases "length args < 7")
  case False
  show ?thesis
    unfolding keyreq_tls_cert_def if_not_P [OF False]
  proof (rule auth_kerberos_effect, unfold prod.case, rule exit_effect, assumption, simp, erule GenerateRSA_keeps_FS)
    fix ks host v and x :: "rsa_PrivateKey \<times> string" and v1 :: "'a KeyreqWorld"
    assume v1: "FS v1 = FS w"
    obtain pkey privkey where x: "x = (pkey, privkey)" by fastforce
    show "effect L net outs w ((case x of (_, privkey) \<Rightarrow> \<lambda>w.
        or_exit 1 (BuildTLSCSR L privkey, w) (\<lambda>csr w.
        or_exit 3 (with_peer (SendRequest (tickets L net host) api csr) w) (\<lambda>req w.
        if req = [] then (1, w)
        else
          or_exit 255 (WriteFile (args ! 4) privkey 0x180 w) (\<lambda>_ w.
          or_exit 255 (WriteFile (args ! 5) req 0x1A4 w) (\<lambda>_ w.
          or_exit 2 (with_peer (GetPubkey net ks authority) w) (\<lambda>ca w.
          or_exit 255 (WriteFile (args ! 6) ca 0x1A4 w) (\<lambda>_ w. (0, w)))))))) v1)"
      unfolding x prod.case
    proof (rule exit_effect_pure [OF v1], simp, rule exit_effect [OF v1], simp, erule with_peer_FS)
      fix csr req v2
      assume send: "with_peer (SendRequest (tickets L net host) api csr) v1 = (Ok req, v2)" and v2: "FS v2 = FS w"
      show "effect L net outs w (if req = [] then (1, v2)
        else
          or_exit 255 (WriteFile (args ! 4) privkey 0x180 v2) (\<lambda>_ w.
          or_exit 255 (WriteFile (args ! 5) req 0x1A4 w) (\<lambda>_ w.
          or_exit 2 (with_peer (GetPubkey net ks authority) w) (\<lambda>ca w.
          or_exit 255 (WriteFile (args ! 6) ca 0x1A4 w) (\<lambda>_ w. (0, w))))))"
      proof (cases "req = []")
        case nonempty: False
        note g = granted_intro [OF send nonempty assms(1)]
        show ?thesis unfolding if_not_P [OF nonempty]
          by (intro write_effect [OF g] changed_effect [OF _ g, where f = "with_peer (GetPubkey net ks authority)"]
              effect_changed [OF _ g] assms(2-4)) (auto simp: same_except_refl [OF v2] intro: with_peer_same)
      qed (simp add: effect_same v2)
    qed
  qed
qed (simp add: keyreq_tls_cert_def effect_same)

lemma keyreq_main_effect:
  assumes "{args ! 4, args ! 4 @ ''.pub'', args ! 5, args ! 6} \<subseteq> outs"
  shows "effect L net outs w (keyreq_main L net args w)"
proof -
  have "effect L net outs w (auth_kerberos L net (args ! 2) (args ! 3) (\<lambda>_ w. (0, w)) w)"
    by (rule auth_kerberos_effect) (simp add: effect_same)
  moreover have "effect L net outs w (keyreq_bootstrap_token L net args w)"
    unfolding keyreq_bootstrap_token_def
    by (auto intro!: effect_same auth_kerberos_effect exit_effect dest: with_peer_FS)
  ultimately show ?thesis
    using assms by (auto simp: keyreq_main_def keyreq_kube_cert_def keyreq_etcd_cert_def
        intro!: effect_same keyreq_ssh_cert_effect keyreq_tls_cert_effect)
qed

text \<open>
  C20: what \<open>keyreq\<close> leaves behind, whatever fails. It ends with one of its documented exit codes. It changes no file apart from
  those named in its arguments, and it changes no file at all, in particular it writes no private key, unless the gateway has
  answered a request sent with the tickets of the user with a certificate; so if access is refused or the configuration is invalid,
  all files are as they were.
\<close>

theorem keyreq_writes_only_when_granted:
  assumes "keyreq_main L net args w = (code, w')"
  shows "code \<in> {0, 1, 2, 3, 254, 255} \<and>
    (\<forall>p. p \<notin> {args ! 4, args ! 4 @ ''.pub'', args ! 5, args ! 6} \<longrightarrow> FS w' p = FS w p) \<and>
    (FS w' \<noteq> FS w \<longrightarrow> code \<notin> {ERR_NO_ACCESS, ERR_INVALID_CONFIG} \<and> (\<exists>reply. granted L net reply))"
  using keyreq_main_effect [OF subset_refl, of L net args w] assms by (simp add: effect_def same_except_def)

section \<open>Evaluation on a concrete request\<close>

definition demo_kr_Lib :: Lib where
  "demo_kr_Lib = demo_Lib\<lparr>json_Print := (\<lambda>j. if j = JArray [] then ''[]'' else ''[..]''),
     json_Parse := (\<lambda>s. if s = ''[]'' then Inr (JArray []) else Inr (JArray [JString ''cert'']))\<rparr>"

definition demo_kr_Net :: "unit Net" where
  "demo_kr_Net = \<lparr>http_NewRequest = (\<lambda>_ _. None), client_Do = (\<lambda>_ p. (Inl OperationForbidden, p)),
     knc_Output = (\<lambda>_ _ data p. (Inr data, p)), url_Hostname = (\<lambda>u. Inr ''gw'')\<rparr>"

definition demo_kr :: "unit KeyreqWorld" where
  "demo_kr = \<lparr>Clock = int, Ticks = 0, Entropy = Some, Draws = 0,
     FS = [''/ca'' \<mapsto> File (demo_pem_Encode \<lparr>PEM_Type = ''CERTIFICATE'', PEM_Bytes = ''ca''\<rparr>) 420 0, ''/o'' \<mapsto> Directory],
     Faults = (\<lambda>_. None), Syscalls = 0, KrPeer = (), KrStdout = []\<rparr>"

lemma with_peer_unit: "f () = (r, ()) \<Longrightarrow> with_peer f (w :: unit KeyreqWorld) = (r, w)"
  by (cases w) (simp add: with_peer_def)

lemma demo_kr_send:
  "tickets demo_kr_Lib demo_kr_Net h [] () = (Ok [], ())" "SendRequest (tickets demo_kr_Lib demo_kr_Net h) api body () = (Ok ''cert'', ())"
  by (simp_all add: SendRequest_def knc_SendRequests_def kncRequest_def demo_kr_Lib_def demo_kr_Net_def json_Requests_def)

lemma demo_kr_peer:
  "with_peer (tickets demo_kr_Lib demo_kr_Net h []) w = (Ok [], w)"
  "with_peer (SendRequest (tickets demo_kr_Lib demo_kr_Net h) api body) w = (Ok ''cert'', w)"
  by (simp_all add: with_peer_unit demo_kr_send)

lemma demo_kr_auth:
  "\<exists>ks. \<forall>k. auth_kerberos demo_kr_Lib demo_kr_Net ''/ca'' ''ks'' k demo_kr =
     k (ks, tickets demo_kr_Lib demo_kr_Net ''gw'') (demo_kr\<lparr>Syscalls := Suc 0\<rparr>)"
proof -
  let ?pem = "demo_pem_Encode \<lparr>PEM_Type = ''CERTIFICATE'', PEM_Bytes = ''ca''\<rparr>"
  have "ancestors ''/ca'' = []" by code_simp
  then have "lookup (FS demo_kr) ''/ca'' = Inr (File ?pem 420 0)" by (simp add: lookup_def demo_kr_def)
  then have rd: "ReadFile ''/ca'' demo_kr = (Ok ?pem, demo_kr\<lparr>Syscalls := Suc 0\<rparr>)"
    by (simp add: ReadFile_def syscall_def demo_kr_def)
  obtain ks where ks: "NewKeyserver demo_kr_Lib ?pem ''ks'' = Ok ks"
    by (simp add: NewKeyserver_def LoadX509CertFromPEM_def LoadSinglePEMBlock_def NewServerEndpoint_def demo_kr_Lib_def demo_Lib_def
        demo_pem_Encode_def demo_pem_Decode_def pem_header_def HasPrefix_def HasSuffix_def)
  have rt: "AuthenticateWithKerberosTickets demo_kr_Lib demo_kr_Net ks = Ok (tickets demo_kr_Lib demo_kr_Net ''gw'')"
    by (simp add: AuthenticateWithKerberosTickets_def AuthenticateWithKerberosTicketsInCache_def demo_kr_Net_def)
  show ?thesis
    by (intro exI [of _ ks]) (simp add: auth_kerberos_def get_keyserver_def rd ks rt demo_kr_peer)
qed

lemma WriteFile_in:
  assumes "no_faults w" and "ancestors p = [dir]" and "path_Dir p = dir" and "FS w dir = Some Directory" and "FS w p \<noteq> Some Directory"
  shows "\<exists>w' m. WriteFile p d x w = (Ok (), w') \<and> FS w' = (FS w)(p \<mapsto> File d m (now w)) \<and> no_faults w'"
proof -
  obtain m' where "WriteFile p d x w = (Ok (), w\<lparr>Syscalls := Syscalls w + 2, Ticks := Suc (Ticks w),
      FS := (FS w)(p \<mapsto> File d m' (now w))\<rparr>)" using WriteFile_no_faults [OF assms(1), of p d x] assms(2-5) by auto
  with assms(1) show ?thesis
    by (intro exI [of _ "w\<lparr>Syscalls := Syscalls w + 2, Ticks := Suc (Ticks w), FS := (FS w)(p \<mapsto> File d m' (now w))\<rparr>"] exI [of _ m'])
      (simp add: no_faults_def)
qed

lemma demo_kr_paths:
  "ancestors ''/o/k'' = [''/o'']" "path_Dir ''/o/k'' = ''/o''" "ancestors ''/o/k.pub'' = [''/o'']" "path_Dir ''/o/k.pub'' = ''/o''"
  "ancestors ''/o/c'' = [''/o'']" "path_Dir ''/o/c'' = ''/o''" "ancestors ''/o/d'' = [''/o'']" "path_Dir ''/o/d'' = ''/o''"
  "ancestors ''/o/e'' = [''/o'']" "path_Dir ''/o/e'' = ''/o''"
  by code_simp+

theorem keyreq_writes_only_when_granted_witness:
  "\<exists>w'. keyreq_main demo_kr_Lib demo_kr_Net [''keyreq'', ''ssh-cert'', ''/ca'', ''ks'', ''/o/k'', ''/o/c'', ''/o/x''] demo_kr = (0, w') \<and>
     FS w' ''/ca'' = FS demo_kr ''/ca'' \<and> FS w' \<noteq> FS demo_kr \<and> (\<exists>reply. granted demo_kr_Lib demo_kr_Net reply)"
proof -
  let ?args = "[''keyreq'', ''ssh-cert'', ''/ca'', ''ks'', ''/o/k'', ''/o/c'', ''/o/x'']"
  obtain key pem v where rsa: "GenerateRSA demo_kr_Lib 2048 (demo_kr\<lparr>Syscalls := Suc 0\<rparr>) = (Ok (key, pem), v)"
    and v: "no_faults v" "FS v = FS demo_kr"
    by (simp add: GenerateRSA_def draw_def demo_kr_def demo_kr_Lib_def demo_Lib_def no_faults_def)
  obtain pub where pub: "ssh_NewPublicKey demo_kr_Lib (RSA_PublicKey (N key)) = Inr pub" by (simp add: demo_kr_Lib_def demo_Lib_def)
  have fs: "FS demo_kr ''/o'' = Some Directory" "FS demo_kr ''/o/k'' = None" "FS demo_kr ''/o/k.pub'' = None" "FS demo_kr ''/o/c'' = None"
    by (simp_all add: demo_kr_def)
  obtain v1 m1 where w1: "WriteFile ''/o/k'' pem 384 v = (Ok (), v1)" "FS v1 = (FS demo_kr)(''/o/k'' \<mapsto> File pem m1 (now v))" "no_faults v1"
    using WriteFile_in [OF v(1) demo_kr_paths(1,2), of pem 384] v(2) fs by auto
  obtain v2 m2 where w2: "WriteFile ''/o/k.pub'' (ssh_MarshalAuthorizedKey demo_kr_Lib pub) 420 v1 = (Ok (), v2)"
    "FS v2 = (FS v1)(''/o/k.pub'' \<mapsto> File (ssh_MarshalAuthorizedKey demo_kr_Lib pub) m2 (now v1))" "no_faults v2"
    using WriteFile_in [OF w1(3) demo_kr_paths(3,4), of "ssh_MarshalAuthorizedKey demo_kr_Lib pub" 420] w1(2) fs by auto
  obtain v3 m3 where w3: "WriteFile ''/o/c'' ''cert'' 420 v2 = (Ok (), v3)" "FS v3 = (FS v2)(''/o/c'' \<mapsto> File ''cert'' m3 (now v2))"
    using WriteFile_in [OF w2(3) demo_kr_paths(5,6), of "''cert''" 420] w1(2) w2(2) fs by auto
  obtain ks where ks: "\<forall>k. auth_kerberos demo_kr_Lib demo_kr_Net ''/ca'' ''ks'' k demo_kr =
     k (ks, tickets demo_kr_Lib demo_kr_Net ''gw'') (demo_kr\<lparr>Syscalls := Suc 0\<rparr>)" using demo_kr_auth by blast
  have run: "keyreq_main demo_kr_Lib demo_kr_Net ?args demo_kr = (0, v3)"
    using ks by (simp add: keyreq_main_def keyreq_ssh_cert_def Let_def rsa pub demo_kr_peer w1 w2 w3)
  have "FS v3 ''/o/c'' \<noteq> FS demo_kr ''/o/c''" using w3(2) fs by simp
  then have ne: "FS v3 \<noteq> FS demo_kr" by auto
  with run keyreq_writes_only_when_granted [OF run] show ?thesis by (intro exI [of _ v3]) simp
qed

end
