(* ===== verification/Key_Tools.thy ===== *)
theory Key_Tools
  imports Key_Generation User_Grant Key_Req
begin

text \<open>
  Three small programs: \<open>keygenupstream\<close> makes an authority and a user certificate that stand in for those of an upstream
  identity provider, \<open>keylocalcert\<close> signs a certificate with the key of an authority, and \<open>keyinitadmit\<close> requests a
  bootstrap token on the keyserver itself. \<open>logger.Fatal\<close> ends a program with the code 1. \<open>time.ParseDuration\<close> is a
  parameter. The result is that the certificate of \<open>keygenupstream\<close> is one that the web service for user
  certificates reads the user from.
\<close>

section \<open>keygenupstream.go\<close>

definition upstream_template :: "int \<Rightarrow> int \<Rightarrow> string \<Rightarrow> Certificate" where
  "upstream_template issueAt lifespan email = zero_Certificate\<lparr>
     CertKeyUsage := [KeyUsageDigitalSignature], CertExtKeyUsage := [ExtKeyUsageClientAuth],
     BasicConstraintsValid := True, IsCA := False, MaxPathLen := 0, MaxPathLenZero := True,
     NotBefore := issueAt, NotAfter := issueAt + lifespan,
     CommonName := ''simulated user '' @ email, ExtraNames := [(OIDEmailAddress, AttrString email)]\<rparr>"

text \<open>The error of the second \<open>GenerateRSA\<close> is not checked; the key is nil then, and taking its public half panics.\<close>

fun or_nil :: "'b result \<Rightarrow> 'b result" where
  "or_nil (Ok x) = Ok x"
| "or_nil r = Panic ''nil pointer dereference''"

lemma or_nil_Ok [simp]: "or_nil r = Ok x \<longleftrightarrow> r = Ok x"
  by (cases r) simp_all

definition upstream_Generate ::
  "Lib \<Rightarrow> string \<Rightarrow> string \<Rightarrow> string \<Rightarrow> string \<Rightarrow> string \<Rightarrow> int \<Rightarrow> ('a FsWorld_scheme, unit) action" where
  "upstream_Generate L cakeyfile cacertfile email userkeyfile usercertfile lifespan w =
     and_thenS (GenerateRSA L AuthorityBits w) (\<lambda>(cakey, cakeybytes) w.
     and_thenS (GenerateTLSSelfSignedCert L cakey ''upstream-local'' w) (\<lambda>cacertbytes w.
     and_thenS (LoadX509CertFromPEM L cacertbytes, w) (\<lambda>cacert w.
     case GenerateRSA L AuthorityBits w of (user, w) \<Rightarrow>
     case time_Now w of (issueAt, w) \<Rightarrow>
     and_thenS (or_nil user, w) (\<lambda>(userkey, userkeybytes) w.
     and_thenS (FinishCertificate L (upstream_template issueAt lifespan email) cacert (RSA_PublicKey (N userkey)) cakey w) (\<lambda>usercertbytes w.
     and_thenS (WriteFile cakeyfile cakeybytes 0x180 w) (\<lambda>_ w.
     and_thenS (WriteFile cacertfile cacertbytes 0x1A4 w) (\<lambda>_ w.
     and_thenS (WriteFile userkeyfile userkeybytes 0x180 w) (\<lambda>_ w.
     and_thenS (WriteFile usercertfile usercertbytes 0x1A4 w) (\<lambda>_ w. (Ok (), w))))))))))"

type_synonym ParseDuration = "string \<Rightarrow> error + int"

definition keygenupstream_main :: "Lib \<Rightarrow> ParseDuration \<Rightarrow> string list \<Rightarrow> 'a FsWorld_scheme program" where
  "keygenupstream_main L parse args w =
     (if length args \<noteq> 7 then (1, w)
      else or_exit 1 (lift (parse (args ! 6)), w) (\<lambda>lifespan w.
        or_exit 1 (upstream_Generate L (args ! 1) (args ! 2) (args ! 3) (args ! 4) (args ! 5) lifespan w) (\<lambda>_ w. (0, w))))"

section \<open>keygen.go\<close>

definition keygen_main :: "Lib \<Rightarrow> string list \<Rightarrow> 'a FsWorld_scheme program" where
  "keygen_main L args w =
     (if length args \<noteq> 2 then (1, w) else or_exit 1 (GenerateKeys L (args ! 1) w) (\<lambda>_ w. (0, w)))"

section \<open>keylocalcert.go\<close>

text \<open>A list in an argument: nil for the empty string.\<close>

definition list_arg :: "string \<Rightarrow> string list" where
  "list_arg s = (if length s > 0 then Split s (CHR '','') else [])"

definition local_sign ::
  "Lib \<Rightarrow> bool \<Rightarrow> Authority \<Rightarrow> string \<Rightarrow> int \<Rightarrow> string \<Rightarrow> string list \<Rightarrow> string list \<Rightarrow> ('a World_scheme, string) action" where
  "local_sign L isSSH authority csr lifespan commonname dnsnames organizations w =
     (case authority of
        SSHAuth d \<Rightarrow> if isSSH then SSHAuthority_Sign L d csr False lifespan commonname [''root''] w
                     else (Panic ''interface conversion'', w)
      | TLSAuth t \<Rightarrow> if isSSH then (Panic ''interface conversion'', w)
                     else TLSAuthority_Sign L t csr (length dnsnames > 0) lifespan commonname dnsnames organizations w)"

definition keylocalcert_main :: "Lib \<Rightarrow> ParseDuration \<Rightarrow> string list \<Rightarrow> 'a FsWorld_scheme program" where
  "keylocalcert_main L parse args w =
     (if length args \<noteq> 9 then (1, w)
      else or_exit 1 (ReadFile (args ! 1) w) (\<lambda>keydata w.
        or_exit 1 (ReadFile (args ! 2) w) (\<lambda>certdata w.
        let isSSH = \<not> IsPEMBlock L certdata in
        or_exit 1 (if isSSH then LoadSSHAuthority L keydata certdata else LoadTLSAuthority L keydata certdata, w) (\<lambda>authority w.
        or_exit 1 (lift (parse (args ! 4)), w) (\<lambda>lifespan w.
        or_exit 1 (GenerateRSA L 2048 w) (\<lambda>(pkey, privkey) w.
        or_exit 1 (if isSSH then and_then (lift (ssh_NewPublicKey L (RSA_PublicKey (N pkey)))) (\<lambda>pubkey. Ok (ssh_MarshalAuthorizedKey L pubkey))
                   else BuildTLSCSR L privkey, w) (\<lambda>csr w.
        or_exit 1 (local_sign L isSSH authority csr lifespan (args ! 3) (list_arg (args ! 7)) (list_arg (args ! 8)) w) (\<lambda>result w.
        or_exit 1 (WriteFile (args ! 5) privkey 0x180 w) (\<lambda>_ w.
        or_exit 1 (if isSSH then WriteFile (args ! 5 @ ''.pub'') csr 0x1A4 w else (Ok (), w)) (\<lambda>_ w.
        or_exit 1 (WriteFile (args ! 6) result 0x1A4 w) (\<lambda>_ w. (0, w))))))))))))"

section \<open>keyinitadmit.go\<close>

record 'p AdmitWorld = TokenWorld +
  AdPeer :: 'p
  AdStdout :: string

definition with_admit :: "('p, 'b) action \<Rightarrow> ('p AdmitWorld, 'b) action" where
  "with_admit f w = (case f (AdPeer w) of (r, p) \<Rightarrow> (r, w\<lparr>AdPeer := p\<rparr>))"

text \<open>\<open>ctx.AuthenticationAuthority\<close> and \<open>ctx.ClusterCA\<close> are pointers; a nil one panics.\<close>

definition deref :: "'b option \<Rightarrow> 'b result" where
  "deref p = (case p of Some x \<Rightarrow> Ok x | None \<Rightarrow> Panic ''nil pointer dereference'')"

definition keyinitadmit_main ::
  "Lib \<Rightarrow> 'p Net \<Rightarrow> (string \<Rightarrow> error + RawSetup) \<Rightarrow> string list \<Rightarrow> 'p AdmitWorld program" where
  "keyinitadmit_main L net yaml args w =
     (if length args \<noteq> 2 then (1, w)
      else let principal = args ! 1 in
        or_exit 1 (GenerateConfig L yaml w) (\<lambda>ctx w.
        or_exit 1 (GenerateRSA L 2048 w) (\<lambda>(privkey, _) w.
        or_exit 1 (lift (x509_CreateCertificateRequest L [] SHA256WithRSA privkey), w) (\<lambda>csrder w.
        let csr = pem_EncodeToMemory L \<lparr>PEM_Type = ''CERTIFICATE REQUEST'', PEM_Bytes = csrder\<rparr> in
        or_exit 1 (deref (AuthenticationAuthority ctx), w) (\<lambda>auth w.
        or_exit 1 (TLSAuthority_Sign L auth csr False (10 * time_Minute) (KeyserverDNS ctx) [] [] w) (\<lambda>certdata w.
        or_exit 1 (deref (ClusterCA ctx), w) (\<lambda>ca w.
        or_exit 1 (NewKeyserver L (GetPublicKey (TLSAuth ca)) (KeyserverDNS ctx @ '':20557''), w) (\<lambda>ks w.
        or_exit 1 (LoadX509CertFromPEM L certdata, w) (\<lambda>cert w.
        or_exit 1 (AuthenticateWithCert L net ks \<lparr>Chain = [Raw cert], ChainKey = RSA_Key privkey, Leaf = None\<rparr>, w) (\<lambda>rt w.
        or_exit 1 (with_admit (SendRequest rt BootstrapKeyserverTokenAPI principal) w) (\<lambda>token w.
          (0, w\<lparr>AdStdout := AdStdout w @ token\<rparr>))))))))))))"

section \<open>The certificate of keygenupstream is accepted by the web service\<close>

text \<open>
  Documented behaviour of \<open>crypto/x509\<close>: the attributes in \<open>ExtraNames\<close> of a template go into the subject as they are, and
  parsing the certificate gives all attributes in \<open>Names\<close>.
\<close>

definition names_law :: "Lib \<Rightarrow> bool" where
  "names_law L = (\<forall>t parent n k der. x509_CreateCertificate L t parent (RSA_PublicKey n) k = Inr der \<longrightarrow>
     (\<exists>c. x509_ParseCertificate L der = Inr c \<and>
        filter (\<lambda>a. fst a = OIDEmailAddress) (Names c) = filter (\<lambda>a. fst a = OIDEmailAddress) (ExtraNames t)))"

lemma email_loop_filter:
  "filter (\<lambda>a. fst a = OIDEmailAddress) attrs = [(OIDEmailAddress, AttrString (user @ suffix))] \<Longrightarrow> email_loop suffix attrs = Ok user"
  by (induction attrs) (auto simp: IsOIDEqual_eq HasSuffix_def split: if_splits)

lemma FinishCertificate_PEM:
  assumes "FinishCertificate L t parent pub k w = (Ok pem, w')"
  obtains s der where "x509_CreateCertificate L (t\<lparr>CertSignatureAlgorithm := SHA256WithRSA, SerialNumber := s\<rparr>) parent pub k = Inr der"
    "pem = pem_EncodeToMemory L \<lparr>PEM_Type = ''CERTIFICATE'', PEM_Bytes = der\<rparr>"
  using assms by (auto simp: FinishCertificate_def and_thenS_Ok_iff and_then_Ok_iff)

lemma LoadX509_pem:
  assumes "pem_law L" and "x509_ParseCertificate L der = Inr c"
  shows "LoadX509CertFromPEM L (pem_EncodeToMemory L \<lparr>PEM_Type = ''CERTIFICATE'', PEM_Bytes = der\<rparr>) = Ok c"
  using assms by (simp add: LoadX509CertFromPEM_def LoadSinglePEMBlock_def pem_law_def)

lemma upstream_Generate_Ok:
  fixes w w' :: "'a FsWorld_scheme"
  assumes "upstream_Generate L f1 f2 email f3 f4 lifespan w = (Ok (), w')" and "distinct [f1, f2, f3, f4]"
  obtains cakey ca cert issueAt s der m2 t2 m4 t4 and key :: rsa_PrivateKey and v v' :: "'a FsWorld_scheme" where
    "LoadX509CertFromPEM L ca = Ok cert" "GenerateTLSSelfSignedCert L cakey ''upstream-local'' v = (Ok ca, v')"
    "x509_CreateCertificate L ((upstream_template issueAt lifespan email)\<lparr>CertSignatureAlgorithm := SHA256WithRSA, SerialNumber := s\<rparr>)
       cert (RSA_PublicKey (N key)) cakey = Inr der"
    "FS w' f2 = Some (File ca m2 t2)"
    "FS w' f4 = Some (File (pem_EncodeToMemory L \<lparr>PEM_Type = ''CERTIFICATE'', PEM_Bytes = der\<rparr>) m4 t4)"
proof -
  from assms(1) obtain cakey cakeybytes ca cert keybytes issueAt pem and key :: rsa_PrivateKey and v v' u u' w1 w2 w3 w4 :: "'a FsWorld_scheme" where
    "LoadX509CertFromPEM L ca = Ok cert" "GenerateTLSSelfSignedCert L cakey ''upstream-local'' v = (Ok ca, v')"
    and fin: "FinishCertificate L (upstream_template issueAt lifespan email) cert (RSA_PublicKey (N key)) cakey u = (Ok pem, u')"
    and wr: "WriteFile f1 cakeybytes 384 w1 = (Ok (), w2)" "WriteFile f2 ca 420 w2 = (Ok (), w3)" "WriteFile f3 keybytes 384 w3 = (Ok (), w4)"
      "WriteFile f4 pem 420 w4 = (Ok (), w')"
    by (auto simp: upstream_Generate_def and_thenS_Ok_iff case_prod_beta)
  moreover obtain s der where "x509_CreateCertificate L ((upstream_template issueAt lifespan email)\<lparr>CertSignatureAlgorithm := SHA256WithRSA, SerialNumber := s\<rparr>)
       cert (RSA_PublicKey (N key)) cakey = Inr der" "pem = pem_EncodeToMemory L \<lparr>PEM_Type = ''CERTIFICATE'', PEM_Bytes = der\<rparr>"
    using FinishCertificate_PEM [OF fin] by blast
  moreover obtain m2 t2 m4 t4 where "FS w' f2 = Some (File ca m2 t2)" "FS w' f4 = Some (File pem m4 t4)"
    using WriteFile_Ok [OF wr(2)] WriteFile_Ok [OF wr(3)] WriteFile_Ok [OF wr(4)] assms(2) by auto
  ultimately show thesis using that by simp
qed

text \<open>
  C22: if \<open>keygenupstream\<close> succeeds for an email address in the domain of the web service, then the file with the authority
  holds a certificate that the web service can load as its upstream authority, made for that purpose, and the file with the user's
  certificate holds one from which the service reads exactly that user.
\<close>

theorem upstream_roundtrip:
  fixes w w' :: "'a FsWorld_scheme"
  assumes "pem_law L" and "cert_law L" and "names_law L"
    and "upstream_Generate L cakeyfile cacertfile (user @ ''@'' @ EmailAuthDomain c) userkeyfile usercertfile lifespan w = (Ok (), w')"
    and "distinct [cakeyfile, cacertfile, userkeyfile, usercertfile]"
  shows "\<exists>capem cacert pem cert m m' t t'. FS w' cacertfile = Some (File capem m t) \<and> LoadX509CertFromPEM L capem = Ok cacert \<and>
      IsCA cacert \<and> CommonName cacert = ''homeworld-authority-upstream-local'' \<and>
    FS w' usercertfile = Some (File pem m' t') \<and> LoadX509CertFromPEM L pem = Ok cert \<and> \<not> IsCA cert \<and> ExtractEmail c cert = Ok user"
  using assms(4,5)
proof (rule upstream_Generate_Ok)
  let ?e = "user @ ''@'' @ EmailAuthDomain c"
  fix cakey ca cacert issueAt s der m2 t2 m4 t4 and key :: rsa_PrivateKey and v v' :: "'a FsWorld_scheme"
  assume ca: "LoadX509CertFromPEM L ca = Ok cacert" "GenerateTLSSelfSignedCert L cakey ''upstream-local'' v = (Ok ca, v')"
    and der: "x509_CreateCertificate L ((upstream_template issueAt lifespan ?e)\<lparr>CertSignatureAlgorithm := SHA256WithRSA, SerialNumber := s\<rparr>)
       cacert (RSA_PublicKey (N key)) cakey = Inr der"
    and fs: "FS w' cacertfile = Some (File ca m2 t2)"
    "FS w' usercertfile = Some (File (pem_EncodeToMemory L \<lparr>PEM_Type = ''CERTIFICATE'', PEM_Bytes = der\<rparr>) m4 t4)"
  obtain cert where cert: "x509_ParseCertificate L der = Inr cert" and
    names: "filter (\<lambda>a. fst a = OIDEmailAddress) (Names cert) = [(OIDEmailAddress, AttrString ?e)]"
    using assms(3) der unfolding names_law_def by (fastforce simp: upstream_template_def)
  have notCA: "\<not> IsCA cert" using assms(2) der cert unfolding cert_law_def by (fastforce simp: upstream_template_def)
  have "IsCA cacert \<and> CommonName cacert = ''homeworld-authority-upstream-local''"
  proof -
    obtain issueat der' s' where "x509_CreateCertificate L ((self_signed_template issueat ''upstream-local'')\<lparr>CertSignatureAlgorithm := SHA256WithRSA, SerialNumber := s'\<rparr>)
        (self_signed_template issueat ''upstream-local'') (RSA_PublicKey (N cakey)) cakey = Inr der'"
      and pem: "ca = pem_EncodeToMemory L \<lparr>PEM_Type = ''CERTIFICATE'', PEM_Bytes = der'\<rparr>"
      using ca(2) by (auto simp: GenerateTLSSelfSignedCert_def time_Now_def Let_def elim: FinishCertificate_PEM)
    then obtain x where "x509_ParseCertificate L der' = Inr x" "IsCA x" "CommonName x = ''homeworld-authority-upstream-local''"
      using assms(2) unfolding cert_law_def by (fastforce simp: self_signed_template_def)
    with LoadX509_pem [OF assms(1)] ca(1) pem show ?thesis by fastforce
  qed
  with ca fs LoadX509_pem [OF assms(1) cert] notCA email_loop_filter [OF names] show ?thesis by (auto simp: ExtractEmail_def)
qed

section \<open>Evaluation on a concrete library\<close>

definition demo_up_Lib :: Lib where
  "demo_up_Lib = demo_keygen_Lib\<lparr>
     x509_CreateCertificate := (\<lambda>t _ pub _.
        if IsCA t \<and> pub = RSA_PublicKey 15 \<and> NotAfter t = demo_authority_end \<and> ExtraNames t = [] \<and> CommonName t \<noteq> ''user'' then Inr (CommonName t)
        else if \<not> IsCA t \<and> pub = RSA_PublicKey 15 \<and> NotAfter t = time_Hour \<and> ExtraNames t = [(OIDEmailAddress, AttrString ''u@d'')] \<and>
          CommonName t = ''simulated user u@d'' then Inr ''user''
        else Inl (LibError ''unknown template'')),
     x509_ParseCertificate := (\<lambda>s. Inr (let c = zero_Certificate\<lparr>CertPublicKeyAlgorithm := RSA, CertPublicKey := RSA_PublicKey 15\<rparr> in
        if s = ''user'' then c\<lparr>CommonName := ''simulated user u@d'', NotAfter := time_Hour, Names := [(OIDEmailAddress, AttrString ''u@d'')]\<rparr>
        else c\<lparr>CommonName := s, IsCA := True, NotAfter := demo_authority_end\<rparr>))\<rparr>"

definition demo_up :: FsWorld where
  "demo_up = \<lparr>Clock = (\<lambda>_. 0), Ticks = 0, Entropy = Some, Draws = 0, FS = [''/o'' \<mapsto> Directory], Faults = (\<lambda>_. None), Syscalls = 0\<rparr>"

lemma demo_up_laws: "pem_law demo_up_Lib" "cert_law demo_up_Lib" "names_law demo_up_Lib"
proof -
  show "pem_law demo_up_Lib" using demo_keygen_laws(1) by (simp add: pem_law_def demo_up_Lib_def)
  have "demo_authority_end div time_Second * time_Second = demo_authority_end" "time_Hour div time_Second * time_Second = time_Hour"
    by (simp_all add: demo_authority_end_def time_Unix_def time_units)
  then show "cert_law demo_up_Lib"
    by (auto simp: cert_law_def demo_up_Lib_def zero_Certificate_def Let_def split: if_splits)
  show "names_law demo_up_Lib"
    by (auto simp: names_law_def demo_up_Lib_def zero_Certificate_def Let_def split: if_splits)
qed

theorem upstream_roundtrip_witness:
  "\<exists>w' pem cert m t. upstream_Generate demo_up_Lib ''/o/k'' ''/o/c'' ''u@d'' ''/o/d'' ''/o/e'' time_Hour demo_up = (Ok (), w') \<and>
     FS w' ''/o/e'' = Some (File pem m t) \<and> LoadX509CertFromPEM demo_up_Lib pem = Ok cert \<and>
     ExtractEmail (demo_grant_config\<lparr>EmailAuthDomain := ''d''\<rparr>) cert = Ok ''u''"
proof -
  let ?c = "demo_grant_config\<lparr>EmailAuthDomain := ''d''\<rparr>"
  let ?pem = "\<lambda>d. demo_pem_Encode \<lparr>PEM_Type = ''CERTIFICATE'', PEM_Bytes = d\<rparr>" and ?ca = "''homeworld-authority-upstream-local''"
  obtain kb v1 where 1: "GenerateRSA demo_up_Lib AuthorityBits demo_up = (Ok (demo_key, kb), v1)" "FS v1 = FS demo_up" "no_faults v1"
    "Entropy v1 = Some" "Clock v1 = (\<lambda>_. 0)"
    by (simp add: GenerateRSA_def draw_def demo_up_def demo_up_Lib_def demo_keygen_Lib_def demo_Lib_def no_faults_def)
  obtain v2 where 2: "GenerateTLSSelfSignedCert demo_up_Lib demo_key ''upstream-local'' v1 = (Ok (?pem ?ca), v2)" "FS v2 = FS demo_up" "no_faults v2"
    "Entropy v2 = Some" "Clock v2 = (\<lambda>_. 0)"
    using 1 by (simp add: GenerateTLSSelfSignedCert_def time_Now_def FinishCertificate_def rand_Int_def draw_def Let_def demo_up_Lib_def
        self_signed_template_def demo_authority_end_def demo_key_def zero_Certificate_def demo_keygen_Lib_def demo_Lib_def no_faults_def)
  obtain ca where 3: "LoadX509CertFromPEM demo_up_Lib (?pem ?ca) = Ok ca"
    by (simp add: LoadX509CertFromPEM_def LoadSinglePEMBlock_def demo_up_Lib_def demo_keygen_Lib_def demo_Lib_def demo_pem_Encode_def
        demo_pem_Decode_def pem_header_def HasPrefix_def)
  obtain kb' v3 where 4: "GenerateRSA demo_up_Lib AuthorityBits v2 = (Ok (demo_key, kb'), v3)" "FS v3 = FS demo_up" "no_faults v3"
    "Entropy v3 = Some" "Clock v3 = (\<lambda>_. 0)"
    using 2 by (simp add: GenerateRSA_def draw_def demo_up_Lib_def demo_keygen_Lib_def demo_Lib_def no_faults_def)
  obtain v4 where 5: "FinishCertificate demo_up_Lib (upstream_template 0 time_Hour ''u@d'') ca (RSA_PublicKey (N demo_key)) demo_key
      (v3\<lparr>Ticks := Suc (Ticks v3)\<rparr>) = (Ok (?pem ''user''), v4)" "FS v4 = FS demo_up" "no_faults v4"
    using 4 by (simp add: FinishCertificate_def rand_Int_def draw_def demo_up_Lib_def upstream_template_def demo_key_def zero_Certificate_def
        demo_keygen_Lib_def demo_Lib_def no_faults_def)
  have fs: "FS demo_up ''/o'' = Some Directory" "p \<noteq> ''/o'' \<Longrightarrow> FS demo_up p = None" for p by (simp_all add: demo_up_def)
  obtain w1 a1 where w1: "WriteFile ''/o/k'' kb 384 v4 = (Ok (), w1)" "FS w1 = (FS demo_up)(''/o/k'' \<mapsto> a1)" "no_faults w1"
    using WriteFile_in [OF 5(3) demo_kr_paths(1,2), of kb 384] 5(2) fs by auto
  obtain w2 a2 where w2: "WriteFile ''/o/c'' (?pem ?ca) 420 w1 = (Ok (), w2)" "FS w2 = (FS w1)(''/o/c'' \<mapsto> a2)" "no_faults w2"
    using WriteFile_in [OF w1(3) demo_kr_paths(5,6), of "?pem ?ca" 420] w1(2) fs by auto
  obtain w3 a3 where w3: "WriteFile ''/o/d'' kb' 384 w2 = (Ok (), w3)" "FS w3 = (FS w2)(''/o/d'' \<mapsto> a3)" "no_faults w3"
    using WriteFile_in [OF w2(3) demo_kr_paths(7,8), of kb' 384] w1(2) w2(2) fs by auto
  obtain w4 where w4: "WriteFile ''/o/e'' (?pem ''user'') 420 w3 = (Ok (), w4)"
    using WriteFile_in [OF w3(3) demo_kr_paths(9,10), of "?pem ''user''" 420] w1(2) w2(2) w3(2) fs by auto
  have gen: "upstream_Generate demo_up_Lib ''/o/k'' ''/o/c'' ''u@d'' ''/o/d'' ''/o/e'' time_Hour demo_up = (Ok (), w4)"
    using 4(5) by (simp add: upstream_Generate_def 1(1) 2(1) 3 4(1) time_Now_def 5(1) w1(1) w2(1) w3(1) w4)
  then have "upstream_Generate demo_up_Lib ''/o/k'' ''/o/c'' (''u'' @ ''@'' @ EmailAuthDomain ?c) ''/o/d'' ''/o/e'' time_Hour demo_up = (Ok (), w4)" by simp
  from upstream_roundtrip [OF demo_up_laws this] gen show ?thesis by auto
qed

end
