(* ===== verification/Init_Admission.thy ===== *)
theory Init_Admission
  imports Node_Admission Key_Tools
begin

text \<open>
  The first token of a cluster: \<open>keyinitadmit\<close>, which runs on the supervisor, signs a certificate for the supervisor with the authority on its disk and
  asks, with this certificate, the running keyserver for a bootstrap token. This theory composes the program with the server of the model.
\<close>

section \<open>The privilege to bootstrap\<close>

lemma BootstrapKeyserverTokenAPI_other:
  "BootstrapKeyserverTokenAPI \<notin> {RenewKeygrantAPI, LocalConfAPI, SignSSHHostKeyAPI, SignKubernetesMasterAPI, SignEtcdServerAPI, SignRegistryHostAPI,
     SignKubernetesSupervisorAPI, SignKubernetesWorkerAPI, SignKubernetesProxyAPI, SignKubernetesCtrlMgrAPI,
     SignKubernetesSchedulerAPI, SignEtcdClientAPI, FetchServiceAccountKeyAPI, ImpersonateKerberosAPI}"
  by (simp add: api_names)

lemma GrantsForNodeAccount_bootstraps:
  assumes "GrantsForNodeAccount c conf auth princ node = Ok privs"
  shows "privs BootstrapKeyserverTokenAPI \<in> {None, Some (Bootstrap nodes_group time_Hour)}"
  using assms BootstrapKeyserverTokenAPI_other
  by (auto simp: GrantsForNodeAccount_def and_then_Ok_iff Let_def grants_supervisor_def grants_clients_def grants_servers_def NewBootstrapPrivilege_def
      split: if_splits option.splits)

text \<open>The program changes only the part of its world below the peer and the output before it sends the request.\<close>

definition apart :: "'a \<Rightarrow> 'a TokenWorld_scheme \<Rightarrow> bool" where "apart m w = (TokenWorld.more w = m)"

lemma apart_calls:
  "apart m w \<Longrightarrow> apart m (snd (ReadFile p w))" "apart m w \<Longrightarrow> apart m (snd (os_Stat p w))"
  "apart m w \<Longrightarrow> apart m (snd (time_Now w))" "apart m w \<Longrightarrow> apart m (snd (rand_Int n w))" "apart m w \<Longrightarrow> apart m (snd (GenerateRSA L n w))"
  by (auto simp: apart_def ReadFile_def os_Stat_def syscall_def time_Now_def rand_Int_def GenerateRSA_def draw_def split: option.splits)

lemma apart_Sign: "apart m w \<Longrightarrow> apart m (snd (TLSAuthority_Sign L t request ishost d cn names orgs w))"
  by (cases "LoadX509CSRFromPEM L request")
    (auto simp: TLSAuthority_Sign_def FinishCertificate_world time_Now_def apart_def rand_Int_def draw_def split: option.splits prod.splits)

lemmas apart_bind = and_thenS_keeps [where P = "apart m" for m]

lemma apart_GenerateConfig:
  assumes "apart m (w :: 'a TokenWorld_scheme)"
  shows "apart m (snd (GenerateConfig L yaml w))"
proof -
  have loads: "apart m v \<Longrightarrow> apart m (snd (LoadSpireSetup y p v))" for y p and v :: "'a TokenWorld_scheme"
    unfolding LoadSpireSetup_def by (intro apart_bind apart_calls) (auto simp: apart_def)
  have valid: "apart m v \<Longrightarrow> apart m (snd (ValidateStaticFiles sfs v))" for sfs and v :: "'a TokenWorld_scheme"
    by (induction sfs v rule: ValidateStaticFiles.induct) (auto intro!: apart_bind apart_calls)
  have load1: "apart m v \<Longrightarrow> apart m (snd (ConfigAuthority_Load L a dir v))" for a dir and v :: "'a TokenWorld_scheme"
    unfolding ConfigAuthority_Load_def by (auto intro!: apart_bind apart_calls split: prod.splits)
  have load: "apart m v \<Longrightarrow> apart m (snd (load_authorities L as x v))" for as x and v :: "'a TokenWorld_scheme"
    by (induction as arbitrary: x v) (auto intro!: apart_bind load1)
  have config: "apart m v \<Longrightarrow> apart m (snd (config_for L conf dns v))" for conf dns and v :: "'a TokenWorld_scheme"
    unfolding config_for_def Let_def
    by (intro apart_bind valid load) (auto simp: apart_def NewTokenRegistry_def intro!: apart_bind [unfolded apart_def])
  show ?thesis unfolding GenerateConfig_def using assms by (auto intro!: apart_bind loads config)
qed

lemma apart_admit:
  fixes v w :: "'p AdmitWorld"
  shows "apart (TokenWorld.more w) v \<Longrightarrow> AdPeer v = AdPeer w \<and> AdStdout v = AdStdout w"
  by (cases v; cases w) (simp add: apart_def)

section \<open>The token\<close>

text \<open>The key pair that the program makes, and its request as the server sees it.\<close>

definition admit_pair :: "Certificate \<Rightarrow> rsa_PrivateKey \<Rightarrow> tls_Certificate" where
  "admit_pair cert key = \<lparr>Chain = [Raw cert], ChainKey = RSA_Key key, Leaf = None\<rparr>"

definition admit_request ::
  "Lib \<Rightarrow> (tls_Certificate list \<Rightarrow> Certificate list list option) \<Rightarrow> string \<Rightarrow> Keyserver \<Rightarrow> tls_Certificate \<Rightarrow> string \<Rightarrow> http_Request" where
  "admit_request L chs addr ks pair princ =
     post_request L chs addr (WithCertificate (endpoint ks) pair) [\<lparr>API = BootstrapKeyserverTokenAPI, Body = princ\<rparr>]"

lemma admit_outcome:
  assumes ac: "Accounts c (Principal ac) = Some ac" "\<not> DisableDirectAuth ac"
      "Privileges ac BootstrapKeyserverTokenAPI = Some (Bootstrap nodes_group time_Hour)" and auth: "AuthenticationAuthority c = Some t"
    and ip: "ip_allowed ac (admit_request L chs addr ks pair princ)" and header: "extraHeaders (endpoint ks) = Map.empty"
    and tls: "chs [pair] = Some ((cert # rest) # others)" "CommonName cert = Principal ac" "certificates (endpoint ks) = []"
    and verify: "x509_Verify L (now ws) cert (ToCertPool t) [ExtKeyUsageClientAuth] = (ch # found, None)"
    and grant: "bootstrap_call L (GroupStore c nodes_group) time_Hour princ (snd (time_Now ws)) = (Ok tok, ws')"
  shows "server_outcome L c (admit_request L chs addr ks pair princ) [\<lparr>API = BootstrapKeyserverTokenAPI, Body = princ\<rparr>] ws = (Ok [tok], ws')"
proof -
  let ?r = "admit_request L chs addr ks pair princ"
  have "TLS ?r = Some ((cert # rest) # others)" "Header_Get ?r TokenHeader = []"
    using tls(1,3) header by (simp_all add: admit_request_def post_request_def incoming_def WithCertificate_def Header_Get_def)
  then have "\<not> TokenVerifier_HasAttempt ?r" "TLSAuthority_HasAttempt ?r" "TLSAuthority_Verify L t ?r ws = (Ok (Principal ac), snd (time_Now ws))"
    using verify tls(2)
    by (simp_all add: TokenVerifier_HasAttempt_def TLSAuthority_HasAttempt_def TLSAuthority_Verify_def time_Now_def now_def)
  moreover have "GetAccount c (Principal ac) = Ok ac" "verifyAccountIP ac ?r = Ok ()"
    using ac(1) ip by (simp_all add: GetAccount_Ok_iff verifyAccountIP_Ok_iff)
  ultimately have "attemptAuthentication L c ?r ws = (Ok ac, snd (time_Now ws))"
    using ac(2) auth by (simp add: attemptAuthentication_def verifiers_def auth_Verify_def)
  with ac(3) grant show ?thesis by (simp add: server_outcome_def request_map_def op_map_def InvokeAPIOperation_def)
qed


section \<open>Evaluation on the concrete cluster\<close>

lemma demo_wire_config: "GenerateConfig demo_wire_Lib yaml w = GenerateConfig demo_Lib yaml w"
proof -
  have sel: "pem_Decode demo_wire_Lib = pem_Decode demo_Lib" "x509_ParseCertificate demo_wire_Lib = x509_ParseCertificate demo_Lib"
    "x509_ParsePKCS1PrivateKey demo_wire_Lib = x509_ParsePKCS1PrivateKey demo_Lib" "ssh_Marshal demo_wire_Lib = ssh_Marshal demo_Lib"
    "x509_ParsePKCS8PrivateKey demo_wire_Lib = x509_ParsePKCS8PrivateKey demo_Lib" "ssh_Type demo_wire_Lib = ssh_Type demo_Lib"
    "ssh_ParseAuthorizedKey demo_wire_Lib = ssh_ParseAuthorizedKey demo_Lib" "ssh_ParsePrivateKey demo_wire_Lib = ssh_ParsePrivateKey demo_Lib"
    by (simp_all add: demo_wire_Lib_def)
  have "LoadTLSAuthority demo_wire_Lib k d = LoadTLSAuthority demo_Lib k d" "LoadSSHAuthority demo_wire_Lib k d = LoadSSHAuthority demo_Lib k d" for k d
    unfolding LoadTLSAuthority_def LoadSSHAuthority_def LoadRSAKeyFromPEM_def LoadX509CertFromPEM_def LoadSinglePEMBlock_def
      parseSingleSSHKey_def arePublicKeysEqual_def sel by (rule refl)+
  note loads = this
  have "ConfigAuthority_Load demo_wire_Lib a d v = ConfigAuthority_Load demo_Lib a d v" for a d and v :: "'a TokenWorld_scheme"
    unfolding ConfigAuthority_Load_def loads by (rule refl)
  then have "load_authorities demo_wire_Lib as m = (load_authorities demo_Lib as m :: ('a TokenWorld_scheme, _) action)" for as m
    by (induction as arbitrary: m) (rule ext, simp)+
  then show ?thesis by (simp add: GenerateConfig_def config_for_def)
qed

definition demo_admit :: "TokenWorld AdmitWorld" where
  "demo_admit = \<lparr>Clock = int, Ticks = 0, Entropy = Some, Draws = 0, FS = (\<lambda>p. Some (demo_file p)),
     Faults = (\<lambda>_. None), Syscalls = 0, byToken = [], Onces = [], AdPeer = demo_start, AdStdout = []\<rparr>"

definition demo_admit_cert :: Certificate where
  "demo_admit_cert = zero_Certificate\<lparr>Raw := ''eggs.hw.example'', CertPublicKeyAlgorithm := RSA,
     CertPublicKey := RSA_PublicKey 15, CommonName := ''eggs.hw.example'', NotAfter := 1000000000000\<rparr>"

definition demo_admit_key :: rsa_PrivateKey where
  "demo_admit_key = \<lparr>N = 0, Secret = ''secret''\<rparr>"


end
