(* ===== verification/Kube_Conf.thy ===== *)
theory Kube_Conf
  imports World_Names Net_Util
begin

text \<open>
  \<open>kubernetes/wrapper/wrap.go\<close>: reading the configuration files of a node, and writing the configuration
  of a Kubernetes client. \<open>clientcmd.WriteToFile\<close> of the Kubernetes library is a parameter. Also what the
  launchers use of the standard library: \<open>net.ParseCIDR\<close>, \<open>strconv.ParseBool\<close> and running a command,
  which is recorded with its arguments and fails when the world says so.
\<close>

section \<open>Standard library\<close>

text \<open>\<open>net.ParseCIDR\<close>, without the network it also returns: the address and the length of the prefix.\<close>

definition ParseCIDR :: "string \<Rightarrow> (IP \<times> nat) option" where
  "ParseCIDR s = (case SplitN2 s (CHR ''/'') of
       [addr, bits] \<Rightarrow>
         (let ip4 = parseIPv4 addr; iplen = (if ip4 = None then 16 else 4);
              ip = (if ip4 = None then parseIPv6 addr else ip4) in
          case (ip, dtoi bits) of
            (Some ip, Some (n, [])) \<Rightarrow> if 8 * iplen < n then None else Some (ip, n)
          | _ \<Rightarrow> None)
     | _ \<Rightarrow> None)"

definition ParseBool :: "string \<Rightarrow> bool result" where
  "ParseBool s =
     (if s \<in> set [''1'', ''t'', ''T'', ''true'', ''TRUE'', ''True''] then Ok True
      else if s \<in> set [''0'', ''f'', ''F'', ''false'', ''FALSE'', ''False''] then Ok False
      else Err (LibError ''invalid syntax''))"

definition FormatBool :: "bool \<Rightarrow> string" where
  "FormatBool b = (if b then ''true'' else ''false'')"

record ProcWorld = FsWorld +
  Ran :: "string list list"
  Exits :: "nat \<Rightarrow> error option"

text \<open>\<open>exec.Command(args...).Run()\<close>: the \<open>n\<close>-th command of the process fails if \<open>Exits w n\<close> is an error.\<close>

definition cmd_Run :: "string list \<Rightarrow> ('a ProcWorld_scheme, unit) action" where
  "cmd_Run args w =
     ((case Exits w (length (Ran w)) of None \<Rightarrow> Ok () | Some e \<Rightarrow> Err e), w\<lparr>Ran := Ran w @ [args]\<rparr>)"

section \<open>wrap.go\<close>

fun conf_lines :: "string \<Rightarrow> (string \<rightharpoonup> string) \<Rightarrow> string list \<Rightarrow> (string \<rightharpoonup> string) result" where
  "conf_lines filename kvs [] = Ok kvs"
| "conf_lines filename kvs (l # ls) =
     (let line = TrimSpace l in
      if length line > 0 \<and> hd line \<noteq> CHR ''#'' then
        (case SplitN2 line (CHR ''='') of
           [k, v] \<Rightarrow> conf_lines filename (kvs(TrimSpace k \<mapsto> TrimSpace v)) ls
         | _ \<Rightarrow> Err (Errorf (''incorrectly formatted configuration file '%s'' @ [CHR 0x27]) [filename]))
      else conf_lines filename kvs ls)"

definition GetConf :: "string \<Rightarrow> ('a FsWorld_scheme, string \<rightharpoonup> string) action" where
  "GetConf filename w =
     and_thenS (ReadFile filename w) (\<lambda>conf w. (conf_lines filename Map.empty (Split conf (CHR 0x0A)), w))"

definition GetClusterConf :: "('a FsWorld_scheme, string \<rightharpoonup> string) action" where
  "GetClusterConf w = GetConf ClusterConfPath w"

definition GetLocalConf :: "('a FsWorld_scheme, string \<rightharpoonup> string) action" where
  "GetLocalConf w = GetConf LocalConfPath w"

text \<open>An index expression on a map gives the zero value for a missing key.\<close>

definition conf_get :: "(string \<rightharpoonup> string) \<Rightarrow> string \<Rightarrow> string" where
  "conf_get kvs key = (case kvs key of None \<Rightarrow> [] | Some v \<Rightarrow> v)"

definition GetAPIServer :: "('a FsWorld_scheme, string) action" where
  "GetAPIServer w =
     and_thenS (GetClusterConf w) (\<lambda>kvs w.
       case kvs ''APISERVER'' of
         None \<Rightarrow> (Err (ErrorNew (''could not find key 'APISERVER'' @ [CHR 0x27])), w)
       | Some apiserver \<Rightarrow> (Ok apiserver, w))"

text \<open>The fields of \<open>api.Config\<close> that are set: clusters, users and contexts by name.\<close>

record kube_Cluster =
  ClusterServer :: string
  CertificateAuthority :: string

record kube_AuthInfo =
  ClientCertificate :: string
  ClientKey :: string

record kube_Config =
  CurrentContext :: string
  Clusters :: "(string \<times> kube_Cluster) list"
  AuthInfos :: "(string \<times> kube_AuthInfo) list"
  Contexts :: "(string \<times> string \<times> string) list"

type_synonym 'w WriteToFile = "kube_Config \<Rightarrow> string \<Rightarrow> ('w, unit) action"

definition kubeconfig_for :: "string \<Rightarrow> string \<Rightarrow> string \<Rightarrow> kube_Config" where
  "kubeconfig_for apiserver keypath certpath = \<lparr>CurrentContext = ''hyades'',
     Clusters = [(''hyades-cluster'', \<lparr>ClusterServer = apiserver, CertificateAuthority = KubernetesCAPath\<rparr>)],
     AuthInfos = [(''kubelet-auth'', \<lparr>ClientCertificate = certpath, ClientKey = keypath\<rparr>)],
     Contexts = [(''hyades'', ''hyades-cluster'', ''kubelet-auth'')]\<rparr>"

definition GenerateKubeConfigForAPIServerToFile ::
  "'w WriteToFile \<Rightarrow> string \<Rightarrow> string \<Rightarrow> string \<Rightarrow> string \<Rightarrow> ('w, unit) action" where
  "GenerateKubeConfigForAPIServerToFile WriteToFile apiserver keypath certpath filename w =
     WriteToFile (kubeconfig_for apiserver keypath certpath) filename w"

definition GenerateKubeConfigToFile ::
  "'a FsWorld_scheme WriteToFile \<Rightarrow> string \<Rightarrow> string \<Rightarrow> string \<Rightarrow> ('a FsWorld_scheme, unit) action" where
  "GenerateKubeConfigToFile WriteToFile keypath certpath filename w =
     and_thenS (GetAPIServer w) (\<lambda>apiserver w.
       GenerateKubeConfigForAPIServerToFile WriteToFile apiserver keypath certpath filename w)"

section \<open>Reading back\<close>

text \<open>A configuration file as lines: comments and assignments.\<close>

datatype conf_line = Comment string | Assign string string

fun print_line :: "conf_line \<Rightarrow> string" where
  "print_line (Comment c) = CHR ''#'' # c"
| "print_line (Assign k v) = k @ CHR ''='' # v"

text \<open>A comment that ends in a visible character; keys and values of visible characters, a key not empty, without an equals sign and not a comment.\<close>

fun line_ok :: "conf_line \<Rightarrow> bool" where
  "line_ok (Comment c) = (CHR 0x0A \<notin> set c \<and> visible (last (CHR ''#'' # c)))"
| "line_ok (Assign k v) = (k \<noteq> [] \<and> hd k \<noteq> CHR ''#'' \<and> CHR ''='' \<notin> set k \<and> list_all visible k \<and> list_all visible v)"

fun assign_line :: "(string \<rightharpoonup> string) \<Rightarrow> conf_line \<Rightarrow> (string \<rightharpoonup> string)" where
  "assign_line m (Comment c) = m"
| "assign_line m (Assign k v) = m(k \<mapsto> v)"

lemma SplitN2_assign: "CHR ''='' \<notin> set k \<Longrightarrow> SplitN2 (k @ CHR ''='' # v) (CHR ''='') = [k, v]"
  by (induction k) auto

lemma visible_no_newline: "list_all visible s \<Longrightarrow> CHR 0x0A \<notin> set s"
  by (auto simp: list_all_iff visible_def)

lemma print_line_no_newline: "line_ok l \<Longrightarrow> CHR 0x0A \<notin> set (print_line l)"
  by (cases l) (auto dest: visible_no_newline)

lemma Split_join:
  assumes "ls \<noteq> []" and "\<forall>l\<in>set ls. sep \<notin> set l"
  shows "Split (join sep ls) sep = ls"
  using assms
proof (induction ls)
  case (Cons l ls)
  then show ?case by (cases ls) (simp_all add: Split_no_sep Split_append)
qed simp

text \<open>A string that starts and ends with a visible character has nothing to trim.\<close>

lemma leading_rune_hd:
  assumes "\<forall>r\<in>set rs. r \<noteq> [] \<and> \<not> visible (hd r)" and "s \<noteq> []" and "visible (hd s)"
  shows "leading_rune rs s = 0"
proof -
  have "\<not> HasPrefix s r" if "r \<in> set rs" for r
    using assms that by (metis HasPrefix_iff hd_append2)
  then have "find (HasPrefix s) rs = None" by (simp add: find_None_iff)
  then show ?thesis by (simp add: leading_rune_def)
qed

lemma TrimSpace_ends:
  assumes "s \<noteq> []" and "visible (hd s)" and "visible (last s)"
  shows "TrimSpace s = s"
proof -
  have l: "\<forall>r\<in>set space_runes. r \<noteq> [] \<and> \<not> visible (hd r)" using space_runes_not_visible by blast
  have r: "\<forall>r\<in>set (map rev space_runes). r \<noteq> [] \<and> \<not> visible (hd r)"
    using space_runes_not_visible by (auto simp: hd_rev)
  have "leading_rune (map rev space_runes) (rev s) = 0" using leading_rune_hd [OF r, of "rev s"] assms by (simp add: hd_rev)
  then show ?thesis
    using leading_rune_hd [OF l assms(1,2)] by (simp add: TrimSpace_def trim_right_def trim_left.simps)
qed

lemma conf_lines_print:
  assumes "\<forall>l\<in>set ls. line_ok l"
  shows "conf_lines f m (map print_line ls) = Ok (foldl assign_line m ls)"
  using assms
proof (induction ls arbitrary: m)
  case (Cons l ls)
  show ?case
  proof (cases l)
    case (Comment c)
    with Cons.prems have "TrimSpace (print_line l) = CHR ''#'' # c"
      using TrimSpace_ends [of "print_line l"] by (simp add: visible_def)
    with Cons Comment show ?thesis by simp
  next
    case (Assign k v)
    with Cons.prems have k: "k \<noteq> []" "hd k \<noteq> CHR ''#''" "CHR ''='' \<notin> set k" "\<forall>c\<in>set k. visible c" "\<forall>c\<in>set v. visible c"
      by (simp_all add: list_all_iff)
    moreover from k(4,5) have "\<forall>c\<in>set (print_line l). visible c" by (auto simp: Assign visible_def)
    then have "TrimSpace (print_line l) = k @ CHR ''='' # v" using TrimSpace_visible [of "print_line l"] by (simp add: Assign)
    ultimately show ?thesis
      using Cons Assign SplitN2_assign [of k v] TrimSpace_visible [of k] TrimSpace_visible [of v] by simp
  qed
qed simp

lemma GetConf_print:
  assumes "lookup (FS w) f = Inr (File (join (CHR 0x0A) (map print_line ls)) m t)" and "Faults w (Syscalls w) = None"
    and "ls \<noteq> []" and "\<forall>l\<in>set ls. line_ok l"
  shows "fst (GetConf f w) = Ok (foldl assign_line Map.empty ls)"
proof -
  have "Split (join (CHR 0x0A) (map print_line ls)) (CHR 0x0A) = map print_line ls"
    using assms(3,4) print_line_no_newline by (intro Split_join) auto
  with assms conf_lines_print [of ls f Map.empty] show ?thesis by (simp add: GetConf_def ReadFile_def syscall_def)
qed

section \<open>Commands\<close>

text \<open>The library writes a file; it runs no commands.\<close>

definition runs_nothing :: "'a ProcWorld_scheme WriteToFile \<Rightarrow> bool" where
  "runs_nothing W = (\<forall>c f w. Ran (snd (W c f w)) = Ran w \<and> Exits (snd (W c f w)) = Exits w)"

definition same_runs :: "'a ProcWorld_scheme \<Rightarrow> 'a ProcWorld_scheme \<Rightarrow> bool" where
  "same_runs w w' = (Ran w' = Ran w \<and> Exits w' = Exits w)"

lemma same_runs_refl: "same_runs w w"
  by (simp add: same_runs_def)

lemma same_runs_trans: "same_runs a b \<Longrightarrow> same_runs b c \<Longrightarrow> same_runs a c"
  by (simp add: same_runs_def)

lemma ReadFile_runs: "same_runs w (snd (ReadFile p w))"
  by (simp add: same_runs_def ReadFile_def syscall_def split: option.splits)

lemma GetConf_runs: "same_runs w (snd (GetConf f w))"
  using ReadFile_runs [of w f] by (cases "ReadFile f w"; cases "fst (ReadFile f w)") (auto simp: GetConf_def)

lemma GenerateKubeConfigToFile_runs:
  assumes "runs_nothing W"
  shows "same_runs w (snd (GenerateKubeConfigToFile W k c f w))"
proof -
  obtain r w1 where g: "GetClusterConf w = (r, w1)" by fastforce
  then have "same_runs w w1" using GetConf_runs [of w ClusterConfPath] by (simp add: GetClusterConf_def)
  moreover have "same_runs w1 (snd (W cfg f w1))" for cfg using assms by (simp add: runs_nothing_def same_runs_def)
  ultimately show ?thesis
    by (cases r) (auto simp: GenerateKubeConfigToFile_def GenerateKubeConfigForAPIServerToFile_def GetAPIServer_def g
        split: option.splits intro: same_runs_trans)
qed

end
