(* ===== verification/Kube_Launch.thy ===== *)
theory Kube_Launch
  imports Kube_Conf World_Config
begin

text \<open>
  \<open>kubernetes/launch.go\<close> and \<open>kube-state-metrics/launch.go\<close>: the programs that read the configuration of
  a node and start a component of Kubernetes with it. The results: a launcher that reports success has
  run its component, except that the one of the kubelet also does so for two mistakes in the
  configuration; and the configuration that the keyserver generates for a node is read back.
\<close>

section \<open>launch.go\<close>

definition getVerbosityArgument :: "'a FsWorld_scheme \<Rightarrow> string \<times> 'a FsWorld_scheme" where
  "getVerbosityArgument w = (case ReadFile ''/etc/homeworld/config/verbosity'' w of
       (Ok verbosityBytes, w) \<Rightarrow>
         (let verbosity = TrimSpace verbosityBytes in
          case ParseUint verbosity 32 of
            Ok _ \<Rightarrow> (''--v='' @ verbosity, w)
          | _ \<Rightarrow> (''--v=0'', w))
     | (_, w) \<Rightarrow> (''--v=0'', w))"

definition kubeConfigPath :: "string \<Rightarrow> string" where
  "kubeConfigPath suffix = ''/etc/homeworld/config/kubeconfig-'' @ suffix"

text \<open>The command of a launcher: the verbosity comes last, and an error is wrapped.\<close>

definition launch :: "string list \<Rightarrow> string \<Rightarrow> ('a ProcWorld_scheme, unit) action" where
  "launch args msg w = (case getVerbosityArgument w of (v, w) \<Rightarrow>
     case cmd_Run (args @ [v]) w of (r, w) \<Rightarrow> (wrap_err msg r, w))"

definition apiserver_args :: "string \<Rightarrow> string \<Rightarrow> string \<Rightarrow> string \<Rightarrow> string list" where
  "apiserver_args apiserverCount hostIP serviceCidr etcdEndpoints =
     [''/usr/bin/hyperkube'', ''kube-apiserver'',
      ''--authorization-mode'', ''Node,RBAC'',
      ''--apiserver-count'', apiserverCount,
      ''--bind-address'', ''0.0.0.0'', ''--advertise-address'', hostIP,
      ''--service-cluster-ip-range'', serviceCidr,
      ''--secure-port'', ''443'',
      ''--etcd-servers'', etcdEndpoints,
      ''--allow-privileged'', ''true'',
      ''--anonymous-auth'', ''false'',
      ''--admission-control'', ''NamespaceLifecycle,LimitRanger,ServiceAccount,TaintNodesByCondition,Priority,DefaultTolerationSeconds,DefaultStorageClass,StorageObjectInUseProtection,PersistentVolumeClaimResize,MutatingAdmissionWebhook,ValidatingAdmissionWebhook,RuntimeClass,ResourceQuota,DenyEscalatingExec,SecurityContextDeny,NodeRestriction'',
      ''--client-ca-file'', KubernetesCAPath,
      ''--tls-cert-file'', KubernetesMasterCert, ''--tls-private-key-file'', KubernetesMasterKey,
      ''--service-account-lookup'',
      ''--cloud-provider='',
      ''--etcd-cafile'', ''/etc/homeworld/authorities/etcd-server.pem'',
      ''--etcd-certfile'', ''/etc/homeworld/keys/etcd-client.pem'', ''--etcd-keyfile'', ''/etc/homeworld/keys/etcd-client.key'',
      ''--insecure-port'', ''0'',
      ''--kubelet-certificate-authority'', KubernetesCAPath,
      ''--kubelet-client-certificate'', KubernetesMasterCert, ''--kubelet-client-key'', KubernetesMasterKey,
      ''--service-account-key-file'', ''/etc/homeworld/keys/serviceaccount.key'']"

definition LaunchAPIServer :: "('a ProcWorld_scheme, unit) action" where
  "LaunchAPIServer w =
     (case GetClusterConf w of (r, w) \<Rightarrow> and_thenS (wrap_err ''while loading cluster.conf'' r, w) (\<lambda>clusterConf w.
      case GetLocalConf w of (r, w) \<Rightarrow> and_thenS (wrap_err ''while loading local.conf'' r, w) (\<lambda>localConf w.
      let apiserverCount = conf_get clusterConf ''APISERVER_COUNT'' in
      and_thenS (wrap_err ''while validating APISERVER_COUNT'' (ParseUint apiserverCount 32), w) (\<lambda>_ w.
      let serviceCidr = conf_get clusterConf ''SERVICE_CIDR'' in
      if ParseCIDR serviceCidr = None then (Err (Wrap (LibError ''invalid CIDR address'') ''while parsing SERVICE_CIDR''), w)
      else let hostIP = conf_get localConf ''HOST_IP'' in
      if ParseIP hostIP = None then (Err (Errorf (''invalid IP '%s'' @ [CHR 0x27]) [hostIP]), w)
      else let etcdEndpoints = conf_get clusterConf ''ETCD_ENDPOINTS'' in
      if \<not> Contains etcdEndpoints ''://'' then
        (Err (Errorf (''missing or invalid ETCD_ENDPOINTS: '%s'' @ [CHR 0x27]) [etcdEndpoints]), w)
      else launch (apiserver_args apiserverCount hostIP serviceCidr etcdEndpoints) ''while running apiserver'' w))))"

definition ctrlmgr_args :: "string \<Rightarrow> string \<Rightarrow> string \<Rightarrow> string list" where
  "ctrlmgr_args kubeconfig clusterCidr serviceCidr =
     [''/usr/bin/hyperkube'', ''kube-controller-manager'',
      ''--kubeconfig'', kubeconfig,
      ''--cluster-cidr'', clusterCidr,
      ''--node-cidr-mask-size'', ''24'',
      ''--service-cluster-ip-range'', serviceCidr,
      ''--cluster-name'', ''hyades'',
      ''--leader-elect'',
      ''--allocate-node-cidrs'',
      ''--use-service-account-credentials'',
      ''--service-account-private-key-file'', ''/etc/homeworld/keys/serviceaccount.key'',
      ''--root-ca-file'', ''/etc/homeworld/authorities/kubernetes.pem'']"

definition LaunchControllerManager :: "'a ProcWorld_scheme WriteToFile \<Rightarrow> ('a ProcWorld_scheme, unit) action" where
  "LaunchControllerManager W w =
     (case GetClusterConf w of (r, w) \<Rightarrow> and_thenS (wrap_err ''while loading cluster.conf'' r, w) (\<lambda>clusterConf w.
      let serviceCidr = conf_get clusterConf ''SERVICE_CIDR'' in
      if ParseCIDR serviceCidr = None then (Err (Wrap (LibError ''invalid CIDR address'') ''while parsing SERVICE_CIDR''), w)
      else let clusterCidr = conf_get clusterConf ''CLUSTER_CIDR'' in
      if ParseCIDR clusterCidr = None then (Err (Wrap (LibError ''invalid CIDR address'') ''while parsing CLUSTER_CIDR''), w)
      else let kubeconfig = kubeConfigPath ''controller-manager'' in
      and_thenS (GenerateKubeConfigToFile W KubernetesCtrlMgrKey KubernetesCtrlMgrCert kubeconfig w) (\<lambda>_ w.
        launch (ctrlmgr_args kubeconfig clusterCidr serviceCidr) ''while running controller-manager'' w)))"

definition kubelet_args :: "string \<Rightarrow> bool \<Rightarrow> string \<Rightarrow> string \<Rightarrow> string list" where
  "kubelet_args kubeconfig scheduleWork serviceDNS clusterDomain =
     [''/usr/bin/hyperkube'', ''kubelet'',
      ''--kubeconfig'', kubeconfig,
      ''--register-schedulable='' @ FormatBool scheduleWork,
      ''--anonymous-auth=false'',
      ''--tls-cert-file'', KubernetesWorkerCert, ''--tls-private-key-file'', KubernetesWorkerKey,
      ''--client-ca-file'', KubernetesCAPath,
      ''--cloud-provider='',
      ''--container-runtime'', ''remote'', ''--container-runtime-endpoint'', ''unix:///var/run/crio/crio.sock'',
      ''--cluster-dns'', serviceDNS, ''--cluster-domain'', clusterDomain]"

text \<open>The source wraps \<open>err\<close> in two places where it is nil.\<close>

definition wrapped_nil :: "string \<Rightarrow> unit result" where
  "wrapped_nil msg = (case errors_Wrap None msg of None \<Rightarrow> Ok () | Some e \<Rightarrow> Err e)"

definition LaunchKubelet :: "'a ProcWorld_scheme WriteToFile \<Rightarrow> ('a ProcWorld_scheme, unit) action" where
  "LaunchKubelet W w =
     (case GetClusterConf w of (r, w) \<Rightarrow> and_thenS (wrap_err ''while loading cluster.conf'' r, w) (\<lambda>clusterConf w.
      case GetLocalConf w of (r, w) \<Rightarrow> and_thenS (wrap_err ''while loading cluster.conf'' r, w) (\<lambda>localConf w.
      let serviceDNS = conf_get clusterConf ''SERVICE_DNS'' in
      if ParseIP serviceDNS = None then (wrapped_nil ''while parsing SERVICE_DNS'', w)
      else let clusterDomain = conf_get clusterConf ''CLUSTER_DOMAIN'' in
      if Count clusterDomain (CHR ''.'') < 1 then (wrapped_nil ''while validating CLUSTER_DOMAIN'', w)
      else and_thenS (wrap_err ''while parsing SCHEDULE_WORK'' (ParseBool (conf_get localConf ''SCHEDULE_WORK'')), w)
        (\<lambda>scheduleWork w.
      let kubeconfig = kubeConfigPath ''kubelet'' in
      and_thenS (GenerateKubeConfigToFile W KubernetesWorkerKey KubernetesWorkerCert kubeconfig w) (\<lambda>_ w.
        launch (kubelet_args kubeconfig scheduleWork serviceDNS clusterDomain) ''while running kubelet'' w)))))"

definition LaunchProxy :: "'a ProcWorld_scheme WriteToFile \<Rightarrow> ('a ProcWorld_scheme, unit) action" where
  "LaunchProxy W w =
     (let kubeconfig = kubeConfigPath ''proxy'' in
      and_thenS (GenerateKubeConfigToFile W KubernetesProxyKey KubernetesProxyCert kubeconfig w) (\<lambda>_ w.
        launch [''/usr/bin/hyperkube'', ''kube-proxy'', ''--kubeconfig'', kubeconfig, ''--config-sync-period'', ''1m'']
          ''while running proxy'' w))"

definition LaunchScheduler :: "'a ProcWorld_scheme WriteToFile \<Rightarrow> ('a ProcWorld_scheme, unit) action" where
  "LaunchScheduler W w =
     (let kubeconfig = kubeConfigPath ''scheduler'' in
      and_thenS (GenerateKubeConfigToFile W KubernetesSchedulerKey KubernetesSchedulerCert kubeconfig w) (\<lambda>_ w.
        launch [''/usr/bin/hyperkube'', ''kube-scheduler'', ''--kubeconfig'', kubeconfig, ''--leader-elect'']
          ''while running scheduler'' w))"

definition LaunchService :: "'a ProcWorld_scheme WriteToFile \<Rightarrow> string \<Rightarrow> ('a ProcWorld_scheme, unit) action" where
  "LaunchService W name w =
     (if name = ''apiserver'' then LaunchAPIServer w
      else if name = ''controller-manager'' then LaunchControllerManager W w
      else if name = ''kubelet'' then LaunchKubelet W w
      else if name = ''proxy'' then LaunchProxy W w
      else if name = ''scheduler'' then LaunchScheduler W w
      else (Err (Errorf ''no such service %s'' [name]), w))"

section \<open>kube-state-metrics/launch.go\<close>

definition KSM_KubeConfigPath :: string where
  "KSM_KubeConfigPath = ''/etc/homeworld/config/kubeconfig-kube-state-metrics''"
definition MetricsPort :: nat where "MetricsPort = 9104"
definition MetaMetricsPort :: nat where "MetaMetricsPort = 9105"

definition LaunchKSM :: "string \<Rightarrow> nat \<Rightarrow> nat \<Rightarrow> ('a ProcWorld_scheme, unit) action" where
  "LaunchKSM kubeconfig port metaport w =
     cmd_Run [''/usr/bin/kube-state-metrics'', ''--kubeconfig'', kubeconfig, ''--port'', dec port,
       ''--telemetry-port'', dec metaport] w"

definition ConfigureAndLaunch :: "'a ProcWorld_scheme WriteToFile \<Rightarrow> ('a ProcWorld_scheme, unit) action" where
  "ConfigureAndLaunch W w =
     (let kubeconfig = KSM_KubeConfigPath in
      and_thenS (GenerateKubeConfigToFile W KubernetesSupervisorKey KubernetesSupervisorCert kubeconfig w) (\<lambda>_ w.
        LaunchKSM kubeconfig MetricsPort MetaMetricsPort w))"

section \<open>What a launcher has run\<close>

lemma getVerbosityArgument_runs: "same_runs w (snd (getVerbosityArgument w))"
proof -
  obtain r w1 where g: "ReadFile ''/etc/homeworld/config/verbosity'' w = (r, w1)" by fastforce
  then have "same_runs w w1" using ReadFile_runs [of w "''/etc/homeworld/config/verbosity''"] by simp
  then show ?thesis by (cases r) (auto simp: getVerbosityArgument_def g Let_def split: result.splits)
qed

definition started :: "string list \<Rightarrow> 'a ProcWorld_scheme \<Rightarrow> 'a ProcWorld_scheme \<Rightarrow> bool" where
  "started args w w' = (\<exists>v. Ran w' = Ran w @ [args @ [v]] \<and> Exits w (length (Ran w)) = None)"

lemma launch_Ok:
  assumes "launch args msg w = (Ok u, w')"
  shows "started args w w'"
proof -
  obtain v w1 where v: "getVerbosityArgument w = (v, w1)" by fastforce
  then have "same_runs w w1" using getVerbosityArgument_runs [of w] by simp
  with assms v show ?thesis by (auto simp: launch_def cmd_Run_def same_runs_def started_def split: option.splits)
qed

lemma started_runs: "same_runs w w1 \<Longrightarrow> started args w1 w' \<Longrightarrow> started args w w'"
  by (simp add: started_def same_runs_def)

fun component :: "string \<Rightarrow> string" where
  "component name = (if name = ''kubelet'' then name else ''kube-'' @ name)"

text \<open>What is wrong with the configuration of a kubelet whose launcher reports no error.\<close>

definition kubelet_unconfigured :: "'a ProcWorld_scheme \<Rightarrow> bool" where
  "kubelet_unconfigured w = (case fst (GetClusterConf w) of
       Ok kvs \<Rightarrow> ParseIP (conf_get kvs ''SERVICE_DNS'') = None \<or> Count (conf_get kvs ''CLUSTER_DOMAIN'') (CHR ''.'') < 1
     | _ \<Rightarrow> False)"

text \<open>
  Rules for what holds between the state before a launcher and the state after its success: they follow
  the structure of the launchers.
\<close>

definition on_success :: "('a ProcWorld_scheme \<Rightarrow> bool) \<Rightarrow> unit result \<times> 'a ProcWorld_scheme \<Rightarrow> bool" where
  "on_success P rw = (\<forall>u w'. rw = (Ok u, w') \<longrightarrow> P w')"

lemma on_success_Err [simp]: "on_success P (Err e, w)"
  by (simp add: on_success_def)

lemma on_success_if:
  assumes "b \<Longrightarrow> on_success P x" and "\<not> b \<Longrightarrow> on_success P y"
  shows "on_success P (if b then x else y)"
  using assms by simp

lemma on_success_call:
  assumes "same_runs v (snd f)" and "same_runs w v" and "\<And>r s. f = (r, s) \<Longrightarrow> same_runs w s \<Longrightarrow> on_success P (g r s)"
  shows "on_success P (case f of (r, s) \<Rightarrow> g r s)"
proof -
  obtain r s where f: "f = (r, s)" by fastforce
  with assms(1,2) have "same_runs w s" by (metis same_runs_trans snd_conv)
  with assms(3) f show ?thesis by simp
qed

lemma on_success_bind:
  assumes "same_runs v (snd f)" and "same_runs w v" and "\<And>x s. same_runs w s \<Longrightarrow> on_success P (g x s)"
  shows "on_success P (and_thenS f g)"
proof -
  obtain r s where f: "f = (r, s)" by fastforce
  with assms(1,2) have "same_runs w s" by (metis same_runs_trans snd_conv)
  with assms(3) f show ?thesis by (cases r) (simp_all add: on_success_def)
qed

lemma on_success_wrap:
  assumes "\<And>x. r = Ok x \<Longrightarrow> on_success P (g x s)"
  shows "on_success P (and_thenS (wrap_err m r, s) g)"
  using assms by (cases r) (simp_all add: on_success_def)

lemma on_success_launch:
  assumes "same_runs w v" and "\<And>w'. started args w w' \<Longrightarrow> P w'"
  shows "on_success P (launch args msg v)"
  unfolding on_success_def using assms launch_Ok started_runs by blast

lemma conf_runs: "same_runs w (snd (GetClusterConf w))" "same_runs w (snd (GetLocalConf w))"
  by (simp_all add: GetClusterConf_def GetLocalConf_def GetConf_runs)

lemma LaunchAPIServer_Ok:
  "on_success (\<lambda>w'. \<exists>a b c d. started (apiserver_args a b c d) w w') (LaunchAPIServer w)"
  unfolding LaunchAPIServer_def Let_def
  by (rule on_success_call [OF conf_runs(1) same_runs_refl] on_success_wrap on_success_call [OF conf_runs(2)]
      on_success_if on_success_Err on_success_launch | assumption | blast)+

lemma LaunchControllerManager_Ok:
  assumes "runs_nothing W"
  shows "on_success (\<lambda>w'. \<exists>a b c. started (ctrlmgr_args a b c) w w') (LaunchControllerManager W w)"
  unfolding LaunchControllerManager_def Let_def
  by (rule on_success_call [OF conf_runs(1) same_runs_refl] on_success_wrap on_success_if on_success_Err
      on_success_bind [OF GenerateKubeConfigToFile_runs [OF assms]] on_success_launch | assumption | blast)+

lemma LaunchKubelet_Ok:
  assumes "runs_nothing W"
  shows "on_success (\<lambda>w'. (\<exists>a b c d. started (kubelet_args a b c d) w w') \<or> Ran w' = Ran w \<and> kubelet_unconfigured w)
    (LaunchKubelet W w)"
  unfolding LaunchKubelet_def Let_def
proof (rule on_success_call [OF conf_runs(1) same_runs_refl], rule on_success_wrap, rule on_success_call [OF conf_runs(2)], assumption,
    rule on_success_wrap)
  fix r w1 kvs r2 w2 lvs
  assume c: "GetClusterConf w = (r, w1)" "r = Ok kvs" and runs: "same_runs w w2"
  let ?P = "\<lambda>w'. (\<exists>a b c d. started (kubelet_args a b c d) w w') \<or> Ran w' = Ran w \<and> kubelet_unconfigured w"
  have nil: "on_success ?P (wrapped_nil m, w2)" if "kubelet_unconfigured w" for m
    using that runs by (simp add: on_success_def same_runs_def)
  have bad: "ParseIP (conf_get kvs ''SERVICE_DNS'') = None \<Longrightarrow> kubelet_unconfigured w"
    "Count (conf_get kvs ''CLUSTER_DOMAIN'') (CHR ''.'') < 1 \<Longrightarrow> kubelet_unconfigured w"
    using c by (simp_all add: kubelet_unconfigured_def)
  show "on_success ?P (if ParseIP (conf_get kvs ''SERVICE_DNS'') = None then (wrapped_nil ''while parsing SERVICE_DNS'', w2)
      else if Count (conf_get kvs ''CLUSTER_DOMAIN'') (CHR ''.'') < 1 then (wrapped_nil ''while validating CLUSTER_DOMAIN'', w2)
      else and_thenS (wrap_err ''while parsing SCHEDULE_WORK'' (ParseBool (conf_get lvs ''SCHEDULE_WORK'')), w2) (\<lambda>scheduleWork w.
        and_thenS (GenerateKubeConfigToFile W KubernetesWorkerKey KubernetesWorkerCert (kubeConfigPath ''kubelet'') w) (\<lambda>_ w.
          launch (kubelet_args (kubeConfigPath ''kubelet'') scheduleWork (conf_get kvs ''SERVICE_DNS'') (conf_get kvs ''CLUSTER_DOMAIN''))
            ''while running kubelet'' w)))"
    by (rule on_success_if nil bad on_success_wrap on_success_bind [OF GenerateKubeConfigToFile_runs [OF assms] runs]
        on_success_launch | assumption | blast)+
qed

lemma generated_launch_Ok:
  assumes "runs_nothing W"
  shows "on_success (\<lambda>w'. started args w w') (and_thenS (GenerateKubeConfigToFile W k c f w) (\<lambda>_ w. launch args msg w))"
  by (rule on_success_bind [OF GenerateKubeConfigToFile_runs [OF assms] same_runs_refl] on_success_launch | assumption)+

text \<open>
  C16: a launcher that reports success has run its component, as its one and only command, and the
  component has ended without an error. The exception is the kubelet: when the address of the DNS
  service is invalid or the domain of the cluster has no dot, its launcher runs nothing and still reports
  success.
\<close>

theorem LaunchService_outcome:
  assumes "runs_nothing W" and "LaunchService W name w = (Ok u, w')"
  shows "(\<exists>args. started args w w' \<and> take 2 args = [''/usr/bin/hyperkube'', component name]) \<or>
    name = ''kubelet'' \<and> Ran w' = Ran w \<and> kubelet_unconfigured w"
proof -
  have args: "take 2 (apiserver_args a b c d) = [''/usr/bin/hyperkube'', ''kube-apiserver'']"
    "take 2 (ctrlmgr_args a b c) = [''/usr/bin/hyperkube'', ''kube-controller-manager'']"
    "take 2 (kubelet_args a e b c) = [''/usr/bin/hyperkube'', ''kubelet'']" for a b c d e
    by (simp_all add: apiserver_args_def ctrlmgr_args_def kubelet_args_def)
  consider "name = ''apiserver''" | "name = ''controller-manager''" | "name = ''kubelet''" | "name = ''proxy''" | "name = ''scheduler''"
    using assms(2) by (auto simp: LaunchService_def split: if_splits)
  then show ?thesis
  proof cases
    case 1
    with LaunchAPIServer_Ok [of w] assms(2) args(1) show ?thesis by (fastforce simp: LaunchService_def on_success_def)
  next
    case 2
    with LaunchControllerManager_Ok [OF assms(1), of w] assms(2) args(2) show ?thesis
      by (fastforce simp: LaunchService_def on_success_def)
  next
    case 3
    with LaunchKubelet_Ok [OF assms(1), of w] assms(2) args(3) show ?thesis
      by (fastforce simp: LaunchService_def on_success_def)
  next
    case 4
    with assms(2) have "LaunchProxy W w = (Ok u, w')" by (simp add: LaunchService_def)
    with generated_launch_Ok [OF assms(1)] 4 show ?thesis by (fastforce simp: LaunchProxy_def Let_def on_success_def)
  next
    case 5
    with assms(2) have "LaunchScheduler W w = (Ok u, w')" by (simp add: LaunchService_def)
    with generated_launch_Ok [OF assms(1)] 5 show ?thesis by (fastforce simp: LaunchScheduler_def Let_def on_success_def)
  qed
qed

section \<open>The configuration of a node\<close>

definition local_conf_lines :: "SpireNode \<Rightarrow> string \<Rightarrow> conf_line list" where
  "local_conf_lines node dns = [Comment '' generated automatically by keyserver'',
     Assign ''HOST_NODE'' (Hostname node), Assign ''HOST_DNS'' dns, Assign ''HOST_IP'' (NodeIP node),
     Assign ''SCHEDULE_WORK'' (bool_text (IsWorker node)), Assign ''KIND'' (Kind node)]"

lemma GenerateLocalConf_lines:
  assumes "GenerateLocalConf node = Ok conf"
  shows "\<exists>dns. DNS node = Ok dns \<and> conf = join (CHR 0x0A) (map print_line (local_conf_lines node dns))"
  using assms by (auto simp: GenerateLocalConf_def and_then_Ok_iff local_conf_lines_def)

text \<open>
  C17: the local configuration that the keyserver generates for a node, as a file on that node, is read
  back by the launchers with the name, address and kind of the node, and the flag for the kubelet to
  accept work is exactly whether the node is a worker.
\<close>

theorem local_conf_roundtrip:
  assumes "GenerateLocalConf node = Ok conf" and "DNS node = Ok dns"
    and "list_all (list_all visible) [Hostname node, dns, NodeIP node, Kind node]"
    and "lookup (FS w) LocalConfPath = Inr (File conf m t)" and "Faults w (Syscalls w) = None"
  shows "fst (GetLocalConf w) = Ok [''HOST_NODE'' \<mapsto> Hostname node, ''HOST_DNS'' \<mapsto> dns, ''HOST_IP'' \<mapsto> NodeIP node,
      ''SCHEDULE_WORK'' \<mapsto> bool_text (IsWorker node), ''KIND'' \<mapsto> Kind node] \<and>
    ParseBool (bool_text (IsWorker node)) = Ok (IsWorker node)"
proof -
  have conf: "conf = join (CHR 0x0A) (map print_line (local_conf_lines node dns))"
    using GenerateLocalConf_lines [OF assms(1)] assms(2) by auto
  have "\<forall>l\<in>set (local_conf_lines node dns). line_ok l"
    using assms(3) by (auto simp: local_conf_lines_def bool_text_def visible_def)
  then have "fst (GetConf LocalConfPath w) = Ok (foldl assign_line Map.empty (local_conf_lines node dns))"
    using assms(4,5) unfolding conf by (intro GetConf_print) (auto simp: local_conf_lines_def)
  then show ?thesis by (simp add: GetLocalConf_def local_conf_lines_def ParseBool_def bool_text_def)
qed

section \<open>Evaluation on a concrete node\<close>

definition demo_worker :: SpireNode where
  "demo_worker = \<lparr>Hostname = ''spam'', NodeIP = ''18.4.60.6'', netIP = None, node_setup = Some ''hw.example'', Kind = WorkerKind\<rparr>"

definition demo_launch :: "string \<Rightarrow> ProcWorld" where
  "demo_launch conf = \<lparr>Clock = int, Ticks = 0, Entropy = Some, Draws = 0,
     FS = [ClusterConfPath \<mapsto> File ''# no settings'' 420 0, LocalConfPath \<mapsto> File conf 420 0],
     Faults = (\<lambda>_. None), Syscalls = 0, Ran = [], Exits = (\<lambda>_. None)\<rparr>"

lemma demo_launch_lookup:
  "lookup (FS (demo_launch conf)) LocalConfPath = Inr (File conf 420 0)"
  "lookup (FS (demo_launch conf)) ClusterConfPath = Inr (File ''# no settings'' 420 0)"
  by (simp_all add: lookup_def demo_launch_def path_names ancestors_def upt_rec)

theorem local_conf_roundtrip_witness:
  "\<exists>conf. GenerateLocalConf demo_worker = Ok conf \<and>
     fst (GetLocalConf (demo_launch conf)) = Ok [''HOST_NODE'' \<mapsto> ''spam'', ''HOST_DNS'' \<mapsto> ''spam.hw.example'',
       ''HOST_IP'' \<mapsto> ''18.4.60.6'', ''SCHEDULE_WORK'' \<mapsto> ''true'', ''KIND'' \<mapsto> ''worker'']"
proof -
  have dns: "DNS demo_worker = Ok ''spam.hw.example''" by (simp add: DNS_def demo_worker_def)
  then obtain conf where conf: "GenerateLocalConf demo_worker = Ok conf" by (simp add: GenerateLocalConf_def)
  have vis: "list_all (list_all visible) [Hostname demo_worker, ''spam.hw.example'', NodeIP demo_worker, Kind demo_worker]"
    by (simp add: demo_worker_def visible_def kinds)
  have "Faults (demo_launch conf) (Syscalls (demo_launch conf)) = None" by (simp add: demo_launch_def)
  from local_conf_roundtrip [OF conf dns vis demo_launch_lookup(1) this] conf show ?thesis
    by (simp add: demo_worker_def kinds IsWorker_def bool_text_def)
qed

text \<open>A kubelet without settings: its launcher reports success and has run nothing.\<close>

theorem LaunchService_outcome_witness:
  "\<exists>w'. LaunchService (\<lambda>c f w. (Ok (), w)) ''kubelet'' (demo_launch []) = (Ok (), w') \<and> Ran w' = [] \<and>
     kubelet_unconfigured (demo_launch [])"
proof -
  let ?W = "(\<lambda>c f w. (Ok (), w)) :: ProcWorld WriteToFile"
  have clu: "GetClusterConf (demo_launch []) = (Ok Map.empty, (demo_launch [])\<lparr>Syscalls := 1\<rparr>)"
  proof -
    have "Split ''# no settings'' (CHR 0x0A) = [''# no settings'']" by (rule Split_no_sep) simp
    moreover have "TrimSpace ''# no settings'' = ''# no settings''" by (rule TrimSpace_ends) (simp_all add: visible_def)
    ultimately show ?thesis
      using demo_launch_lookup(2) [of "[]"]
      by (simp add: GetClusterConf_def GetConf_def ReadFile_def syscall_def demo_launch_def)
  qed
  have loc: "GetLocalConf ((demo_launch [])\<lparr>Syscalls := 1\<rparr>) = (Ok Map.empty, (demo_launch [])\<lparr>Syscalls := 2\<rparr>)"
    using demo_launch_lookup(1) [of "[]"] TrimSpace_visible [of "[]"]
    by (simp add: GetLocalConf_def GetConf_def ReadFile_def syscall_def demo_launch_def)
  have run: "LaunchService ?W ''kubelet'' (demo_launch []) = (Ok (), (demo_launch [])\<lparr>Syscalls := 2\<rparr>)"
    by (simp add: LaunchService_def LaunchKubelet_def clu loc [simplified] conf_get_def ParseIP_def wrapped_nil_def)
  have "runs_nothing ?W" by (simp add: runs_nothing_def)
  from LaunchService_outcome [OF this run] run show ?thesis by (auto simp: started_def demo_launch_def)
qed

end
