(* ===== verification/Setup_Queue.thy ===== *)
theory Setup_Queue
  imports Kube_Conf
begin

text \<open>
  \<open>setup-queue/deploy.go\<close>: the program that applies the specifications in a directory to the cluster, one
  after the other, and removes each when it has been applied. The listing of a directory is an argument,
  since a file system is a map here: \<open>ReadDir\<close> gives the names in a directory, sorted.
\<close>

section \<open>deploy.go\<close>

definition QueueKubeConfigPath :: string where "QueueKubeConfigPath = ''/etc/homeworld/config/kubeconfig-setup-queue''"
definition QueueDir :: string where "QueueDir = ''/etc/homeworld/deployqueue/''"

type_synonym Listing = "(string \<rightharpoonup> fnode) \<Rightarrow> string \<Rightarrow> error + string list"

definition ReadDir :: "Listing \<Rightarrow> string \<Rightarrow> ('a FsWorld_scheme, string list) action" where
  "ReadDir ls dir w = (case syscall w of
       (Some _, w') \<Rightarrow> (Err io_error, w')
     | (None, w') \<Rightarrow> (lift (ls (FS w') dir), w'))"

definition DeploySingle :: "string \<Rightarrow> string \<Rightarrow> ('a ProcWorld_scheme, unit) action" where
  "DeploySingle kubeconfig file w =
     cmd_Run [''hyperkube'', ''kubectl'', ''apply'', ''--kubeconfig'', kubeconfig, ''-f'', file] w"

fun deploy_loop :: "string \<Rightarrow> string list \<Rightarrow> ('a ProcWorld_scheme, unit) action" where
  "deploy_loop dir [] w = (Ok (), w)"
| "deploy_loop dir (file # files) w =
     (let name = path_Join dir file in
      and_thenS (DeploySingle QueueKubeConfigPath name w) (\<lambda>_ w.
      and_thenS (os_Remove name w) (\<lambda>_ w. deploy_loop dir files w)))"

definition DeployAll :: "Listing \<Rightarrow> 'a ProcWorld_scheme WriteToFile \<Rightarrow> string \<Rightarrow> ('a ProcWorld_scheme, unit) action" where
  "DeployAll ls W dir w =
     and_thenS (ReadDir ls dir w) (\<lambda>files w.
       if length files = 0 then (Ok (), w)
       else and_thenS (GenerateKubeConfigToFile W KubernetesSupervisorKey KubernetesSupervisorCert QueueKubeConfigPath w)
         (\<lambda>_ w. deploy_loop dir files w))"

section \<open>What is applied and what is removed\<close>

definition apply_cmd :: "string \<Rightarrow> string \<Rightarrow> string list" where
  "apply_cmd dir file = [''hyperkube'', ''kubectl'', ''apply'', ''--kubeconfig'', QueueKubeConfigPath, ''-f'', path_Join dir file]"

text \<open>
  The state after the first \<open>n\<close> specifications were applied: \<open>k\<close> of them were removed too, and either all
  were, or the last one applied is still there.
\<close>

definition deployed :: "string \<Rightarrow> string list \<Rightarrow> nat \<Rightarrow> nat \<Rightarrow> 'a ProcWorld_scheme \<Rightarrow> 'a ProcWorld_scheme \<Rightarrow> bool" where
  "deployed dir files n k w w' =
     (k \<le> n \<and> n \<le> Suc k \<and> n \<le> length files \<and>
      Ran w' = Ran w @ map (apply_cmd dir) (take n files) \<and>
      (\<forall>i<k. Exits w (length (Ran w) + i) = None) \<and>
      (\<forall>p. FS w' p = (if p \<in> path_Join dir ` set (take k files) then None else FS w p)))"

lemma GenerateKubeConfigToFile_FS:
  assumes "\<forall>c f v p. p \<noteq> f \<longrightarrow> FS (snd (W c f v)) p = FS v p" and "p \<noteq> f"
  shows "FS (snd (GenerateKubeConfigToFile W k c f w)) p = FS w p"
proof -
  obtain r w1 where g: "GetClusterConf w = (r, w1)" by fastforce
  obtain r2 w2 where "ReadFile ClusterConfPath w = (r2, w2)" by fastforce
  then have "FS w1 = FS w" using g ReadFile_FS [of ClusterConfPath w r2 w2]
    by (cases r2) (auto simp: GetClusterConf_def GetConf_def)
  then show ?thesis using assms
    by (cases r) (auto simp: GenerateKubeConfigToFile_def GenerateKubeConfigForAPIServerToFile_def GetAPIServer_def g
        split: option.splits)
qed

lemma os_Remove_Ok: "os_Remove p w = (Ok u, w') \<Longrightarrow> FS w' = (FS w)(p := None) \<and> Ran w' = Ran w \<and> Exits w' = Exits w"
  for w w' :: "'a ProcWorld_scheme"
  by (auto simp: os_Remove_def syscall_def split: option.splits sum.splits fnode.splits)

lemma os_Remove_not_Ok:
  "os_Remove p w = (r, w') \<Longrightarrow> \<not> is_ok r \<Longrightarrow> FS w' = FS w \<and> Ran w' = Ran w \<and> Exits w' = Exits w"
  for w w' :: "'a ProcWorld_scheme"
  by (auto simp: os_Remove_def syscall_def split: option.splits sum.splits fnode.splits)

lemma deploy_loop_deployed:
  assumes "deploy_loop dir files w = (r, w')"
  shows "\<exists>n k. deployed dir files n k w w' \<and> (is_ok r \<longleftrightarrow> k = length files)"
  using assms
proof (induction files arbitrary: w)
  case Nil
  then show ?case by (auto simp: deployed_def intro!: exI [of _ 0])
next
  case (Cons f fs)
  let ?p = "path_Join dir f"
  obtain d w1 where d: "DeploySingle QueueKubeConfigPath ?p w = (d, w1)" by fastforce
  then have w1: "Ran w1 = Ran w @ [apply_cmd dir f]" "FS w1 = FS w" "Exits w1 = Exits w"
    "is_ok d \<longleftrightarrow> Exits w (length (Ran w)) = None" "\<not> is_panic d"
    by (auto simp: DeploySingle_def cmd_Run_def apply_cmd_def split: option.splits)
  show ?case
  proof (cases "is_ok d")
    case False
    with Cons.prems d have "r = d" "w' = w1" by (cases d; simp)+
    with w1 False show ?thesis
      by (intro exI [of _ 1] exI [of _ 0]) (simp add: deployed_def)
  next
    case True
    obtain x w2 where x: "os_Remove ?p w1 = (x, w2)" by fastforce
    from True obtain u where u: "d = Ok u" by (auto simp: is_ok_iff)
    show ?thesis
    proof (cases "is_ok x")
      case False
      with Cons.prems d u x have "r = x" "w' = w2" by (cases x; simp)+
      with os_Remove_not_Ok [OF x False] w1 False show ?thesis
        by (intro exI [of _ 1] exI [of _ 0]) (simp add: deployed_def)
    next
      case ok: True
      then obtain v where v: "x = Ok v" by (auto simp: is_ok_iff)
      note w2 = os_Remove_Ok [OF x [unfolded v]]
      have "deploy_loop dir fs w2 = (r, w')" using Cons.prems d u x v by simp
      from Cons.IH [OF this] obtain n k where IH: "deployed dir fs n k w2 w'" "is_ok r \<longleftrightarrow> k = length fs" by blast
      have "Exits w (length (Ran w) + i) = None" if "i < Suc k" for i
        using that IH(1) w1 w2 True by (cases i) (auto simp: deployed_def)
      with IH w1 w2 show ?thesis
        by (intro exI [of _ "Suc n"] exI [of _ "Suc k"]) (auto simp: deployed_def)
    qed
  qed
qed

text \<open>
  C15: the queue is worked off in the order of the names. Whatever fails and wherever, the commands that
  were run apply the first \<open>n\<close> specifications, once each; the first \<open>k\<close> of them, and no other file, were
  removed, each after it was applied without an error; and at most one, the last one applied, is
  applied but still in the queue. Success means that all specifications were applied and removed.
\<close>

theorem DeployAll_in_order:
  assumes "runs_nothing W" and "\<forall>c f v p. p \<noteq> f \<longrightarrow> FS (snd (W c f v)) p = FS v p"
    and "ls (FS w) dir = Inr files" and "DeployAll ls W dir w = (r, w')"
  shows "\<exists>n k. k \<le> n \<and> n \<le> Suc k \<and> n \<le> length files \<and> (is_ok r \<longrightarrow> k = length files) \<and>
    Ran w' = Ran w @ map (apply_cmd dir) (take n files) \<and> (\<forall>i<k. Exits w (length (Ran w) + i) = None) \<and>
    (\<forall>p. p \<noteq> QueueKubeConfigPath \<longrightarrow> FS w' p = (if p \<in> path_Join dir ` set (take k files) then None else FS w p))"
proof -
  obtain r1 w1 where rd: "ReadDir ls dir w = (r1, w1)" by fastforce
  have w1: "same_runs w w1" "FS w1 = FS w" "r1 = Ok files \<or> \<not> is_ok r1"
    using rd assms(3) by (auto simp: ReadDir_def syscall_def same_runs_def split: option.splits)
  obtain r2 w2 where g: "GenerateKubeConfigToFile W KubernetesSupervisorKey KubernetesSupervisorCert QueueKubeConfigPath w1 = (r2, w2)"
    by fastforce
  have w2: "same_runs w w2"
    using GenerateKubeConfigToFile_runs [OF assms(1), of w1] g w1(1) by (metis same_runs_trans snd_conv)
  have fs2: "FS w2 p = FS w p" if "p \<noteq> QueueKubeConfigPath" for p
    using GenerateKubeConfigToFile_FS [OF assms(2), of p QueueKubeConfigPath] g w1(2) that by (metis snd_conv)
  consider (none) "\<not> is_ok r" "w' = w1 \<or> w' = w2" | (empty) "files = []" "w' = w1"
    | (loop) "deploy_loop dir files w2 = (r, w')"
    using assms(4) rd g w1(3) by (cases r1; cases r2) (auto simp: DeployAll_def split: if_splits)
  then show ?thesis
  proof cases
    case loop
    from deploy_loop_deployed [OF this] obtain n k where "deployed dir files n k w2 w'" "is_ok r \<longleftrightarrow> k = length files" by blast
    with w2 fs2 show ?thesis by (intro exI [of _ n] exI [of _ k]) (auto simp: deployed_def same_runs_def)
  qed (use w1 w2 fs2 in \<open>auto simp: same_runs_def intro!: exI [of _ 0]\<close>)
qed

section \<open>Evaluation on a concrete queue\<close>

text \<open>Two specifications, of which the second cannot be applied.\<close>

definition demo_queue :: ProcWorld where
  "demo_queue = \<lparr>Clock = int, Ticks = 0, Entropy = Some, Draws = 0,
     FS = [ClusterConfPath \<mapsto> File ''APISERVER=kube'' 420 0, ''/q/a'' \<mapsto> File ''spec a'' 420 0, ''/q/b'' \<mapsto> File ''spec b'' 420 0],
     Faults = (\<lambda>_. None), Syscalls = 0, Ran = [], Exits = (\<lambda>n. if n = 0 then None else Some (LibError ''exit status 1''))\<rparr>"

lemma demo_queue_paths: "path_Join ''/q'' ''a'' = ''/q/a''" "path_Join ''/q'' ''b'' = ''/q/b''"
  by code_simp+

lemma demo_queue_run:
  "\<exists>r w'. DeployAll (\<lambda>_ _. Inr [''a'', ''b'']) (\<lambda>c f w. (Ok (), w)) ''/q'' demo_queue = (r, w') \<and> \<not> is_ok r \<and> length (Ran w') = 2"
proof -
  have lines: "Split ''APISERVER=kube'' (CHR 0x0A) = [''APISERVER=kube'']" by (rule Split_no_sep) simp
  have "TrimSpace ''APISERVER=kube'' = ''APISERVER=kube''" "TrimSpace ''APISERVER'' = ''APISERVER''" "TrimSpace ''kube'' = ''kube''"
    by (rule TrimSpace_visible, simp add: visible_def)+
  note t = this
  have conf: "GetClusterConf (demo_queue\<lparr>Syscalls := n\<rparr>) = (Ok [''APISERVER'' \<mapsto> ''kube''], demo_queue\<lparr>Syscalls := Suc n\<rparr>)" for n
    using lines t
    by (simp add: GetClusterConf_def GetConf_def ReadFile_def syscall_def demo_queue_def lookup_def path_names ancestors_def upt_rec)
  have look: "lookup (FS (demo_queue\<lparr>Syscalls := n, Ran := m\<rparr>)) ''/q/a'' = Inr (File ''spec a'' 420 0)" for n m
    by (simp add: lookup_def demo_queue_def path_names ancestors_def upt_rec)
  have rd: "ReadDir (\<lambda>_ _. Inr [''a'', ''b'']) ''/q'' demo_queue = (Ok [''a'', ''b''], demo_queue\<lparr>Syscalls := 1\<rparr>)"
    by (simp add: ReadDir_def syscall_def demo_queue_def)
  have rm: "os_Remove ''/q/a'' (demo_queue\<lparr>Syscalls := n, Ran := m\<rparr>) =
      (Ok (), demo_queue\<lparr>Syscalls := Suc n, Ran := m, FS := (FS demo_queue)(''/q/a'' := None)\<rparr>)" for n m
    using look [where n = "Suc n" and m = m] by (simp add: os_Remove_def syscall_def demo_queue_def)
  have gen: "GenerateKubeConfigToFile (\<lambda>c f w. (Ok (), w)) KubernetesSupervisorKey KubernetesSupervisorCert QueueKubeConfigPath
      (demo_queue\<lparr>Syscalls := n\<rparr>) = (Ok (), demo_queue\<lparr>Syscalls := Suc n\<rparr>)" for n
    by (simp add: GenerateKubeConfigToFile_def GetAPIServer_def GenerateKubeConfigForAPIServerToFile_def conf)
  have at: "Ran demo_queue = []" "Exits demo_queue n = (if n = 0 then None else Some (LibError ''exit status 1''))" for n
    by (simp_all add: demo_queue_def)
  show ?thesis
    by (simp add: DeployAll_def rd gen demo_queue_paths DeploySingle_def cmd_Run_def rm at Let_def)
qed

theorem DeployAll_in_order_witness:
  "\<exists>r w'. DeployAll (\<lambda>_ _. Inr [''a'', ''b'']) (\<lambda>c f w. (Ok (), w)) ''/q'' demo_queue = (r, w') \<and> \<not> is_ok r \<and>
     Ran w' = map (apply_cmd ''/q'') [''a'', ''b''] \<and> FS w' ''/q/a'' = None \<and> FS w' ''/q/b'' = FS demo_queue ''/q/b''"
proof -
  obtain r w' where run: "DeployAll (\<lambda>_ _. Inr [''a'', ''b'']) (\<lambda>c f w. (Ok (), w)) ''/q'' demo_queue = (r, w')"
    "\<not> is_ok r" "length (Ran w') = 2" using demo_queue_run by blast
  have W: "runs_nothing (\<lambda>c f w. (Ok (), w))" "\<forall>c f v p. p \<noteq> f \<longrightarrow> FS (snd ((\<lambda>c f w. (Ok (), w)) c f v)) p = FS (v :: ProcWorld) p"
    by (simp_all add: runs_nothing_def)
  from DeployAll_in_order [where ls = "\<lambda>_ _. Inr [''a'', ''b'']", OF W refl run(1)] obtain n k where
    n: "n \<le> Suc k" "n \<le> length [''a'', ''b'']" "Ran w' = Ran demo_queue @ map (apply_cmd ''/q'') (take n [''a'', ''b''])"
    and k: "\<forall>i<k. Exits demo_queue (length (Ran demo_queue) + i) = None"
    and fs: "\<forall>p. p \<noteq> QueueKubeConfigPath \<longrightarrow> FS w' p = (if p \<in> path_Join ''/q'' ` set (take k [''a'', ''b'']) then None else FS demo_queue p)"
    by blast
  have at: "Ran demo_queue = []" "Exits demo_queue 1 \<noteq> None" by (simp_all add: demo_queue_def)
  from at(1) n(3) have ran: "Ran w' = map (apply_cmd ''/q'') (take n [''a'', ''b''])" by simp
  with run(3) n(2) have "n = 2" by simp
  moreover have "\<not> 1 < k" using k at by (metis add_0 list.size(3))
  ultimately have "k = 1" using n(1) by simp
  with fs have "FS w' ''/q/a'' = None \<and> FS w' ''/q/b'' = FS demo_queue ''/q/b''"
    by (simp add: demo_queue_paths QueueKubeConfigPath_def)
  with run ran \<open>n = 2\<close> show ?thesis by simp
qed

end
