(* ===== verification/Server_Mains.thy ===== *)
theory Server_Mains
  imports World_Privileges User_Grant Key_Gateway Kube_Launch Setup_Queue Key_Req Converge
begin

text \<open>
  How the servers and programs start: \<open>Run\<close> of \<open>keyserver/keyapi/keyserver.go\<close> with the \<open>main\<close> of the keyserver,
  \<open>Launch\<close> and \<open>main\<close> of \<open>user-grant/grant.go\<close>, and the \<open>main\<close> functions of the gateway, the keyclient, the launchers and the deployment
  queue. \<open>net.Listen\<close> is a parameter, and so is whether \<open>systemd-notify\<close> fails. A server is what the sources hand to
  \<open>http.Server\<close>; its handler and its certificate are those of the value in \<open>Serves\<close>. \<open>logger.Fatal\<close> ends a program with the
  code 1.
\<close>

section \<open>Servers\<close>

datatype ClientAuthType =
  NoClientCert | RequestClientCert | RequireAnyClientCert | VerifyClientCertIfGiven | RequireAndVerifyClientCert

record tls_Config =
  ClientAuth :: ClientAuthType
  ClientCAs :: "Certificate list"
  Certificates :: "tls_Certificate list"
  MinVersion :: nat
  NextProtos :: "string list"

definition VersionTLS12 :: nat where "VersionTLS12 = 0x0303"

record 's http_Server =
  SrvAddr :: string
  Serves :: 's
  TLSConfig :: tls_Config

type_synonym 'l listen = "string \<Rightarrow> string \<Rightarrow> error + 'l"

section \<open>keyserver\<close>

text \<open>
  \<open>Run\<close>: the handler is \<open>apiToHTTP\<close> and \<open>GetCertificate\<close> is \<open>GetValidServerCert\<close>, both of the keyserver that was loaded. The
  result stands for the server that runs on the listener in a goroutine of its own.
\<close>

definition keyserver_Run :: "Lib \<Rightarrow> (string \<Rightarrow> error + RawSetup) \<Rightarrow> 'l listen \<Rightarrow> string \<Rightarrow>
    ('a TokenWorld_scheme, ConfiguredKeyserver http_Server \<times> 'l) action" where
  "keyserver_Run L yaml Listen addr w =
     and_thenS (LoadConfiguredKeyserver L yaml w) (\<lambda>ks w.
     and_thenS (GetClientCAs ks, w) (\<lambda>clientCAs w.
     let server = \<lparr>SrvAddr = addr, Serves = ks,
           TLSConfig = \<lparr>ClientAuth = VerifyClientCertIfGiven, ClientCAs = clientCAs, Certificates = [],
             MinVersion = VersionTLS12, NextProtos = [''http/1.1'', ''h2'']\<rparr>\<rparr> in
     and_thenS (lift (Listen ''tcp'' (SrvAddr server)), w) (\<lambda>ln w. (Ok (server, ln), w))))"

text \<open>\<open>main\<close> up to the wait for the server, whose end is the end of the process. The arguments include the name of the program.\<close>

definition keyserver_main :: "Lib \<Rightarrow> (string \<Rightarrow> error + RawSetup) \<Rightarrow> 'l listen \<Rightarrow> error option \<Rightarrow> string list \<Rightarrow>
    ('a TokenWorld_scheme, ConfiguredKeyserver http_Server \<times> 'l) action" where
  "keyserver_main L yaml Listen notified args w =
     (if length args \<noteq> 1 then (Err (ErrorNew ''usage: keyserver''), w)
      else and_thenS (keyserver_Run L yaml Listen '':20557'' w) (\<lambda>onstop w.
        case notified of
          Some err \<Rightarrow> (Err (ErrorNew ''failed to notify systemd of readiness''), w)
        | None \<Rightarrow> (Ok onstop, w)))"

section \<open>user-grant\<close>

definition grant_Launch :: "'l listen \<Rightarrow> 'k Config \<Rightarrow> ('k Config http_Server \<times> 'l) result" where
  "grant_Launch Listen c =
     (let server = \<lparr>SrvAddr = Address c, Serves = c,
           TLSConfig = \<lparr>ClientAuth = VerifyClientCertIfGiven, ClientCAs = grant_GetClientCAs c, Certificates = [ServerTLS c],
             MinVersion = VersionTLS12, NextProtos = [''http/1.1'', ''h2'']\<rparr>\<rparr> in
      and_then (lift (Listen ''tcp'' (SrvAddr server))) (\<lambda>ln. Ok (server, ln)))"

definition grant_main :: "Lib \<Rightarrow> error + 'k KubeClient \<Rightarrow> 'l listen \<Rightarrow> string list \<Rightarrow>
    ('a FsWorld_scheme, 'k Config http_Server \<times> 'l) action" where
  "grant_main L client Listen args w =
     and_thenS (LoadConfig L client args w) (\<lambda>conf w. (grant_Launch Listen conf, w))"

section \<open>Programs that end\<close>

definition gateway_main :: "Lib \<Rightarrow> 'p Net \<Rightarrow> 'p Gateway program" where
  "gateway_main L net w = or_exit 1 (gateway_Process L net w) (\<lambda>_ w. (0, w))"

definition launch_main :: "'a ProcWorld_scheme WriteToFile \<Rightarrow> string list \<Rightarrow> 'a ProcWorld_scheme program" where
  "launch_main W args w =
     (if length args \<noteq> 2 then (1, w) else or_exit 1 (LaunchService W (args ! 1) w) (\<lambda>_ w. (0, w)))"

definition ksm_main :: "'a ProcWorld_scheme WriteToFile \<Rightarrow> 'a ProcWorld_scheme program" where
  "ksm_main W w = or_exit 1 (ConfigureAndLaunch W w) (\<lambda>_ w. (0, w))"

definition queue_main :: "Listing \<Rightarrow> 'a ProcWorld_scheme WriteToFile \<Rightarrow> 'a ProcWorld_scheme program" where
  "queue_main ls W w = or_exit 1 (DeployAll ls W QueueDir w) (\<lambda>_ w. (0, w))"

text \<open>The keyclient hangs after it has started its loop, which is the value here; an error stands for \<open>logger.Fatal\<close>.\<close>

definition keyclient_main :: "Lib \<Rightarrow> 'p Net \<Rightarrow> ('p Client, 'p run) action" where
  "keyclient_main L net w = LoadAndLaunchDefault L (ConvergeState L net) w"

section \<open>What they serve\<close>

text \<open>
  The keyserver starts in an initial state of its state machine, so what holds in all states reachable there holds for the server
  that \<open>main\<close> runs. It asks clients for certificates of the authority by which it authenticates them, and starting it never
  panics.
\<close>

lemma keyserver_Run_starts:
  fixes w :: TokenWorld
  assumes "keyserver_Run L yaml Listen addr w = (Ok (server, ln), w')"
  shows "keyserver_init L yaml (Serves server, \<lparr>sworld = w', ServerCert = None\<rparr>)"
    and "\<exists>t. AuthenticationAuthority (KContext (Serves server)) = Some t \<and> ClientCAs (TLSConfig server) = [tls_cert t]"
    and "Listen ''tcp'' addr = Inr ln"
proof -
  obtain ks where l: "LoadConfiguredKeyserver L yaml w = (Ok ks, w')" and "Serves server = ks" "Listen ''tcp'' addr = Inr ln"
    and "GetClientCAs ks = Ok (ClientCAs (TLSConfig server))"
    using assms by (auto simp: keyserver_Run_def and_thenS_Ok_iff Let_def)
  then show "keyserver_init L yaml (Serves server, \<lparr>sworld = w', ServerCert = None\<rparr>)"
    and "\<exists>t. AuthenticationAuthority (KContext (Serves server)) = Some t \<and> ClientCAs (TLSConfig server) = [tls_cert t]"
    and "Listen ''tcp'' addr = Inr ln"
    by (auto simp: keyserver_init_def GetClientCAs_def ToCertPool_def split: option.splits)
qed

lemma keyserver_Run_no_panic:
  fixes w :: TokenWorld
  assumes "\<not> is_panic (fst (LoadConfiguredKeyserver L yaml w))"
  shows "\<not> is_panic (fst (keyserver_Run L yaml Listen addr w))"
proof (cases "LoadConfiguredKeyserver L yaml w")
  case (Pair r w')
  show ?thesis
  proof (cases r)
    case (Ok ks)
    then have "keyserver_init L yaml (ks, \<lparr>sworld = w', ServerCert = None\<rparr>)" using Pair by (auto simp: keyserver_init_def)
    then have "context_ok (KContext ks)" using keyserver_init_inv by (fastforce simp: keyserver_inv_def Let_def)
    then obtain t where "GetClientCAs ks = Ok (ToCertPool t)" by (auto simp: GetClientCAs_def context_ok_def)
    with Ok Pair show ?thesis by (cases "Listen ''tcp'' addr") (simp_all add: keyserver_Run_def)
  qed (use Pair assms in \<open>simp_all add: keyserver_Run_def\<close>)
qed

text \<open>The keyclient starts the loop of \<open>ConvergeState\<close>, whose rounds are those of \<open>keyclient_step\<close>.\<close>

lemma keyclient_main_starts: "keyclient_main L net w = (Ok r, w') \<Longrightarrow> r = Run_start (NewActLoop (ConvergeState L net)) w'"
  by (auto simp: keyclient_main_def LoadAndLaunchDefault_def and_thenS_Ok_iff split: prod.splits)

text \<open>
  A launcher that exits with 0 reported success, and the queue is empty or deployed; see \<open>Kube_Launch\<close> and \<open>Setup_Queue\<close>.
\<close>

lemma or_exit_status: "fst (or_exit 1 rs (\<lambda>_ w. (0, w))) = 0 \<longleftrightarrow> is_ok (fst rs)"
  by (cases rs; cases "fst rs") auto

lemma main_exits:
  "fst (launch_main W args w) = 0 \<longleftrightarrow> length args = 2 \<and> is_ok (fst (LaunchService W (args ! 1) w))"
  "fst (queue_main ls W w) = 0 \<longleftrightarrow> is_ok (fst (DeployAll ls W QueueDir w))"
  "fst (ksm_main W w) = 0 \<longleftrightarrow> is_ok (fst (ConfigureAndLaunch W w))"
  by (auto simp only: launch_main_def queue_main_def ksm_main_def or_exit_status fst_conv split: if_splits)

end
