(* ===== verification/Monitor_Lib.thy ===== *)
theory Monitor_Lib
  imports Kube_Conf "HOL-Library.AList" "HOL-Library.Multiset"
begin

text \<open>
  What the monitoring daemons share. A daemon reports through the Prometheus client library, which is not part
  of the sources, so the model records the calls it makes on its metrics, in order, in \<open>Metrics\<close>; the
  label values of a metric come in the order of its declaration. \<open>gauge\<close> reads the recorded calls as the
  library documents them. Durations and timestamps are passed in nanoseconds, where the code converts them to
  seconds as a floating-point number at the very end. A Go map that is iterated is an association list with
  distinct keys, and the order of the iteration is a parameter.

  All daemons have the same loop: a cycle, then a pause so that cycles start every fifteen seconds. The
  locale \<open>monitor\<close> states what the loop needs of a cycle, and has the lemmas on the loop.
\<close>

section \<open>Calls on metrics\<close>

datatype metric_call =
    With string "string list"
  | SetTo string "string list" int
  | Observe string "string list" int
  | Reset string
  | Delete string "string list"

record MonWorld = ProcWorld +
  Metrics :: "metric_call list"

definition emit :: "metric_call \<Rightarrow> 'a MonWorld_scheme \<Rightarrow> 'a MonWorld_scheme" where
  "emit c w = w\<lparr>Metrics := Metrics w @ [c]\<rparr>"

text \<open>
  The effect of a call on the value that the gauge \<open>m\<close> exports for the labels \<open>l\<close>: \<open>With\<close> makes a missing
  one with the value zero, \<open>Reset\<close> removes all and \<open>Delete\<close> one.
\<close>

fun call_effect :: "string \<Rightarrow> string list \<Rightarrow> metric_call \<Rightarrow> int option \<Rightarrow> int option" where
  "call_effect m l (With m' l') v = (if m = m' \<and> l = l' \<and> v = None then Some 0 else v)"
| "call_effect m l (SetTo m' l' x) v = (if m = m' \<and> l = l' then Some x else v)"
| "call_effect m l (Observe m' l' x) v = v"
| "call_effect m l (Reset m') v = (if m = m' then None else v)"
| "call_effect m l (Delete m' l') v = (if m = m' \<and> l = l' then None else v)"

definition gauge :: "'a MonWorld_scheme \<Rightarrow> string \<Rightarrow> string list \<Rightarrow> int option" where
  "gauge w m l = fold (call_effect m l) (Metrics w) None"

lemma gauge_emit [simp]: "gauge (emit c w) m l = call_effect m l c (gauge w m l)"
  by (simp add: gauge_def emit_def)

lemma gauge_Ticks [simp]: "gauge (w\<lparr>Ticks := n\<rparr>) m l = gauge w m l"
  by (simp add: gauge_def)

text \<open>The observations of a histogram, in order.\<close>

fun observation :: "string \<Rightarrow> string list \<Rightarrow> metric_call \<Rightarrow> int list \<Rightarrow> int list" where
  "observation m l (Observe m' l' x) xs = (if m = m' \<and> l = l' then xs @ [x] else xs)"
| "observation m l (Reset m') xs = (if m = m' then [] else xs)"
| "observation m l (Delete m' l') xs = (if m = m' \<and> l = l' then [] else xs)"
| "observation m l c xs = xs"

definition observations :: "'a MonWorld_scheme \<Rightarrow> string \<Rightarrow> string list \<Rightarrow> int list" where
  "observations w m l = fold (observation m l) (Metrics w) []"

lemma observations_emit [simp]: "observations (emit c w) m l = observation m l c (observations w m l)"
  by (simp add: observations_def emit_def)

lemma observations_Ticks [simp]: "observations (w\<lparr>Ticks := n\<rparr>) m l = observations w m l"
  by (simp add: observations_def)

lemma emit_clock [simp]: "Clock (emit c w) = Clock w" "Ticks (emit c w) = Ticks w"
  by (simp_all add: emit_def)

section \<open>Temporary files\<close>

text \<open>\<open>ioutil.TempFile\<close> in the default directory; how it finds a name is a parameter.\<close>

definition TempFile :: "((string \<rightharpoonup> fnode) \<Rightarrow> string \<Rightarrow> string) \<Rightarrow> string \<Rightarrow> ('a FsWorld_scheme, string) action" where
  "TempFile tempname prefix w = (case syscall w of
       (Some _, w) \<Rightarrow> (Err io_error, w)
     | (None, w) \<Rightarrow> (case time_Now w of (t, w) \<Rightarrow>
         let name = tempname (FS w) prefix in (Ok name, w\<lparr>FS := (FS w)(name \<mapsto> File [] 0x180 t)\<rparr>)))"

section \<open>The loop of a daemon\<close>

text \<open>
  One round of \<open>loop\<close>: the pause it computes, and the world after it. The \<open>break\<close> in its \<open>select\<close> leaves
  the \<open>select\<close> only, so whether the stop channel is closed or the time has passed, the next round follows.
\<close>

definition loop_round :: "('a World_scheme \<Rightarrow> 'a World_scheme) \<Rightarrow> 'a World_scheme \<Rightarrow> int \<times> 'a World_scheme" where
  "loop_round cycle w = (case time_Now w of (t, w) \<Rightarrow>
     let next_cycle_at = t + 15 * time_Second; w = cycle w in
     case time_Now w of (u, w) \<Rightarrow>
     let delta = next_cycle_at - u in (if delta < time_Second then time_Second else delta, w))"

text \<open>The world after \<open>n\<close> rounds; the cycle of a round depends on what the cluster answers in it.\<close>

fun loop_rounds :: "(nat \<Rightarrow> 'a World_scheme \<Rightarrow> 'a World_scheme) \<Rightarrow> nat \<Rightarrow> 'a World_scheme \<Rightarrow> 'a World_scheme" where
  "loop_rounds cycle 0 w = w"
| "loop_rounds cycle (Suc n) w = snd (loop_round (cycle n) (loop_rounds cycle n w))"

text \<open>What is required of a cycle: it cannot turn the clock back.\<close>

locale monitor =
  fixes cycle :: "'e \<Rightarrow> 'a World_scheme \<Rightarrow> 'a World_scheme"
  assumes clock_kept [simp]: "Clock (cycle e w) = Clock w"
    and ticks_grow: "Ticks w \<le> Ticks (cycle e w)"
begin

lemma round_clock [simp]: "Clock (snd (loop_round (cycle e) w)) = Clock w"
  by (simp add: loop_round_def time_Now_def Let_def)

lemma round_ticks: "Suc (Ticks w) < Ticks (snd (loop_round (cycle e) w))"
  using ticks_grow [of "w\<lparr>Ticks := Suc (Ticks w)\<rparr>" e] by (simp add: loop_round_def time_Now_def Let_def)

lemma pause_bounds:
  assumes "mono (Clock w)"
  shows "time_Second \<le> fst (loop_round (cycle e) w) \<and> fst (loop_round (cycle e) w) \<le> 15 * time_Second"
proof -
  let ?w = "cycle e (w\<lparr>Ticks := Suc (Ticks w)\<rparr>)"
  have "Ticks w \<le> Ticks ?w" using ticks_grow [of "w\<lparr>Ticks := Suc (Ticks w)\<rparr>" e] by simp
  then have "Clock w (Ticks w) \<le> Clock w (Ticks ?w)" using assms by (simp add: monoD)
  then show ?thesis by (simp add: loop_round_def time_Now_def Let_def time_Second_def)
qed

lemma rounds_clock [simp]: "Clock (loop_rounds (\<lambda>i. cycle (env i)) n w) = Clock w"
  by (induction n) simp_all

lemma rounds_ticks: "n \<le> Ticks (loop_rounds (\<lambda>i. cycle (env i)) n w)"
proof (induction n)
  case (Suc n)
  then show ?case using round_ticks [of "loop_rounds (\<lambda>i. cycle (env i)) n w" "env n"] by simp
qed simp

lemma every_pause:
  assumes "mono (Clock w)"
  shows "fst (loop_round (cycle (env n)) (loop_rounds (\<lambda>i. cycle (env i)) n w)) \<in> {time_Second .. 15 * time_Second}"
  using pause_bounds [of "loop_rounds (\<lambda>i. cycle (env i)) n w" "env n"] assms by simp

end

section \<open>Maps with an iteration order\<close>

lemma distinct_keys_update [simp]: "distinct (map fst m) \<Longrightarrow> distinct (map fst (AList.update k v m))"
  by (rule distinct_update)

lemma update_fresh: "map_of m k = None \<Longrightarrow> AList.update k v m = m @ [(k, v)]"
  by (induction m) (auto split: if_splits)

lemma distinct_shuffle: "mset xs = mset ys \<Longrightarrow> distinct (map fst xs) = distinct (map fst ys)"
  by (rule mset_eq_imp_distinct_iff) simp

lemma map_of_shuffle:
  assumes "mset xs = mset ys" and "distinct (map fst ys)"
  shows "map_of xs = map_of ys"
proof -
  have "distinct (map fst xs)" using assms distinct_shuffle by blast
  moreover have "set xs = set ys" using assms(1) by (rule mset_eq_setD)
  ultimately show ?thesis using assms(2) by (simp add: map_of_inject_set)
qed

end
