(* ===== verification/Auth_Monitor.thy ===== *)
theory Auth_Monitor
  imports Monitor_Lib Client_Api World_Config
begin

text \<open>
  \<open>auth-monitor/auth-monitor.go\<close>: the daemon on the supervisor that checks, every fifteen seconds, that the keyserver
  serves its authorities and static files, that the gateway accepts Kerberos tickets, that an SSH certificate is granted and
  that every node accepts it. The SSH client library, the program \<open>kinit\<close>, the environment of the process and the names
  of temporary files are parameters, the record \<open>AuthEnv\<close>; the keyserver, the gateway and the SSH servers together are the
  peer of the network. Nothing else changes the files while a cycle runs, except \<open>kinit\<close>.
\<close>

section \<open>The libraries and programs it uses\<close>

text \<open>
  \<open>ssh.ClientConfig\<close>: \<open>HostKeyCallback\<close> is \<open>CheckHostKey\<close> of a \<open>CertChecker\<close> whose only field is
  \<open>IsHostAuthority\<close>, and all methods of authentication are public keys.
\<close>

record ssh_ClientConfig =
  Timeout :: int
  User :: string
  HostKeyAlgorithms :: "string list"
  IsHostAuthority :: "ssh_PublicKey \<Rightarrow> string \<Rightarrow> bool"
  AuthPublicKeys :: "ssh_Signer list"

record 'p AuthEnv =
  am_temp_name :: "(string \<rightharpoonup> fnode) \<Rightarrow> string \<Rightarrow> string"
  os_Environ :: "string list"
  exec_with_Env :: "string list \<Rightarrow> string list \<Rightarrow> (string \<rightharpoonup> fnode) \<Rightarrow> error option \<times> (string \<rightharpoonup> fnode)"
  setup_Unmarshal :: "string \<Rightarrow> error + RawSetup"
  ssh_NewSignerFromKey :: "rsa_PrivateKey \<Rightarrow> error + ssh_Signer"
  ssh_NewCertSigner :: "ssh_PublicKey \<Rightarrow> ssh_Signer \<Rightarrow> error + ssh_Signer"
  ssh_Dial :: "string \<Rightarrow> string \<Rightarrow> ssh_ClientConfig \<Rightarrow> 'p \<Rightarrow> (error + nat) \<times> 'p"
  client_NewSession :: "nat \<Rightarrow> 'p \<Rightarrow> (error + nat) \<times> 'p"
  session_Output :: "nat \<Rightarrow> string \<Rightarrow> 'p \<Rightarrow> (error + string) \<times> 'p"
  session_Close :: "nat \<Rightarrow> 'p \<Rightarrow> 'p"
  client_Close :: "nat \<Rightarrow> 'p \<Rightarrow> 'p"

record 'p AuthWorld = MonWorld +
  AmPeer :: 'p

definition with_am_peer :: "('p, 'b) action \<Rightarrow> ('p AuthWorld, 'b) action" where
  "with_am_peer f w = (case f (AmPeer w) of (r, p) \<Rightarrow> (r, w\<lparr>AmPeer := p\<rparr>))"

text \<open>\<open>cmd.Run()\<close> of a command with an environment of its own, which may change files.\<close>

definition cmd_Run_Env :: "'p AuthEnv \<Rightarrow> string list \<Rightarrow> string list \<Rightarrow> ('a ProcWorld_scheme, unit) action" where
  "cmd_Run_Env e args env w = (case exec_with_Env e args env (FS w) of (err, fs) \<Rightarrow>
     ((case err of None \<Rightarrow> Ok () | Some x \<Rightarrow> Err x), w\<lparr>Ran := Ran w @ [args], FS := fs\<rparr>))"

section \<open>The attempts\<close>

definition host_config :: "Lib \<Rightarrow> ssh_Signer \<Rightarrow> ssh_PublicKey \<Rightarrow> ssh_ClientConfig" where
  "host_config L signer host_ca =
     \<lparr>Timeout = 10 * time_Second, User = ''root'', HostKeyAlgorithms = [''ssh-rsa-cert-v01@openssh.com''],
      IsHostAuthority = (\<lambda>auth address. ssh_Type L auth = ssh_Type L host_ca \<and> ssh_Marshal L auth = ssh_Marshal L host_ca),
      AuthPublicKeys = [signer]\<rparr>"

definition echo_command :: string where
  "echo_command = ''echo '' @ quoted ''bidirectionality test''"

definition ssh_session :: "'p AuthEnv \<Rightarrow> nat \<Rightarrow> ('p, unit) action" where
  "ssh_session e client p =
     (case client_NewSession e client p of
        (Inl err, p) \<Rightarrow> (Err err, p)
      | (Inr session, p) \<Rightarrow>
          (case session_Output e session echo_command p of (r, p) \<Rightarrow>
             (and_then (lift r) (\<lambda>result.
                if result \<noteq> ''bidirectionality test'' @ [CHR 0x0A] then
                  Err (Errorf (''incorrect ssh echo result: '' @ quoted ''%s'') [result])
                else Ok ()), session_Close e session p)))"

definition attemptSSHAccess ::
  "Lib \<Rightarrow> 'p AuthEnv \<Rightarrow> rsa_PrivateKey \<Rightarrow> ssh_PublicKey \<Rightarrow> ssh_PublicKey \<Rightarrow> string \<Rightarrow> ('p, unit) action" where
  "attemptSSHAccess L e pkey cert host_ca machine p =
     and_thenS (lift (ssh_NewSignerFromKey e pkey), p) (\<lambda>rawSigner p.
     and_thenS (lift (ssh_NewCertSigner e cert rawSigner), p) (\<lambda>signer p.
     case ssh_Dial e ''tcp'' (machine @ '':22'') (host_config L signer host_ca) p of
       (Inl err, p) \<Rightarrow> (Err err, p)
     | (Inr client, p) \<Rightarrow> (case ssh_session e client p of (r, p) \<Rightarrow> (r, client_Close e client p))))"

text \<open>\<open>rsa.GenerateKey(rand.Reader, bits)\<close>, without the encoding that \<open>certutil.GenerateRSA\<close> adds.\<close>

definition generate_rsa :: "Lib \<Rightarrow> nat \<Rightarrow> ('a World_scheme, rsa_PrivateKey) action" where
  "generate_rsa L bits w = (case draw w of
       (None, w) \<Rightarrow> (Err (LibError ''rand''), w)
     | (Some r, w) \<Rightarrow> (lift (rsa_GenerateKey L r bits), w))"

definition metrics_principal :: string where
  "metrics_principal = ''metrics@NONEXISTENT.REALM.INVALID''"

text \<open>The error of \<open>ParseAuthorizedKey\<close> is not looked at: the key is nil then, which is no certificate.\<close>

definition as_certificate :: "(error + ssh_PublicKey \<times> string) \<Rightarrow> ssh_PublicKey result" where
  "as_certificate parsed = (case parsed of
       Inr (CertKey k i s t ps a b x g, _) \<Rightarrow> Ok (CertKey k i s t ps a b x g)
     | _ \<Rightarrow> Err (ErrorNew ''not a ssh cert''))"

definition attemptSSHAcquire :: "Lib \<Rightarrow> 'p Net \<Rightarrow> Keyserver \<Rightarrow> ('p AuthWorld, rsa_PrivateKey \<times> ssh_PublicKey) action" where
  "attemptSSHAcquire L net ks w =
     and_thenS (LoadX509KeyPair L GrantingCertPath GrantingKeyPath w) (\<lambda>keypair w.
     and_thenS (generate_rsa L 2048 w) (\<lambda>privkey w.
     and_thenS (lift (ssh_NewPublicKey L (RSA_PublicKey (N privkey))), w) (\<lambda>pubkey w.
     and_thenS (AuthenticateWithCert L net ks keypair, w) (\<lambda>rt w.
     and_thenS (with_am_peer (reqtarget_Impersonate rt ImpersonateKerberosAPI metrics_principal) w) (\<lambda>rt w.
     and_thenS (with_am_peer (SendRequest rt AccessSSHAPI (ssh_MarshalAuthorizedKey L pubkey)) w) (\<lambda>resp w.
     if resp = [] then (Err (ErrorNew ''empty ssh cert''), w)
     else and_thenS (as_certificate (ssh_ParseAuthorizedKey L resp), w) (\<lambda>cert w. (Ok (privkey, cert), w))))))))"

text \<open>The body of \<open>attemptKAuth\<close> between the creation of the file for the tickets and its removal.\<close>

definition kauth_body :: "Lib \<Rightarrow> 'p Net \<Rightarrow> 'p AuthEnv \<Rightarrow> Keyserver \<Rightarrow> string \<Rightarrow> ('p AuthWorld, unit) action" where
  "kauth_body L net e ks cache w =
     and_thenS (file_Close w) (\<lambda>_ w.
     and_thenS (GetKeyserver w) (\<lambda>hostport w.
     let host = hd (Split hostport (CHR '':'')) in
     and_thenS (cmd_Run_Env e [''kinit'', ''-l2m'', ''-k'', ''host/'' @ host]
                  (ModifiedEnviron (os_Environ e) ''KRB5CCNAME'' cache) w) (\<lambda>_ w.
     and_thenS (ReadFile cache w) (\<lambda>contents w.
     if length contents = 0 then (Err (Errorf ''expected ticket cache to be populated'' []), w)
     else
       and_thenS (AuthenticateWithKerberosTicketsInCache L net ks cache, w) (\<lambda>rt w.
       and_thenS (with_am_peer (rt []) w) (\<lambda>_ w. (Ok (), w)))))))"

definition attemptKAuth :: "Lib \<Rightarrow> 'p Net \<Rightarrow> 'p AuthEnv \<Rightarrow> Keyserver \<Rightarrow> ('p AuthWorld, unit) action" where
  "attemptKAuth L net e ks w =
     and_thenS (TempFile (am_temp_name e) ''krb5cc_keygateway_checker_'' w) (\<lambda>name w.
       case kauth_body L net e ks name w of (r, w) \<Rightarrow> (r, snd (os_Remove name w)))"

section \<open>A cycle\<close>

definition set_gauge :: "string \<Rightarrow> int \<Rightarrow> 'a MonWorld_scheme \<Rightarrow> 'a MonWorld_scheme" where
  "set_gauge m x = emit (SetTo m [] x)"

definition set_server :: "string \<Rightarrow> int \<Rightarrow> 'a MonWorld_scheme \<Rightarrow> 'a MonWorld_scheme" where
  "set_server server x w = emit (SetTo ''sshCheck'' [server] x) (emit (With ''sshCheck'' [server]) w)"

definition check_static :: "'p Net \<Rightarrow> Keyserver \<Rightarrow> ('p AuthWorld, unit) action" where
  "check_static net ks w =
     (case with_am_peer (GetStatic net ks ClusterConfStatic) w of
        (Ok clusterconf, w) \<Rightarrow>
          (case ReadFile ClusterConfigPath w of
             (Ok expected, w) \<Rightarrow> (Ok (), set_gauge ''fetchCheck'' (if clusterconf \<noteq> expected then 0 else 1) w)
           | (Err err, w) \<Rightarrow> (Ok (), set_gauge ''fetchCheck'' 0 w)
           | (Panic p, w) \<Rightarrow> (Panic p, w))
      | (Err err, w) \<Rightarrow> (Ok (), set_gauge ''fetchCheck'' 0 w)
      | (Panic p, w) \<Rightarrow> (Panic p, w))"

definition check_kauth :: "Lib \<Rightarrow> 'p Net \<Rightarrow> 'p AuthEnv \<Rightarrow> Keyserver \<Rightarrow> ('p AuthWorld, unit) action" where
  "check_kauth L net e ks w =
     (case attemptKAuth L net e ks w of
        (Ok _, w) \<Rightarrow> (Ok (), set_gauge ''authCheck'' 1 w)
      | (Err err, w) \<Rightarrow> (Ok (), set_gauge ''authCheck'' 0 w)
      | (Panic p, w) \<Rightarrow> (Panic p, w))"

fun no_access :: "SpireNode list \<Rightarrow> ('p AuthWorld, unit) action" where
  "no_access [] w = (Ok (), w)"
| "no_access (machine # machines) w =
     and_thenS (DNS machine, w) (\<lambda>dns w. no_access machines (set_server dns 0 w))"

fun access_loop ::
  "Lib \<Rightarrow> 'p AuthEnv \<Rightarrow> rsa_PrivateKey \<Rightarrow> ssh_PublicKey \<Rightarrow> ssh_PublicKey \<Rightarrow> SpireNode list \<Rightarrow> ('p AuthWorld, unit) action" where
  "access_loop L e pkey cert host_ca [] w = (Ok (), w)"
| "access_loop L e pkey cert host_ca (machine # machines) w =
     and_thenS (DNS machine, w) (\<lambda>dns w.
       case with_am_peer (attemptSSHAccess L e pkey cert host_ca dns) w of
         (Ok _, w) \<Rightarrow> access_loop L e pkey cert host_ca machines (set_server dns 1 w)
       | (Err err, w) \<Rightarrow> access_loop L e pkey cert host_ca machines (set_server dns 0 w)
       | (Panic p, w) \<Rightarrow> (Panic p, w))"

definition check_ssh :: "Lib \<Rightarrow> 'p Net \<Rightarrow> 'p AuthEnv \<Rightarrow> Keyserver \<Rightarrow> string \<Rightarrow> ('p AuthWorld, unit) action" where
  "check_ssh L net e ks host_ca_pub w =
     (case LoadSpireSetup (setup_Unmarshal e) SpireSetupPath w of
        (Ok setupconfig, w) \<Rightarrow>
          (case attemptSSHAcquire L net ks w of
             (Ok (pkey, cert), w) \<Rightarrow>
               (let w = set_gauge ''grantCheck'' 1 w in
                case ssh_ParseAuthorizedKey L host_ca_pub of
                  Inl err \<Rightarrow> no_access (Nodes setupconfig) w
                | Inr (host_ca, _) \<Rightarrow> access_loop L e pkey cert host_ca (Nodes setupconfig) w)
           | (Err err, w) \<Rightarrow> no_access (Nodes setupconfig) (set_gauge ''grantCheck'' 0 w)
           | (Panic p, w) \<Rightarrow> (Panic p, w))
      | (Err err, w) \<Rightarrow> (Ok (), emit (Reset ''sshCheck'') (set_gauge ''grantCheck'' 0 w))
      | (Panic p, w) \<Rightarrow> (Panic p, w))"

definition auth_cycle :: "Lib \<Rightarrow> 'p Net \<Rightarrow> Keyserver \<Rightarrow> 'p AuthEnv \<Rightarrow> ('p AuthWorld, unit) action" where
  "auth_cycle L net ks e w =
     (case with_am_peer (GetPubkey net ks SSHHostAuthority) w of
        (Ok host_ca_pub, w) \<Rightarrow>
          and_thenS (check_static net ks (set_gauge ''keyCheck'' 1 w)) (\<lambda>_ w.
          and_thenS (check_kauth L net e ks w) (\<lambda>_ w.
            check_ssh L net e ks host_ca_pub w))
      | (Err err, w) \<Rightarrow>
          (Ok (), emit (Reset ''sshCheck'') (set_gauge ''grantCheck'' 0 (set_gauge ''authCheck'' 0
             (set_gauge ''fetchCheck'' 0 (set_gauge ''keyCheck'' 0 w)))))
      | (Panic p, w) \<Rightarrow> (Panic p, w))"

text \<open>The loop up to the next pause: a panic in a cycle ends the process, other rounds are those of \<open>loop_round\<close>.\<close>

fun auth_monitor_loop :: "Lib \<Rightarrow> 'p Net \<Rightarrow> Keyserver \<Rightarrow> (nat \<Rightarrow> 'p AuthEnv) \<Rightarrow> nat \<Rightarrow> ('p AuthWorld, unit) action" where
  "auth_monitor_loop L net ks env 0 w = (Ok (), w)"
| "auth_monitor_loop L net ks env (Suc n) w =
     and_thenS (auth_monitor_loop L net ks env n w) (\<lambda>_ w.
     and_thenS (auth_cycle L net ks (env n) (snd (time_Now w))) (\<lambda>_ w. (Ok (), snd (time_Now w))))"

end
