(* ===== verification/Test_Keys.thy ===== *)
theory Test_Keys
  imports Key_Generation Auth_Monitor
begin

text \<open>
  The helpers that the unit tests share: \<open>util/testkeyutil/keygen.go\<close>, which makes key pairs and certificates, and
  \<open>util/testutil/checkerr.go\<close>. \<open>t.Fatal\<close> ends a test and is an error here; \<open>asn1.Marshal\<close> and \<open>runtime.Caller\<close> are parameters.
  The lemmas show that the tests get what they ask for: authorities that the code under test accepts, and a check that fails
  unless there is an error with the expected text.
\<close>

section \<open>testkeyutil/keygen.go\<close>

definition keypair_error :: error where
  "keypair_error = Errorf ''Could not generate TLS keypair: %s'' []"

text \<open>\<open>if err != nil { t.Fatal("Could not generate TLS keypair: " + err.Error()) }\<close>\<close>

fun or_fatal :: "'a result \<times> 'w \<Rightarrow> 'a result \<times> 'w" where
  "or_fatal (Err e, w) = (Err keypair_error, w)"
| "or_fatal (r, w) = (r, w)"

definition test_template :: "string \<Rightarrow> string list \<Rightarrow> IP list \<Rightarrow> int \<Rightarrow> int \<Rightarrow> nat \<Rightarrow> Certificate" where
  "test_template commonname dns ips issueat duration serialNumber = zero_Certificate\<lparr>
     CertSignatureAlgorithm := SHA256WithRSA,
     CertKeyUsage := [KeyUsageDigitalSignature, KeyUsageCertSign],
     CertExtKeyUsage := [ExtKeyUsageClientAuth, ExtKeyUsageServerAuth],
     BasicConstraintsValid := True, IsCA := True, MaxPathLen := 1,
     SerialNumber := serialNumber, NotBefore := issueat, NotAfter := issueat + duration,
     CommonName := commonname, DNSNames := dns, IPAddresses := ips\<rparr>"

text \<open>A parent without its key is a nil pointer that \<open>x509.CreateCertificate\<close> follows.\<close>

definition GenerateTLSKeypairForTests_WithTime :: "Lib \<Rightarrow> string \<Rightarrow> string list \<Rightarrow> IP list \<Rightarrow> Certificate option \<Rightarrow>
    rsa_PrivateKey option \<Rightarrow> int \<Rightarrow> int \<Rightarrow> ('a World_scheme, rsa_PrivateKey \<times> Certificate) action" where
  "GenerateTLSKeypairForTests_WithTime L commonname dns ips parent parentkey issueat duration w =
     and_thenS (or_fatal (generate_rsa L 512 w)) (\<lambda>key w.
     and_thenS (or_fatal (rand_Int (2 ^ 159) w)) (\<lambda>serialNumber w.
     let certTemplate = test_template commonname dns ips issueat duration serialNumber;
         (parent, parentkey) = (case parent of None \<Rightarrow> (certTemplate, Some key) | Some p \<Rightarrow> (p, parentkey)) in
     case parentkey of
       None \<Rightarrow> (Panic ''nil pointer dereference'', w)
     | Some parentkey \<Rightarrow>
         and_thenS (or_fatal (lift (x509_CreateCertificate L certTemplate parent (RSA_PublicKey (N key)) parentkey), w)) (\<lambda>signed_cert w.
         and_thenS (or_fatal (lift (x509_ParseCertificate L signed_cert), w)) (\<lambda>cert w. (Ok (key, cert), w)))))"

definition GenerateTLSKeypairForTests :: "Lib \<Rightarrow> string \<Rightarrow> string list \<Rightarrow> IP list \<Rightarrow> Certificate option \<Rightarrow>
    rsa_PrivateKey option \<Rightarrow> ('a World_scheme, rsa_PrivateKey \<times> Certificate) action" where
  "GenerateTLSKeypairForTests L commonname dns ips parent parentkey w = (case time_Now w of (t, w) \<Rightarrow>
     GenerateTLSKeypairForTests_WithTime L commonname dns ips parent parentkey t time_Hour w)"

definition GenerateTLSRootForTests :: "Lib \<Rightarrow> string \<Rightarrow> string list \<Rightarrow> IP list \<Rightarrow> ('a World_scheme, rsa_PrivateKey \<times> Certificate) action" where
  "GenerateTLSRootForTests L commonname dns ips w = GenerateTLSKeypairForTests L commonname dns ips None None w"

text \<open>The structure that is marshalled: the version, the algorithms and the key.\<close>

type_synonym asn1_Marshal = "int \<times> nat list list \<times> string \<Rightarrow> error + string"

definition marshalpkcs8 :: "asn1_Marshal \<Rightarrow> Lib \<Rightarrow> rsa_PrivateKey \<Rightarrow> string result" where
  "marshalpkcs8 Marshal L key = lift (Marshal (0, [[1, 2, 840, 113549, 1, 1, 1]], x509_MarshalPKCS1PrivateKey L key))"

text \<open>The end of both functions that return PEM data.\<close>

definition test_pems :: "asn1_Marshal \<Rightarrow> Lib \<Rightarrow> rsa_PrivateKey \<Rightarrow> Certificate \<Rightarrow> (string \<times> string \<times> string) result" where
  "test_pems Marshal L keyd certd =
     and_then (marshalpkcs8 Marshal L keyd) (\<lambda>pkcs8key.
       Ok (pem_EncodeToMemory L \<lparr>PEM_Type = ''RSA PRIVATE KEY'', PEM_Bytes = x509_MarshalPKCS1PrivateKey L keyd\<rparr>,
           pem_EncodeToMemory L \<lparr>PEM_Type = ''PRIVATE KEY'', PEM_Bytes = pkcs8key\<rparr>,
           pem_EncodeToMemory L \<lparr>PEM_Type = ''CERTIFICATE'', PEM_Bytes = Raw certd\<rparr>))"

definition GenerateTLSRootPEMsForTests :: "asn1_Marshal \<Rightarrow> Lib \<Rightarrow> string \<Rightarrow> string list \<Rightarrow> IP list \<Rightarrow>
    ('a World_scheme, string \<times> string \<times> string) action" where
  "GenerateTLSRootPEMsForTests Marshal L commonname dns ips w =
     and_thenS (GenerateTLSRootForTests L commonname dns ips w) (\<lambda>(keyd, certd) w. (test_pems Marshal L keyd certd, w))"

definition GenerateTLSKeypairPEMsForTests :: "asn1_Marshal \<Rightarrow> Lib \<Rightarrow> string \<Rightarrow> string list \<Rightarrow> IP list \<Rightarrow> string \<Rightarrow> string \<Rightarrow>
    ('a World_scheme, string \<times> string \<times> string) action" where
  "GenerateTLSKeypairPEMsForTests Marshal L commonname dns ips parent parentkey w =
     and_thenS (LoadX509CertFromPEM L parent, w) (\<lambda>parentdec w.
     and_thenS (LoadRSAKeyFromPEM L parentkey, w) (\<lambda>parentkeydec w.
     and_thenS (GenerateTLSKeypairForTests L commonname dns ips (Some parentdec) (Some parentkeydec) w) (\<lambda>(keyd, certd) w.
       (test_pems Marshal L keyd certd, w))))"

section \<open>testutil/checkerr.go\<close>

definition caller_name :: "(string \<times> nat) option \<Rightarrow> string \<times> nat" where
  "caller_name Caller = (case Caller of
       Some (path, line) \<Rightarrow> (last (Split path (CHR ''/'')), line)
     | None \<Rightarrow> (''???'', 1))"

definition CheckError :: "(string \<times> nat) option \<Rightarrow> error option \<Rightarrow> string \<Rightarrow> unit result" where
  "CheckError Caller err substr = (case caller_name Caller of (path, line) \<Rightarrow>
     case err of
       None \<Rightarrow> Err (Errorf ''at %s:%d: expected error; found no error'' [path, dec line])
     | Some e \<Rightarrow>
         if \<not> Contains (error_text e) substr then
           Err (Errorf (''at %s:%d: expected error that contains '%s', but only got '%s'' @ [CHR 0x27]) [path, dec line, substr, error_text e])
         else Ok ())"

section \<open>What the tests get\<close>

text \<open>A parsed certificate keeps the bytes it was parsed from.\<close>

definition raw_law :: "Lib \<Rightarrow> bool" where
  "raw_law L = (\<forall>der c. x509_ParseCertificate L der = Inr c \<longrightarrow> Raw c = der)"

lemma or_fatal_Ok [simp]: "or_fatal rs = (Ok x, w) \<longleftrightarrow> rs = (Ok x, w)"
  by (cases rs rule: or_fatal.cases) auto

lemma generate_rsa_Ok: "generate_rsa L n w = (Ok k, w') \<Longrightarrow> \<exists>r. rsa_GenerateKey L r n = Inr k"
  by (auto simp: generate_rsa_def split: option.splits prod.splits)

lemma test_keypair_Ok:
  assumes "raw_law L" and "GenerateTLSKeypairForTests_WithTime L cn dns ips parent pk at d w = (Ok (key, cert), w')"
  shows "\<exists>r t p k. rsa_GenerateKey L r 512 = Inr key \<and> CommonName t = cn \<and> IsCA t \<and> NotAfter t = at + d \<and>
    x509_CreateCertificate L t p (RSA_PublicKey (N key)) k = Inr (Raw cert) \<and> x509_ParseCertificate L (Raw cert) = Inr cert"
proof -
  obtain w1 s where k: "generate_rsa L 512 w = (Ok key, w1)" and s: "\<exists>w2. rand_Int (2 ^ 159) w1 = (Ok s, w2)"
    and c: "\<exists>p k der. x509_CreateCertificate L (test_template cn dns ips at d s) p (RSA_PublicKey (N key)) k = Inr der \<and>
      x509_ParseCertificate L der = Inr cert"
    using assms(2)
    by (fastforce simp: GenerateTLSKeypairForTests_WithTime_def and_thenS_Ok_iff Let_def split: option.splits prod.splits)
  moreover from c assms(1) have "\<exists>p k. x509_CreateCertificate L (test_template cn dns ips at d s) p (RSA_PublicKey (N key)) k = Inr (Raw cert) \<and>
      x509_ParseCertificate L (Raw cert) = Inr cert" by (auto simp: raw_law_def)
  moreover have "CommonName (test_template cn dns ips at d s) = cn" "IsCA (test_template cn dns ips at d s)"
    "NotAfter (test_template cn dns ips at d s) = at + d" by (simp_all add: test_template_def)
  ultimately show ?thesis using generate_rsa_Ok [OF k] by blast
qed

lemma test_root_loads:
  assumes laws: "pem_law L" "key_law L" "cert_law L" "raw_law L"
    and "GenerateTLSRootPEMsForTests Marshal L cn dns ips w = (Ok (key, pkcs8, cert), w')"
  shows "\<exists>t. LoadTLSAuthority L key cert = Ok (TLSAuth t) \<and> CommonName (tls_cert t) = cn \<and> IsCA (tls_cert t) \<and>
    keyEncoded t = key \<and> certEncoded t = cert"
proof -
  obtain keyd certd t0 where g: "GenerateTLSKeypairForTests_WithTime L cn dns ips None None t0 time_Hour (snd (time_Now w)) = (Ok (keyd, certd), w')"
    and p: "test_pems Marshal L keyd certd = Ok (key, pkcs8, cert)"
    using assms(5)
    by (auto simp: GenerateTLSRootPEMsForTests_def GenerateTLSRootForTests_def GenerateTLSKeypairForTests_def and_thenS_Ok_iff time_Now_def)
  have pem: "key = key_pem L keyd" "cert = pem_EncodeToMemory L \<lparr>PEM_Type = ''CERTIFICATE'', PEM_Bytes = Raw certd\<rparr>"
    using p by (auto simp: test_pems_def and_then_Ok_iff key_pem_def)
  obtain r t p' k where made: "rsa_GenerateKey L r 512 = Inr keyd" "CommonName t = cn" "IsCA t"
    "x509_CreateCertificate L t p' (RSA_PublicKey (N keyd)) k = Inr (Raw certd)" "x509_ParseCertificate L (Raw certd) = Inr certd"
    using test_keypair_Ok [OF laws(4) g] by blast
  have "LoadRSAKeyFromPEM L key = Ok keyd"
    using laws(1,2) made(1) by (simp add: LoadRSAKeyFromPEM_def LoadSinglePEMBlock_def pem key_pem_def pem_law_def key_law_def)
  moreover have "LoadX509CertFromPEM L cert = Ok certd"
    using laws(1) made(5) by (simp add: LoadX509CertFromPEM_def LoadSinglePEMBlock_def pem pem_law_def)
  moreover have "CertPublicKeyAlgorithm certd = RSA" "CertPublicKey certd = RSA_PublicKey (N keyd)" "CommonName certd = cn" "IsCA certd"
    using laws(3) made unfolding cert_law_def by fastforce+
  ultimately show ?thesis by (simp add: LoadTLSAuthority_def)
qed

lemma CheckError_passes: "is_ok (CheckError Caller err substr) \<longleftrightarrow> (\<exists>e a b. err = Some e \<and> error_text e = a @ substr @ b)"
  by (auto simp: CheckError_def Contains_iff_infix split: option.splits prod.splits)

end
