(* ===== verification/Flannel_Monitor.thy ===== *)
theory Flannel_Monitor
  imports Monitor_Lib
begin

text \<open>
  \<open>flannel-monitor/\<close>: the listing of nodes and pods in \<open>common/common.go\<close>, the monitor that pings the
  reflectors of all nodes, the collector that scrapes the monitors, and the reflector. What the
  Kubernetes API, the HTTP client and the parser of metrics answer in a cycle are parameters, collected
  in \<open>MonEnv\<close>, together with the order in which the maps are iterated.
\<close>

section \<open>common.go\<close>

datatype NodeAddressType = NodeInternalIP | OtherAddressType string

record Node =
  nodeName :: string
  Addresses :: "(NodeAddressType \<times> string) list"

record Pod =
  podName :: string
  Phase :: string
  HostIP :: string
  PodIP :: string

record MonEnv =
  Nodes_List :: "error + Node list"
  Pods_List :: "string \<Rightarrow> string \<Rightarrow> error + Pod list"
  http_Get :: "string \<Rightarrow> error + error + string"
  map_range :: "nat \<Rightarrow> (string \<times> string) list \<Rightarrow> (string \<times> string) list"

definition ranges_ok :: "MonEnv \<Rightarrow> bool" where
  "ranges_ok e = (\<forall>n m. mset (map_range e n m) = mset m)"

fun node_ip :: "string \<Rightarrow> string \<Rightarrow> (NodeAddressType \<times> string) list \<Rightarrow> string result" where
  "node_ip name nodeIP [] = Ok nodeIP"
| "node_ip name nodeIP ((ty, addr) # addrs) =
     (if ty = NodeInternalIP then
        (if nodeIP \<noteq> [] \<and> nodeIP \<noteq> addr then Err (Errorf ''got multiple IPs for node: %s'' [name])
         else node_ip name addr addrs)
      else node_ip name nodeIP addrs)"

fun node_ips :: "string list \<Rightarrow> Node list \<Rightarrow> string list result" where
  "node_ips ip_list [] = Ok ip_list"
| "node_ips ip_list (item # items) =
     and_then (node_ip (nodeName item) [] (Addresses item)) (\<lambda>nodeIP.
       if nodeIP = [] then Err (Errorf ''could not get IP for node: %s'' [nodeName item])
       else node_ips (ip_list @ [nodeIP]) items)"

definition ListNodeIPs :: "MonEnv \<Rightarrow> string list result" where
  "ListNodeIPs cs = and_then (lift (Nodes_List cs)) (node_ips [])"

fun running_pods :: "(string \<times> string) list \<Rightarrow> Pod list \<Rightarrow> (string \<times> string) list result" where
  "running_pods m [] = Ok m"
| "running_pods m (item # items) =
     (if Phase item \<noteq> ''Running'' then running_pods m items
      else if map_of m (PodIP item) \<noteq> None
      then Err (Errorf ''duplicate pod for podIP: %s for %s'' [podName item, PodIP item])
      else running_pods (AList.update (PodIP item) (HostIP item) m) items)"

definition ListRunningAppPods :: "MonEnv \<Rightarrow> string \<Rightarrow> string \<Rightarrow> (string \<times> string) list result" where
  "ListRunningAppPods cs namespace app = and_then (lift (Pods_List cs namespace (''app='' @ app))) (running_pods [])"

fun match_hosts :: "bool \<Rightarrow> (string \<times> string) list \<Rightarrow> (string \<times> string) list \<Rightarrow> bool \<times> (string \<times> string) list" where
  "match_hosts dup m [] = (dup, m)"
| "match_hosts dup m ((podIP, hostIP) # ps) =
     match_hosts (dup \<or> map_of m hostIP \<noteq> None) (AList.update hostIP podIP m) ps"

definition ListAndMatchRunningAppPodsToNodes ::
  "MonEnv \<Rightarrow> string \<Rightarrow> string \<Rightarrow> (string list \<times> bool \<times> (string \<times> string) list) result" where
  "ListAndMatchRunningAppPodsToNodes cs namespace app =
     and_then (ListNodeIPs cs) (\<lambda>node_ips.
     and_then (ListRunningAppPods cs namespace app) (\<lambda>mapPodIPToHostIP.
       let (has_any_duplicates, mapHostIPToPodIP) = match_hosts False [] (map_range cs 0 mapPodIPToHostIP);
           not_found = filter (\<lambda>nodeIP. map_of mapHostIPToPodIP nodeIP = None) node_ips
       in Ok (not_found, has_any_duplicates, mapHostIPToPodIP)))"

section \<open>monitor/flannel-monitor.go\<close>

fun set_all :: "string \<Rightarrow> string list \<Rightarrow> string list \<Rightarrow> int \<Rightarrow> 'a MonWorld_scheme \<Rightarrow> 'a MonWorld_scheme" where
  "set_all m pre [] x w = w"
| "set_all m pre (l # ls) x w = set_all m pre ls x (emit (SetTo m (pre @ [l]) x) w)"

definition ping_host :: "MonEnv \<Rightarrow> string \<Rightarrow> string \<Rightarrow> string \<Rightarrow> 'a MonWorld_scheme \<Rightarrow> 'a MonWorld_scheme" where
  "ping_host cs source_hostip hostIP podIP w =
     (case time_Now w of (t0, w) \<Rightarrow>
      let resp = http_Get cs (''http://'' @ podIP @ ''/ping'') in
      case time_Now w of (t1, w) \<Rightarrow>
      let (pass, w) = (case resp of
            Inl err \<Rightarrow> (0, w)
          | Inr (Inl err) \<Rightarrow> (0, w)
          | Inr (Inr body) \<Rightarrow> if body \<noteq> ''PONG'' then (0, w)
              else (1, emit (Observe ''talkTiming'' [source_hostip, hostIP] (t1 - t0)) w))
      in emit (SetTo ''talkCheck'' [source_hostip, hostIP] pass) w)"

fun ping_loop :: "MonEnv \<Rightarrow> string \<Rightarrow> (string \<times> string) list \<Rightarrow> 'a MonWorld_scheme \<Rightarrow> 'a MonWorld_scheme" where
  "ping_loop cs source_hostip [] w = w"
| "ping_loop cs source_hostip ((hostIP, podIP) # ps) w =
     ping_loop cs source_hostip ps (ping_host cs source_hostip hostIP podIP w)"

definition monitor_cycle :: "string \<Rightarrow> string \<Rightarrow> MonEnv \<Rightarrow> 'a MonWorld_scheme \<Rightarrow> 'a MonWorld_scheme" where
  "monitor_cycle namespace source_hostip cs w =
     (let w = emit (With ''monCheck'' [source_hostip]) w;
          w = emit (With ''dupCheck'' [source_hostip]) w;
          w = emit (With ''monRecency'' [source_hostip]) w in
      case ListAndMatchRunningAppPodsToNodes cs namespace ''flannel-monitor-reflector'' of
        Ok (podlessNodeIPs, anyDuplicateNodes, mapHostIPToPodIP) \<Rightarrow>
          let w = set_all ''talkCheck'' [source_hostip] podlessNodeIPs 0 w;
              w = emit (SetTo ''dupCheck'' [source_hostip] (if anyDuplicateNodes then 0 else 1)) w;
              w = emit (SetTo ''monCheck'' [source_hostip] 1) w;
              (recency_timestamp, w) = time_Now w;
              w = ping_loop cs source_hostip (map_range cs 1 mapHostIPToPodIP) w
          in emit (SetTo ''monRecency'' [source_hostip] recency_timestamp) w
      | _ \<Rightarrow>
          emit (SetTo ''dupCheck'' [source_hostip] 0) (emit (SetTo ''monCheck'' [source_hostip] 0)
            (emit (Reset ''talkTiming'') (emit (Reset ''talkCheck'') w))))"

section \<open>collector/flannel-monitor-collector.go\<close>

record 'f Collector = MonWorld +
  additional_metrics :: "'f list"

text \<open>\<open>TextToMetricFamilies\<close> reads the body of a response; the list has the order of the iteration over its result.\<close>

type_synonym 'f TextParser = "error + string \<Rightarrow> error + 'f list"

fun scrape_loop :: "'f TextParser \<Rightarrow> MonEnv \<Rightarrow> (string \<times> string) list \<Rightarrow> 'f list \<Rightarrow> ('f, 'a) Collector_scheme \<Rightarrow>
    'f list \<times> ('f, 'a) Collector_scheme" where
  "scrape_loop parser cs [] result w = (result, w)"
| "scrape_loop parser cs ((hostIP, podIP) # ps) result w =
     (let (pass, result) = (case http_Get cs (''http://'' @ podIP @ ''/metrics'') of
            Inl err \<Rightarrow> (0, result)
          | Inr body \<Rightarrow> (case parser body of
              Inl err \<Rightarrow> (0, result)
            | Inr metrics \<Rightarrow> (1, result @ metrics)))
      in scrape_loop parser cs ps result (emit (SetTo ''scrapeCheck'' [hostIP] pass) w))"

definition collector_cycle :: "'f TextParser \<Rightarrow> string \<Rightarrow> MonEnv \<Rightarrow> ('f, 'a) Collector_scheme \<Rightarrow> ('f, 'a) Collector_scheme" where
  "collector_cycle parser namespace cs w =
     (case ListAndMatchRunningAppPodsToNodes cs namespace ''flannel-monitor'' of
        Ok (podlessNodeIPs, anyDuplicateNodes, mapHostIPToPodIP) \<Rightarrow>
          let w = emit (SetTo ''dupCheck'' [] (if anyDuplicateNodes then 0 else 1)) w;
              w = set_all ''scrapeCheck'' [] podlessNodeIPs 0 w;
              (result, w) = scrape_loop parser cs (map_range cs 1 mapHostIPToPodIP) [] w;
              w = emit (SetTo ''collectCheck'' [] 1) w
          in w\<lparr>additional_metrics := result\<rparr>
      | _ \<Rightarrow>
          emit (SetTo ''dupCheck'' [] 0) (emit (SetTo ''collectCheck'' [] 0)
            ((emit (Reset ''scrapeCheck'') w)\<lparr>additional_metrics := []\<rparr>)))"

text \<open>\<open>registry.Gather\<close> of the client library gives the families of the registered metrics.\<close>

definition gather :: "(metric_call list \<Rightarrow> error + 'f list) \<Rightarrow> ('f, 'a) Collector_scheme \<Rightarrow> 'f list result" where
  "gather registry_Gather w =
     (let adl = additional_metrics w in
      and_then (lift (registry_Gather (Metrics w))) (\<lambda>gathered. Ok (gathered @ adl)))"

end
