(* ===== verification/Flannel_Checks.thy ===== *)
theory Flannel_Checks
  imports Flannel_Monitor
begin

text \<open>
  What the flannel monitor and its collector report: the values of their gauges after a cycle, in terms of
  the nodes and the running pods that the cluster lists and of the answers of the pods.
\<close>

section \<open>Nodes and pods\<close>

definition running :: "Pod list \<Rightarrow> Pod list" where
  "running pods = filter (\<lambda>p. Phase p = ''Running'') pods"

text \<open>The address of a node: its internal address, of which there is one, apart from empty entries.\<close>

definition internal_ip :: "Node \<Rightarrow> string \<Rightarrow> bool" where
  "internal_ip n ip \<longleftrightarrow> ip \<noteq> [] \<and> (NodeInternalIP, ip) \<in> set (Addresses n) \<and>
     (\<forall>a. (NodeInternalIP, a) \<in> set (Addresses n) \<longrightarrow> a = ip \<or> a = [])"

lemma node_ip_Ok:
  assumes "node_ip name ip0 addrs = Ok ip"
  shows "(\<forall>a. (NodeInternalIP, a) \<in> set addrs \<longrightarrow> a = ip \<or> a = []) \<and> (ip0 = ip \<or> ip0 = []) \<and>
    (ip \<noteq> [] \<longrightarrow> (NodeInternalIP, ip) \<in> set addrs \<or> ip = ip0)"
  using assms by (induction name ip0 addrs rule: node_ip.induct) (auto split: if_splits)

lemma node_ips_Ok:
  assumes "node_ips acc items = Ok ips"
  shows "\<exists>xs. ips = acc @ xs \<and> list_all2 internal_ip items xs"
  using assms
proof (induction acc items arbitrary: ips rule: node_ips.induct)
  case (2 acc item items)
  from "2.prems" obtain ip where ip: "node_ip (nodeName item) [] (Addresses item) = Ok ip" "ip \<noteq> []"
    "node_ips (acc @ [ip]) items = Ok ips" by (auto simp: and_then_Ok_iff split: if_splits)
  from "2.IH" [OF ip(2,3)] obtain xs where "ips = (acc @ [ip]) @ xs" "list_all2 internal_ip items xs" by blast
  moreover have "internal_ip item ip" using node_ip_Ok [OF ip(1)] ip(2) by (auto simp: internal_ip_def)
  ultimately show ?case by (intro exI [of _ "ip # xs"]) simp
qed simp

lemma running_Cons: "running (p # ps) = (if Phase p = ''Running'' then p # running ps else running ps)"
  by (simp add: running_def)

lemma running_pods_Ok:
  "running_pods m items = Ok m' \<longleftrightarrow>
     m' = m @ map (\<lambda>p. (PodIP p, HostIP p)) (running items) \<and> distinct (map PodIP (running items)) \<and>
     (\<forall>p \<in> set (running items). PodIP p \<notin> fst ` set m)"
proof (induction m items rule: running_pods.induct)
  case (2 m item items)
  show ?case
  proof (cases "Phase item = ''Running'' \<and> map_of m (PodIP item) = None")
    case True
    then have "PodIP item \<notin> fst ` set m" by (simp add: map_of_eq_None_iff)
    with True 2(2) show ?thesis by (auto simp: running_Cons update_fresh image_iff)
  qed (use 2(1) in \<open>auto simp: running_Cons dest: map_of_SomeD intro: rev_image_eqI\<close>)
qed (auto simp: running_def)

lemma match_hosts_dup:
  "fst (match_hosts dup m ps) \<longleftrightarrow> dup \<or> \<not> distinct (map snd ps) \<or> (\<exists>h \<in> snd ` set ps. map_of m h \<noteq> None)"
  by (induction dup m ps rule: match_hosts.induct) (auto simp: update_conv')

lemma match_hosts_keys: "distinct (map fst m) \<Longrightarrow> distinct (map fst (snd (match_hosts dup m ps)))"
  by (induction dup m ps rule: match_hosts.induct) simp_all

lemma match_hosts_pods:
  "map_of (snd (match_hosts dup m ps)) h =
     (if h \<in> snd ` set ps then Some (fst (last (filter (\<lambda>q. snd q = h) ps))) else map_of m h)"
  by (induction dup m ps rule: match_hosts.induct) (auto simp: update_conv' filter_empty_conv)

section \<open>The monitor\<close>

definition pongs :: "MonEnv \<Rightarrow> string \<Rightarrow> bool" where
  "pongs e podIP = (http_Get e (''http://'' @ podIP @ ''/ping'') = Inr (Inr ''PONG''))"

lemma gauge_set_all:
  "gauge (set_all m pre ls x w) m' l = (if m' = m \<and> (\<exists>k \<in> set ls. l = pre @ [k]) then Some x else gauge w m' l)"
  by (induction m pre ls x w rule: set_all.induct) auto

lemma set_all_clock [simp]: "Clock (set_all m pre ls x w) = Clock w" "Ticks (set_all m pre ls x w) = Ticks w"
  by (induction m pre ls x w rule: set_all.induct) simp_all

lemma gauge_ping_host:
  "gauge (ping_host e src h p w) m l =
     (if m = ''talkCheck'' \<and> l = [src, h] then Some (if pongs e p then 1 else 0) else gauge w m l)"
  by (auto simp: ping_host_def pongs_def time_Now_def Let_def split: sum.split)

lemma ping_host_clock [simp]:
  "Clock (ping_host e src h p w) = Clock w" "Ticks (ping_host e src h p w) = Ticks w + 2"
  by (auto simp: ping_host_def time_Now_def Let_def split: sum.split)

lemma gauge_ping_loop:
  "distinct (map fst ps) \<Longrightarrow> gauge (ping_loop e src ps w) ''talkCheck'' [src, h] =
     (case map_of ps h of None \<Rightarrow> gauge w ''talkCheck'' [src, h] | Some p \<Rightarrow> Some (if pongs e p then 1 else 0))"
proof (induction e src ps w rule: ping_loop.induct)
  case (2 e src h' p ps w)
  show ?case
  proof (cases "h = h'")
    case True
    with "2.prems" have "map_of ps h = None" by (simp add: map_of_eq_None_iff)
    with True 2 show ?thesis by (simp add: gauge_ping_host)
  qed (use 2 in \<open>simp add: gauge_ping_host split: option.split\<close>)
qed simp

lemma gauge_ping_loop_other:
  "m \<noteq> ''talkCheck'' \<or> (\<forall>h. l \<noteq> [src, h]) \<Longrightarrow> gauge (ping_loop e src ps w) m l = gauge w m l"
  by (induction e src ps w rule: ping_loop.induct) (auto simp: gauge_ping_host)

lemma ping_loop_clock [simp]: "Clock (ping_loop e src ps w) = Clock w" "Ticks (ping_loop e src ps w) = Ticks w + 2 * length ps"
  by (induction e src ps w rule: ping_loop.induct) simp_all

lemma matching:
  assumes "ranges_ok e" and "Nodes_List e = Inr nodes" and "Pods_List e ns (''app='' @ app) = Inr pods"
    and "ListAndMatchRunningAppPodsToNodes e ns app = Ok (podless, dup, hosts)"
  shows "\<exists>ips. list_all2 internal_ip nodes ips \<and> podless = filter (\<lambda>ip. ip \<notin> HostIP ` set (running pods)) ips"
    and "dup \<longleftrightarrow> \<not> distinct (map HostIP (running pods))" and "distinct (map fst hosts)"
    and "distinct (map PodIP (running pods))"
    and "map_of hosts h = None \<longleftrightarrow> h \<notin> HostIP ` set (running pods)"
    and "map_of hosts h = Some p \<Longrightarrow> \<exists>q \<in> set (running pods). HostIP q = h \<and> PodIP q = p"
proof -
  let ?m = "map (\<lambda>p. (PodIP p, HostIP p)) (running pods)"
  obtain d hs where "match_hosts False [] (map_range e 0 ?m) = (d, hs)" by fastforce
  with assms(2-4) obtain ips where ips: "node_ips [] nodes = Ok ips" and "running_pods [] pods = Ok ?m"
    and dis: "distinct (map PodIP (running pods))"
    and match: "(dup, hosts) = match_hosts False [] (map_range e 0 ?m)"
    and podless: "podless = filter (\<lambda>ip. map_of hosts ip = None) ips"
    by (auto simp: ListAndMatchRunningAppPodsToNodes_def ListNodeIPs_def ListRunningAppPods_def and_then_Ok_iff
        running_pods_Ok Let_def)
  have perm: "mset (map_range e 0 ?m) = mset ?m" using assms(1) by (simp add: ranges_ok_def)
  then have set_m: "set (map_range e 0 ?m) = set ?m" by (rule mset_eq_setD)
  have dup: "dup = fst (match_hosts False [] (map_range e 0 ?m))" and hosts: "hosts = snd (match_hosts False [] (map_range e 0 ?m))"
    by (simp_all flip: match)
  have snd_perm: "mset (map snd (map_range e 0 ?m)) = mset (map HostIP (running pods))" using perm by (simp add: multiset.map_comp comp_def)
  show "dup \<longleftrightarrow> \<not> distinct (map HostIP (running pods))"
    using mset_eq_imp_distinct_iff [OF snd_perm] by (simp add: dup match_hosts_dup)
  show "distinct (map fst hosts)" by (simp add: hosts match_hosts_keys)
  show "distinct (map PodIP (running pods))" by (rule dis)
  have hosts_of: "map_of hosts h =
      (if h \<in> HostIP ` set (running pods) then Some (fst (last (filter (\<lambda>q. snd q = h) (map_range e 0 ?m)))) else None)" for h
    by (simp add: hosts match_hosts_pods set_m image_image)
  then show none: "map_of hosts h = None \<longleftrightarrow> h \<notin> HostIP ` set (running pods)" for h by simp
  show "\<exists>q \<in> set (running pods). HostIP q = h \<and> PodIP q = p" if "map_of hosts h = Some p"
  proof -
    from that have "h \<in> snd ` set (map_range e 0 ?m)" and p: "p = fst (last (filter (\<lambda>q. snd q = h) (map_range e 0 ?m)))"
      using hosts_of [of h] by (auto simp: set_m image_image split: if_splits)
    then have "filter (\<lambda>q. snd q = h) (map_range e 0 ?m) \<noteq> []" by (auto simp: filter_empty_conv)
    from last_in_set [OF this] p show ?thesis by (auto simp: set_m)
  qed
  show "\<exists>ips. list_all2 internal_ip nodes ips \<and> podless = filter (\<lambda>ip. ip \<notin> HostIP ` set (running pods)) ips"
    using node_ips_Ok [OF ips] podless by (auto simp: none)
qed

lemma monitor_cycle_failed:
  assumes "\<not> is_ok (ListAndMatchRunningAppPodsToNodes e ns ''flannel-monitor-reflector'')"
  shows "gauge (monitor_cycle ns src e w) ''talkCheck'' l = None"
    and "gauge (monitor_cycle ns src e w) ''monCheck'' [src] = Some 0"
    and "gauge (monitor_cycle ns src e w) ''dupCheck'' [src] = Some 0"
    and "gauge w ''monRecency'' [src] = Some t \<Longrightarrow> gauge (monitor_cycle ns src e w) ''monRecency'' [src] = Some t"
  using assms by (simp_all add: monitor_cycle_def Let_def is_ok_iff split: result.split)

lemma monitor_cycle_ok:
  assumes "ListAndMatchRunningAppPodsToNodes e ns ''flannel-monitor-reflector'' = Ok (podless, dup, hosts)"
    and "ranges_ok e" and "distinct (map fst hosts)"
  shows "gauge (monitor_cycle ns src e w) ''talkCheck'' [src, h] =
      (case map_of hosts h of Some p \<Rightarrow> Some (if pongs e p then 1 else 0)
       | None \<Rightarrow> if h \<in> set podless then Some 0 else gauge w ''talkCheck'' [src, h])"
    and "gauge (monitor_cycle ns src e w) ''monCheck'' [src] = Some 1"
    and "gauge (monitor_cycle ns src e w) ''dupCheck'' [src] = Some (if dup then 0 else 1)"
    and "gauge (monitor_cycle ns src e w) ''monRecency'' [src] = Some (now w)"
proof -
  have r: "mset (map_range e 1 hosts) = mset hosts" using assms(2) by (simp add: ranges_ok_def)
  then have "distinct (map fst (map_range e 1 hosts))" "map_of (map_range e 1 hosts) = map_of hosts"
    using assms(3) distinct_shuffle [OF r] map_of_shuffle [OF r assms(3)] by blast+
  with assms(1) show "gauge (monitor_cycle ns src e w) ''talkCheck'' [src, h] =
      (case map_of hosts h of Some p \<Rightarrow> Some (if pongs e p then 1 else 0)
       | None \<Rightarrow> if h \<in> set podless then Some 0 else gauge w ''talkCheck'' [src, h])"
    by (simp add: monitor_cycle_def Let_def time_Now_def gauge_ping_loop gauge_set_all split: option.split)
qed (use assms(1) in \<open>simp_all add: monitor_cycle_def Let_def time_Now_def now_def gauge_ping_loop_other gauge_set_all\<close>)

lemma matching_ok:
  assumes "Nodes_List e = Inr nodes" and "Pods_List e ns (''app='' @ app) = Inr pods"
  shows "is_ok (ListAndMatchRunningAppPodsToNodes e ns app) \<longleftrightarrow> is_ok (ListNodeIPs e) \<and> distinct (map PodIP (running pods))"
proof -
  have "is_ok (ListRunningAppPods e ns app) \<longleftrightarrow> distinct (map PodIP (running pods))"
    using assms(2) by (auto simp: ListRunningAppPods_def is_ok_iff running_pods_Ok)
  then show ?thesis
    by (cases "ListNodeIPs e"; cases "ListRunningAppPods e ns app")
      (auto simp: ListAndMatchRunningAppPodsToNodes_def Let_def split: prod.split)
qed

text \<open>
  C25: what a cycle of the flannel monitor reports, if the cluster lists nodes and pods. If every node has an
  internal address and no two running reflectors have the same address, every host with a running reflector is
  reported as reachable if and only if a reflector on it answered \<open>PONG\<close> (with two reflectors on a host, one of
  them decides, and the duplicates are reported), every other node of the cluster is reported as unreachable, and
  the timestamp is the time at which the cycle began. The value of a host that is neither a node nor runs a
  reflector any more stays what it was. Otherwise no host is reported as reachable or
  unreachable, the monitor is marked as not working and the timestamp stays.
\<close>

theorem monitor_reports:
  assumes "ranges_ok e" and "Nodes_List e = Inr nodes" and "Pods_List e ns ''app=flannel-monitor-reflector'' = Inr pods"
    and "w' = monitor_cycle ns src e w" and "rs = running pods"
  shows "if is_ok (ListNodeIPs e) \<and> distinct (map PodIP rs)
    then (\<exists>ips. list_all2 internal_ip nodes ips \<and>
        (\<forall>h. if h \<in> HostIP ` set rs
             then \<exists>q \<in> set rs. HostIP q = h \<and> gauge w' ''talkCheck'' [src, h] = Some (if pongs e (PodIP q) then 1 else 0)
             else gauge w' ''talkCheck'' [src, h] = (if h \<in> set ips then Some 0 else gauge w ''talkCheck'' [src, h])) \<and>
        gauge w' ''monCheck'' [src] = Some 1 \<and> gauge w' ''dupCheck'' [src] = Some (if distinct (map HostIP rs) then 1 else 0) \<and>
        gauge w' ''monRecency'' [src] = Some (now w))
    else (\<forall>l. gauge w' ''talkCheck'' l = None) \<and> gauge w' ''monCheck'' [src] = Some 0 \<and> gauge w' ''dupCheck'' [src] = Some 0 \<and>
      (\<forall>t. gauge w ''monRecency'' [src] = Some t \<longrightarrow> gauge w' ''monRecency'' [src] = Some t)"
proof (cases "is_ok (ListAndMatchRunningAppPodsToNodes e ns ''flannel-monitor-reflector'')")
  case True
  then obtain podless dup hosts where lm: "ListAndMatchRunningAppPodsToNodes e ns ''flannel-monitor-reflector'' = Ok (podless, dup, hosts)"
    by (auto simp: is_ok_iff)
  have pods: "Pods_List e ns (''app='' @ ''flannel-monitor-reflector'') = Inr pods" using assms(3) by simp
  note m = matching [OF assms(1,2) pods lm, folded assms(5)]
  note c = monitor_cycle_ok [OF lm assms(1) m(3), where src = src and w = w, folded assms(4)]
  from m(1) obtain ips where ips: "list_all2 internal_ip nodes ips" "podless = filter (\<lambda>ip. ip \<notin> HostIP ` set rs) ips"
    by blast
  have "\<exists>q \<in> set rs. HostIP q = h \<and> gauge w' ''talkCheck'' [src, h] = Some (if pongs e (PodIP q) then 1 else 0)"
    if "h \<in> HostIP ` set rs" for h
  proof -
    from that m(5) obtain p where p: "map_of hosts h = Some p" by fastforce
    with m(6) [OF p] c(1) [of h] show ?thesis by auto
  qed
  moreover have "gauge w' ''talkCheck'' [src, h] = (if h \<in> set ips then Some 0 else gauge w ''talkCheck'' [src, h])"
    if "h \<notin> HostIP ` set rs" for h
    using that m(5) [of h] c(1) [of h] ips(2) by auto
  moreover have "is_ok (ListNodeIPs e) \<and> distinct (map PodIP rs)" using True matching_ok [OF assms(2) pods] assms(5) by simp
  ultimately show ?thesis using ips(1) m(2) c(2-4) by auto
next
  case False
  then have "\<not> (is_ok (ListNodeIPs e) \<and> distinct (map PodIP rs))"
    using matching_ok [of e nodes ns "''flannel-monitor-reflector''" pods] assms(2,3,5) by simp
  with monitor_cycle_failed [OF False, where src = src and w = w, folded assms(4)] show ?thesis by auto
qed

section \<open>The collector\<close>

definition scraped :: "'f TextParser \<Rightarrow> MonEnv \<Rightarrow> string \<Rightarrow> 'f list option" where
  "scraped parser e podIP = (case http_Get e (''http://'' @ podIP @ ''/metrics'') of
     Inl err \<Rightarrow> None
   | Inr body \<Rightarrow> (case parser body of Inl err \<Rightarrow> None | Inr metrics \<Rightarrow> Some metrics))"

lemma gauge_additional [simp]: "gauge (w\<lparr>additional_metrics := x\<rparr>) m l = gauge w m l"
  by (simp add: gauge_def)

lemma emit_additional [simp]: "additional_metrics (emit c w) = additional_metrics w"
  by (simp add: emit_def)

lemma scrape_loop_Cons:
  "scrape_loop parser e ((h, p) # ps) result w =
     scrape_loop parser e ps (result @ (case scraped parser e p of None \<Rightarrow> [] | Some ms \<Rightarrow> ms))
       (emit (SetTo ''scrapeCheck'' [h] (if scraped parser e p = None then 0 else 1)) w)"
  by (simp add: scraped_def split: sum.split)

lemma scrape_loop_result:
  "fst (scrape_loop parser e ps result w) = result @ concat (List.map_filter (\<lambda>(h, p). scraped parser e p) ps)"
proof (induction ps arbitrary: result w)
  case (Cons hp ps)
  obtain h p where "hp = (h, p)" by fastforce
  with Cons show ?case by (simp add: scrape_loop_Cons List.map_filter_simps del: scrape_loop.simps split: option.split)
qed (simp add: List.map_filter_simps)

lemma gauge_scrape_loop:
  "distinct (map fst ps) \<Longrightarrow> gauge (snd (scrape_loop parser e ps result w)) ''scrapeCheck'' [h] =
     (case map_of ps h of None \<Rightarrow> gauge w ''scrapeCheck'' [h] | Some p \<Rightarrow> Some (if scraped parser e p = None then 0 else 1))"
proof (induction ps arbitrary: result w)
  case (Cons hp ps)
  obtain h' p where hp: "hp = (h', p)" by fastforce
  show ?case
  proof (cases "h = h'")
    case True
    with Cons.prems hp have "map_of ps h = None" by (simp add: map_of_eq_None_iff)
    with True Cons hp show ?thesis by (simp add: scrape_loop_Cons del: scrape_loop.simps)
  qed (use Cons hp in \<open>simp add: scrape_loop_Cons del: scrape_loop.simps split: option.split\<close>)
qed simp

lemma gauge_scrape_loop_other:
  "m \<noteq> ''scrapeCheck'' \<Longrightarrow> gauge (snd (scrape_loop parser e ps result w)) m l = gauge w m l"
proof (induction ps arbitrary: result w)
  case (Cons hp ps)
  obtain h p where "hp = (h, p)" by fastforce
  with Cons show ?case by (simp add: scrape_loop_Cons del: scrape_loop.simps)
qed simp

text \<open>
  What the collector serves after a cycle is of that cycle only: the families that parse from the answers of one
  running monitor per host, in the order in which they were asked, behind those of the registry of the collector, and
  nothing if the listing failed. The check of a host says whether its monitor was scraped, every node
  without a monitor fails its check, and the checks of hosts that are gone stay.
\<close>

theorem collector_reports:
  assumes "ranges_ok e" and "Nodes_List e = Inr nodes" and "Pods_List e ns ''app=flannel-monitor'' = Inr pods"
    and "w' = collector_cycle parser ns e w" and "registry_Gather (Metrics w') = Inr own"
  shows "if is_ok (ListNodeIPs e) \<and> distinct (map PodIP (running pods))
    then (\<exists>ips asked. list_all2 internal_ip nodes ips \<and> distinct (map fst asked) \<and> fst ` set asked = HostIP ` set (running pods) \<and>
        (\<forall>(h, p) \<in> set asked. \<exists>q \<in> set (running pods). HostIP q = h \<and> PodIP q = p) \<and>
        gather registry_Gather w' = Ok (own @ concat (List.map_filter (\<lambda>(h, p). scraped parser e p) asked)) \<and>
        (\<forall>h. gauge w' ''scrapeCheck'' [h] = (case map_of asked h of
              Some p \<Rightarrow> Some (if scraped parser e p = None then 0 else 1)
            | None \<Rightarrow> if h \<in> set ips then Some 0 else gauge w ''scrapeCheck'' [h])) \<and>
        gauge w' ''collectCheck'' [] = Some 1 \<and> gauge w' ''dupCheck'' [] = Some (if distinct (map HostIP (running pods)) then 1 else 0))
    else gather registry_Gather w' = Ok own \<and> (\<forall>l. gauge w' ''scrapeCheck'' l = None) \<and>
      gauge w' ''collectCheck'' [] = Some 0 \<and> gauge w' ''dupCheck'' [] = Some 0"
proof (cases "is_ok (ListAndMatchRunningAppPodsToNodes e ns ''flannel-monitor'')")
  case True
  then obtain podless dup hosts where lm: "ListAndMatchRunningAppPodsToNodes e ns ''flannel-monitor'' = Ok (podless, dup, hosts)"
    by (auto simp: is_ok_iff)
  have pods: "Pods_List e ns (''app='' @ ''flannel-monitor'') = Inr pods" using assms(3) by simp
  note m = matching [OF assms(1,2) pods lm]
  define asked where "asked = map_range e 1 hosts"
  have r: "mset asked = mset hosts" using assms(1) by (simp add: ranges_ok_def asked_def)
  have dis: "distinct (map fst asked)" and mo: "map_of asked = map_of hosts" and se: "set asked = set hosts"
    using distinct_shuffle [OF r] map_of_shuffle [OF r m(3)] m(3) mset_eq_setD [OF r] by blast+
  from m(1) obtain ips where ips: "list_all2 internal_ip nodes ips" "podless = filter (\<lambda>ip. ip \<notin> HostIP ` set (running pods)) ips"
    by blast
  have keys: "fst ` set asked = HostIP ` set (running pods)" using m(5) unfolding se by (auto simp: map_of_eq_None_iff)
  have entry: "\<exists>q \<in> set (running pods). HostIP q = h \<and> PodIP q = p" if "(h, p) \<in> set asked" for h p
    using m(6) [of h p] m(3) that unfolding se by simp
  have w': "w' = (let (result, v) = scrape_loop parser e asked []
        (set_all ''scrapeCheck'' [] podless 0 (emit (SetTo ''dupCheck'' [] (if dup then 0 else 1)) w))
      in (emit (SetTo ''collectCheck'' [] 1) v)\<lparr>additional_metrics := result\<rparr>)"
    unfolding assms(4) collector_cycle_def lm asked_def by (simp add: Let_def split: prod.split)
  have "gauge w' ''scrapeCheck'' [h] = (case map_of asked h of
      Some p \<Rightarrow> Some (if scraped parser e p = None then 0 else 1)
    | None \<Rightarrow> if h \<in> set ips then Some 0 else gauge w ''scrapeCheck'' [h])" for h
    using m(5) [of h] ips(2)
    by (auto simp: w' Let_def split_beta gauge_scrape_loop [OF dis] gauge_set_all mo split: option.split)
  moreover have "gather registry_Gather w' = Ok (own @ concat (List.map_filter (\<lambda>(h, p). scraped parser e p) asked))"
    using assms(5) by (simp add: gather_def w' Let_def split_beta scrape_loop_result)
  moreover have "gauge w' ''collectCheck'' [] = Some 1 \<and> gauge w' ''dupCheck'' [] = Some (if distinct (map HostIP (running pods)) then 1 else 0)"
    using m(2) by (simp add: w' Let_def split_beta gauge_scrape_loop_other gauge_set_all)
  moreover have "is_ok (ListNodeIPs e) \<and> distinct (map PodIP (running pods))" using True matching_ok [OF assms(2) pods] by simp
  ultimately show ?thesis using ips(1) dis keys entry
    by (simp only: if_True simp_thms) (intro exI [of _ ips] exI [of _ asked], auto)
next
  case False
  then have "\<not> (is_ok (ListNodeIPs e) \<and> distinct (map PodIP (running pods)))"
    using matching_ok [of e nodes ns "''flannel-monitor''" pods] assms(2,3) by simp
  moreover have "w' = emit (SetTo ''dupCheck'' [] 0) (emit (SetTo ''collectCheck'' [] 0)
            ((emit (Reset ''scrapeCheck'') w)\<lparr>additional_metrics := []\<rparr>))"
    using False by (auto simp: assms(4) collector_cycle_def is_ok_iff split: result.split)
  ultimately show ?thesis using assms(5) by (simp add: gather_def)
qed

section \<open>The loops\<close>

interpretation flannel: monitor "monitor_cycle ns src :: MonEnv \<Rightarrow> 'a MonWorld_scheme \<Rightarrow> 'a MonWorld_scheme" for ns src
proof
  fix e and w :: "'a MonWorld_scheme"
  show "Clock (monitor_cycle ns src e w) = Clock w" and "Ticks w \<le> Ticks (monitor_cycle ns src e w)"
    by (simp_all add: monitor_cycle_def Let_def time_Now_def split: result.split)
qed

lemma scrape_loop_clock [simp]:
  "Clock (snd (scrape_loop parser e ps result w)) = Clock w" "Ticks (snd (scrape_loop parser e ps result w)) = Ticks w"
  by (induction ps arbitrary: result w) (auto simp: scrape_loop_Cons simp del: scrape_loop.simps(2))

interpretation collector: monitor "collector_cycle parser ns :: MonEnv \<Rightarrow> ('f, 'a) Collector_scheme \<Rightarrow> ('f, 'a) Collector_scheme" for parser ns
proof
  fix e and w :: "('f, 'a) Collector_scheme"
  show "Clock (collector_cycle parser ns e w) = Clock w" and "Ticks w \<le> Ticks (collector_cycle parser ns e w)"
    by (simp_all add: collector_cycle_def Let_def split_beta split: result.split)
qed

section \<open>Evaluation on a concrete cluster\<close>

text \<open>Two nodes, with a reflector and a monitor on the first one.\<close>

definition demo_nodes :: "Node list" where
  "demo_nodes = [\<lparr>nodeName = ''m'', Addresses = [(OtherAddressType ''Hostname'', ''m''), (NodeInternalIP, ''10.0.0.1'')]\<rparr>,
     \<lparr>nodeName = ''n'', Addresses = [(NodeInternalIP, ''10.0.0.2'')]\<rparr>]"

definition demo_pods :: "Pod list" where
  "demo_pods = [\<lparr>podName = ''r'', Phase = ''Running'', HostIP = ''10.0.0.1'', PodIP = ''172.18.0.2''\<rparr>,
     \<lparr>podName = ''s'', Phase = ''Pending'', HostIP = ''10.0.0.2'', PodIP = []\<rparr>]"

definition demo_env :: MonEnv where
  "demo_env = \<lparr>Nodes_List = Inr demo_nodes, Pods_List = (\<lambda>_ _. Inr demo_pods),
     http_Get = (\<lambda>u. if u = ''http://172.18.0.2/ping'' then Inr (Inr ''PONG'') else Inr (Inr ''up 1'')), map_range = (\<lambda>_ m. m)\<rparr>"

definition demo_mon :: "string Collector" where
  "demo_mon = \<lparr>Clock = int, Ticks = 7, Entropy = Some, Draws = 0, FS = Map.empty, Faults = (\<lambda>_. None), Syscalls = 0, Ran = [], Exits = (\<lambda>_. None), Metrics = [], additional_metrics = [''old'']\<rparr>"

lemma demo_env_lists:
  "ranges_ok demo_env" "Nodes_List demo_env = Inr demo_nodes" "Pods_List demo_env ns sel = Inr demo_pods"
  "is_ok (ListNodeIPs demo_env)" "running demo_pods = [\<lparr>podName = ''r'', Phase = ''Running'', HostIP = ''10.0.0.1'', PodIP = ''172.18.0.2''\<rparr>]"
  by (simp_all add: ranges_ok_def demo_env_def ListNodeIPs_def demo_nodes_def running_def demo_pods_def)

lemma demo_internal: "list_all2 internal_ip demo_nodes ips \<Longrightarrow> ips = [''10.0.0.1'', ''10.0.0.2'']"
  by (auto simp: demo_nodes_def list_all2_Cons1 internal_ip_def)

theorem monitor_reports_witness:
  "ranges_ok demo_env \<and>
   gauge (monitor_cycle ''ns'' ''10.0.0.1'' demo_env demo_mon) ''talkCheck'' [''10.0.0.1'', ''10.0.0.1''] = Some 1 \<and>
   gauge (monitor_cycle ''ns'' ''10.0.0.1'' demo_env demo_mon) ''talkCheck'' [''10.0.0.1'', ''10.0.0.2''] = Some 0 \<and>
   gauge (monitor_cycle ''ns'' ''10.0.0.1'' demo_env demo_mon) ''monRecency'' [''10.0.0.1''] = Some 7"
proof -
  let ?w = "monitor_cycle ''ns'' ''10.0.0.1'' demo_env demo_mon"
  have "pongs demo_env ''172.18.0.2''" "now demo_mon = 7" by (simp_all add: pongs_def demo_env_def now_def demo_mon_def)
  note at = this
  have c: "is_ok (ListNodeIPs demo_env) \<and> distinct (map PodIP (running demo_pods))" by (simp add: demo_env_lists)
  from monitor_reports [OF demo_env_lists(1,2,3) refl refl, of "''ns''" "''10.0.0.1''" demo_mon, unfolded if_P [OF c]]
  obtain ips where ips: "list_all2 internal_ip demo_nodes ips" and t: "\<forall>h. if h \<in> HostIP ` set (running demo_pods)
      then \<exists>q \<in> set (running demo_pods). HostIP q = h \<and> gauge ?w ''talkCheck'' [''10.0.0.1'', h] = Some (if pongs demo_env (PodIP q) then 1 else 0)
      else gauge ?w ''talkCheck'' [''10.0.0.1'', h] = (if h \<in> set ips then Some 0 else gauge demo_mon ''talkCheck'' [''10.0.0.1'', h])"
    and r: "gauge ?w ''monRecency'' [''10.0.0.1''] = Some (now demo_mon)"
    by blast
  from demo_internal [OF ips] spec [OF t, of "''10.0.0.1''"] spec [OF t, of "''10.0.0.2''"] r demo_env_lists(1,5) at
  show ?thesis by simp
qed

lemma distinct_single: "distinct xs \<Longrightarrow> set xs = {x} \<Longrightarrow> xs = [x]"
  by (cases xs; cases "tl xs") auto

theorem collector_reports_witness:
  "ranges_ok demo_env \<and>
   gather (\<lambda>_. Inr [''own'']) (collector_cycle (\<lambda>b. case b of Inr t \<Rightarrow> Inr [t] | Inl e \<Rightarrow> Inl e) ''ns'' demo_env demo_mon) = Ok [''own'', ''up 1'']"
proof -
  let ?p = "\<lambda>b. case b of Inr t \<Rightarrow> Inr [t] | Inl e \<Rightarrow> Inl e"
  have s: "scraped ?p demo_env ''172.18.0.2'' = Some [''up 1'']" by (simp add: scraped_def demo_env_def)
  have c: "is_ok (ListNodeIPs demo_env) \<and> distinct (map PodIP (running demo_pods))" by (simp add: demo_env_lists)
  from collector_reports [OF demo_env_lists(1,2,3) refl, of "\<lambda>_. Inr [''own'']" ?p "''ns''" demo_mon "[''own'']", OF refl, unfolded if_P [OF c]]
  obtain asked where a: "distinct (map fst asked)" "fst ` set asked = HostIP ` set (running demo_pods)"
      "\<forall>(h, p) \<in> set asked. \<exists>q \<in> set (running demo_pods). HostIP q = h \<and> PodIP q = p"
    and g: "gather (\<lambda>_. Inr [''own'']) (collector_cycle ?p ''ns'' demo_env demo_mon) =
      Ok ([''own''] @ concat (List.map_filter (\<lambda>(h, p). scraped ?p demo_env p) asked))"
    by blast
  have "set (map fst asked) = {''10.0.0.1''}" using a(2) by (simp add: demo_env_lists(5))
  from distinct_single [OF a(1) this] have "map fst asked = [''10.0.0.1'']" .
  then obtain p where "asked = [(''10.0.0.1'', p)]" by (cases asked) auto
  with a(3) g s demo_env_lists(1,5) show ?thesis by (simp add: List.map_filter_simps)
qed

end
