(* ===== verification/Flannel_Reflector.thy ===== *)
theory Flannel_Reflector
  imports Flannel_Monitor
begin

text \<open>
  \<open>flannel-monitor/reflector/flannel-monitor-reflector.go\<close>, which answers the pings of the monitor after it has
  checked that its pod has the one local address in the network of flannel. The network interfaces, the
  environment variables and what the Kubernetes API says of the pod are parameters.
\<close>

unbundle bit_operations_syntax

section \<open>Networks of the package net\<close>

record IPNet =
  NetIP :: IP
  NetMask :: "nat list"

definition To4 :: "IP \<Rightarrow> IP option" where
  "To4 ip = (if length ip = 4 then Some ip
     else if length ip = 16 \<and> take 12 ip = v4InV6Prefix then Some (drop 12 ip) else None)"

definition CIDRMask :: "nat \<Rightarrow> nat \<Rightarrow> nat list" where
  "CIDRMask ones iplen = map (\<lambda>i. if 8 * Suc i \<le> ones then 255
     else if ones \<le> 8 * i then 0 else 256 - 2 ^ (8 * Suc i - ones)) [0..<iplen]"

text \<open>\<open>ip.Mask(mask)\<close> for the masks that \<open>CIDRMask\<close> makes, where an IPv4 mask meets an IPv4 address of sixteen bytes.\<close>

definition IP_Mask :: "IP \<Rightarrow> nat list \<Rightarrow> IP" where
  "IP_Mask ip m =
     (let ip = (if length m = 4 \<and> length ip = 16 \<and> take 12 ip = v4InV6Prefix then drop 12 ip else ip) in
      if length ip \<noteq> length m then [] else map2 (\<lambda>a b. a AND b) ip m)"

text \<open>The network that \<open>net.ParseCIDR\<close> returns.\<close>

definition ParseCIDR_network :: "string \<Rightarrow> IPNet option" where
  "ParseCIDR_network s = (case ParseCIDR s of
       None \<Rightarrow> None
     | Some (ip, n) \<Rightarrow>
         let iplen = (if parseIPv4 (hd (SplitN2 s (CHR ''/''))) = None then 16 else 4); m = CIDRMask n iplen
         in Some \<lparr>NetIP = IP_Mask ip m, NetMask = m\<rparr>)"

text \<open>\<open>network.Contains(ip)\<close>: the number and the mask of the network are brought to four bytes if they are of IPv4.\<close>

definition networkNumberAndMask :: "IPNet \<Rightarrow> (IP \<times> nat list) option" where
  "networkNumberAndMask n =
     (case (case To4 (NetIP n) of Some ip \<Rightarrow> Some ip | None \<Rightarrow> if length (NetIP n) = 16 then Some (NetIP n) else None) of
        None \<Rightarrow> None
      | Some ip \<Rightarrow>
          if length (NetMask n) = 4 then (if length ip \<noteq> 4 then None else Some (ip, NetMask n))
          else if length (NetMask n) = 16 then Some (ip, if length ip = 4 then drop 12 (NetMask n) else NetMask n)
          else None)"

definition IPNet_Contains :: "IPNet \<Rightarrow> IP \<Rightarrow> bool" where
  "IPNet_Contains n ip =
     (let ip = (case To4 ip of Some x \<Rightarrow> x | None \<Rightarrow> ip) in
      case networkNumberAndMask n of
        None \<Rightarrow> length ip = 0
      | Some (nn, m) \<Rightarrow> length ip = length nn \<and> list_all (\<lambda>(a, b, c). a AND c = b AND c) (zip nn (zip ip m)))"

section \<open>flannel-monitor-reflector.go\<close>

datatype Addr = IPNetAddr IP | OtherAddr

fun addr_loop :: "IPNet \<Rightarrow> IP option \<Rightarrow> Addr list \<Rightarrow> IP option result" where
  "addr_loop network found [] = Ok found"
| "addr_loop network found (addr # addrs) =
     (case addr of
        OtherAddr \<Rightarrow> Panic ''interface conversion''
      | IPNetAddr ip \<Rightarrow>
          if IPNet_Contains network ip then
            (if found \<noteq> None then Err (Errorf ''multiple IPs found that match network %v: %v, %v'' [])
             else addr_loop network (Some ip) addrs)
          else addr_loop network found addrs)"

fun iface_loop :: "IPNet \<Rightarrow> IP option \<Rightarrow> (error + Addr list) list \<Rightarrow> IP option result" where
  "iface_loop network found [] = Ok found"
| "iface_loop network found (iface # ifaces) =
     and_then (lift iface) (\<lambda>addrs.
     and_then (addr_loop network found addrs) (\<lambda>found. iface_loop network found ifaces))"

definition getIP :: "error + (error + Addr list) list \<Rightarrow> IPNet \<Rightarrow> IP result" where
  "getIP net_Interfaces network =
     and_then (lift net_Interfaces) (\<lambda>interfaces.
     and_then (iface_loop network None interfaces) (\<lambda>found.
       case found of
         None \<Rightarrow> Err (Errorf ''could not find matching local IP for network %v'' [])
       | Some ip \<Rightarrow> Ok ip))"

text \<open>
  \<open>main\<close> up to the server: an error stands for \<open>log.Fatal\<close>. The check after reading \<open>FLANNEL_NETWORK\<close>
  looks at the name again, so it never fails.
\<close>

definition reflector_main ::
  "error + unit \<Rightarrow> (string \<Rightarrow> string) \<Rightarrow> (string \<Rightarrow> string \<Rightarrow> error + Pod) \<Rightarrow> error + (error + Addr list) list \<Rightarrow> unit result" where
  "reflector_main InClusterConfig Getenv Pods_Get net_Interfaces =
     and_then (lift InClusterConfig) (\<lambda>_.
     let namespace = Getenv ''POD_NAMESPACE'' in
     if namespace = [] then Err (ErrorNew ''no namespace found in POD_NAMESPACE'')
     else let name = Getenv ''POD_NAME'' in
     if name = [] then Err (ErrorNew ''no name found in POD_NAME'')
     else let network_raw = Getenv ''FLANNEL_NETWORK'' in
     if name = [] then Err (ErrorNew ''no network found in FLANNEL_NETWORK'')
     else case ParseCIDR_network network_raw of
         None \<Rightarrow> Err (LibError ''invalid CIDR address'')
       | Some network \<Rightarrow>
         and_then (lift (Pods_Get namespace name)) (\<lambda>pod.
         case ParseIP (PodIP pod) of
           None \<Rightarrow> Err (ErrorNew ''invalid pod IP'')
         | Some podIP \<Rightarrow>
             if \<not> IPNet_Contains network podIP then Err (ErrorNew ''pod IP not in expected network'')
             else (case getIP net_Interfaces network of
                 Err e \<Rightarrow> Err (ErrorNew ''could not get local IP'')
               | Panic p \<Rightarrow> Panic p
               | Ok localIP \<Rightarrow> if \<not> IP_Equal localIP podIP then Err (ErrorNew ''discovered IP mismatch'') else Ok ())))"

text \<open>The handler: the status and the body of the response to a path.\<close>

definition reflector_handler :: "string \<Rightarrow> nat \<times> string" where
  "reflector_handler path = (if path = ''/ping'' then (200, ''PONG'') else (404, ''not found\<newline>''))"

section \<open>When a reflector serves\<close>

definition addr_ips :: "Addr list \<Rightarrow> IP list" where
  "addr_ips as = concat (map (\<lambda>a. case a of IPNetAddr ip \<Rightarrow> [ip] | OtherAddr \<Rightarrow> []) as)"

definition all_net :: "Addr list \<Rightarrow> bool" where
  "all_net as = list_all (\<lambda>a. a \<noteq> OtherAddr) as"

fun olist :: "'a option \<Rightarrow> 'a list" where
  "olist None = []"
| "olist (Some x) = [x]"

lemma olist_simps [simp]: "olist r = [] \<longleftrightarrow> r = None" "olist r = [x] \<longleftrightarrow> r = Some x" "olist r \<noteq> x # y # xs" "(olist r = olist r') = (r = r')"
  by (cases r; cases r'; auto)+

lemma addr_loop_Ok:
  "addr_loop n found as = Ok r \<longleftrightarrow> all_net as \<and> olist r = olist found @ filter (IPNet_Contains n) (addr_ips as)"
proof (induction n found as rule: addr_loop.induct)
  case (2 n found a as)
  show ?case
  proof (cases a)
    case (IPNetAddr ip)
    show ?thesis
    proof (cases found)
      case None
      with IPNetAddr 2 show ?thesis by (simp add: all_net_def addr_ips_def)
    next
      case (Some x)
      have "olist r \<noteq> x # ip # ys" for ys by (cases r) auto
      with Some IPNetAddr 2 show ?thesis by (simp add: all_net_def addr_ips_def)
    qed
  qed (simp add: all_net_def)
qed (auto simp: addr_ips_def all_net_def)

lemma iface_loop_Ok:
  "iface_loop n found ifs = Ok r \<longleftrightarrow> (\<exists>ass. ifs = map Inr ass \<and> list_all all_net ass \<and>
     olist r = olist found @ filter (IPNet_Contains n) (concat (map addr_ips ass)))"
proof (induction n found ifs rule: iface_loop.induct)
  case (2 n found i ifs)
  show ?case
  proof (cases i)
    case (Inr as)
    have "iface_loop n found (i # ifs) = Ok r \<longleftrightarrow> (\<exists>f. addr_loop n found as = Ok f \<and> iface_loop n f ifs = Ok r)"
      by (auto simp: Inr and_then_Ok_iff)
    also have "\<dots> \<longleftrightarrow> (\<exists>ass. ifs = map Inr ass \<and> all_net as \<and> list_all all_net ass \<and>
        olist r = olist found @ filter (IPNet_Contains n) (addr_ips as) @ filter (IPNet_Contains n) (concat (map addr_ips ass)))"
      (is "?l \<longleftrightarrow> ?r")
    proof
      assume ?l
      then show ?r using 2 Inr by (auto simp: addr_loop_Ok)
    next
      assume ?r
      then obtain ass where ass: "ifs = map Inr ass" "all_net as" "list_all all_net ass"
        "olist r = olist found @ filter (IPNet_Contains n) (addr_ips as) @ filter (IPNet_Contains n) (concat (map addr_ips ass))" by blast
      let ?f = "case olist found @ filter (IPNet_Contains n) (addr_ips as) of [] \<Rightarrow> None | x # _ \<Rightarrow> Some x"
      have "olist ?f = olist found @ filter (IPNet_Contains n) (addr_ips as)"
        using ass(4) by (cases r) (auto simp: append_eq_Cons_conv split: list.split)
      with ass 2 Inr show ?l by (intro exI [of _ ?f]) (auto simp: addr_loop_Ok)
    qed
    also have "\<dots> \<longleftrightarrow> (\<exists>ass. i # ifs = map Inr ass \<and> list_all all_net ass \<and>
        olist r = olist found @ filter (IPNet_Contains n) (concat (map addr_ips ass)))"
      by (auto simp: Inr Cons_eq_map_conv intro: exI [of _ "as # _"])
    finally show ?thesis .
  qed (auto simp: Cons_eq_map_conv)
qed (auto intro: exI [of _ "[]"])

lemma getIP_Ok:
  "getIP ifaces network = Ok ip \<longleftrightarrow> (\<exists>ass. ifaces = Inr (map Inr ass) \<and> list_all all_net ass \<and>
     filter (IPNet_Contains network) (concat (map addr_ips ass)) = [ip])"
proof (cases ifaces)
  case (Inr ifs)
  have "getIP ifaces network = Ok ip \<longleftrightarrow> iface_loop network None ifs = Ok (Some ip)"
    by (auto simp: getIP_def Inr and_then_Ok_iff split: option.splits)
  then show ?thesis by (simp add: iface_loop_Ok Inr eq_commute [of "[ip]"])
qed (simp add: getIP_def)

text \<open>
  When a reflector answers pings. It starts to serve if and only if its namespace and its name are set, the network
  parses, the API lists its pod with an address in that network, all addresses of all local interfaces can be read, and
  exactly one of them is in the network, namely that of the pod.
\<close>

theorem reflector_serves:
  "reflector_main config Getenv Pods_Get ifaces = Ok () \<longleftrightarrow>
     config = Inr () \<and> Getenv ''POD_NAMESPACE'' \<noteq> [] \<and> Getenv ''POD_NAME'' \<noteq> [] \<and>
     (\<exists>network pod podIP ass ip. ParseCIDR_network (Getenv ''FLANNEL_NETWORK'') = Some network \<and>
        Pods_Get (Getenv ''POD_NAMESPACE'') (Getenv ''POD_NAME'') = Inr pod \<and> ParseIP (PodIP pod) = Some podIP \<and>
        IPNet_Contains network podIP \<and> ifaces = Inr (map Inr ass) \<and> list_all all_net ass \<and>
        filter (IPNet_Contains network) (concat (map addr_ips ass)) = [ip] \<and> IP_Equal ip podIP)"
    (is "?l \<longleftrightarrow> ?r")
proof -
  have "?l \<longleftrightarrow> config = Inr () \<and> Getenv ''POD_NAMESPACE'' \<noteq> [] \<and> Getenv ''POD_NAME'' \<noteq> [] \<and>
     (\<exists>network pod podIP ip. ParseCIDR_network (Getenv ''FLANNEL_NETWORK'') = Some network \<and>
        Pods_Get (Getenv ''POD_NAMESPACE'') (Getenv ''POD_NAME'') = Inr pod \<and> ParseIP (PodIP pod) = Some podIP \<and>
        IPNet_Contains network podIP \<and> getIP ifaces network = Ok ip \<and> IP_Equal ip podIP)"
    by (cases config; cases "ParseCIDR_network (Getenv ''FLANNEL_NETWORK'')"; cases "Pods_Get (Getenv ''POD_NAMESPACE'') (Getenv ''POD_NAME'')")
      (auto simp: reflector_main_def Let_def split: option.split result.split)
  then show ?thesis by (simp only: getIP_Ok) blast
qed

end
