(* ===== verification/Dns_Monitor.thy ===== *)
theory Dns_Monitor
  imports Monitor_Lib
begin

text \<open>
  \<open>dns-monitor/dns-monitor.go\<close>: the arguments, a lookup, and the cycle that compares the addresses
  found with those expected. The answers of the resolver in a cycle and the order in which the expectations are
  iterated are parameters.
\<close>

section \<open>dns-monitor.go\<close>

record DnsEnv =
  LookupIPAddr :: "string \<Rightarrow> error + IP list"
  dns_range :: "(string \<times> IP) list \<Rightarrow> (string \<times> IP) list"

definition grabOneIPv4 :: "DnsEnv \<Rightarrow> string \<Rightarrow> ('a World_scheme, IP \<times> int) action" where
  "grabOneIPv4 e host w =
     (case time_Now w of (t0, w) \<Rightarrow>
      let r = LookupIPAddr e host in
      case time_Now w of (t1, w) \<Rightarrow>
        (and_then (lift r) (\<lambda>ipAddresses.
           if length ipAddresses \<noteq> 1 then Err (Errorf ''expected exactly one IP address'' [])
           else Ok (ipAddresses ! 0, t1 - t0)), w))"

definition check_host :: "DnsEnv \<Rightarrow> string \<Rightarrow> IP \<Rightarrow> 'a MonWorld_scheme \<Rightarrow> 'a MonWorld_scheme" where
  "check_host e hostname expectIP w =
     (case grabOneIPv4 e hostname w of (r, w) \<Rightarrow>
      let w = emit (With ''internalCheck'' [hostname]) w;
          w = emit (With ''internalCheckTiming'' [hostname]) w in
      case r of
        Ok (foundIP, duration) \<Rightarrow>
          if \<not> IP_Equal expectIP foundIP then emit (SetTo ''internalCheck'' [hostname] 0) w
          else emit (Observe ''internalCheckTiming'' [hostname] duration) (emit (SetTo ''internalCheck'' [hostname] 1) w)
      | _ \<Rightarrow> emit (SetTo ''internalCheck'' [hostname] 0) w)"

fun check_loop :: "DnsEnv \<Rightarrow> (string \<times> IP) list \<Rightarrow> 'a MonWorld_scheme \<Rightarrow> 'a MonWorld_scheme" where
  "check_loop e [] w = w"
| "check_loop e ((hostname, expectIP) # xs) w = check_loop e xs (check_host e hostname expectIP w)"

definition dns_cycle :: "(string \<times> IP) list \<Rightarrow> DnsEnv \<Rightarrow> 'a MonWorld_scheme \<Rightarrow> 'a MonWorld_scheme" where
  "dns_cycle expectations e w =
     (case time_Now w of (recencyTimestamp, w) \<Rightarrow>
      emit (SetTo ''monRecency'' [] recencyTimestamp) (check_loop e (dns_range e expectations) w))"

fun args_parse :: "(string \<times> IP) list \<Rightarrow> string list \<Rightarrow> (string \<times> IP) list result" where
  "args_parse expectations [] = Ok expectations"
| "args_parse expectations (arg # args) =
     (let parts = Split arg (CHR ''='') in
      if length parts \<noteq> 2 then Err (Errorf ''found improperly formatted parameter: %s'' [arg])
      else let hostname = parts ! 0 in
        case ParseIP (parts ! 1) of
          None \<Rightarrow> Err (Errorf ''found invalid IP address: %s'' [parts ! 1])
        | Some ipaddr \<Rightarrow>
            if map_of expectations hostname \<noteq> None then Err (Errorf ''duplicate hostname: %s'' [hostname])
            else args_parse (AList.update hostname ipaddr expectations) args)"

text \<open>The arguments without the name of the program.\<close>

definition parseArgs :: "string list \<Rightarrow> (string \<times> IP) list result" where
  "parseArgs args = and_then (args_parse [] args) (\<lambda>expectations.
     if length expectations = 0 then Err (Errorf ''no parameters provided'' []) else Ok expectations)"

section \<open>What the monitor reports\<close>

definition resolves :: "DnsEnv \<Rightarrow> string \<Rightarrow> IP \<Rightarrow> bool" where
  "resolves e hostname ip = (\<exists>x. LookupIPAddr e hostname = Inr [x] \<and> IP_Equal ip x)"

lemma grabOneIPv4_result:
  "grabOneIPv4 e host w = (r, w') \<Longrightarrow>
     (case r of Ok (ip, d) \<Rightarrow> LookupIPAddr e host = Inr [ip] | _ \<Rightarrow> \<not> (\<exists>ip. LookupIPAddr e host = Inr [ip])) \<and> w' = w\<lparr>Ticks := Ticks w + 2\<rparr>"
  by (cases "LookupIPAddr e host") (auto simp: grabOneIPv4_def time_Now_def Let_def length_Suc_conv split: if_splits)

lemma gauge_check_host:
  "gauge (check_host e h ip w) m l = (if m = ''internalCheck'' \<and> l = [h] then Some (if resolves e h ip then 1 else 0)
     else if m = ''internalCheckTiming'' \<and> l = [h] \<and> gauge w m l = None then Some 0 else gauge w m l)"
proof -
  obtain r w' where g: "grabOneIPv4 e h w = (r, w')" by fastforce
  from grabOneIPv4_result [OF g] g show ?thesis
    by (cases r) (auto simp: check_host_def Let_def resolves_def split: result.splits)
qed

lemma check_host_clock [simp]: "Clock (check_host e h ip w) = Clock w" "Ticks (check_host e h ip w) = Ticks w + 2"
proof -
  obtain r w' where g: "grabOneIPv4 e h w = (r, w')" by fastforce
  from grabOneIPv4_result [OF g] g
  show "Clock (check_host e h ip w) = Clock w" and "Ticks (check_host e h ip w) = Ticks w + 2"
    by (cases r; auto simp: check_host_def Let_def)+
qed

lemma gauge_check_loop:
  "distinct (map fst xs) \<Longrightarrow> gauge (check_loop e xs w) ''internalCheck'' [h] =
     (case map_of xs h of None \<Rightarrow> gauge w ''internalCheck'' [h] | Some ip \<Rightarrow> Some (if resolves e h ip then 1 else 0))"
proof (induction e xs w rule: check_loop.induct)
  case (2 e h' ip xs w)
  show ?case
  proof (cases "h = h'")
    case True
    with "2.prems" have "map_of xs h = None" by (simp add: map_of_eq_None_iff)
    with True 2 show ?thesis by (simp add: gauge_check_host)
  qed (use 2 in \<open>simp add: gauge_check_host split: option.split\<close>)
qed simp

lemma check_loop_clock [simp]: "Clock (check_loop e xs w) = Clock w" "Ticks (check_loop e xs w) = Ticks w + 2 * length xs"
  by (induction e xs w rule: check_loop.induct) simp_all

definition argument :: "string \<Rightarrow> string \<times> IP \<Rightarrow> bool" where
  "argument arg x \<longleftrightarrow> (\<exists>s. arg = fst x @ CHR ''='' # s \<and> CHR ''='' \<notin> set (fst x) \<and> CHR ''='' \<notin> set s \<and> ParseIP s = Some (snd x))"

lemma Split_two: "Split s c = [a, b] \<longleftrightarrow> s = a @ c # b \<and> c \<notin> set a \<and> c \<notin> set b"
proof
  assume sp: "Split s c = [a, b]"
  have "s = a @ c # b" using join_Split [of c s] sp by simp
  moreover have "c \<notin> set a" "c \<notin> set b" using Split_parts [of _ s c] sp by simp_all
  ultimately show "s = a @ c # b \<and> c \<notin> set a \<and> c \<notin> set b" by simp
qed (simp add: Split_append Split_no_sep)

lemma argument_Split: "argument arg x \<longleftrightarrow> (\<exists>s. Split arg (CHR ''='') = [fst x, s] \<and> ParseIP s = Some (snd x))"
  by (auto simp: argument_def Split_two)

lemma args_parse_Ok:
  "args_parse acc args = Ok r \<longleftrightarrow> (\<exists>xs. r = acc @ xs \<and> list_all2 argument args xs \<and> distinct (map fst xs) \<and>
     fst ` set xs \<inter> fst ` set acc = {})"
proof (induction acc args rule: args_parse.induct)
  case (2 acc arg args)
  show ?case
  proof (cases "\<exists>h s ip. Split arg (CHR ''='') = [h, s] \<and> ParseIP s = Some ip \<and> map_of acc h = None")
    case True
    then obtain h s ip where a: "Split arg (CHR ''='') = [h, s]" "ParseIP s = Some ip" "map_of acc h = None" by blast
    have arg: "argument arg x \<longleftrightarrow> x = (h, ip)" for x
      using a(1,2) by (cases x) (auto simp: argument_Split)
    have h: "h \<notin> fst ` set acc" using a(3) by (simp add: map_of_eq_None_iff)
    have "args_parse acc (arg # args) = args_parse (acc @ [(h, ip)]) args" using a by (simp add: update_fresh)
    also have "\<dots> = Ok r \<longleftrightarrow> (\<exists>xs. r = (acc @ [(h, ip)]) @ xs \<and> list_all2 argument args xs \<and> distinct (map fst xs) \<and>
        fst ` set xs \<inter> fst ` set (acc @ [(h, ip)]) = {})"
      using "2.IH" [OF refl _ refl] a by (simp add: update_fresh)
    finally show ?thesis using h by (fastforce simp: list_all2_Cons1 arg)
  next
    case False
    then have "\<not> is_ok (args_parse acc (arg # args))"
      by (auto simp: Let_def length_Suc_conv numeral_2_eq_2 split: option.split)
    moreover have "map_of acc (fst x) \<noteq> None" if "argument arg x" for x
      using False that by (auto simp: argument_Split)
    ultimately show ?thesis
      by (auto simp: list_all2_Cons1 is_ok_iff simp del: args_parse.simps) (metis disjoint_iff fst_conv image_eqI map_of_SomeD not_None_eq)
  qed
qed auto

definition dns_range_ok :: "DnsEnv \<Rightarrow> bool" where
  "dns_range_ok e = (\<forall>m. mset (dns_range e m) = mset m)"

lemma parseArgs_Ok:
  "parseArgs args = Ok exps \<longleftrightarrow> args \<noteq> [] \<and> list_all2 argument args exps \<and> distinct (map fst exps)"
proof -
  have "args_parse [] args = Ok exps \<longleftrightarrow> list_all2 argument args exps \<and> distinct (map fst exps)"
    unfolding args_parse_Ok by simp
  moreover have "parseArgs args = Ok exps \<longleftrightarrow> args_parse [] args = Ok exps \<and> exps \<noteq> []"
    by (auto simp: parseArgs_def and_then_Ok_iff split: if_splits)
  moreover have "list_all2 argument args exps \<Longrightarrow> exps = [] \<longleftrightarrow> args = []" by auto
  ultimately show ?thesis by blast
qed

text \<open>
  C26: the arguments of the DNS monitor are accepted if and only if there is one and each has the form \<open>host=address\<close> with an
  address that parses, and no two name the same host. Then a cycle reports every such host as correct if and only if
  its lookup gave exactly one address, equal to the one in the argument; it reports on no other host, and it
  reports the time at which it began.
\<close>

theorem dns_monitor_reports:
  assumes "dns_range_ok e"
  shows "(parseArgs args = Ok exps \<longleftrightarrow> args \<noteq> [] \<and> list_all2 argument args exps \<and> distinct (map fst exps)) \<and>
    (parseArgs args = Ok exps \<longrightarrow> (let w' = dns_cycle exps e w in
       (\<forall>(h, ip) \<in> set exps. gauge w' ''internalCheck'' [h] = Some (if resolves e h ip then 1 else 0)) \<and>
       (\<forall>h. h \<notin> fst ` set exps \<longrightarrow> gauge w' ''internalCheck'' [h] = gauge w ''internalCheck'' [h]) \<and>
       gauge w' ''monRecency'' [] = Some (now w)))"
proof (intro conjI impI)
  show iff: "parseArgs args = Ok exps \<longleftrightarrow> args \<noteq> [] \<and> list_all2 argument args exps \<and> distinct (map fst exps)"
    by (rule parseArgs_Ok)
  assume "parseArgs args = Ok exps"
  with iff have d: "distinct (map fst exps)" by blast
  have r: "mset (dns_range e exps) = mset exps" using assms by (simp add: dns_range_ok_def)
  have d': "distinct (map fst (dns_range e exps))" and m: "map_of (dns_range e exps) = map_of exps"
    using distinct_shuffle [OF r] map_of_shuffle [OF r d] d by blast+
  have *: "gauge (dns_cycle exps e w) ''internalCheck'' [h] =
      (case map_of exps h of None \<Rightarrow> gauge w ''internalCheck'' [h] | Some ip \<Rightarrow> Some (if resolves e h ip then 1 else 0))" for h
    by (simp add: dns_cycle_def time_Now_def gauge_check_loop [OF d'] m split: option.split)
  have "gauge (dns_cycle exps e w) ''internalCheck'' [h] = Some (if resolves e h ip then 1 else 0)" if "(h, ip) \<in> set exps" for h ip
    using * [of h] that d by simp
  moreover have "gauge (dns_cycle exps e w) ''internalCheck'' [h] = gauge w ''internalCheck'' [h]" if "h \<notin> fst ` set exps" for h
    using * [of h] that by (simp add: map_of_eq_None_iff [THEN iffD2])
  ultimately show "let w' = dns_cycle exps e w in
       (\<forall>(h, ip) \<in> set exps. gauge w' ''internalCheck'' [h] = Some (if resolves e h ip then 1 else 0)) \<and>
       (\<forall>h. h \<notin> fst ` set exps \<longrightarrow> gauge w' ''internalCheck'' [h] = gauge w ''internalCheck'' [h]) \<and>
       gauge w' ''monRecency'' [] = Some (now w)"
    by (auto simp: Let_def dns_cycle_def time_Now_def now_def)
qed

interpretation dns: monitor "dns_cycle exps :: DnsEnv \<Rightarrow> 'a MonWorld_scheme \<Rightarrow> 'a MonWorld_scheme" for exps
  by unfold_locales (simp_all add: dns_cycle_def time_Now_def)

section \<open>Evaluation on concrete arguments\<close>

definition demo_dns :: DnsEnv where
  "demo_dns = \<lparr>LookupIPAddr = (\<lambda>h. if h = ''a'' then Inr [[10, 0, 0, 7]] else Inl (LibError ''no such host'')), dns_range = rev\<rparr>"

theorem dns_monitor_reports_witness:
  "\<exists>exps w'. parseArgs [''a='' @ dotted 10 0 0 7, ''b='' @ dotted 10 0 0 8] = Ok exps \<and>
     w' = dns_cycle exps demo_dns \<lparr>Clock = int, Ticks = 3, Entropy = Some, Draws = 0, FS = Map.empty, Faults = (\<lambda>_. None), Syscalls = 0, Ran = [], Exits = (\<lambda>_. None), Metrics = []\<rparr> \<and>
     gauge w' ''internalCheck'' [''a''] = Some 1 \<and> gauge w' ''internalCheck'' [''b''] = Some 0 \<and> gauge w' ''monRecency'' [] = Some 3"
proof -
  let ?a = "v4InV6Prefix @ [10, 0, 0, 7]" and ?b = "v4InV6Prefix @ [10, 0, 0, 8]"
  let ?e = "[(''a'', ?a), (''b'', ?b)]" and ?w = "\<lparr>Clock = int, Ticks = 3, Entropy = Some, Draws = 0, FS = Map.empty, Faults = (\<lambda>_. None), Syscalls = 0, Ran = [], Exits = (\<lambda>_. None), Metrics = []\<rparr> :: MonWorld"
  have ip: "ParseIP (dotted 10 0 0 7) = Some ?a" "ParseIP (dotted 10 0 0 8) = Some ?b" by (simp_all add: ParseIP_dotted)
  have eq: "CHR ''='' \<notin> set (dotted a b c d)" for a b c d
    using dec_digits [of "CHR ''=''"] by (auto simp: dotted_def digit_def)
  have ok: "dns_range_ok demo_dns" by (simp add: dns_range_ok_def demo_dns_def)
  have "argument (''a='' @ dotted 10 0 0 7) (''a'', ?a)" "argument (''b='' @ dotted 10 0 0 8) (''b'', ?b)"
    by (simp_all add: argument_def ip eq)
  then have p: "parseArgs [''a='' @ dotted 10 0 0 7, ''b='' @ dotted 10 0 0 8] = Ok ?e"
    using dns_monitor_reports [OF ok, of "[''a='' @ dotted 10 0 0 7, ''b='' @ dotted 10 0 0 8]" ?e ?w] by simp
  have "resolves demo_dns ''a'' ?a" "\<not> resolves demo_dns ''b'' ?b"
    by (simp_all add: resolves_def demo_dns_def IP_Equal_def v4InV6Prefix_def)
  with p dns_monitor_reports [OF ok, of "[''a='' @ dotted 10 0 0 7, ''b='' @ dotted 10 0 0 8]" ?e ?w] show ?thesis
    by (auto simp: Let_def now_def)
qed

end
