(* ===== verification/Auth_Checks.thy ===== *)
theory Auth_Checks
  imports Auth_Monitor Client_Safety
begin

text \<open>
  What the authentication monitor reports: the values of its gauges after a cycle, in terms of the answers it got; when a
  cycle panics; and that the check of the gateway leaves no Kerberos tickets behind.
\<close>

section \<open>Steps that report nothing\<close>

definition calm :: "'a MonWorld_scheme \<Rightarrow> 'a MonWorld_scheme \<Rightarrow> bool" where
  "calm w v \<longleftrightarrow> Clock v = Clock w \<and> Ticks w \<le> Ticks v \<and> Metrics v = Metrics w"

lemma calm_refl [simp]: "calm w w"
  by (simp add: calm_def)

lemma calm_trans [trans]: "calm u v \<Longrightarrow> calm v w \<Longrightarrow> calm u w"
  by (auto simp: calm_def)

lemma calm_bind:
  assumes "calm w (snd rs)" and "\<And>x v. calm v (snd (k x v))"
  shows "calm w (snd (and_thenS rs k))"
  using assms by (cases rs; cases "fst rs") (auto intro: calm_trans)

lemma calm_gauge: "calm w v \<Longrightarrow> gauge v m l = gauge w m l"
  by (simp add: calm_def gauge_def)

named_theorems calms

lemma calm_calls [calms]:
  fixes w :: "'a MonWorld_scheme"
  shows "calm w (snd (ReadFile p w))" and "calm w (snd (file_Close w))" and "calm w (snd (os_Remove p w))"
    and "calm w (snd (TempFile t p w))" and "calm w (snd (cmd_Run_Env e args env w))" and "calm w (snd (generate_rsa L n w))"
    and "calm w (snd (time_Now w))" and "calm w (snd (r, w))"
  by (auto simp: calm_def ReadFile_def file_Close_def os_Remove_def TempFile_def cmd_Run_Env_def generate_rsa_def syscall_def
      time_Now_def draw_def Let_def split: option.splits sum.splits prod.splits fnode.splits)

lemma calm_with_am_peer [calms]: "calm w (snd (with_am_peer f w))"
  by (simp add: with_am_peer_def calm_def split: prod.splits)

lemma calm_GetKeyserver [calms]: "calm (w :: 'a MonWorld_scheme) (snd (GetKeyserver w))"
  unfolding GetKeyserver_def by (intro calm_bind calms)

lemma calm_LoadX509KeyPair [calms]: "calm (w :: 'a MonWorld_scheme) (snd (LoadX509KeyPair L c k w))"
  unfolding LoadX509KeyPair_def by (intro calm_bind calms)

lemma calm_LoadSpireSetup [calms]: "calm (w :: 'a MonWorld_scheme) (snd (LoadSpireSetup y p w))"
  unfolding LoadSpireSetup_def by (intro calm_bind calms)

lemma calm_attemptSSHAcquire [calms]: "calm w (snd (attemptSSHAcquire L net ks w))"
  unfolding attemptSSHAcquire_def by (intro calm_bind calms) (auto intro!: calm_bind calms)

lemma calm_kauth_body [calms]: "calm w (snd (kauth_body L net e ks c w))"
  unfolding kauth_body_def Let_def by (intro calm_bind calms) (auto intro!: calm_bind calms)

lemma calm_attemptKAuth [calms]: "calm w (snd (attemptKAuth L net e ks w))"
proof -
  have "calm v (snd (case kauth_body L net e ks c v of (r, w) \<Rightarrow> (r, snd (os_Remove c w))))" for c v
    using calm_trans [OF calm_kauth_body calm_calls(3)] by (simp add: case_prod_beta)
  then show ?thesis unfolding attemptKAuth_def by (intro calm_bind calms)
qed

section \<open>The nodes\<close>

definition servers :: "SpireNode list \<Rightarrow> string set" where
  "servers ns = {d. \<exists>n\<in>set ns. DNS n = Ok d}"

text \<open>From \<open>w\<close> to \<open>v\<close>, exactly the gauges of these nodes were set, each to a value that satisfies \<open>P\<close>.\<close>

definition reported :: "SpireNode list \<Rightarrow> (string \<Rightarrow> int \<Rightarrow> bool) \<Rightarrow> 'a MonWorld_scheme \<Rightarrow> 'a MonWorld_scheme \<Rightarrow> bool" where
  "reported ns P w v \<longleftrightarrow>
     (\<forall>m l. m = ''sshCheck'' \<and> (\<exists>d\<in>servers ns. l = [d]) \<or> gauge v m l = gauge w m l) \<and>
     (\<forall>d\<in>servers ns. \<exists>x. gauge v ''sshCheck'' [d] = Some x \<and> P d x)"

lemma servers_simps [simp]:
  "servers [] = {}" "DNS n = Ok d \<Longrightarrow> servers (n # ns) = insert d (servers ns)"
  by (auto simp: servers_def)

lemma reported_Nil [simp]: "reported [] P w w"
  by (simp add: reported_def)

lemma reported_Cons:
  assumes "calm w u" and "DNS n = Ok d" and "P d x" and rest: "reported ns P (set_server d x u) v"
  shows "reported (n # ns) P w v"
proof -
  have u: "gauge u m l = gauge w m l" for m l using assms(1) by (rule calm_gauge)
  have g: "gauge (set_server d x u) m l = (if m = ''sshCheck'' \<and> l = [d] then Some x else gauge w m l)" for m l
    by (auto simp: set_server_def u)
  have keep: "m = ''sshCheck'' \<and> (\<exists>d\<in>servers ns. l = [d]) \<or> gauge v m l = gauge (set_server d x u) m l" for m l
    using rest by (simp add: reported_def)
  have "m = ''sshCheck'' \<and> (\<exists>d'\<in>insert d (servers ns). l = [d']) \<or> gauge v m l = gauge w m l" for m l
    using keep [of m l] unfolding g by (auto split: if_splits)
  moreover have "\<exists>x. gauge v ''sshCheck'' [d'] = Some x \<and> P d' x" if "d' \<in> insert d (servers ns)" for d'
    using that rest keep [of "''sshCheck''" "[d']"] assms(3) unfolding g by (auto simp: reported_def)
  ultimately show ?thesis using assms(2) by (simp add: reported_def)
qed

lemma no_access_reported:
  assumes "\<forall>n\<in>set ns. \<exists>d. DNS n = Ok d" and "\<And>d. P d 0"
  obtains v where "no_access ns w = (Ok (), v)" and "reported ns P w v"
  using assms(1)
proof (induction ns arbitrary: w thesis)
  case (Cons n ns)
  then obtain d where d: "DNS n = Ok d" by auto
  from Cons.prems(2) have ns: "\<forall>n\<in>set ns. \<exists>d. DNS n = Ok d" by simp
  obtain v where v: "no_access ns (set_server d 0 w) = (Ok (), v)" "reported ns P (set_server d 0 w) v"
    by (rule Cons.IH [OF _ ns])
  show ?case using Cons.prems(1) [of v] v d reported_Cons [OF calm_refl d assms(2) v(2)] by simp
qed (simp add: reported_def)

lemma attemptSSHAccess_no_panic: "\<not> is_panic (fst (attemptSSHAccess L e pkey cert ca d p))"
proof -
  have "safe (ssh_session e c q)" for c q
    by (auto simp: ssh_session_def is_panic_and_then split: prod.splits sum.splits)
  then have "safe (case ssh_Dial e ''tcp'' (d @ '':22'') cfg p of (Inl err, p) \<Rightarrow> (Err err, p)
     | (Inr client, p) \<Rightarrow> (case ssh_session e client p of (r, p) \<Rightarrow> (r, client_Close e client p)))" for cfg p
    by (auto simp: safe_def split: prod.splits sum.splits) (metis fst_conv)
  then have "safe (attemptSSHAccess L e pkey cert ca d p)"
    unfolding attemptSSHAccess_def by (intro safe_bind) simp_all
  then show ?thesis by (simp add: safe_def)
qed

lemma access_loop_reported:
  assumes "\<forall>n\<in>set ns. \<exists>d. DNS n = Ok d"
    and P: "\<And>d p. P d (of_bool (is_ok (fst (attemptSSHAccess L e pkey cert ca d p))))"
  obtains v where "access_loop L e pkey cert ca ns w = (Ok (), v)" and "reported ns P w v"
  using assms(1)
proof (induction ns arbitrary: w thesis)
  case (Cons n ns)
  then obtain d where d: "DNS n = Ok d" by auto
  from Cons.prems(2) have ns: "\<forall>n\<in>set ns. \<exists>d. DNS n = Ok d" by simp
  define x where "x = (of_bool (is_ok (fst (attemptSSHAccess L e pkey cert ca d (AmPeer w)))) :: int)"
  define u where "u = snd (with_am_peer (attemptSSHAccess L e pkey cert ca d) w)"
  obtain v where v: "access_loop L e pkey cert ca ns (set_server d x u) = (Ok (), v)" "reported ns P (set_server d x u) v"
    by (rule Cons.IH [OF _ ns])
  have "access_loop L e pkey cert ca (n # ns) w = access_loop L e pkey cert ca ns (set_server d x u)"
    using attemptSSHAccess_no_panic [of L e pkey cert ca d "AmPeer w"]
    by (auto simp: d x_def u_def with_am_peer_def split: prod.splits result.splits)
  moreover have "calm w u" unfolding u_def by (rule calm_with_am_peer)
  moreover have "P d x" unfolding x_def by (rule P)
  ultimately show ?case using Cons.prems(1) [of v] v reported_Cons d by metis
qed (simp add: reported_def)

section \<open>The phases of a cycle\<close>

definition static_matches :: "'p Net \<Rightarrow> Keyserver \<Rightarrow> 'p AuthWorld \<Rightarrow> bool" where
  "static_matches net ks w \<longleftrightarrow>
     (\<exists>c. fst (GetStatic net ks ClusterConfStatic (AmPeer w)) = Ok c \<and> fst (ReadFile ClusterConfigPath w) = Ok c)"

lemma fetches_no_panic: "\<not> is_panic (fst (GetStatic net ks n p))" "\<not> is_panic (fst (GetPubkey net ks n p))"
  by (simp_all add: GetStatic_def GetPubkey_def endpoint_Get_def endpoint_Request_no_panic)

lemma check_static_gauges:
  obtains u where "check_static net ks w = (Ok (), set_gauge ''fetchCheck'' (of_bool (static_matches net ks w)) u)" and "calm w u"
proof -
  obtain r p where g: "GetStatic net ks ClusterConfStatic (AmPeer w) = (r, p)" by fastforce
  let ?w = "w\<lparr>AmPeer := p\<rparr>"
  obtain r2 u where rd: "ReadFile ClusterConfigPath ?w = (r2, u)" by fastforce
  have same: "fst (ReadFile ClusterConfigPath w) = r2"
    using arg_cong [OF rd, of fst] by (simp add: ReadFile_def syscall_def split: option.splits)
  have c: "calm w ?w" "calm w u"
    using calm_calls(1) [of ?w ClusterConfigPath] by (simp_all add: rd calm_def)
  have "\<not> is_panic r" using fetches_no_panic(1) [of net ks ClusterConfStatic "AmPeer w"] by (simp add: g)
  moreover have "\<not> is_panic r2" using ReadFile_no_panic [of ClusterConfigPath ?w] by (simp add: rd)
  ultimately have "check_static net ks w = (Ok (), set_gauge ''fetchCheck'' (of_bool (static_matches net ks w)) (if is_ok r then u else ?w))"
    by (cases r; cases r2) (auto simp: check_static_def with_am_peer_def g rd static_matches_def same)
  then show thesis by (rule that) (simp add: c)
qed

lemma with_am_peer_no_panic [no_panics]: "safe (f (AmPeer w)) \<Longrightarrow> safe (with_am_peer f w)"
  by (auto simp: with_am_peer_def split: prod.splits)

lemma kauth_body_no_panic: "safe (kauth_body L net e ks c w)"
proof -
  have close: "safe (file_Close w)" and cmd: "safe (cmd_Run_Env e args env v)" for v :: "'a AuthWorld" and args env
    by (auto simp: file_Close_def cmd_Run_Env_def split: option.splits prod.splits)
  have key: "safe (GetKeyserver v)" for v :: "'a AuthWorld" unfolding GetKeyserver_def by (intro safe_bind no_panics) simp
  have auth: "safe (and_thenS (AuthenticateWithKerberosTicketsInCache L net ks c, v) (\<lambda>rt w.
       and_thenS (with_am_peer (rt []) w) (\<lambda>_ w. (Ok (), w))))" for v
    by (intro safe_bind with_am_peer_no_panic)
       (auto simp: AuthenticateWithKerberosTicketsInCache_def is_panic_and_then and_then_Ok_iff safe_def knc.target_no_panic)
  show ?thesis
    unfolding kauth_body_def Let_def
    by (intro safe_bind close key cmd no_panics) (auto simp: auth)
qed

lemma check_kauth_gauges:
  obtains u where "check_kauth L net e ks w = (Ok (), set_gauge ''authCheck'' (of_bool (is_ok (fst (attemptKAuth L net e ks w)))) u)"
    and "calm w u"
proof -
  obtain r u where a: "attemptKAuth L net e ks w = (r, u)" by fastforce
  have "safe (attemptKAuth L net e ks w)"
    unfolding attemptKAuth_def using kauth_body_no_panic [of L net e ks]
    by (intro safe_bind) (auto simp: TempFile_def safe_def Let_def time_Now_def case_prod_beta split: option.splits prod.splits)
  then have "\<not> is_panic r" by (simp add: a)
  moreover have "calm w u" using calm_attemptKAuth [of w L net e ks] by (simp add: a)
  ultimately show thesis using that by (cases r) (auto simp: check_kauth_def a)
qed

text \<open>
  The value reported for the server \<open>d\<close>: one if it accepted a session and echoed, with the certificate that was granted and
  for the authority that the keyserver serves; zero if there is no such certificate or authority.
\<close>

definition access_value :: "Lib \<Rightarrow> 'p AuthEnv \<Rightarrow> string \<Rightarrow> (rsa_PrivateKey \<times> ssh_PublicKey) result \<Rightarrow> string \<Rightarrow> int \<Rightarrow> bool" where
  "access_value L e ca grant d x \<longleftrightarrow>
     (case (grant, ssh_ParseAuthorizedKey L ca) of
        (Ok (pkey, cert), Inr (host_ca, _)) \<Rightarrow> \<exists>p. x = of_bool (is_ok (fst (attemptSSHAccess L e pkey cert host_ca d p)))
      | _ \<Rightarrow> x = 0)"

lemma LoadSpireSetup_DNS:
  assumes "LoadSpireSetup y p w = (Ok s, v)" and "n \<in> set (Nodes s)"
  shows "\<exists>d. DNS n = Ok d"
  using assms by (auto simp: LoadSpireSetup_def and_thenS_Ok_iff and_then_Ok_iff validate_setup_Ok_iff DNS_def)

lemma attemptSSHAcquire_no_panic: "safe (attemptSSHAcquire L net ks w)"
proof -
  have gen: "safe (generate_rsa L n v)" for v :: "'a AuthWorld" and n
    by (auto simp: generate_rsa_def split: option.splits prod.splits)
  have cert: "\<not> is_panic (as_certificate x)" for x
    by (auto simp: as_certificate_def split: sum.splits prod.splits ssh_PublicKey.splits)
  have imp: "safe (reqtarget_Impersonate (authenticated_SendRequests L net ep) api user p)" for ep api user p
    using impersonated.target_no_panic [of L net ep api user "[]" p]
    by (auto simp: reqtarget_Impersonate_def Let_def is_panic_and_thenS safe_def split: prod.splits)
  have rt: "rt = impersonated_SendRequests (authenticated_SendRequests L net ep) api user"
    if "reqtarget_Impersonate (authenticated_SendRequests L net ep) api user p = (Ok rt, q)" for ep api user p q rt
    using that by (auto simp: reqtarget_Impersonate_def Let_def and_thenS_Ok_iff split: if_splits prod.splits)
  have last: "safe (and_thenS (as_certificate x, v) (\<lambda>cert w. (Ok (k, cert), w)))" for x k and v :: "'a AuthWorld"
    by (intro safe_bind) (simp_all add: cert)
  show ?thesis
    unfolding attemptSSHAcquire_def AuthenticateWithCert_def
    by (intro safe_bind gen no_panics with_am_peer_no_panic)
       (auto simp: imp [unfolded safe_def] last [unfolded safe_def] with_am_peer_def impersonated.SendRequest_no_panic safe_def
         split: prod.splits dest!: rt)
qed

lemma reported_from:
  assumes "calm w u" and "reported ns P (set_gauge m x u) v"
  shows "reported ns P (set_gauge m x w) v"
  using assms(2) calm_gauge [OF assms(1)] by (simp add: reported_def set_gauge_def)

lemma check_ssh_gauges:
  assumes "\<forall>c raw. setup_Unmarshal e c = Inr raw \<longrightarrow> None \<notin> set (RawNodes raw)"
  obtains v where "check_ssh L net e ks ca w = (Ok (), v)"
    and "case LoadSpireSetup (setup_Unmarshal e) SpireSetupPath w of (r, w3) \<Rightarrow>
       let grant = fst (attemptSSHAcquire L net ks w3) in
       (case r of
          Ok s \<Rightarrow> reported (Nodes s) (access_value L e ca grant) (set_gauge ''grantCheck'' (of_bool (is_ok grant)) w) v
        | _ \<Rightarrow> v = emit (Reset ''sshCheck'') (set_gauge ''grantCheck'' 0 w3))"
proof -
  note result = that
  obtain r w3 where ld: "LoadSpireSetup (setup_Unmarshal e) SpireSetupPath w = (r, w3)" by fastforce
  have "safe (LoadSpireSetup (setup_Unmarshal e) SpireSetupPath w)"
    unfolding LoadSpireSetup_def using assms validate_setup_no_panic
    by (intro safe_bind no_panics) (auto simp: is_panic_and_then)
  then have r: "\<not> is_panic r" by (simp add: ld)
  obtain grant w4 where acq: "attemptSSHAcquire L net ks w3 = (grant, w4)" by fastforce
  have grant: "\<not> is_panic grant" using attemptSSHAcquire_no_panic [of L net ks w3] by (simp add: acq)
  have "calm w w3" using calm_LoadSpireSetup [of w "setup_Unmarshal e" SpireSetupPath] by (simp add: ld)
  moreover have "calm w3 w4" using calm_attemptSSHAcquire [of w3 L net ks] by (simp add: acq)
  ultimately have w4: "calm w w4" by (rule calm_trans)
  show thesis
  proof (cases r)
    case (Ok s)
    note s = Ok
    define u where "u = set_gauge ''grantCheck'' (of_bool (is_ok grant)) w4"
    define P where "P = access_value L e ca grant"
    have dns: "\<forall>n\<in>set (Nodes s). \<exists>d. DNS n = Ok d" using LoadSpireSetup_DNS ld Ok by blast
    have none: thesis if no: "check_ssh L net e ks ca w = no_access (Nodes s) u" and zero: "\<And>d. P d 0"
    proof -
      obtain v where "no_access (Nodes s) u = (Ok (), v)" "reported (Nodes s) P u v"
        using no_access_reported [where P = P and w = u, OF dns zero] by blast
      then show thesis using no reported_from [OF w4] by (intro result) (auto simp: ld acq s u_def P_def)
    qed
    show thesis
    proof (cases "\<exists>pkey cert host_ca rest. grant = Ok (pkey, cert) \<and> ssh_ParseAuthorizedKey L ca = Inr (host_ca, rest)")
      case True
      then obtain pkey cert host_ca rest where g: "grant = Ok (pkey, cert)" "ssh_ParseAuthorizedKey L ca = Inr (host_ca, rest)" by blast
      then have "P d (of_bool (is_ok (fst (attemptSSHAccess L e pkey cert host_ca d p))))" for d p
        by (auto simp: P_def access_value_def)
      then obtain v where "access_loop L e pkey cert host_ca (Nodes s) u = (Ok (), v)" "reported (Nodes s) P u v"
        using access_loop_reported [where P = P and w = u, OF dns] by blast
      then show thesis using g reported_from [OF w4]
        by (intro result) (auto simp: check_ssh_def ld acq s u_def P_def)
    next
      case False
      then have "P d 0" for d by (auto simp: P_def access_value_def split: result.splits sum.splits)
      moreover have "check_ssh L net e ks ca w = no_access (Nodes s) u"
        using False grant by (cases grant) (auto simp: check_ssh_def ld acq s u_def Let_def split: sum.splits)
      ultimately show thesis using none by blast
    qed
  next
    case (Err x)
    then show thesis by (intro result) (auto simp: check_ssh_def ld)
  qed (use r in simp)
qed

section \<open>What a cycle reports\<close>

text \<open>The states between the phases of a cycle, for the answer to the request for the authority.\<close>

definition after_key :: "'p Net \<Rightarrow> Keyserver \<Rightarrow> 'p AuthWorld \<Rightarrow> 'p AuthWorld" where
  "after_key net ks w = set_gauge ''keyCheck'' 1 (snd (with_am_peer (GetPubkey net ks SSHHostAuthority) w))"

definition after_static :: "'p Net \<Rightarrow> Keyserver \<Rightarrow> 'p AuthWorld \<Rightarrow> 'p AuthWorld" where
  "after_static net ks w = snd (check_static net ks (after_key net ks w))"

definition after_kauth :: "Lib \<Rightarrow> 'p Net \<Rightarrow> Keyserver \<Rightarrow> 'p AuthEnv \<Rightarrow> 'p AuthWorld \<Rightarrow> 'p AuthWorld" where
  "after_kauth L net ks e w = snd (check_kauth L net e ks (after_static net ks w))"

lemma gauge_set_gauge [simp]: "gauge (set_gauge m' x w) m l = (if m = m' \<and> l = [] then Some x else gauge w m l)"
  by (simp add: set_gauge_def)

lemma reported_others:
  "reported ns P (set_gauge g x k) v \<Longrightarrow> m \<noteq> ''sshCheck'' \<Longrightarrow> gauge v m l = (if m = g \<and> l = [] then Some x else gauge k m l)"
  unfolding reported_def gauge_set_gauge by blast

lemma reported_stale:
  assumes "reported ns P (set_gauge ''grantCheck'' x k) v"
  shows "(\<exists>d\<in>servers ns. l = [d]) \<or> gauge v ''sshCheck'' l = gauge k ''sshCheck'' l"
proof -
  have "(\<exists>d\<in>servers ns. l = [d]) \<or> gauge v ''sshCheck'' l = gauge (set_gauge ''grantCheck'' x k) ''sshCheck'' l"
    using assms unfolding reported_def by blast
  then show ?thesis by simp
qed

lemma reported_servers:
  "reported ns P k v \<Longrightarrow> d \<in> servers ns \<Longrightarrow> \<exists>x. gauge v ''sshCheck'' [d] = Some x \<and> P d x"
  unfolding reported_def by blast

lemma before_ssh_gauges:
  assumes v: "v = after_kauth L net ks e w"
  shows "gauge v ''keyCheck'' [] = Some 1"
    and "gauge v ''fetchCheck'' [] = Some (of_bool (static_matches net ks (after_key net ks w)))"
    and "gauge v ''authCheck'' [] = Some (of_bool (is_ok (fst (attemptKAuth L net e ks (after_static net ks w)))))"
    and "gauge v ''sshCheck'' l = gauge w ''sshCheck'' l"
proof -
  obtain u1 where u1: "check_static net ks (after_key net ks w) =
      (Ok (), set_gauge ''fetchCheck'' (of_bool (static_matches net ks (after_key net ks w))) u1)" "calm (after_key net ks w) u1"
    by (rule check_static_gauges)
  obtain u2 where u2: "check_kauth L net e ks (after_static net ks w) =
      (Ok (), set_gauge ''authCheck'' (of_bool (is_ok (fst (attemptKAuth L net e ks (after_static net ks w))))) u2)"
      "calm (after_static net ks w) u2"
    by (rule check_kauth_gauges)
  have k: "gauge (after_key net ks w) m l = (if m = ''keyCheck'' \<and> l = [] then Some 1 else gauge w m l)" for m l
    by (simp add: after_key_def calm_gauge [OF calm_with_am_peer])
  show "gauge v ''keyCheck'' [] = Some 1"
    and "gauge v ''fetchCheck'' [] = Some (of_bool (static_matches net ks (after_key net ks w)))"
    and "gauge v ''authCheck'' [] = Some (of_bool (is_ok (fst (attemptKAuth L net e ks (after_static net ks w)))))"
    and "gauge v ''sshCheck'' l = gauge w ''sshCheck'' l"
    using u1 u2 calm_gauge [OF u1(2)] calm_gauge [OF u2(2)] k
    by (simp_all add: v after_kauth_def) (simp_all add: after_static_def)
qed

lemma auth_cycle_phases:
  assumes "fst (GetPubkey net ks SSHHostAuthority (AmPeer w)) = Ok ca"
  shows "auth_cycle L net ks e w = check_ssh L net e ks ca (after_kauth L net ks e w)"
proof -
  obtain p where "GetPubkey net ks SSHHostAuthority (AmPeer w) = (Ok ca, p)" using assms by (metis prod.collapse)
  then have "auth_cycle L net ks e w = and_thenS (check_static net ks (after_key net ks w)) (\<lambda>_ w.
          and_thenS (check_kauth L net e ks w) (\<lambda>_ w. check_ssh L net e ks ca w))"
    by (simp add: auth_cycle_def with_am_peer_def after_key_def)
  moreover obtain u1 where "check_static net ks (after_key net ks w) = (Ok (), u1)" by (rule check_static_gauges)
  moreover obtain u2 where "check_kauth L net e ks u1 = (Ok (), u2)" by (rule check_kauth_gauges)
  ultimately show ?thesis by (simp add: after_kauth_def after_static_def)
qed

lemma access_host:
  assumes "\<forall>addr cfg p c p'. ssh_Dial e ''tcp'' addr cfg p = (Inr c, p') \<longrightarrow> (\<exists>auth. presented addr p = Some auth \<and> IsHostAuthority cfg auth addr)"
    and "access_value L e ca grant d 1"
  shows "\<exists>host_ca rest auth p. ssh_ParseAuthorizedKey L ca = Inr (host_ca, rest) \<and> presented (d @ '':22'') p = Some auth \<and>
    ssh_Type L auth = ssh_Type L host_ca \<and> ssh_Marshal L auth = ssh_Marshal L host_ca"
proof -
  obtain pkey cert host_ca rest p where h: "ssh_ParseAuthorizedKey L ca = Inr (host_ca, rest)"
    and a: "is_ok (fst (attemptSSHAccess L e pkey cert host_ca d p))"
    using assms(2) by (cases "ssh_ParseAuthorizedKey L ca") (auto simp: access_value_def split: result.splits)
  then obtain u q where "attemptSSHAccess L e pkey cert host_ca d p = (Ok u, q)"
    by (cases "attemptSSHAccess L e pkey cert host_ca d p") (auto simp: is_ok_iff)
  then obtain signer where run: "(case ssh_Dial e ''tcp'' (d @ '':22'') (host_config L signer host_ca) p of (Inl err, p) \<Rightarrow> (Err err, p)
      | (Inr client, p) \<Rightarrow> (case ssh_session e client p of (r, p) \<Rightarrow> (r, client_Close e client p))) = (Ok u, q)"
    by (auto simp: attemptSSHAccess_def and_thenS_Ok_iff)
  obtain x p' where "ssh_Dial e ''tcp'' (d @ '':22'') (host_config L signer host_ca) p = (x, p')" by fastforce
  with run obtain c where "ssh_Dial e ''tcp'' (d @ '':22'') (host_config L signer host_ca) p = (Inr c, p')" by (cases x) auto
  with assms(1) obtain auth where "presented (d @ '':22'') p = Some auth" "IsHostAuthority (host_config L signer host_ca) auth (d @ '':22'')"
    by blast
  with h show ?thesis by (auto simp: host_config_def)
qed

text \<open>
  C23: a cycle of the authentication monitor does not panic, provided that no entry of the list of nodes in \<open>setup.yaml\<close> is null, and
  it reports the following. If the host authority cannot be fetched, all checks are zero and no server is listed. Otherwise the
  check of static files is one exactly if the served cluster configuration is the one on disk, the check of the gateway is one
  exactly if the attempt with fresh Kerberos tickets succeeded, and the check of SSH certificates is one exactly if one
  was granted. If the list of nodes cannot be read, no certificate check is passed and no server is listed. Otherwise every node in the list has
  the result of a session with it, and one only if it presented a host certificate of the authority that the
  keyserver serves (for an SSH library whose \<open>Dial\<close> succeeds only if the callback accepts the authority that the host presents).
  Servers that are no longer in the list keep the value they had.
\<close>

theorem auth_monitor_reports:
  assumes "\<forall>c raw. setup_Unmarshal e c = Inr raw \<longrightarrow> None \<notin> set (RawNodes raw)"
    and "\<forall>addr cfg p c p'. ssh_Dial e ''tcp'' addr cfg p = (Inr c, p') \<longrightarrow> (\<exists>auth. presented addr p = Some auth \<and> IsHostAuthority cfg auth addr)"
  shows "\<exists>v. auth_cycle L net ks e w = (Ok (), v) \<and>
    (case fst (GetPubkey net ks SSHHostAuthority (AmPeer w)) of
       Ok ca \<Rightarrow>
         gauge v ''keyCheck'' [] = Some 1 \<and>
         gauge v ''fetchCheck'' [] = Some (of_bool (static_matches net ks (after_key net ks w))) \<and>
         gauge v ''authCheck'' [] = Some (of_bool (is_ok (fst (attemptKAuth L net e ks (after_static net ks w))))) \<and>
         (case LoadSpireSetup (setup_Unmarshal e) SpireSetupPath (after_kauth L net ks e w) of
            (Ok s, w3) \<Rightarrow> \<exists>grant. grant = fst (attemptSSHAcquire L net ks w3) \<and>
              gauge v ''grantCheck'' [] = Some (of_bool (is_ok grant)) \<and>
              (\<forall>d\<in>servers (Nodes s). \<exists>x. gauge v ''sshCheck'' [d] = Some x \<and> access_value L e ca grant d x \<and>
                 (x = 1 \<longrightarrow> (\<exists>host_ca rest auth p. ssh_ParseAuthorizedKey L ca = Inr (host_ca, rest) \<and> presented (d @ '':22'') p = Some auth \<and>
                    ssh_Type L auth = ssh_Type L host_ca \<and> ssh_Marshal L auth = ssh_Marshal L host_ca))) \<and>
              (\<forall>l. (\<exists>d\<in>servers (Nodes s). l = [d]) \<or> gauge v ''sshCheck'' l = gauge w ''sshCheck'' l)
          | _ \<Rightarrow> gauge v ''grantCheck'' [] = Some 0 \<and> (\<forall>l. gauge v ''sshCheck'' l = None))
     | _ \<Rightarrow> (\<forall>m\<in>{''keyCheck'', ''fetchCheck'', ''authCheck'', ''grantCheck''}. gauge v m [] = Some 0) \<and>
            (\<forall>l. gauge v ''sshCheck'' l = None))"
proof (cases "fst (GetPubkey net ks SSHHostAuthority (AmPeer w))")
  case (Ok ca)
  define k where "k = after_kauth L net ks e w"
  note before = before_ssh_gauges [OF k_def]
  obtain r w3 where ld: "LoadSpireSetup (setup_Unmarshal e) SpireSetupPath k = (r, w3)" by fastforce
  have w3: "gauge w3 m l = gauge k m l" for m l
    using calm_gauge [OF calm_LoadSpireSetup, of "setup_Unmarshal e" SpireSetupPath k] by (simp add: ld)
  obtain v where v: "check_ssh L net e ks ca k = (Ok (), v)"
    and rep: "case (r, w3) of (r, w3) \<Rightarrow> let grant = fst (attemptSSHAcquire L net ks w3) in
       (case r of
          Ok s \<Rightarrow> reported (Nodes s) (access_value L e ca grant) (set_gauge ''grantCheck'' (of_bool (is_ok grant)) k) v
        | _ \<Rightarrow> v = emit (Reset ''sshCheck'') (set_gauge ''grantCheck'' 0 w3))"
    using check_ssh_gauges [OF assms(1), of L net ks ca k] unfolding ld by blast
  show ?thesis
  proof (cases r)
    case R: (Ok s)
    define grant where "grant = fst (attemptSSHAcquire L net ks w3)"
    have "reported (Nodes s) (access_value L e ca grant) (set_gauge ''grantCheck'' (of_bool (is_ok grant)) k) v"
      using rep by (simp add: R grant_def Let_def)
    note keep = reported_others [OF this] and stale = reported_stale [OF this, unfolded before(4)] and set = reported_servers [OF this]
    have "\<exists>x. gauge v ''sshCheck'' [d] = Some x \<and> access_value L e ca grant d x \<and>
        (x = 1 \<longrightarrow> (\<exists>host_ca rest auth p. ssh_ParseAuthorizedKey L ca = Inr (host_ca, rest) \<and> presented (d @ '':22'') p = Some auth \<and>
           ssh_Type L auth = ssh_Type L host_ca \<and> ssh_Marshal L auth = ssh_Marshal L host_ca))" if "d \<in> servers (Nodes s)" for d
      using set [OF that] access_host [OF assms(2)] by blast
    with stale show ?thesis
      by (intro exI [of _ v]) (simp add: Ok auth_cycle_phases v k_def [symmetric] ld R keep before grant_def [symmetric])
  next
    case (Err x)
    with rep have "v = emit (Reset ''sshCheck'') (set_gauge ''grantCheck'' 0 w3)" by simp
    then show ?thesis
      by (intro exI [of _ v]) (simp add: Ok auth_cycle_phases v k_def [symmetric] ld Err w3 before)
  next
    case (Panic x)
    with rep have "v = emit (Reset ''sshCheck'') (set_gauge ''grantCheck'' 0 w3)" by simp
    then show ?thesis
      by (intro exI [of _ v]) (simp add: Ok auth_cycle_phases v k_def [symmetric] ld Panic w3 before)
  qed
next
  case (Err x)
  then show ?thesis by (cases "GetPubkey net ks SSHHostAuthority (AmPeer w)") (simp add: auth_cycle_def with_am_peer_def)
next
  case (Panic x)
  then show ?thesis using fetches_no_panic(2) [of net ks SSHHostAuthority "AmPeer w"] by simp
qed

section \<open>Relations that a cycle keeps\<close>

text \<open>
  A relation between worlds that holds for the calls that report nothing and for the reports of the monitor itself
  holds for a whole cycle.
\<close>

locale auth_relation =
  fixes R :: "'p AuthWorld \<Rightarrow> 'p AuthWorld \<Rightarrow> bool"
  assumes R_calm: "calm w v \<Longrightarrow> R w v" and R_trans: "R u v \<Longrightarrow> R v w \<Longrightarrow> R u w"
    and R_gauge: "m \<in> {''keyCheck'', ''fetchCheck'', ''authCheck'', ''grantCheck''} \<Longrightarrow> R w (set_gauge m x w)"
    and R_server: "R w (set_server d x w)" and R_reset: "R w (emit (Reset ''sshCheck'') w)"
begin

lemma R_refl [simp]: "R w w"
  by (rule R_calm) simp

lemma R_sets:
  "m \<in> {''keyCheck'', ''fetchCheck'', ''authCheck'', ''grantCheck''} \<Longrightarrow> R w v \<Longrightarrow> R w (set_gauge m x v)"
  "R w v \<Longrightarrow> R w (set_server d x v)" "R w v \<Longrightarrow> R w (emit (Reset ''sshCheck'') v)"
  by (rule R_trans [OF _ R_gauge], assumption+) (rule R_trans [OF _ R_server] R_trans [OF _ R_reset], assumption)+

text \<open>A call that reports nothing, and then whatever its outcome leads to.\<close>

lemma R_call:
  assumes "calm w (snd rs)" and "\<And>x v. rs = (Ok x, v) \<Longrightarrow> R v (snd (f x v))" and "\<And>x v. rs = (Err x, v) \<Longrightarrow> R v (snd (g x v))"
  shows "R w (snd (case rs of (Ok x, v) \<Rightarrow> f x v | (Err x, v) \<Rightarrow> g x v | (Panic p, v) \<Rightarrow> (Panic p, v)))"
  using assms by (cases rs; cases "fst rs") (auto intro: R_trans R_calm)

lemma R_bind:
  assumes "R w (snd rs)" and "\<And>x v. R v (snd (k x v))"
  shows "R w (snd (and_thenS rs k))"
  using assms by (cases rs; cases "fst rs") (auto intro: R_trans)

lemma R_no_access: "R w (snd (no_access ns w))"
proof (induction ns arbitrary: w)
  case (Cons n ns)
  show ?case unfolding no_access.simps by (intro R_bind R_trans [OF R_server Cons.IH]) simp
qed simp

lemma R_access_loop: "R w (snd (access_loop L e pkey cert ca ns w))"
proof (induction ns arbitrary: w)
  case (Cons n ns)
  show ?case
    unfolding access_loop.simps by (intro R_bind R_call calm_with_am_peer R_trans [OF R_server Cons.IH]) simp
qed simp

lemma R_check_ssh: "R w (snd (check_ssh L net e ks ca w))"
proof -
  have granted: "R v (snd (let w = set_gauge ''grantCheck'' 1 v in
      case ssh_ParseAuthorizedKey L ca of Inl err \<Rightarrow> no_access ns w
      | Inr (host_ca, _) \<Rightarrow> access_loop L e pkey cert host_ca ns w))" for v pkey cert ns
    using R_trans [OF R_gauge R_no_access] R_trans [OF R_gauge R_access_loop] by (simp add: Let_def split: sum.splits prod.splits)
  have refused: "R v (snd (no_access ns (set_gauge ''grantCheck'' 0 v)))" for v ns
    using R_trans [OF R_gauge R_no_access] by simp
  show ?thesis
    unfolding check_ssh_def
    by (intro R_call calms) (auto simp: granted refused R_sets intro!: R_call calms split: prod.splits)
qed

lemma R_auth_cycle: "R w (snd (auth_cycle L net ks e w))"
proof -
  have static: "R v (snd (check_static net ks v))" and kauth: "R v (snd (check_kauth L net e ks v))" for v
    unfolding check_static_def check_kauth_def by (intro R_call calms; simp add: R_sets)+
  have "R v (snd (check_static net ks (set_gauge ''keyCheck'' 1 v)))" for v
    using R_trans [OF R_gauge static] by simp
  then show ?thesis
    unfolding auth_cycle_def by (intro R_call calms) (simp_all add: R_bind R_sets kauth R_check_ssh)
qed

end

text \<open>The clock is one.\<close>

definition onward :: "'a World_scheme \<Rightarrow> 'a World_scheme \<Rightarrow> bool" where
  "onward w v \<longleftrightarrow> Clock v = Clock w \<and> Ticks w \<le> Ticks v"

interpretation clock: auth_relation onward
  by unfold_locales (auto simp: onward_def calm_def set_gauge_def set_server_def)

interpretation auth: monitor "\<lambda>e w. snd (auth_cycle L net ks e w)" for L net ks
  by unfold_locales (simp_all add: clock.R_auth_cycle [unfolded onward_def])

section \<open>The Kerberos tickets\<close>

text \<open>From \<open>w\<close> to \<open>v\<close> only the file \<open>c\<close> has changed, and it has not become a directory.\<close>

definition only_cache :: "string \<Rightarrow> 'a FsWorld_scheme \<Rightarrow> 'a FsWorld_scheme \<Rightarrow> bool" where
  "only_cache c w v \<longleftrightarrow> (\<forall>p. p \<noteq> c \<longrightarrow> FS v p = FS w p) \<and> FS v c \<noteq> Some Directory \<and> Faults v = Faults w"

lemma only_cache_same: "only_cache c w v \<Longrightarrow> FS v' = FS v \<Longrightarrow> Faults v' = Faults v \<Longrightarrow> only_cache c w v'"
  by (simp add: only_cache_def)

lemma only_cache_bind:
  assumes "only_cache c w (snd rs)" and "\<And>x v. only_cache c w v \<Longrightarrow> only_cache c w (snd (k x v))"
  shows "only_cache c w (snd (and_thenS rs k))"
  using assms(1) by (rule and_thenS_keeps [where P = "only_cache c w"]) (rule assms(2))

text \<open>\<open>kinit\<close> writes to the file that \<open>KRB5CCNAME\<close> names, and to no other.\<close>

definition kinit_law :: "'p AuthEnv \<Rightarrow> bool" where
  "kinit_law e \<longleftrightarrow> (\<forall>args env c fs err fs'. exec_with_Env e (''kinit'' # args) (ModifiedEnviron env ''KRB5CCNAME'' c) fs = (err, fs') \<longrightarrow>
     (\<forall>p. p \<noteq> c \<longrightarrow> fs' p = fs p) \<and> (fs c \<noteq> Some Directory \<longrightarrow> fs' c \<noteq> Some Directory))"

lemma kauth_body_cache:
  assumes kinit: "kinit_law e" and "only_cache c w v"
  shows "only_cache c w (snd (kauth_body L net e ks c v))"
proof -
  have read: "only_cache c w (snd (ReadFile q u))" and close: "only_cache c w (snd (file_Close u))"
    and peer: "only_cache c w (snd (with_am_peer f u))"
    and cmd: "only_cache c w (snd (cmd_Run_Env e (''kinit'' # args) (ModifiedEnviron env ''KRB5CCNAME'' c) u))"
    if u: "only_cache c w u" for u :: "'a AuthWorld" and q args env and f :: "('a, string list) action"
  proof -
    show "only_cache c w (snd (ReadFile q u))" "only_cache c w (snd (file_Close u))" "only_cache c w (snd (with_am_peer f u))"
      by (rule only_cache_same [OF u]; simp add: ReadFile_def file_Close_def with_am_peer_def syscall_def split: option.splits prod.splits)+
    obtain err fs where "exec_with_Env e (''kinit'' # args) (ModifiedEnviron env ''KRB5CCNAME'' c) (FS u) = (err, fs)" by fastforce
    moreover from this have "(\<forall>p. p \<noteq> c \<longrightarrow> fs p = FS u p) \<and> (FS u c \<noteq> Some Directory \<longrightarrow> fs c \<noteq> Some Directory)"
      using kinit unfolding kinit_law_def by blast
    ultimately show "only_cache c w (snd (cmd_Run_Env e (''kinit'' # args) (ModifiedEnviron env ''KRB5CCNAME'' c) u))"
      using u by (simp add: only_cache_def cmd_Run_Env_def)
  qed
  have key: "only_cache c w (snd (GetKeyserver u))" if "only_cache c w u" for u :: "'a AuthWorld"
    unfolding GetKeyserver_def by (rule only_cache_bind) (simp_all add: read that)
  show ?thesis
    unfolding kauth_body_def Let_def
    by (intro only_cache_bind close key cmd read assms(2)) (auto intro!: only_cache_bind peer)
qed


section \<open>Evaluation on a concrete cluster\<close>

definition demo_kinit :: "string list \<Rightarrow> string list \<Rightarrow> (string \<rightharpoonup> fnode) \<Rightarrow> error option \<times> (string \<rightharpoonup> fnode)" where
  "demo_kinit args env fs = (case filter (\<lambda>s. HasPrefix s ''KRB5CCNAME='') env of
       [] \<Rightarrow> (Some (LibError ''no cache''), fs)
     | entry # _ \<Rightarrow> (None, fs(drop 11 entry \<mapsto> File ''tickets'' 384 0)))"

definition demo_host_ca :: ssh_PublicKey where "demo_host_ca = PlainKey ''ssh-rsa'' ''conf''"

definition demo_auth_env :: "unit AuthEnv" where
  "demo_auth_env = \<lparr>am_temp_name = (\<lambda>_ prefix. ''/tmp/'' @ prefix), os_Environ = [''HOME=/''], exec_with_Env = demo_kinit,
     setup_Unmarshal = (\<lambda>_. Inr \<lparr>ExternalDomain = ''hw.io'', InternalDomain = ''hw.internal'', KerberosRealm = ''HW'', ServiceAPI = ''172.28.0.1'',
       RootAdmins = [], RawNodes = [Some \<lparr>Hostname = ''eggs'', NodeIP = ''10.0.0.1'', netIP = None, node_setup = None, Kind = SupervisorKind\<rparr>]\<rparr>), ssh_NewSignerFromKey = (\<lambda>k. Inr \<lparr>SignerPublicKey = demo_host_ca, SignerSecret = Secret k\<rparr>),
     ssh_NewCertSigner = (\<lambda>c s. Inr (s\<lparr>SignerPublicKey := c\<rparr>)),
     ssh_Dial = (\<lambda>_ addr cfg p. (if IsHostAuthority cfg demo_host_ca addr then Inr 0 else Inl (LibError ''handshake''), p)),
     client_NewSession = (\<lambda>_ p. (Inr 0, p)), session_Output = (\<lambda>_ _ p. (Inr (''bidirectionality test'' @ [CHR 0x0A]), p)),
     session_Close = (\<lambda>_ p. p), client_Close = (\<lambda>_ p. p)\<rparr>"

definition demo_auth_net :: "unit Net" where
  "demo_auth_net = \<lparr>http_NewRequest = (\<lambda>_ _. None), client_Do = (\<lambda>_ p. (Inr (200, Inr ''conf''), p)),
     knc_Output = (\<lambda>_ _ data p. (Inr data, p)), url_Hostname = (\<lambda>u. Inr ''gw'')\<rparr>"

definition demo_auth_ks :: Keyserver where
  "demo_auth_ks = \<lparr>endpoint = \<lparr>rootCAs = [], baseURL = ''https://ks/'', extraHeaders = Map.empty, certificates = []\<rparr>\<rparr>"

definition demo_auth :: "unit AuthWorld" where
  "demo_auth = \<lparr>Clock = int, Ticks = 0, Entropy = Some, Draws = 0,
     FS = [ClusterConfigPath \<mapsto> File ''conf'' 420 0, ''/tmp'' \<mapsto> Directory], Faults = (\<lambda>_. None), Syscalls = 0,
     Ran = [], Exits = (\<lambda>_. None), Metrics = [], AmPeer = ()\<rparr>"

lemma demo_kinit_law: "kinit_law demo_auth_env"
proof -
  have drop11: "drop 11 (''KRB5CCNAME='' @ c) = c" for c :: string by simp
  have "\<exists>es. filter (\<lambda>s. HasPrefix s ''KRB5CCNAME='') (ModifiedEnviron env ''KRB5CCNAME'' c) = (''KRB5CCNAME='' @ c) # es" for env c
    using ModifiedEnviron_spec [of "''KRB5CCNAME''" c env]
    by (cases "filter (\<lambda>s. HasPrefix s ''KRB5CCNAME='') (ModifiedEnviron env ''KRB5CCNAME'' c)") (auto simp: env_entry_def)
  then have run: "demo_kinit args (ModifiedEnviron env ''KRB5CCNAME'' c) fs = (None, fs(c \<mapsto> File ''tickets'' 384 0))" for args env c fs
    by (metis (no_types, lifting) demo_kinit_def drop11 list.case(2))
  have "exec_with_Env demo_auth_env = demo_kinit" by (simp add: demo_auth_env_def)
  then show ?thesis unfolding kinit_law_def by (simp add: run)
qed


lemma demo_auth_fetch:
  "fst (GetPubkey demo_auth_net demo_auth_ks SSHHostAuthority p) = Ok ''conf''"
  "fst (GetStatic demo_auth_net demo_auth_ks ClusterConfStatic p) = Ok ''conf''"
  by (simp_all add: GetPubkey_def GetStatic_def endpoint_Get_def endpoint_Request_def demo_auth_net_def SSHHostAuthority_def ClusterConfStatic_def)

theorem auth_monitor_reports_witness:
  "\<exists>v. auth_cycle demo_Lib demo_auth_net demo_auth_ks demo_auth_env demo_auth = (Ok (), v) \<and>
     gauge v ''keyCheck'' [] = Some 1 \<and> gauge v ''fetchCheck'' [] = Some 1"
proof -
  let ?k = "after_key demo_auth_net demo_auth_ks demo_auth"
  have "ancestors ClusterConfigPath = [''/etc'', ''/etc/homeworld'', ''/etc/homeworld/keyserver'', ''/etc/homeworld/keyserver/static'']"
    by code_simp
  then have "lookup (FS demo_auth) ClusterConfigPath = Inr (File ''conf'' 420 0)"
    by (simp add: lookup_def demo_auth_def) (simp add: ClusterConfigPath_def)
  then have "fst (ReadFile ClusterConfigPath ?k) = Ok ''conf''"
    by (simp add: ReadFile_def syscall_def after_key_def set_gauge_def emit_def with_am_peer_def demo_auth_def split: prod.splits)
  then have fetched: "static_matches demo_auth_net demo_auth_ks ?k"
    by (simp add: static_matches_def demo_auth_fetch)
  have yaml: "\<forall>c raw. setup_Unmarshal demo_auth_env c = Inr raw \<longrightarrow> None \<notin> set (RawNodes raw)"
    by (simp add: demo_auth_env_def)
  have dial: "\<forall>addr cfg p c p'. ssh_Dial demo_auth_env ''tcp'' addr cfg p = (Inr c, p') \<longrightarrow>
      (\<exists>auth. (\<lambda>_ _. Some demo_host_ca) addr p = Some auth \<and> IsHostAuthority cfg auth addr)"
    by (simp add: demo_auth_env_def split: if_splits)
  from auth_monitor_reports [OF yaml dial, of demo_Lib demo_auth_net demo_auth_ks demo_auth] show ?thesis
    unfolding demo_auth_fetch(1) result.case by (auto simp: fetched)
qed

end
