(* ===== verification/Monitor_Pauses.thy ===== *)
theory Monitor_Pauses
  imports Flannel_Checks Flannel_Reflector Dns_Monitor Auth_Checks
begin

text \<open>The pauses between the cycles of the flannel monitor, its collector, the DNS monitor and the authentication monitor, from the lemmas of the locale \<open>monitor\<close>.\<close>

definition flannel_loop :: "string \<Rightarrow> string \<Rightarrow> (nat \<Rightarrow> MonEnv) \<Rightarrow> nat \<Rightarrow> 'a MonWorld_scheme \<Rightarrow> 'a MonWorld_scheme" where
  "flannel_loop namespace source_hostip env = loop_rounds (\<lambda>i. monitor_cycle namespace source_hostip (env i))"

definition collector_loop :: "'f TextParser \<Rightarrow> string \<Rightarrow> (nat \<Rightarrow> MonEnv) \<Rightarrow> nat \<Rightarrow> ('f, 'a) Collector_scheme \<Rightarrow> ('f, 'a) Collector_scheme" where
  "collector_loop parser namespace env = loop_rounds (\<lambda>i. collector_cycle parser namespace (env i))"

definition dns_loop :: "(string \<times> IP) list \<Rightarrow> (nat \<Rightarrow> DnsEnv) \<Rightarrow> nat \<Rightarrow> 'a MonWorld_scheme \<Rightarrow> 'a MonWorld_scheme" where
  "dns_loop expectations env = loop_rounds (\<lambda>i. dns_cycle expectations (env i))"

text \<open>As long as no cycle of the authentication monitor panics, its rounds are those of the common loop.\<close>

lemma auth_monitor_loop_rounds:
  "auth_monitor_loop L net ks env n w = (Ok (), w') \<Longrightarrow> w' = loop_rounds (\<lambda>i w. snd (auth_cycle L net ks (env i) w)) n w"
proof (induction n arbitrary: w')
  case (Suc n)
  then obtain u v where "auth_monitor_loop L net ks env n w = (Ok (), u)" "auth_cycle L net ks (env n) (snd (time_Now u)) = (Ok (), v)"
    "w' = snd (time_Now v)" by (auto simp: and_thenS_Ok_iff)
  with Suc.IH show ?case by (simp add: loop_round_def Let_def time_Now_def)
qed simp

text \<open>
  C28: with a clock that does not go back, the flannel monitor, its collector, the DNS monitor and the authentication monitor pause between one
  and fifteen seconds after every cycle, however long the cycle took and whatever the cluster answered, so they neither spin nor skip a
  period.
\<close>

theorem monitors_pause:
  assumes "mono (Clock w)" and "mono (Clock u)" and "mono (Clock v)" and "mono (Clock x)"
  shows "fst (loop_round (monitor_cycle ns src (env n)) (flannel_loop ns src env n w)) \<in> {time_Second .. 15 * time_Second} \<and>
    fst (loop_round (collector_cycle parser ns (env n)) (collector_loop parser ns env n u)) \<in> {time_Second .. 15 * time_Second} \<and>
    fst (loop_round (dns_cycle exps (denv n)) (dns_loop exps denv n v)) \<in> {time_Second .. 15 * time_Second} \<and>
    (\<forall>x'. auth_monitor_loop L net ks aenv n x = (Ok (), x') \<longrightarrow>
       fst (loop_round (\<lambda>w. snd (auth_cycle L net ks (aenv n) w)) x') \<in> {time_Second .. 15 * time_Second})"
proof -
  have "fst (loop_round (\<lambda>w. snd (auth_cycle L net ks (aenv n) w)) x') \<in> {time_Second .. 15 * time_Second}"
    if "auth_monitor_loop L net ks aenv n x = (Ok (), x')" for x'
    using auth.every_pause [OF assms(4), of L net ks aenv n] auth_monitor_loop_rounds [OF that] by simp
  moreover note flannel.every_pause [OF assms(1), of ns src env n] collector.every_pause [OF assms(2), of parser ns env n]
    dns.every_pause [OF assms(3), of exps denv n]
  ultimately show ?thesis unfolding flannel_loop_def collector_loop_def dns_loop_def by blast
qed

theorem monitors_pause_witness:
  "fst (loop_round (monitor_cycle ''ns'' ''10.0.0.1'' demo_env) (flannel_loop ''ns'' ''10.0.0.1'' (\<lambda>_. demo_env) 3 demo_mon)) \<in> {time_Second .. 15 * time_Second} \<and>
   fst (loop_round (\<lambda>w. snd (auth_cycle demo_Lib demo_auth_net demo_auth_ks demo_auth_env w)) demo_auth) \<in> {time_Second .. 15 * time_Second}"
proof -
  have m: "mono (Clock demo_mon)" and a: "mono (Clock demo_auth)" by (simp_all add: demo_mon_def demo_auth_def mono_def)
  from monitors_pause [OF m m m a, of "''ns''" "''10.0.0.1''" "\<lambda>_. demo_env" 3]
  have "fst (loop_round (monitor_cycle ''ns'' ''10.0.0.1'' demo_env) (flannel_loop ''ns'' ''10.0.0.1'' (\<lambda>_. demo_env) 3 demo_mon)) \<in> {time_Second .. 15 * time_Second}"
    by blast
  moreover have "auth_monitor_loop demo_Lib demo_auth_net demo_auth_ks (\<lambda>_. demo_auth_env) 0 demo_auth = (Ok (), demo_auth)" by simp
  then have "fst (loop_round (\<lambda>w. snd (auth_cycle demo_Lib demo_auth_net demo_auth_ks demo_auth_env w)) demo_auth) \<in> {time_Second .. 15 * time_Second}"
    using monitors_pause [OF m m m a, of "''ns''" "''10.0.0.1''" "\<lambda>_. demo_env" 0] by blast
  ultimately show ?thesis by blast
qed

end
