(* ===== verification/Pull_Monitor.thy ===== *)
theory Pull_Monitor
  imports Monitor_Lib
begin

text \<open>
  \<open>pull-monitor/\<close>: the functions of \<open>interact.go\<close> that pull an image and run a container with the tool \<open>crictl\<close>,
  and the cycle of \<open>pull-monitor.go\<close>. The names of temporary files, the JSON encoders, the decoder
  of an inspection and the pseudo-random number are parameters. The content of an error of \<open>go-multierror\<close>, which is
  never nil where the code makes one, is not modelled. The loop that waits for a container may run forever, so
  whatever calls it has an option as its result.
\<close>

section \<open>Commands and configurations\<close>

record PullWorld = MonWorld +
  Outputs :: "nat \<Rightarrow> string"

text \<open>\<open>cmd.Output()\<close>: as \<open>Run\<close>, with what the command writes to its standard output.\<close>

definition cmd_Output :: "string list \<Rightarrow> ('a PullWorld_scheme, string) action" where
  "cmd_Output args w = and_thenS (cmd_Run args w) (\<lambda>_ w'. (Ok (Outputs w (length (Ran w))), w'))"

record PodSandboxMetadata =
  smName :: string
  smUid :: string
  smNamespace :: string
  smAttempt :: "32 word"

record PodSandboxConfig =
  podMetadata :: PodSandboxMetadata
  LogDirectory :: string

record ContainerMetadata =
  cmName :: string

record ImageSpec =
  isImage :: string

record ContainerConfig =
  ccMetadata :: ContainerMetadata
  ccImage :: ImageSpec
  Command :: "string list"
  Args :: "string list"
  LogPath :: string

record PullEnv =
  temp_name :: "(string \<rightharpoonup> fnode) \<Rightarrow> string \<Rightarrow> string"
  encode_pod :: "PodSandboxConfig \<Rightarrow> string"
  encode_container :: "ContainerConfig \<Rightarrow> string"
  inspection_State :: "string \<Rightarrow> error + string option"
  rand_Uint64 :: "64 word"

definition multierror :: error where "multierror = LibError ''multierror''"

section \<open>interact.go\<close>

definition doesImageExist :: "string \<Rightarrow> 'a ProcWorld_scheme \<Rightarrow> bool \<times> 'a ProcWorld_scheme" where
  "doesImageExist img w = (case cmd_Run [''crictl'', ''inspecti'', img] w of (r, w) \<Rightarrow> (is_ok r, w))"

definition deleteImage :: "string \<Rightarrow> ('a ProcWorld_scheme, unit) action" where
  "deleteImage img w = cmd_Run [''crictl'', ''rmi'', img] w"

definition pullImage :: "string \<Rightarrow> ('a ProcWorld_scheme, unit) action" where
  "pullImage img w = cmd_Run [''crictl'', ''pull'', img] w"

definition refetch :: "string \<Rightarrow> ('a ProcWorld_scheme, int) action" where
  "refetch img w =
     (case doesImageExist img w of (found, w) \<Rightarrow>
      case (if found then deleteImage img w else (Ok (), w)) of (r, w) \<Rightarrow>
      and_thenS (wrap_err ''failed to remove previous image'' r, w) (\<lambda>_ w.
      case time_Now w of (time_start, w) \<Rightarrow>
      case pullImage img w of (r, w) \<Rightarrow>
      case time_Now w of (time_end, w) \<Rightarrow>
      and_thenS (wrap_err ''failed to fetch new image'' r, w) (\<lambda>_ w.
      case doesImageExist img w of (found, w) \<Rightarrow>
        if \<not> found then (Err (ErrorNew ''pulled image, yet it does not exist''), w)
        else (Ok (time_end - time_start), w))))"

definition hex_byte :: "nat \<Rightarrow> string" where
  "hex_byte b = [''0123456789abcdef'' ! (b div 16), ''0123456789abcdef'' ! (b mod 16)]"

definition generateUID :: "('a World_scheme, string) action" where
  "generateUID w = and_thenS (rand_Read 16 w) (\<lambda>randomID w. (Ok (concat (map hex_byte randomID)), w))"

definition createJSONTempfile :: "PullEnv \<Rightarrow> string \<Rightarrow> ('a FsWorld_scheme, string) action" where
  "createJSONTempfile e contents w =
     (case TempFile (temp_name e) ''pullcheck-manifest-'' w of (r, w) \<Rightarrow>
      and_thenS (wrap_err ''creating tempfile'' r, w) (\<lambda>path w.
      case write_open path 0x180 contents w of
        (Ok _, w) \<Rightarrow> (case file_Close w of (Ok _, w) \<Rightarrow> (Ok path, w) | (_, w) \<Rightarrow> (Err multierror, w))
      | (_, w) \<Rightarrow>
          (case os_Remove path w of (_, w) \<Rightarrow>
           case file_Close w of (Ok _, w) \<Rightarrow> (Err (Wrap multierror ''writing JSON''), w) | (_, w) \<Rightarrow> (Err multierror, w))))"

definition startPodSandbox :: "PullEnv \<Rightarrow> ('a PullWorld_scheme, string \<times> string) action" where
  "startPodSandbox e w =
     (case generateUID w of (r, w) \<Rightarrow>
      and_thenS (wrap_err ''generating UID'' r, w) (\<lambda>uid w.
      let config = \<lparr>podMetadata = \<lparr>smName = ''pullcheck-sandbox'', smUid = ''pullcheck-'' @ uid, smNamespace = ''pullcheck'', smAttempt = 1\<rparr>,
            LogDirectory = ''/tmp/pullcheck-logs/'' @ uid @ ''/''\<rparr> in
      case createJSONTempfile e (encode_pod e config) w of (r, w) \<Rightarrow>
      and_thenS (wrap_err ''creating pod config'' r, w) (\<lambda>configpath w.
      case cmd_Output [''crictl'', ''runp'', configpath] w of
        (Ok result, w) \<Rightarrow>
          let idstr = TrimSpace result in
          if length idstr \<noteq> 64 then
            (case os_Remove configpath w of (_, w) \<Rightarrow>
              (Err (Errorf ''not a valid ID; not 64 characters long: %s'' [idstr]), w))
          else (Ok (idstr, configpath), w)
      | (_, w) \<Rightarrow> (case os_Remove configpath w of (_, w) \<Rightarrow> (Err (Wrap multierror ''invoking runp''), w)))))"

definition deletePodSandbox :: "string \<Rightarrow> ('a PullWorld_scheme, unit) action" where
  "deletePodSandbox podid w =
     and_thenS (cmd_Output [''crictl'', ''stopp'', podid] w) (\<lambda>_ w.
     and_thenS (cmd_Output [''crictl'', ''rmp'', podid] w) (\<lambda>_ w. (Ok (), w)))"

definition createContainer :: "PullEnv \<Rightarrow> string \<Rightarrow> string \<Rightarrow> string \<Rightarrow> string list \<Rightarrow> ('a PullWorld_scheme, string) action" where
  "createContainer e img podconfigpath podid args w =
     (let config = \<lparr>ccMetadata = \<lparr>cmName = ''pullcheck''\<rparr>, ccImage = \<lparr>isImage = img\<rparr>, Command = args, Args = [],
            LogPath = ''container.log''\<rparr> in
      case createJSONTempfile e (encode_container e config) w of (r, w) \<Rightarrow>
      and_thenS (wrap_err ''creating container config'' r, w) (\<lambda>configpath w.
      case cmd_Output [''crictl'', ''create'', podid, configpath, podconfigpath] w of (out, w) \<Rightarrow>
      let r = and_then (wrap_err ''invoking create'' out) (\<lambda>result.
            let idstr = TrimSpace result in
            if length idstr \<noteq> 64 then Err (Errorf ''not a valid ID; not 64 characters long: %s'' [idstr]) else Ok idstr) in
      case os_Remove configpath w of (Ok _, w) \<Rightarrow> (r, w) | (_, w) \<Rightarrow> (Err multierror, w)))"

definition startContainer :: "string \<Rightarrow> ('a PullWorld_scheme, unit) action" where
  "startContainer containerid w = and_thenS (cmd_Output [''crictl'', ''start'', containerid] w) (\<lambda>_ w. (Ok (), w))"

definition isContainerRunning :: "PullEnv \<Rightarrow> string \<Rightarrow> ('a PullWorld_scheme, bool) action" where
  "isContainerRunning e containerid w =
     (case cmd_Output [''crictl'', ''inspect'', containerid] w of (r, w) \<Rightarrow>
       (and_then (wrap_err ''inspecting container'' r) (\<lambda>result.
        and_then (wrap_err ''reading inspection response'' (lift (inspection_State e result))) (\<lambda>status.
          case status of
            None \<Rightarrow> Panic ''nil pointer dereference''
          | Some state \<Rightarrow>
              if state = ''CONTAINER_RUNNING'' then Ok True
              else if state = ''CONTAINER_EXITED'' then Ok False
              else Err (Errorf (''unknown state: '%s'' @ [CHR 0x27]) [state]))), w))"

definition getContainerLogs :: "string \<Rightarrow> ('a PullWorld_scheme, string) action" where
  "getContainerLogs containerid w = cmd_Output [''crictl'', ''logs'', containerid] w"

partial_function (option) wait_exit :: "PullEnv \<Rightarrow> string \<Rightarrow> 'a PullWorld_scheme \<Rightarrow> (unit result \<times> 'a PullWorld_scheme) option" where
  "wait_exit e containerid w =
     (case isContainerRunning e containerid w of
        (Ok running, w) \<Rightarrow> if running then wait_exit e containerid w else Some (Ok (), w)
      | (Err err, w) \<Rightarrow> Some (Err (Wrap err ''monitoring container''), w)
      | (Panic p, w) \<Rightarrow> Some (Panic p, w))"

definition runContainer :: "PullEnv \<Rightarrow> string \<Rightarrow> string \<Rightarrow> string \<Rightarrow> string list \<Rightarrow> 'a PullWorld_scheme \<Rightarrow>
    (string result \<times> 'a PullWorld_scheme) option" where
  "runContainer e img podconfigpath podid args w =
     (case createContainer e img podconfigpath podid args w of
        (Ok containerid, w) \<Rightarrow>
          (case startContainer containerid w of
             (Ok _, w) \<Rightarrow>
               (case wait_exit e containerid w of
                  None \<Rightarrow> None
                | Some (Ok _, w) \<Rightarrow> Some (case getContainerLogs containerid w of (r, w) \<Rightarrow> (wrap_err ''read logs from container'' r, w))
                | Some (Err err, w) \<Rightarrow> Some (Err err, w)
                | Some (Panic p, w) \<Rightarrow> Some (Panic p, w))
           | (Err err, w) \<Rightarrow> Some (Err (Wrap err ''starting container''), w)
           | (Panic p, w) \<Rightarrow> Some (Panic p, w))
      | (Err err, w) \<Rightarrow> Some (Err (Wrap err ''creating container''), w)
      | (Panic p, w) \<Rightarrow> Some (Panic p, w))"

text \<open>
  \<open>runPod\<close>: the removal of the configuration file is deferred, so it also runs when a panic passes; the deletion of the
  sandbox is not.
\<close>

definition runPod :: "PullEnv \<Rightarrow> string \<Rightarrow> string list \<Rightarrow> 'a PullWorld_scheme \<Rightarrow> (string result \<times> 'a PullWorld_scheme) option" where
  "runPod e img args w =
     (case startPodSandbox e w of
        (Err err, w) \<Rightarrow> Some (Err (Wrap err ''starting pod sandbox''), w)
      | (Panic p, w) \<Rightarrow> Some (Panic p, w)
      | (Ok (podid, podconfig), w) \<Rightarrow>
          (case runContainer e img podconfig podid args w of
             None \<Rightarrow> None
           | Some (Panic p, w) \<Rightarrow> (case os_Remove podconfig w of (_, w) \<Rightarrow> Some (Panic p, w))
           | Some (r, w) \<Rightarrow>
               (case deletePodSandbox podid w of (d, w) \<Rightarrow>
                let r = (if is_ok d then wrap_err ''running container'' r else Err multierror) in
                case os_Remove podconfig w of
                  (Ok _, w) \<Rightarrow> Some (r, w)
                | (_, w) \<Rightarrow> Some (Err multierror, w))))"

definition echo_data :: "PullEnv \<Rightarrow> string" where
  "echo_data e = ''!'' @ dec (unat (rand_Uint64 e)) @ ''!''"

definition attemptEcho :: "PullEnv \<Rightarrow> string \<Rightarrow> 'a PullWorld_scheme \<Rightarrow> (int result \<times> 'a PullWorld_scheme) option" where
  "attemptEcho e img w =
     (case time_Now w of (time_start, w) \<Rightarrow>
      case runPod e img [''/usr/bin/pullcheck'', echo_data e] w of
        None \<Rightarrow> None
      | Some (r, w) \<Rightarrow>
          (case time_Now w of (time_end, w) \<Rightarrow>
            Some (and_then (wrap_err ''failed to exec new image'' r) (\<lambda>output.
              if Trim output (CHR 0x0A) \<noteq> ''hello container world ['' @ echo_data e @ '']''
              then Err (Errorf (''mismatched output from container: '%s' instead of '%s'' @ [CHR 0x27]) [output, echo_data e])
              else Ok (time_end - time_start)), w)))"

section \<open>pull-monitor.go\<close>

definition pull_cycle :: "PullEnv \<Rightarrow> string \<Rightarrow> 'a PullWorld_scheme \<Rightarrow> (unit result \<times> 'a PullWorld_scheme) option" where
  "pull_cycle e img w =
     (let w = emit (With ''execTiming'' [img]) (emit (With ''execCheck'' [img])
            (emit (With ''ociTiming'' [img]) (emit (With ''ociCheck'' [img]) w))) in
      case refetch img w of
        (Ok time_taken, w) \<Rightarrow>
          let w = emit (Observe ''ociTiming'' [img] time_taken) (emit (SetTo ''ociCheck'' [img] 1) w) in
          (case attemptEcho e img w of
             None \<Rightarrow> None
           | Some (Ok time_taken_for_exec, w) \<Rightarrow>
               Some (Ok (), emit (Observe ''execTiming'' [img] time_taken_for_exec) (emit (SetTo ''execCheck'' [img] 1) w))
           | Some (Err err, w) \<Rightarrow> Some (Ok (), emit (SetTo ''execCheck'' [img] 0) w)
           | Some (Panic p, w) \<Rightarrow> Some (Panic p, w))
      | (Err err, w) \<Rightarrow> Some (Ok (), emit (SetTo ''execCheck'' [img] 0) (emit (SetTo ''ociCheck'' [img] 0) w))
      | (Panic p, w) \<Rightarrow> Some (Panic p, w))"

text \<open>The loop up to the next pause: a panic ends the process, and a container that never stops ends all rounds.\<close>

fun pull_loop :: "(nat \<Rightarrow> PullEnv) \<Rightarrow> string \<Rightarrow> nat \<Rightarrow> 'a PullWorld_scheme \<Rightarrow> (unit result \<times> 'a PullWorld_scheme) option" where
  "pull_loop env img 0 w = Some (Ok (), w)"
| "pull_loop env img (Suc n) w =
     (case pull_loop env img n w of
        Some (Ok _, w) \<Rightarrow>
          (case pull_cycle (env n) img (snd (time_Now w)) of
             Some (Ok _, w) \<Rightarrow> Some (Ok (), snd (time_Now w))
           | r \<Rightarrow> r)
      | r \<Rightarrow> r)"

end
