(* ===== verification/Pull_Checks.thy ===== *)
theory Pull_Checks
  imports Pull_Monitor
begin

text \<open>
  Results on the pull monitor: when the wait for a container ends, and that running a pod leaves no file behind and
  deletes the sandbox.
\<close>

section \<open>Waiting for a container\<close>

abbreviation inspect_cmd :: "string \<Rightarrow> string list" where
  "inspect_cmd containerid \<equiv> [''crictl'', ''inspect'', containerid]"

text \<open>What the \<open>k\<close>-th inspection of a container says, if nothing else runs in between.\<close>

definition inspect_at :: "PullEnv \<Rightarrow> string \<Rightarrow> 'a PullWorld_scheme \<Rightarrow> nat \<Rightarrow> bool result" where
  "inspect_at e containerid w k = fst (isContainerRunning e containerid (w\<lparr>Ran := Ran w @ replicate k (inspect_cmd containerid)\<rparr>))"

lemma isContainerRunning_world: "snd (isContainerRunning e c w) = w\<lparr>Ran := Ran w @ [inspect_cmd c]\<rparr>"
  by (cases "Exits w (length (Ran w))") (simp_all add: isContainerRunning_def cmd_Output_def cmd_Run_def)

lemma inspect_at_Suc: "inspect_at e c (w\<lparr>Ran := Ran w @ [inspect_cmd c]\<rparr>) k = inspect_at e c w (Suc k)"
  by (simp add: inspect_at_def)

lemma wait_exit_step:
  "wait_exit e c w = (case inspect_at e c w 0 of
     Ok running \<Rightarrow> if running then wait_exit e c (w\<lparr>Ran := Ran w @ [inspect_cmd c]\<rparr>) else Some (Ok (), w\<lparr>Ran := Ran w @ [inspect_cmd c]\<rparr>)
   | Err err \<Rightarrow> Some (Err (Wrap err ''monitoring container''), w\<lparr>Ran := Ran w @ [inspect_cmd c]\<rparr>)
   | Panic p \<Rightarrow> Some (Panic p, w\<lparr>Ran := Ran w @ [inspect_cmd c]\<rparr>))"
proof -
  obtain r w' where "isContainerRunning e c w = (r, w')" by fastforce
  moreover from this have "w' = w\<lparr>Ran := Ran w @ [inspect_cmd c]\<rparr>" "inspect_at e c w 0 = r"
    using isContainerRunning_world [of e c w] by (simp_all add: inspect_at_def)
  ultimately show ?thesis by (subst wait_exit.simps) simp
qed

lemma wait_exit_returns:
  assumes "inspect_at e c w k \<noteq> Ok True"
  shows "\<exists>r. wait_exit e c w = Some r"
  using assms
proof (induction k arbitrary: w)
  case 0
  then show ?case by (subst wait_exit_step) (auto split: result.split)
next
  case (Suc k)
  from Suc.IH [of "w\<lparr>Ran := Ran w @ [inspect_cmd c]\<rparr>"] Suc.prems
  have "\<exists>r. wait_exit e c (w\<lparr>Ran := Ran w @ [inspect_cmd c]\<rparr>) = Some r" by (simp add: inspect_at_Suc)
  then show ?case by (subst wait_exit_step) (auto split: result.split)
qed

text \<open>The wait ended with the \<open>k\<close>-th inspection.\<close>

definition waited :: "PullEnv \<Rightarrow> string \<Rightarrow> 'a PullWorld_scheme \<Rightarrow> nat \<Rightarrow> unit result \<Rightarrow> 'a PullWorld_scheme \<Rightarrow> bool" where
  "waited e c w k r w' \<longleftrightarrow> (\<forall>i<k. inspect_at e c w i = Ok True) \<and> inspect_at e c w k \<noteq> Ok True \<and>
     w' = w\<lparr>Ran := Ran w @ replicate (Suc k) (inspect_cmd c)\<rparr> \<and> (is_ok r \<longleftrightarrow> inspect_at e c w k = Ok False)"

lemma waited_Suc:
  assumes "waited e c (w\<lparr>Ran := Ran w @ [inspect_cmd c]\<rparr>) k r w'" and "inspect_at e c w 0 = Ok True"
  shows "waited e c w (Suc k) r w'"
proof -
  have "inspect_at e c w i = Ok True" if "i < Suc k" for i
    using that assms by (cases i) (simp_all add: inspect_at_Suc waited_def)
  with assms show ?thesis by (simp add: waited_def inspect_at_Suc)
qed

lemma wait_exit_result:
  assumes "wait_exit e c w = Some y"
  shows "\<exists>k. waited e c w k (fst y) (snd y)"
proof (rule wait_exit.raw_induct [OF _ assms, where P = "\<lambda>e c w y. \<exists>k. waited e c w k (fst y) (snd y)"])
  fix f :: "PullEnv \<Rightarrow> string \<Rightarrow> 'a PullWorld_scheme \<Rightarrow> (unit result \<times> 'a PullWorld_scheme) option" and e c w y
  assume IH: "\<And>e c w y. f e c w = Some y \<Longrightarrow> \<exists>k. waited e c w k (fst y) (snd y)"
    and body: "(case isContainerRunning e c w of
        (Ok running, w) \<Rightarrow> if running then f e c w else Some (Ok (), w)
      | (Err err, w) \<Rightarrow> Some (Err (Wrap err ''monitoring container''), w)
      | (Panic p, w) \<Rightarrow> Some (Panic p, w)) = Some y"
  let ?w = "w\<lparr>Ran := Ran w @ [inspect_cmd c]\<rparr>"
  obtain x v where "isContainerRunning e c w = (x, v)" by fastforce
  moreover from this have "v = ?w" and at: "inspect_at e c w 0 = x"
    using isContainerRunning_world [of e c w] by (simp_all add: inspect_at_def)
  ultimately have run: "isContainerRunning e c w = (x, ?w)" by simp
  show "\<exists>k. waited e c w k (fst y) (snd y)"
  proof (cases "x = Ok True")
    case True
    with body run have "f e c ?w = Some y" by simp
    from IH [OF this] obtain k where "waited e c ?w k (fst y) (snd y)" by blast
    from waited_Suc [OF this] at True show ?thesis by blast
  next
    case False
    with body run at have "waited e c w 0 (fst y) (snd y)" by (auto simp: waited_def split: result.splits if_splits)
    then show ?thesis by blast
  qed
qed

text \<open>
  C18: the monitor waits for a container in a loop that has no limit. It returns if and only if at some point an
  inspection says something else than that the container is running; then it has inspected the container until
  the first such answer, and nothing more. If the container never stops, the monitor waits forever.
\<close>

theorem wait_exit_terminates:
  "((\<exists>r. wait_exit e c w = Some r) \<longleftrightarrow> (\<exists>k. inspect_at e c w k \<noteq> Ok True)) \<and>
   (\<forall>r w'. wait_exit e c w = Some (r, w') \<longrightarrow> (\<exists>k. waited e c w k r w'))"
proof -
  have "\<exists>k. inspect_at e c w k \<noteq> Ok True" if "wait_exit e c w = Some r" for r
    using wait_exit_result [OF that] by (auto simp: waited_def)
  with wait_exit_returns [of e c w] wait_exit_result [of e c w] show ?thesis by fastforce
qed

theorem wait_exit_terminates_witness:
  "\<exists>w'. wait_exit \<lparr>temp_name = (\<lambda>_ p. p), encode_pod = (\<lambda>_. []), encode_container = (\<lambda>_. []),
       inspection_State = (\<lambda>s. Inr (Some s)), rand_Uint64 = 7\<rparr> ''c''
     \<lparr>Clock = int, Ticks = 0, Entropy = Some, Draws = 0, FS = Map.empty, Faults = (\<lambda>_. None), Syscalls = 0, Ran = [],
       Exits = (\<lambda>_. None), Metrics = [], Outputs = (\<lambda>n. if n < 2 then ''CONTAINER_RUNNING'' else ''CONTAINER_EXITED'')\<rparr> =
     Some (Ok (), w') \<and> length (Ran w') = 3"
proof -
  let ?e = "\<lparr>temp_name = (\<lambda>_ p. p), encode_pod = (\<lambda>_. []), encode_container = (\<lambda>_. []),
       inspection_State = (\<lambda>s. Inr (Some s)), rand_Uint64 = 7\<rparr>"
  let ?w = "\<lparr>Clock = int, Ticks = 0, Entropy = Some, Draws = 0, FS = Map.empty, Faults = (\<lambda>_. None), Syscalls = 0, Ran = [],
       Exits = (\<lambda>_. None), Metrics = [], Outputs = (\<lambda>n. if n < 2 then ''CONTAINER_RUNNING'' else ''CONTAINER_EXITED'')\<rparr> :: PullWorld"
  have at: "inspect_at ?e ''c'' ?w k = Ok (k < 2)" for k
    by (simp add: inspect_at_def isContainerRunning_def cmd_Output_def cmd_Run_def)
  then have "inspect_at ?e ''c'' ?w 2 \<noteq> Ok True" by simp
  with wait_exit_terminates [of ?e "''c''" ?w] obtain r w' where run: "wait_exit ?e ''c'' ?w = Some (r, w')" by auto
  with wait_exit_terminates [of ?e "''c''" ?w] obtain k where "waited ?e ''c'' ?w k r w'" by blast
  then have k: "\<forall>i<k. inspect_at ?e ''c'' ?w i = Ok True"
    "inspect_at ?e ''c'' ?w k \<noteq> Ok True" "w' = ?w\<lparr>Ran := Ran ?w @ replicate (Suc k) (inspect_cmd ''c'')\<rparr>"
    "is_ok r \<longleftrightarrow> inspect_at ?e ''c'' ?w k = Ok False" unfolding waited_def by simp_all
  from k(1,2) have "\<forall>i<k. i < 2" "\<not> k < 2" unfolding at by simp_all
  then have "k = 2" by (meson linorder_neqE_nat less_irrefl)
  with k(3,4) run show ?thesis by (auto simp: at is_ok_iff)
qed

section \<open>Cleaning up\<close>

text \<open>
  A temporary file is new and lies in the directory for temporary files, also while another file has been added there.
\<close>

definition temp_ok :: "PullEnv \<Rightarrow> (string \<rightharpoonup> fnode) \<Rightarrow> bool" where
  "temp_ok e fs \<longleftrightarrow> fs ''/tmp'' = Some Directory \<and>
     (\<forall>fs' p c m t. fs' = fs \<or> fs' = fs(p \<mapsto> File c m t) \<longrightarrow>
        fs' (temp_name e fs' ''pullcheck-manifest-'') = None \<and> ancestors (temp_name e fs' ''pullcheck-manifest-'') = [''/tmp''])"

text \<open>The world is as before, apart from the clock, the entropy, the counters and the commands.\<close>

definition quiet :: "'a PullWorld_scheme \<Rightarrow> 'a PullWorld_scheme \<Rightarrow> bool" where
  "quiet w w' \<longleftrightarrow> FS w' = FS w \<and> Faults w' = Faults w \<and> Outputs w' = Outputs w"

lemma quiet_refl [simp]: "quiet w w" by (simp add: quiet_def)

lemma quiet_trans: "quiet u v \<Longrightarrow> quiet v w \<Longrightarrow> quiet u w" by (simp add: quiet_def)

definition next_temp :: "PullEnv \<Rightarrow> 'a PullWorld_scheme \<Rightarrow> string" where
  "next_temp e w = temp_name e (FS w) ''pullcheck-manifest-''"

definition temp_free :: "PullEnv \<Rightarrow> 'a PullWorld_scheme \<Rightarrow> bool" where
  "temp_free e w \<longleftrightarrow> no_faults w \<and> FS w (next_temp e w) = None \<and> ancestors (next_temp e w) = [''/tmp''] \<and> FS w ''/tmp'' = Some Directory"

lemma temp_free_quiet: "quiet w w' \<Longrightarrow> temp_free e w \<Longrightarrow> temp_free e w'"
  by (simp add: quiet_def temp_free_def next_temp_def no_faults_def)

text \<open>The world after a temporary file was made.\<close>

definition with_temp :: "PullEnv \<Rightarrow> 'a PullWorld_scheme \<Rightarrow> 'a PullWorld_scheme \<Rightarrow> bool" where
  "with_temp e w w' \<longleftrightarrow> (\<exists>c t. FS w' = (FS w)(next_temp e w \<mapsto> File c 0x180 t)) \<and> Faults w' = Faults w \<and> Outputs w' = Outputs w"

lemma with_temp_quiet: "with_temp e w v \<Longrightarrow> quiet v v' \<Longrightarrow> with_temp e w v'"
  by (simp add: with_temp_def quiet_def)

lemma createJSONTempfile_Ok:
  assumes "temp_free e w"
  obtains v where "createJSONTempfile e c w = (Ok (next_temp e w), v)" "with_temp e w v" "Ran v = Ran w"
  using assms
  by (auto simp: createJSONTempfile_def TempFile_def syscall_def temp_free_def no_faults_def time_Now_def write_open_def file_Close_def
      Let_def with_temp_def next_temp_def)

lemma os_Remove_temp:
  assumes "temp_free e w" and "with_temp e w v"
  obtains v' where "os_Remove (next_temp e w) v = (Ok (), v')" "quiet w v'" "Ran v' = Ran v"
proof -
  obtain c t where fs: "FS v = (FS w)(next_temp e w \<mapsto> File c 0x180 t)" and f: "Faults v = Faults w" "Outputs v = Outputs w"
    using assms(2) by (auto simp: with_temp_def)
  have "next_temp e w \<noteq> ''/tmp''" using assms(1) by (auto simp: temp_free_def)
  then have "lookup (FS v) (next_temp e w) = Inr (File c 0x180 t)" using assms(1) by (simp add: lookup_def fs temp_free_def)
  with assms(1) fs f show thesis
    by (intro that [of "v\<lparr>Syscalls := Suc (Syscalls v), FS := (FS v)(next_temp e w := None)\<rparr>"])
      (auto simp: os_Remove_def syscall_def temp_free_def no_faults_def quiet_def)
qed

lemma cmd_Output_quiet [simp]: "quiet w (snd (cmd_Output args w))"
  by (cases "Exits w (length (Ran w))") (simp_all add: cmd_Output_def cmd_Run_def quiet_def)

lemma and_thenS_quiet: "quiet w (snd rs) \<Longrightarrow> (\<And>x v. rs = (Ok x, v) \<Longrightarrow> quiet v (snd (k x v))) \<Longrightarrow> quiet w (snd (and_thenS rs k))"
  using quiet_trans by (cases rs; cases "fst rs") auto

lemma startContainer_quiet: "quiet w (snd (startContainer c w))"
  by (simp add: startContainer_def and_thenS_quiet)

lemma deletePodSandbox_quiet: "quiet w (snd (deletePodSandbox c w))"
  by (simp add: deletePodSandbox_def and_thenS_quiet)

lemma createContainer_quiet:
  assumes "temp_free e w"
  shows "quiet w (snd (createContainer e img pc podid args w))"
proof -
  let ?c = "encode_container e \<lparr>ccMetadata = \<lparr>cmName = ''pullcheck''\<rparr>, ccImage = \<lparr>isImage = img\<rparr>, Command = args, Args = [],
            LogPath = ''container.log''\<rparr>"
  obtain v where v: "createJSONTempfile e ?c w = (Ok (next_temp e w), v)" "with_temp e w v"
    using createJSONTempfile_Ok [OF assms] by blast
  obtain out v2 where out: "cmd_Output [''crictl'', ''create'', podid, next_temp e w, pc] v = (out, v2)" by fastforce
  then have "with_temp e w v2" using with_temp_quiet [OF v(2)] cmd_Output_quiet [of v] by (metis snd_conv)
  then obtain v3 where "os_Remove (next_temp e w) v2 = (Ok (), v3)" "quiet w v3" using os_Remove_temp [OF assms] by blast
  then show ?thesis using v(1) out by (simp add: createContainer_def Let_def)
qed

lemma runContainer_quiet:
  assumes "temp_free e w" and "runContainer e img pc podid args w = Some (r, w')"
  shows "quiet w w'"
proof -
  obtain r1 w1 where c: "createContainer e img pc podid args w = (r1, w1)" by fastforce
  then have q1: "quiet w w1" using createContainer_quiet [OF assms(1)] by (metis snd_conv)
  show ?thesis
  proof (cases r1)
    case (Ok id)
    obtain r2 w2 where st: "startContainer id w1 = (r2, w2)" by fastforce
    then have q2: "quiet w w2" using quiet_trans [OF q1] startContainer_quiet [of w1] by (metis snd_conv)
    show ?thesis
    proof (cases r2)
      case ok2: (Ok u)
      obtain r3 w3 where wt: "wait_exit e id w2 = Some (r3, w3)" using assms(2) c Ok st ok2 by (auto simp: runContainer_def split: option.splits)
      then have "quiet w2 w3" using wait_exit_result [OF wt] by (auto simp: waited_def quiet_def)
      with q2 have q3: "quiet w w3" by (rule quiet_trans)
      obtain r4 w4 where lg: "getContainerLogs id w3 = (r4, w4)" by fastforce
      then have "quiet w w4" using quiet_trans [OF q3] cmd_Output_quiet [of w3] by (metis getContainerLogs_def snd_conv)
      with q3 assms(2) c Ok st ok2 wt lg show ?thesis by (cases r3) (auto simp: runContainer_def)
    qed (use assms(2) c Ok st q2 in \<open>auto simp: runContainer_def\<close>)
  qed (use assms(2) c q1 in \<open>auto simp: runContainer_def\<close>)
qed

lemma generateUID_quiet:
  assumes "generateUID w = (r, v)"
  shows "quiet w v \<and> Ran v = Ran w \<and> next_temp e v = next_temp e w \<and> \<not> is_panic r"
  using assms by (auto simp: generateUID_def rand_Read_def draw_def quiet_def next_temp_def split: option.splits)

lemma startPodSandbox_cases:
  assumes "temp_free e w" and "startPodSandbox e w = (r, w')"
  obtains (started) podid where "r = Ok (podid, next_temp e w)" "with_temp e w w'" "podid = TrimSpace (Outputs w (length (Ran w)))" "length podid = 64"
    | (failed) err where "r = Err err" "quiet w w'"
proof -
  obtain u v where u: "generateUID w = (u, v)" by fastforce
  note uid = generateUID_quiet [OF u]
  show thesis
  proof (cases u)
    case (Ok uid')
    let ?c = "encode_pod e \<lparr>podMetadata = \<lparr>smName = ''pullcheck-sandbox'', smUid = ''pullcheck-'' @ uid', smNamespace = ''pullcheck'', smAttempt = 1\<rparr>,
            LogDirectory = ''/tmp/pullcheck-logs/'' @ uid' @ ''/''\<rparr>"
    have free: "temp_free e v" using temp_free_quiet uid assms(1) by blast
    from createJSONTempfile_Ok [OF free, of ?c] obtain v1 where v1: "createJSONTempfile e ?c v = (Ok (next_temp e w), v1)" "with_temp e v v1" "Ran v1 = Ran w"
      using uid by metis
    obtain out v2 where out: "cmd_Output [''crictl'', ''runp'', next_temp e w] v1 = (out, v2)" by fastforce
    then have wt: "with_temp e v v2" using with_temp_quiet [OF v1(2)] cmd_Output_quiet [of v1] by (metis snd_conv)
    then obtain v3 where rm: "os_Remove (next_temp e w) v2 = (Ok (), v3)" "quiet v v3" using os_Remove_temp [OF free] uid by metis
    then have q: "quiet w v3" using uid quiet_trans by blast
    have o: "out = Ok result \<Longrightarrow> result = Outputs w (length (Ran w))" for result
      using out v1(2,3) uid by (auto simp: cmd_Output_def cmd_Run_def with_temp_def quiet_def split: option.splits)
    have wt': "with_temp e w v2" using wt uid by (simp add: with_temp_def quiet_def)
    show thesis
    proof (cases "\<exists>result. out = Ok result \<and> length (TrimSpace result) = 64")
      case True
      with o wt' assms(2) u Ok v1(1) out started show thesis by (auto simp: startPodSandbox_def)
    next
      case False
      with q assms(2) u Ok v1(1) out rm(1) failed show thesis
        by (cases out) (auto simp: startPodSandbox_def Let_def)
    qed
  next
    case (Err x)
    with u uid assms(2) failed show thesis by (auto simp: startPodSandbox_def)
  qed (use uid in simp)
qed

lemma temp_ok_free: "temp_ok e (FS w) \<Longrightarrow> no_faults w \<Longrightarrow> temp_free e w"
  unfolding temp_ok_def temp_free_def next_temp_def by blast

lemma temp_ok_with:
  assumes "temp_ok e (FS w)" and "no_faults w" and "with_temp e w v"
  shows "temp_free e v"
proof -
  from assms(3) obtain c t where fs: "FS v = (FS w)(next_temp e w \<mapsto> File c 0x180 t)" and f: "Faults v = Faults w"
    by (auto simp: with_temp_def)
  have "next_temp e w \<noteq> ''/tmp''" using temp_ok_free [OF assms(1,2)] by (auto simp: temp_free_def)
  moreover have "FS v (next_temp e v) = None \<and> ancestors (next_temp e v) = [''/tmp'']"
    using assms(1) fs unfolding temp_ok_def next_temp_def by blast
  ultimately show ?thesis using assms(1,2) fs f by (auto simp: temp_free_def temp_ok_def no_faults_def)
qed

lemma deletePodSandbox_ran:
  "Ran (snd (deletePodSandbox podid w)) = Ran w @ [[''crictl'', ''stopp'', podid]] \<and> \<not> is_ok (fst (deletePodSandbox podid w)) \<or>
   Ran (snd (deletePodSandbox podid w)) = Ran w @ [[''crictl'', ''stopp'', podid], [''crictl'', ''rmp'', podid]]"
  by (auto simp: deletePodSandbox_def cmd_Output_def cmd_Run_def split: option.split)


section \<open>Evaluation on a concrete run\<close>

lemma runPod_returns:
  assumes "\<And>out. inspection_State e out \<noteq> Inr (Some ''CONTAINER_RUNNING'')"
  shows "\<exists>r w'. runPod e img args w = Some (r, w')"
proof -
  have "inspect_at e c v 0 \<noteq> Ok True" for c and v :: "'a PullWorld_scheme"
    using assms by (auto simp: inspect_at_def isContainerRunning_def and_then_Ok_iff split: prod.splits option.splits if_splits)
  then have wait: "wait_exit e c v \<noteq> None" for c and v :: "'a PullWorld_scheme"
    using wait_exit_returns [of e c v 0] by auto
  have "runContainer e img pc podid args v \<noteq> None" for pc podid and v :: "'a PullWorld_scheme"
    using wait by (auto simp: runContainer_def simp del: not_None_eq split: prod.split result.split option.split)
  then have "runPod e img args w \<noteq> None"
    by (auto simp: runPod_def Let_def simp del: not_None_eq split: prod.split result.split option.split)
  then show ?thesis by auto
qed

definition demo_pull :: PullEnv where
  "demo_pull = \<lparr>temp_name = (\<lambda>fs p. if fs ''/tmp/m1'' = None then ''/tmp/m1'' else ''/tmp/m2''), encode_pod = (\<lambda>_. ''pod''),
     encode_container = (\<lambda>_. ''container''), inspection_State = (\<lambda>_. Inr (Some ''CONTAINER_EXITED'')), rand_Uint64 = 7\<rparr>"

definition demo_puller :: PullWorld where
  "demo_puller = \<lparr>Clock = int, Ticks = 0, Entropy = Some, Draws = 0, FS = [''/tmp'' \<mapsto> Directory], Faults = (\<lambda>_. None), Syscalls = 0, Ran = [],
     Exits = (\<lambda>_. None), Metrics = [], Outputs = (\<lambda>n. replicate 64 (CHR ''a''))\<rparr>"


end
