(* ===== verification/Etcd_Exporter.thy ===== *)
theory Etcd_Exporter
  imports Monitor_Lib Reach
begin

text \<open>
  \<open>etcd-metrics-exporter/etcd-metrics-exporter.go\<close>: it serves the metrics of etcd and a metric of its own with the
  version of etcd as a label. The answers of etcd, the decoders of JSON and of metrics, and whether
  \<open>Delete\<close> of the client library found something to delete are parameters.
\<close>

section \<open>etcd-metrics-exporter.go\<close>

record EtcdVersion =
  BinaryVersion :: string
  ClusterVersion :: string

record 'a EtcdEnv =
  etcdScrapeBase :: string
  etcd_Get :: "string \<Rightarrow> error + error + string"
  Decode :: "error + string \<Rightarrow> error + EtcdVersion"
  deletes :: "'a MonWorld_scheme \<Rightarrow> string list \<Rightarrow> bool"

text \<open>\<open>Delete\<close> says whether there was a metric with these labels.\<close>

definition deletes_ok :: "'a EtcdEnv \<Rightarrow> bool" where
  "deletes_ok e \<longleftrightarrow> (\<forall>v l. deletes e v l \<longleftrightarrow> gauge v ''etcdVersion'' l \<noteq> None)"

definition requestToEtcd :: "'a EtcdEnv \<Rightarrow> string \<Rightarrow> (error + string) result" where
  "requestToEtcd e endpoint =
     (if \<not> HasPrefix endpoint ''/'' then Err (Errorf (''no '/' prefix on endpoint'') [])
      else case etcd_Get e (etcdScrapeBase e @ endpoint) of
          Inl err \<Rightarrow> Err (Errorf ''failed to receive GET response from etcd: %v'' [])
        | Inr body \<Rightarrow> Ok body)"

definition etcd_getVersion :: "'a EtcdEnv \<Rightarrow> string \<Rightarrow> 'a MonWorld_scheme \<Rightarrow> unit result \<times> string \<times> 'a MonWorld_scheme" where
  "etcd_getVersion e lastSeenBinaryVersion w =
     (case requestToEtcd e ''/version'' of
        Err err \<Rightarrow> (Err err, lastSeenBinaryVersion, w)
      | Panic p \<Rightarrow> (Panic p, lastSeenBinaryVersion, w)
      | Ok body \<Rightarrow> (case Decode e body of
          Inl err \<Rightarrow> (Err (Errorf ''Failed to decode etcd version JSON: %v'' []), lastSeenBinaryVersion, w)
        | Inr version \<Rightarrow>
            if lastSeenBinaryVersion = BinaryVersion version then (Ok (), lastSeenBinaryVersion, w)
            else let w' = (if lastSeenBinaryVersion \<noteq> [] then emit (Delete ''etcdVersion'' [lastSeenBinaryVersion]) w else w) in
              if lastSeenBinaryVersion \<noteq> [] \<and> \<not> deletes e w [lastSeenBinaryVersion]
              then (Err (Errorf ''Failed to delete previous version's metric'' []), lastSeenBinaryVersion, w')
              else (Ok (), BinaryVersion version, emit (SetTo ''etcdVersion'' [BinaryVersion version] 1) w')))"

text \<open>\<open>getVersionPeriodically\<close>: it starts with no version; an error of a round is logged, and the next round follows.\<close>

inductive version_round :: "string \<times> 'a MonWorld_scheme \<Rightarrow> string \<times> 'a MonWorld_scheme \<Rightarrow> bool" where
  "etcd_getVersion e seen w = (r, seen', w') \<Longrightarrow> deletes_ok e \<Longrightarrow> version_round (seen, w) (seen', w')"

definition version_start :: "string \<times> 'a MonWorld_scheme \<Rightarrow> bool" where
  "version_start s \<longleftrightarrow> fst s = [] \<and> Metrics (snd s) = []"

definition scrapeMetrics :: "(error + string \<Rightarrow> error + 'f list) \<Rightarrow> 'a EtcdEnv \<Rightarrow> 'f list result" where
  "scrapeMetrics TextToMetricFamilies e = and_then (requestToEtcd e ''/metrics'') (\<lambda>body. lift (TextToMetricFamilies body))"

definition etcd_Gather :: "(error + string \<Rightarrow> error + 'f list) \<Rightarrow> 'a EtcdEnv \<Rightarrow> ('a MonWorld_scheme \<Rightarrow> error + 'f list) \<Rightarrow>
    'a MonWorld_scheme \<Rightarrow> 'f list result" where
  "etcd_Gather parser e custom_Gather w =
     and_then (scrapeMetrics parser e) (\<lambda>etcdMetrics.
     and_then (lift (custom_Gather w)) (\<lambda>custom. Ok (etcdMetrics @ custom)))"

section \<open>The exported version\<close>

text \<open>The version seen last, and no other one, is exported; the empty version is an exception.\<close>

definition one_version :: "string \<times> 'a MonWorld_scheme \<Rightarrow> bool" where
  "one_version s \<longleftrightarrow> (\<forall>v. v \<noteq> [] \<longrightarrow> gauge (snd s) ''etcdVersion'' [v] = (if v = fst s then Some 1 else None))"

inductive_cases version_roundE: "version_round s t"

lemma getVersion_cases:
  assumes "etcd_getVersion e seen w = (r, seen', w')" and "one_version (seen, w)"
    and "deletes_ok e"
  obtains (same) "seen' = seen" "w' = w"
    | (changed) "r = Ok ()" "seen' \<noteq> seen"
      "w' = emit (SetTo ''etcdVersion'' [seen'] 1) (if seen \<noteq> [] then emit (Delete ''etcdVersion'' [seen]) w else w)"
  using assms by (auto simp: etcd_getVersion_def one_version_def deletes_ok_def Let_def split: result.splits sum.splits if_splits)

lemma version_round_keeps: "one_version s \<Longrightarrow> version_round s t \<Longrightarrow> one_version t"
  by (elim version_roundE) (erule getVersion_cases, auto simp: one_version_def)

lemma version_start_one: "version_start s \<Longrightarrow> one_version s"
  by (auto simp: version_start_def one_version_def gauge_def)

interpretation etcd: invariant_of version_start version_round one_version
  by unfold_locales (fact version_start_one, fact version_round_keeps)

text \<open>
  C19: in every reachable state of the exporter, of all versions apart from the empty one exactly the version seen last is exported,
  with the value one; a round never fails to delete the version before. But an empty version, which the decoder
  gives for an answer without this field, is never deleted again once it is exported.
\<close>

theorem etcd_version_exported:
  assumes "reach version_start version_round (seen, w)"
  shows "(\<forall>v. v \<noteq> [] \<longrightarrow> gauge w ''etcdVersion'' [v] = (if v = seen then Some 1 else None)) \<and>
    (\<forall>seen' w'. version_round (seen, w) (seen', w') \<longrightarrow> gauge w ''etcdVersion'' [[]] = Some 1 \<longrightarrow> gauge w' ''etcdVersion'' [[]] = Some 1) \<and>
    (\<forall>e. deletes_ok e \<longrightarrow>
       fst (etcd_getVersion e seen w) \<noteq> Err (Errorf ''Failed to delete previous version's metric'' []))"
proof (intro conjI allI impI)
  have inv: "one_version (seen, w)" by (rule etcd.always [OF assms])
  then show "gauge w ''etcdVersion'' [v] = (if v = seen then Some 1 else None)" if "v \<noteq> []" for v
    using that by (simp add: one_version_def)
  show "gauge w' ''etcdVersion'' [[]] = Some 1" if "version_round (seen, w) (seen', w')" "gauge w ''etcdVersion'' [[]] = Some 1" for seen' w'
    using that inv by (elim version_roundE getVersion_cases) auto
  show "fst (etcd_getVersion e seen w) \<noteq> Err (Errorf ''Failed to delete previous version's metric'' [])"
    if "deletes_ok e" for e
    using that inv
    by (auto simp: etcd_getVersion_def requestToEtcd_def one_version_def deletes_ok_def Let_def split: result.splits sum.splits if_splits)
qed

section \<open>Evaluation on concrete answers\<close>

definition demo_etcd :: "string \<Rightarrow> unit EtcdEnv" where
  "demo_etcd v = \<lparr>etcdScrapeBase = ''https://127.0.0.1:2379'', etcd_Get = (\<lambda>_. Inr (Inr v)),
     Decode = (\<lambda>b. case b of Inr t \<Rightarrow> Inr \<lparr>BinaryVersion = t, ClusterVersion = t\<rparr> | Inl e \<Rightarrow> Inl e),
     deletes = (\<lambda>w l. gauge w ''etcdVersion'' l \<noteq> None)\<rparr>"

definition demo_exporter :: "metric_call list \<Rightarrow> MonWorld" where
  "demo_exporter cs = \<lparr>Clock = int, Ticks = 0, Entropy = Some, Draws = 0, FS = Map.empty, Faults = (\<lambda>_. None), Syscalls = 0, Ran = [], Exits = (\<lambda>_. None), Metrics = cs\<rparr>"

lemma demo_round:
  "etcd_getVersion (demo_etcd v) seen (demo_exporter cs) = (r, seen', w') \<Longrightarrow> version_round (seen, demo_exporter cs) (seen', w')"
  by (erule version_round.intros) (auto simp: deletes_ok_def demo_etcd_def)

theorem etcd_version_exported_witness:
  "\<exists>w. reach version_start version_round (''3.3'', w :: MonWorld) \<and> gauge w ''etcdVersion'' [''3.3''] = Some 1 \<and>
     gauge w ''etcdVersion'' [''3.2''] = None"
proof -
  let ?c = "[SetTo ''etcdVersion'' [''3.2''] 1]"
  let ?d = "?c @ [Delete ''etcdVersion'' [''3.2''], SetTo ''etcdVersion'' [''3.3''] 1]"
  have "version_round ([], demo_exporter []) (''3.2'', demo_exporter ?c)"
    by (rule demo_round [of "''3.2''" _ _ "Ok ()"])
      (simp add: etcd_getVersion_def requestToEtcd_def demo_etcd_def demo_exporter_def emit_def HasPrefix_def)
  moreover have "version_round (''3.2'', demo_exporter ?c) (''3.3'', demo_exporter ?d)"
    by (rule demo_round [of "''3.3''" _ _ "Ok ()"])
      (simp add: etcd_getVersion_def requestToEtcd_def demo_etcd_def demo_exporter_def emit_def HasPrefix_def gauge_def)
  moreover have "reach version_start version_round ([], demo_exporter [])"
    by (rule reach.start) (simp add: version_start_def demo_exporter_def)
  ultimately have "reach version_start version_round (''3.3'', demo_exporter ?d)" by (blast intro: reach.step)
  with etcd_version_exported [OF this] show ?thesis by (intro exI [of _ "demo_exporter ?d"]) auto
qed

end
