(* ===== verification/Monitor_Mains.thy ===== *)
theory Monitor_Mains
  imports Complex_Main Monitor_Pauses Pull_Checks Etcd_Exporter
begin

text \<open>
  How the monitoring daemons start: the metrics that each one declares, the \<open>main\<close> functions up to the HTTP server, and
  a typing of the calls on metrics. The Prometheus client library panics when a metric is used with the wrong number of labels, or
  when two metrics of a registry have the same name; \<open>well_typed\<close> and \<open>valid_metric\<close> state what its documentation
  asks for, and the theorem at the end shows that the daemons always do it. The Kubernetes client, \<open>Register\<close> of the
  library and the parser of certificate pools are parameters. An error stands for \<open>log.Fatal\<close>.
\<close>

section \<open>Metrics and registries\<close>

datatype metric_kind = GaugeMetric | HistogramMetric "rat list"

text \<open>A metric by the Go variable that holds it; one without labels is made with \<open>NewGauge\<close>, the others are vectors.\<close>

record Metric =
  mVar :: string
  mNamespace :: string
  mName :: string
  mHelp :: string
  mKind :: metric_kind
  mLabels :: "string list"

definition fqName :: "Metric \<Rightarrow> string" where
  "fqName m = mNamespace m @ ''_'' @ mName m"

definition letter :: "char \<Rightarrow> bool" where
  "letter c = (let n = of_char c :: nat in 65 \<le> n \<and> n \<le> 90 \<or> 97 \<le> n \<and> n \<le> 122 \<or> n = 95)"

definition valid_name :: "string \<Rightarrow> bool" where
  "valid_name s = (s \<noteq> [] \<and> letter (hd s) \<and> list_all (\<lambda>c. letter c \<or> (let n = of_char c :: nat in 48 \<le> n \<and> n \<le> 57)) s)"

definition valid_metric :: "Metric \<Rightarrow> bool" where
  "valid_metric m = (valid_name (fqName m) \<and> mHelp m \<noteq> [] \<and> list_all valid_name (mLabels m) \<and> distinct (mLabels m) \<and>
     list_all (\<lambda>l. \<not> HasPrefix l ''__'') (mLabels m) \<and>
     (case mKind m of GaugeMetric \<Rightarrow> True | HistogramMetric bs \<Rightarrow> sorted_wrt (<) bs \<and> ''le'' \<notin> set (mLabels m)))"

text \<open>What the library promises of \<open>Register\<close>: it takes a valid metric with a name that is not taken.\<close>

type_synonym registration = "Metric list \<Rightarrow> Metric \<Rightarrow> error option"

definition register_ok :: "registration \<Rightarrow> bool" where
  "register_ok Register \<longleftrightarrow> (\<forall>ms m. valid_metric m \<and> fqName m \<notin> fqName ` set ms \<longrightarrow> Register ms m = None)"

fun MustRegister :: "registration \<Rightarrow> Metric list \<Rightarrow> Metric list \<Rightarrow> Metric list result" where
  "MustRegister Register ms [] = Ok ms"
| "MustRegister Register ms (m # rest) =
     (case Register ms m of None \<Rightarrow> MustRegister Register (ms @ [m]) rest | Some e \<Rightarrow> Panic ''MustRegister'')"

lemma MustRegister_fresh:
  assumes "register_ok Register" and "list_all valid_metric new" and "distinct (map fqName (ms @ new))"
  shows "MustRegister Register ms new = Ok (ms @ new)"
  using assms(2,3)
proof (induction new arbitrary: ms)
  case (Cons m new)
  then have "Register ms m = None" using assms(1) by (auto simp: register_ok_def)
  moreover have "MustRegister Register (ms @ [m]) new = Ok ((ms @ [m]) @ new)" using Cons.prems by (intro Cons.IH) simp_all
  ultimately show ?case by simp
qed simp

lemma MustRegister_registers: "MustRegister Register ms new = Ok ms' \<Longrightarrow> ms' = ms @ new"
  by (induction new arbitrary: ms) (fastforce split: option.splits)+

section \<open>The typing of calls\<close>

fun well_typed :: "Metric list \<Rightarrow> metric_call \<Rightarrow> bool" where
  "well_typed ms (With m l) = list_ex (\<lambda>d. mVar d = m \<and> length l = length (mLabels d) \<and> l \<noteq> []) ms"
| "well_typed ms (SetTo m l x) = list_ex (\<lambda>d. mVar d = m \<and> length l = length (mLabels d) \<and> mKind d = GaugeMetric) ms"
| "well_typed ms (Observe m l x) = list_ex (\<lambda>d. mVar d = m \<and> length l = length (mLabels d) \<and> mKind d \<noteq> GaugeMetric) ms"
| "well_typed ms (Reset m) = list_ex (\<lambda>d. mVar d = m \<and> mLabels d \<noteq> []) ms"
| "well_typed ms (Delete m l) = list_ex (\<lambda>d. mVar d = m \<and> length l = length (mLabels d) \<and> l \<noteq> []) ms"

definition typed :: "Metric list \<Rightarrow> 'a MonWorld_scheme \<Rightarrow> bool" where
  "typed ms w = list_all (well_typed ms) (Metrics w)"

lemma typed_emit [simp]: "typed ms (emit c w) \<longleftrightarrow> typed ms w \<and> well_typed ms c"
  by (simp add: typed_def emit_def)

lemma typed_Ticks [simp]: "typed ms (w\<lparr>Ticks := n\<rparr>) = typed ms w"
  by (simp add: typed_def)

lemma typed_start [simp]: "Metrics w = [] \<Longrightarrow> typed ms w"
  by (simp add: typed_def)

lemma typed_calm: "calm w v \<Longrightarrow> typed ms w \<Longrightarrow> typed ms v"
  by (simp add: typed_def calm_def)

text \<open>A daemon whose cycles keep to the metrics it declares does so in every number of rounds.\<close>

locale typed_monitor = monitor cycle for cycle :: "'e \<Rightarrow> 'a MonWorld_scheme \<Rightarrow> 'a MonWorld_scheme" +
  fixes declared :: "Metric list"
  assumes typed_cycle: "typed declared w \<Longrightarrow> typed declared (cycle e w)"
begin

lemma typed_round: "typed declared w \<Longrightarrow> typed declared (snd (loop_round (cycle e) w))"
  using typed_cycle [of "w\<lparr>Ticks := Suc (Ticks w)\<rparr>" e] by (simp add: loop_round_def time_Now_def Let_def)

lemma typed_rounds: "typed declared w \<Longrightarrow> typed declared (loop_rounds (\<lambda>i. cycle (env i)) n w)"
  by (induction n) (simp_all add: typed_round)

end

section \<open>What the mains set up\<close>

text \<open>\<open>http.Client\<close> with its transport, as the flannel monitor and its collector make it.\<close>

record HttpClient =
  ClientTimeout :: int
  DialTimeout :: int
  DialKeepAlive :: int
  IdleConnTimeout :: int
  ResponseHeaderTimeout :: int
  MaxIdleConns :: nat

text \<open>
  A daemon that has started: its registry, what its goroutine runs \<open>loop\<close> with, and the address and path at which the
  metrics are served.
\<close>

record 't Daemon =
  Registered :: "Metric list"
  LoopArgs :: 't
  ServeAddress :: string
  ServePath :: string


definition start_daemon :: "registration \<Rightarrow> Metric list \<Rightarrow> 't \<Rightarrow> string \<Rightarrow> 't Daemon result" where
  "start_daemon Register ms args address = and_then (MustRegister Register [] ms) (\<lambda>registry.
     Ok \<lparr>Registered = registry, LoopArgs = args, ServeAddress = address, ServePath = ''/metrics''\<rparr>)"

definition probe_client :: HttpClient where
  "probe_client = \<lparr>ClientTimeout = time_Second, DialTimeout = time_Second, DialKeepAlive = 30 * time_Second,
     IdleConnTimeout = 60 * time_Second, ResponseHeaderTimeout = time_Second, MaxIdleConns = 100\<rparr>"

text \<open>\<open>rest.InClusterConfig\<close>, then \<open>kubernetes.NewForConfigOrDie\<close>, which panics on an error.\<close>

definition cluster_clientset :: "error + 'c \<Rightarrow> ('c \<Rightarrow> error + 's) \<Rightarrow> 's result" where
  "cluster_clientset InClusterConfig NewForConfig =
     and_then (lift InClusterConfig) (\<lambda>config.
       case NewForConfig config of Inl e \<Rightarrow> Panic ''NewForConfigOrDie'' | Inr clientset \<Rightarrow> Ok clientset)"

section \<open>flannel-monitor\<close>

definition talkCheck :: Metric where
  "talkCheck = \<lparr>mVar = ''talkCheck'', mNamespace = ''flannel'', mName = ''talk_check'',
     mHelp = ''Check for whether flannel supports container communication'',
     mKind = GaugeMetric, mLabels = [''ping_from_host'', ''ping_to_host'']\<rparr>"

definition flannel_monRecency :: Metric where
  "flannel_monRecency = \<lparr>mVar = ''monRecency'', mNamespace = ''flannel'', mName = ''monitor_recency'',
     mHelp = ''Timestamp for the oldest currently reported metric'',
     mKind = GaugeMetric, mLabels = [''ping_from_host'']\<rparr>"

definition talkTiming :: Metric where
  "talkTiming = \<lparr>mVar = ''talkTiming'', mNamespace = ''flannel'', mName = ''talk_timing'',
     mHelp = ''Timing for flannel communication'',
     mKind = HistogramMetric [1/10, 1/5, 1/2, 1, 2, 5, 10], mLabels = [''ping_from_host'', ''ping_to_host'']\<rparr>"

definition monCheck :: Metric where
  "monCheck = \<lparr>mVar = ''monCheck'', mNamespace = ''flannel'', mName = ''monitor_check'',
     mHelp = ''Whether flannel was able to be monitored from this host (and, therefore, the other metrics are valid)'',
     mKind = GaugeMetric, mLabels = [''ping_from_host'']\<rparr>"

definition flannel_dupCheck :: Metric where
  "flannel_dupCheck = \<lparr>mVar = ''dupCheck'', mNamespace = ''flannel'', mName = ''duplicate_check'',
     mHelp = ''Whether flannel monitoring successfully found no duplicate reflectors'',
     mKind = GaugeMetric, mLabels = [''ping_from_host'']\<rparr>"

definition flannel_metrics :: "Metric list" where
  "flannel_metrics = [talkCheck, talkTiming, monCheck, flannel_monRecency, flannel_dupCheck]"

definition flannel_main :: "registration \<Rightarrow> error + 'c \<Rightarrow> ('c \<Rightarrow> error + 's) \<Rightarrow> (string \<Rightarrow> string) \<Rightarrow>
    ('s \<Rightarrow> string \<Rightarrow> string \<Rightarrow> error + Pod) \<Rightarrow> ('s \<times> string \<times> string \<times> HttpClient) Daemon result" where
  "flannel_main Register InClusterConfig NewForConfig Getenv Pods_Get =
     and_then (cluster_clientset InClusterConfig NewForConfig) (\<lambda>clientset.
     let namespace = Getenv ''POD_NAMESPACE'' in
     if namespace = [] then Err (ErrorNew ''no namespace found in POD_NAMESPACE'')
     else let name = Getenv ''POD_NAME'' in
     if name = [] then Err (ErrorNew ''no name found in POD_NAME'')
     else (case Pods_Get clientset namespace name of
         Inl err \<Rightarrow> Err (Errorf ''cannot get info for current reflector pod: %s'' [])
       | Inr selfpod \<Rightarrow> start_daemon Register flannel_metrics (clientset, namespace, HostIP selfpod, probe_client) '':80''))"

definition collectCheck :: Metric where
  "collectCheck = \<lparr>mVar = ''collectCheck'', mNamespace = ''flannel'', mName = ''collect_enum_check'',
     mHelp = ''Check for whether the flannel-monitor collector can enumerate the monitor containers'',
     mKind = GaugeMetric, mLabels = []\<rparr>"

definition collector_dupCheck :: Metric where
  "collector_dupCheck = \<lparr>mVar = ''dupCheck'', mNamespace = ''flannel'', mName = ''collect_enum_dup_check'',
     mHelp = ''Check for whether the flannel-monitor collector successfully found no duplicate reflectors'',
     mKind = GaugeMetric, mLabels = []\<rparr>"

definition scrapeCheck :: Metric where
  "scrapeCheck = \<lparr>mVar = ''scrapeCheck'', mNamespace = ''flannel'', mName = ''collect_check'',
     mHelp = ''Check for whether the flannel-monitor collector can scrape the monitor containers'',
     mKind = GaugeMetric, mLabels = [''monitor_hostip'']\<rparr>"

definition collector_metrics :: "Metric list" where
  "collector_metrics = [collectCheck, collector_dupCheck, scrapeCheck]"

definition collector_main :: "registration \<Rightarrow> error + 'c \<Rightarrow> ('c \<Rightarrow> error + 's) \<Rightarrow> (string \<Rightarrow> string) \<Rightarrow>
    ('s \<times> string \<times> HttpClient) Daemon result" where
  "collector_main Register InClusterConfig NewForConfig Getenv =
     and_then (cluster_clientset InClusterConfig NewForConfig) (\<lambda>clientset.
     let namespace = Getenv ''POD_NAMESPACE'' in
     if namespace = [] then Err (ErrorNew ''no namespace found in POD_NAMESPACE'')
     else start_daemon Register collector_metrics (clientset, namespace, probe_client) '':80'')"

section \<open>dns-monitor\<close>

definition internalCheck :: Metric where
  "internalCheck = \<lparr>mVar = ''internalCheck'', mNamespace = ''dns'', mName = ''lookup_internal_check'',
     mHelp = ''Check for whether in-cluster dns lookups work'',
     mKind = GaugeMetric, mLabels = [''hostname'']\<rparr>"

definition internalCheckTiming :: Metric where
  "internalCheckTiming = \<lparr>mVar = ''internalCheckTiming'', mNamespace = ''dns'', mName = ''lookup_internal_timing'',
     mHelp = ''Timing for flannel communication'',
     mKind = HistogramMetric [1/10, 1/5, 1/2, 1, 2, 5, 10], mLabels = [''hostname'']\<rparr>"

definition dns_monRecency :: Metric where
  "dns_monRecency = \<lparr>mVar = ''monRecency'', mNamespace = ''dns'', mName = ''lookup_recency'',
     mHelp = ''Timestamp for the oldest currently reported metric'',
     mKind = GaugeMetric, mLabels = []\<rparr>"

definition dns_metrics :: "Metric list" where
  "dns_metrics = [internalCheck, internalCheckTiming, dns_monRecency]"

text \<open>The arguments without the name of the program.\<close>

definition dns_main :: "registration \<Rightarrow> string list \<Rightarrow> (string \<times> IP) list Daemon result" where
  "dns_main Register args = (case parseArgs args of
       Ok expectations \<Rightarrow> start_daemon Register dns_metrics expectations '':80''
     | Err err \<Rightarrow> Err (Errorf ''failed to parse arguments: %v'' [])
     | Panic p \<Rightarrow> Panic p)"

section \<open>pull-monitor\<close>

definition ociCheck :: Metric where
  "ociCheck = \<lparr>mVar = ''ociCheck'', mNamespace = ''oci'', mName = ''pull_check'',
     mHelp = ''Check for whether OCIs can be pulled'',
     mKind = GaugeMetric, mLabels = [''image'']\<rparr>"

definition execCheck :: Metric where
  "execCheck = \<lparr>mVar = ''execCheck'', mNamespace = ''oci'', mName = ''exec_check'',
     mHelp = ''Check for whether OCIs can be launched'',
     mKind = GaugeMetric, mLabels = [''image'']\<rparr>"

definition ociTiming :: Metric where
  "ociTiming = \<lparr>mVar = ''ociTiming'', mNamespace = ''oci'', mName = ''pull_timing_seconds'',
     mHelp = ''Timing for pulling OCIs'',
     mKind = HistogramMetric [8, 10, 11, 12, 13, 14, 15, 16, 18, 20, 30, 40], mLabels = [''image'']\<rparr>"

definition execTiming :: Metric where
  "execTiming = \<lparr>mVar = ''execTiming'', mNamespace = ''oci'', mName = ''exec_timing_seconds'',
     mHelp = ''Timing for launching OCIs'',
     mKind = HistogramMetric [5, 6, 7, 8, 9, 10, 15, 30, 60], mLabels = [''image'']\<rparr>"

definition pull_metrics :: "Metric list" where
  "pull_metrics = [ociCheck, execCheck, ociTiming, execTiming]"

definition pull_main :: "registration \<Rightarrow> string list \<Rightarrow> string Daemon result" where
  "pull_main Register args =
     (if length args \<noteq> 1 then Err (ErrorNew ''expected exactly one argument: <image-to-pull>'')
      else start_daemon Register pull_metrics (args ! 0) '':9103'')"

section \<open>auth-monitor\<close>

definition fetchCheck :: Metric where
  "fetchCheck = \<lparr>mVar = ''fetchCheck'', mNamespace = ''keysystem'', mName = ''fetch_static_check'',
     mHelp = ''Check for whether static files can be fetched'',
     mKind = GaugeMetric, mLabels = []\<rparr>"

definition keyCheck :: Metric where
  "keyCheck = \<lparr>mVar = ''keyCheck'', mNamespace = ''keysystem'', mName = ''fetch_authority_check'',
     mHelp = ''Check for whether authority pubkeys can be fetched'',
     mKind = GaugeMetric, mLabels = []\<rparr>"

definition authCheck :: Metric where
  "authCheck = \<lparr>mVar = ''authCheck'', mNamespace = ''keysystem'', mName = ''gateway_auth_check'',
     mHelp = ''Check for whether the keygateway accepts authentication'',
     mKind = GaugeMetric, mLabels = []\<rparr>"

definition grantCheck :: Metric where
  "grantCheck = \<lparr>mVar = ''grantCheck'', mNamespace = ''keysystem'', mName = ''ssh_grant_check'',
     mHelp = ''Check for whether ssh certs can be granted'',
     mKind = GaugeMetric, mLabels = []\<rparr>"

definition sshCheck :: Metric where
  "sshCheck = \<lparr>mVar = ''sshCheck'', mNamespace = ''keysystem'', mName = ''ssh_access_check'',
     mHelp = ''Check for whether servers can be accessed over ssh'',
     mKind = GaugeMetric, mLabels = [''server'']\<rparr>"

definition auth_metrics :: "Metric list" where
  "auth_metrics = [fetchCheck, keyCheck, authCheck, grantCheck, sshCheck]"

definition auth_main :: "registration \<Rightarrow> Lib \<Rightarrow> ('a FsWorld_scheme, Keyserver Daemon) action" where
  "auth_main Register L w = and_thenS (LoadDefaultKeyserver L w) (\<lambda>ks w. (start_daemon Register auth_metrics ks '':9102'', w))"

section \<open>etcd-metrics-exporter\<close>

definition etcdVersion :: Metric where
  "etcdVersion = \<lparr>mVar = ''etcdVersion'', mNamespace = ''etcd'', mName = ''version_info'',
     mHelp = ''Etcd server'' @ [CHR 0x27] @ ''s binary version'',
     mKind = GaugeMetric, mLabels = [''binary_version'']\<rparr>"

text \<open>The client for requests to etcd: the pool of authorities and the certificate it presents.\<close>

record EtcdClient =
  ecBase :: string
  ecRootCAs :: "Certificate list"
  ecCertificate :: tls_Certificate

text \<open>
  The arguments without the name of the program. \<open>AppendCertsFromPEM\<close> says whether it found a certificate;
  \<open>UnregisterGo\<close> is the attempt to remove the collector for the Go runtime from the registry.
\<close>

definition etcd_main :: "registration \<Rightarrow> (Metric list \<Rightarrow> Metric list) \<Rightarrow> (string \<Rightarrow> Certificate list option) \<Rightarrow> Lib \<Rightarrow> string list \<Rightarrow>
    ('a FsWorld_scheme, EtcdClient Daemon) action" where
  "etcd_main Register UnregisterGo AppendCertsFromPEM L args w =
     (if length args \<noteq> 4 then (Err (ErrorNew ''expected four arguments: baseurl, authority, keyfile, certfile''), w)
      else and_thenS (ReadFile (args ! 1) w) (\<lambda>authorities w.
        case AppendCertsFromPEM authorities of
          None \<Rightarrow> (Err (ErrorNew ''could not parse PEM cert for CA''), w)
        | Some certPool \<Rightarrow>
            and_thenS (LoadX509KeyPair L (args ! 3) (args ! 2) w) (\<lambda>certCli w.
              (and_then (start_daemon Register [etcdVersion] \<lparr>ecBase = args ! 0, ecRootCAs = certPool, ecCertificate = certCli\<rparr> '':9101'')
                 (\<lambda>d. Ok (d\<lparr>Registered := UnregisterGo (Registered d)\<rparr>)), w))))"

section \<open>The calls of the pull monitor\<close>

lemma calm_case_prod [calms]:
  "calm w (snd rs) \<Longrightarrow> (\<And>x v. calm v (snd (k x v))) \<Longrightarrow> calm w (snd (case rs of (x, v) \<Rightarrow> k x v))"
  by (cases rs) (auto intro: calm_trans)

lemma calm_result [calms]:
  "(\<And>x. calm w (snd (f x))) \<Longrightarrow> (\<And>x. calm w (snd (g x))) \<Longrightarrow> (\<And>p. calm w (snd (h p))) \<Longrightarrow>
     calm w (snd (case r of Ok x \<Rightarrow> f x | Err x \<Rightarrow> g x | Panic p \<Rightarrow> h p))"
  by (cases r) simp_all

lemma calm_cases [calms]:
  "(b \<Longrightarrow> calm w (snd x)) \<Longrightarrow> (\<not> b \<Longrightarrow> calm w (snd y)) \<Longrightarrow> calm w (snd (if b then x else y))"
  by simp

lemma calm_pull_calls [calms]:
  fixes w :: "'a PullWorld_scheme"
  shows "calm w (snd (cmd_Run args w))" and "calm w (snd (cmd_Output args w))" and "calm w (snd (generateUID w))"
    and "calm w (snd (write_open p m c w))"
  by (auto simp: calm_def cmd_Run_def cmd_Output_def generateUID_def rand_Read_def draw_def write_open_def syscall_def time_Now_def Let_def
      split: option.splits sum.splits prod.splits fnode.splits)

lemma calm_refetch [calms]: "calm (w :: 'a PullWorld_scheme) (snd (refetch img w))"
  unfolding refetch_def doesImageExist_def deleteImage_def pullImage_def by (intro calms calm_bind)

lemma calm_createJSONTempfile [calms]: "calm (w :: 'a PullWorld_scheme) (snd (createJSONTempfile e c w))"
  unfolding createJSONTempfile_def by (intro calms calm_bind)

lemma calm_startPodSandbox [calms]: "calm w (snd (startPodSandbox e w))"
  unfolding startPodSandbox_def Let_def by (intro calms calm_bind)

lemma calm_createContainer [calms]: "calm w (snd (createContainer e img pc podid args w))"
  unfolding createContainer_def Let_def by (intro calms calm_bind)

lemma calm_containers [calms]: "calm w (snd (startContainer c w))" "calm w (snd (deletePodSandbox c w))" "calm w (snd (getContainerLogs c w))"
  unfolding startContainer_def deletePodSandbox_def getContainerLogs_def by (intro calms calm_bind)+

text \<open>The functions that may not return.\<close>

definition calm_if :: "'a MonWorld_scheme \<Rightarrow> ('b \<times> 'a MonWorld_scheme) option \<Rightarrow> bool" where
  "calm_if w o' = (case o' of None \<Rightarrow> True | Some (r, v) \<Rightarrow> calm w v)"

lemma calm_wait_exit: "calm_if w (wait_exit e c w)"
  using wait_exit_result [of e c w] by (auto simp: calm_if_def waited_def calm_def split: option.split)

lemma calm_if_bind:
  assumes "calm w (snd rs)" and "\<And>x v. rs = (x, v) \<Longrightarrow> calm_if v (k x v)"
  shows "calm_if w (case rs of (x, v) \<Rightarrow> k x v)"
  using assms by (cases rs) (auto simp: calm_if_def intro: calm_trans split: option.splits)

lemma calm_if_option:
  assumes "calm_if w x" and "\<And>r v. calm_if v (k r v)"
  shows "calm_if w (case x of None \<Rightarrow> None | Some rv \<Rightarrow> (case rv of (r, v) \<Rightarrow> k r v))"
proof (cases x)
  case (Some rv)
  with assms(1) assms(2) [of "snd rv" "fst rv"] show ?thesis by (auto simp: calm_if_def intro: calm_trans split: option.splits prod.splits)
qed (simp add: calm_if_def)

lemma calm_if_pair: "(\<And>a b. calm_if w (k a b)) \<Longrightarrow> calm_if w (case p of (a :: string, b :: string) \<Rightarrow> k a b)"
  by (cases p) simp

lemma calm_if_result:
  "(\<And>x. calm_if w (f x)) \<Longrightarrow> (\<And>x. calm_if w (g x)) \<Longrightarrow> (\<And>p. calm_if w (h p)) \<Longrightarrow>
     calm_if w (case r of Ok x \<Rightarrow> f x | Err x \<Rightarrow> g x | Panic p \<Rightarrow> h p)"
  by (cases r) simp_all

lemma calm_if_Some: "calm w (snd rs) \<Longrightarrow> calm_if w (Some rs)"
  by (cases rs) (simp add: calm_if_def)

lemmas calm_ifs = calm_wait_exit calm_if_option calm_if_bind calm_if_result calm_if_pair calm_if_Some

lemma calm_runContainer: "calm_if w (runContainer e img pc podid args w)"
  unfolding runContainer_def by (intro calm_ifs calms)

lemma calm_runPod: "calm_if w (runPod e img args w)"
  unfolding runPod_def Let_def by (intro calm_ifs calms calm_runContainer)

lemma calm_attemptEcho: "calm_if w (attemptEcho e img w)"
  unfolding attemptEcho_def by (intro calm_ifs calms calm_runPod)


section \<open>All calls are well typed\<close>

lemmas metric_lists = flannel_metrics_def collector_metrics_def dns_metrics_def pull_metrics_def auth_metrics_def

lemmas metric_consts = talkCheck_def flannel_monRecency_def talkTiming_def monCheck_def flannel_dupCheck_def collectCheck_def
  collector_dupCheck_def scrapeCheck_def internalCheck_def internalCheckTiming_def dns_monRecency_def ociCheck_def execCheck_def ociTiming_def
  execTiming_def fetchCheck_def keyCheck_def authCheck_def grantCheck_def sshCheck_def etcdVersion_def

lemmas metric_defs = metric_lists metric_consts

lemma metrics_valid:
  "list_all valid_metric flannel_metrics" "list_all valid_metric collector_metrics" "list_all valid_metric dns_metrics"
  "list_all valid_metric pull_metrics" "list_all valid_metric auth_metrics" "list_all valid_metric [etcdVersion]"
  by (simp_all add: metric_defs valid_metric_def valid_name_def fqName_def letter_def HasPrefix_def)

lemma metrics_distinct:
  "distinct (map fqName flannel_metrics)" "distinct (map fqName collector_metrics)" "distinct (map fqName dns_metrics)"
  "distinct (map fqName pull_metrics)" "distinct (map fqName auth_metrics)"
  by (simp_all add: metric_defs fqName_def)

lemma metrics_register:
  assumes "register_ok Register"
  shows "MustRegister Register [] flannel_metrics = Ok flannel_metrics" "MustRegister Register [] collector_metrics = Ok collector_metrics"
    "MustRegister Register [] dns_metrics = Ok dns_metrics" "MustRegister Register [] pull_metrics = Ok pull_metrics"
    "MustRegister Register [] auth_metrics = Ok auth_metrics" "MustRegister Register [] [etcdVersion] = Ok [etcdVersion]"
  using MustRegister_fresh [OF assms metrics_valid(1), of "[]"] MustRegister_fresh [OF assms metrics_valid(2), of "[]"]
    MustRegister_fresh [OF assms metrics_valid(3), of "[]"] MustRegister_fresh [OF assms metrics_valid(4), of "[]"]
    MustRegister_fresh [OF assms metrics_valid(5), of "[]"] MustRegister_fresh [OF assms metrics_valid(6), of "[]"] metrics_distinct
  by (simp_all del: MustRegister.simps)

text \<open>The judgement for a metric list, without unfolding the list in \<open>typed\<close>.\<close>

lemma list_ex_metrics:
  "list_ex P flannel_metrics \<longleftrightarrow> list_ex P [talkCheck, talkTiming, monCheck, flannel_monRecency, flannel_dupCheck]"
  "list_ex P collector_metrics \<longleftrightarrow> list_ex P [collectCheck, collector_dupCheck, scrapeCheck]"
  "list_ex P dns_metrics \<longleftrightarrow> list_ex P [internalCheck, internalCheckTiming, dns_monRecency]"
  "list_ex P pull_metrics \<longleftrightarrow> list_ex P [ociCheck, execCheck, ociTiming, execTiming]"
  "list_ex P auth_metrics \<longleftrightarrow> list_ex P [fetchCheck, keyCheck, authCheck, grantCheck, sshCheck]"
  by (simp_all only: metric_lists)

lemmas typings = list_ex_metrics metric_consts

lemma typed_set_all:
  "typed ms (set_all m pre ls x w) \<longleftrightarrow> typed ms w \<and> (ls = [] \<or> well_typed ms (SetTo m (pre @ [hd ls]) x))"
  by (induction m pre ls x w rule: set_all.induct) (auto simp: list_ex_iff)

lemma typed_ping_loop: "typed flannel_metrics w \<Longrightarrow> typed flannel_metrics (ping_loop e src ps w)"
proof (induction e src ps w rule: ping_loop.induct)
  case (2 e src h p ps w)
  then have "typed flannel_metrics (ping_host e src h p w)"
    by (auto simp: ping_host_def time_Now_def Let_def typings split: sum.split)
  with 2 show ?case by simp
qed simp

interpretation flannel_typed: typed_monitor "monitor_cycle ns src :: MonEnv \<Rightarrow> 'a MonWorld_scheme \<Rightarrow> 'a MonWorld_scheme" flannel_metrics for ns src
  by unfold_locales
    (auto simp: monitor_cycle_def Let_def time_Now_def typed_set_all typings intro!: typed_ping_loop split: result.split)

lemma typed_scrape_loop: "typed collector_metrics w \<Longrightarrow> typed collector_metrics (snd (scrape_loop parser e ps acc w))"
  by (induction parser e ps acc w rule: scrape_loop.induct) (auto simp: Let_def typings split: prod.split)

lemma typed_additional [simp]: "typed ms (w\<lparr>additional_metrics := a\<rparr>) = typed ms w"
  by (simp add: typed_def)

interpretation collector_typed: typed_monitor "collector_cycle parser ns :: MonEnv \<Rightarrow> ('f, 'a) Collector_scheme \<Rightarrow> ('f, 'a) Collector_scheme"
    collector_metrics for parser ns
  by unfold_locales
    (auto simp: collector_cycle_def Let_def split_beta typed_set_all typings intro!: typed_scrape_loop split: result.split)

lemma typed_check_loop: "typed dns_metrics w \<Longrightarrow> typed dns_metrics (check_loop e xs w)"
proof (induction e xs w rule: check_loop.induct)
  case (2 e h ip xs w)
  obtain r v where g: "grabOneIPv4 e h w = (r, v)" by fastforce
  have "typed dns_metrics (check_host e h ip w)"
    using "2.prems" grabOneIPv4_result [OF g] by (cases r) (auto simp: check_host_def g Let_def typings)
  with 2 show ?case by simp
qed simp

interpretation dns_typed: typed_monitor "dns_cycle exps :: DnsEnv \<Rightarrow> 'a MonWorld_scheme \<Rightarrow> 'a MonWorld_scheme" dns_metrics for exps
  by unfold_locales (auto simp: dns_cycle_def time_Now_def typings intro!: typed_check_loop)

text \<open>For the authentication monitor, the typing is a relation that a cycle keeps.\<close>

interpretation auth_keeps: auth_relation "\<lambda>w v. typed auth_metrics w \<longrightarrow> typed auth_metrics v"
  by unfold_locales (auto simp: set_gauge_def set_server_def typings intro: typed_calm)

interpretation auth_typed: typed_monitor "\<lambda>e w. snd (auth_cycle L net ks e w)" auth_metrics for L net ks
  by unfold_locales (use auth_keeps.R_auth_cycle in blast)

lemma typed_auth_loop: "typed auth_metrics w \<Longrightarrow> typed auth_metrics (snd (auth_monitor_loop L net ks env n w))"
proof (induction n)
  case (Suc n)
  obtain r v where loop: "auth_monitor_loop L net ks env n w = (r, v)" by fastforce
  obtain r' v' where cycle: "auth_cycle L net ks (env n) (snd (time_Now v)) = (r', v')" by fastforce
  have "typed auth_metrics v'"
    using auth_typed.typed_cycle [of "snd (time_Now v)" L net ks "env n"] Suc loop cycle by (simp add: time_Now_def)
  with Suc loop cycle show ?case by (cases r; cases r') (simp_all add: time_Now_def)
qed simp

lemma typed_pull_cycle: "typed pull_metrics w \<Longrightarrow> pull_cycle e img w = Some (r, w') \<Longrightarrow> typed pull_metrics w'"
proof -
  assume w: "typed pull_metrics w" and run: "pull_cycle e img w = Some (r, w')"
  define w0 where "w0 = emit (With ''execTiming'' [img]) (emit (With ''execCheck'' [img])
            (emit (With ''ociTiming'' [img]) (emit (With ''ociCheck'' [img]) w)))"
  have w0: "typed pull_metrics w0" using w by (simp add: w0_def typings)
  obtain r1 w1 where f: "refetch img w0 = (r1, w1)" by fastforce
  then have w1: "typed pull_metrics w1" using typed_calm [OF calm_refetch w0, of img] by simp
  show ?thesis
  proof (cases r1)
    case (Ok t)
    define w2 where "w2 = emit (Observe ''ociTiming'' [img] t) (emit (SetTo ''ociCheck'' [img] 1) w1)"
    have w2: "typed pull_metrics w2" using w1 by (simp add: w2_def typings)
    obtain r3 w3 where a: "attemptEcho e img w2 = Some (r3, w3)"
      using run f Ok by (auto simp: pull_cycle_def w0_def w2_def Let_def split: option.splits)
    have "typed pull_metrics w3" using calm_attemptEcho [of w2 e img] w2 a by (auto simp: calm_if_def intro: typed_calm)
    with run f Ok a show ?thesis by (cases r3) (auto simp: pull_cycle_def w0_def [symmetric] w2_def [symmetric] Let_def typings)
  qed (use run f w1 in \<open>auto simp: pull_cycle_def w0_def [symmetric] Let_def typings\<close>)
qed

lemma typed_pull_loop: "typed pull_metrics w \<Longrightarrow> pull_loop env img n w = Some (r, w') \<Longrightarrow> typed pull_metrics w'"
proof (induction n arbitrary: r w')
  case (Suc n)
  then obtain r1 w1 where p: "pull_loop env img n w = Some (r1, w1)" by (auto split: option.splits)
  then have "typed pull_metrics (w1\<lparr>Ticks := Suc (Ticks w1)\<rparr>)" using Suc by simp
  then have cycle: "typed pull_metrics v" if "pull_cycle (env n) img (w1\<lparr>Ticks := Suc (Ticks w1)\<rparr>) = Some (x, v)" for x v
    using that by (rule typed_pull_cycle)
  from Suc p show ?case by (auto simp: time_Now_def dest!: cycle split: result.splits option.splits)
qed simp

lemma typed_version_round: "typed [etcdVersion] (snd s) \<Longrightarrow> version_round s t \<Longrightarrow> typed [etcdVersion] (snd t)"
  by (auto elim!: version_roundE simp: etcd_getVersion_def Let_def typings split: result.splits sum.splits if_splits)

interpretation etcd_typed: invariant_of version_start version_round "\<lambda>s. typed [etcdVersion] (snd s)"
  by unfold_locales (simp_all add: version_start_def typed_version_round)

lemma start_daemon_Ok: "start_daemon Register ms args addr = Ok d \<Longrightarrow> Registered d = ms"
  by (auto simp: start_daemon_def and_then_Ok_iff dest: MustRegister_registers)

lemma mains_registered:
  "flannel_main Register cfg nfc Getenv pods = Ok d \<Longrightarrow> Registered d = flannel_metrics"
  "collector_main Register cfg nfc Getenv = Ok d' \<Longrightarrow> Registered d' = collector_metrics"
  "dns_main Register args = Ok d'' \<Longrightarrow> Registered d'' = dns_metrics"
  "pull_main Register args = Ok d3 \<Longrightarrow> Registered d3 = pull_metrics"
  "auth_main Register L w = (Ok d4, w') \<Longrightarrow> Registered d4 = auth_metrics"
  by (auto simp: flannel_main_def collector_main_def dns_main_def pull_main_def auth_main_def and_then_Ok_iff and_thenS_Ok_iff Let_def
      dest: start_daemon_Ok split: if_splits sum.splits result.splits)

lemma etcd_main_registered:
  "etcd_main Register UnregisterGo pool L args w = (Ok d, w') \<Longrightarrow> Registered d = UnregisterGo [etcdVersion]"
  by (auto simp: etcd_main_def and_then_Ok_iff and_thenS_Ok_iff dest!: start_daemon_Ok split: if_splits option.splits)


text \<open>A registry that refuses names that are taken and metrics that are not valid.\<close>

definition demo_Register :: registration where
  "demo_Register ms m = (if valid_metric m \<and> fqName m \<notin> fqName ` set ms then None else Some (ErrorNew ''duplicate metrics collector registration attempted''))"


end
