(* ===== verification/Spec2Isabelle.thy ===== *)
theory Spec2Isabelle
  imports Str_Util Token_Concurrency World_Demo Gateway_Demo Init_Admission Server_Mains Test_Keys Key_Generation User_Grant Kube_Launch Setup_Queue Monitor_Mains Client_Retry
begin

text \<open>
  Homeworld: a model of the Go sources under \<open>src/platform/\<close> and proofs about it. All paths below are relative to that directory.

  \<^bold>\<open>The program.\<close> Homeworld sets up and runs a Kubernetes cluster on bare metal. Its own logic is the key system: a
  keyserver on the supervisor node holds the certificate authorities of the cluster and signs certificates for nodes and
  administrators; a keyclient on every node gets a first certificate with a one-time bootstrap token, and keeps all keys and certificates of the
  node fresh; administrators reach the keyserver through a gateway that maps Kerberos principals to accounts, which it
  impersonates. Around it there are launchers for the Kubernetes programs, a web service that gives user certificates, a
  queue of specifications that are applied at setup, and monitors that probe all of this and export metrics.

  \<^bold>\<open>How Go is modelled.\<close> \<open>Go_Prelude\<close> has results (a value, an \<open>error\<close> with its wrapping, or a panic), actions that pass a world
  on, the clock and the source of entropy. A function with effects is an HOL function from a world to a result and
  a world; the world of a component is a record that extends \<open>World\<close> with what it uses (\<open>FsWorld\<close> a file system in which any
  system call may fail, \<open>ProcWorld\<close> the commands that were run, \<open>MonWorld\<close> the calls on metrics, and so on). Closures
  are constructors of a datatype with a function that calls them. Integers of fixed width that can wrap around (the
  validity of SSH certificates, the attempts and the random number of the pull monitor) are words; times are integers in nanoseconds. A Go map
  that is iterated is an association list, and the order of iteration is a parameter. Loops are recursive functions; the one that may run
  forever (the wait for a container in \<open>Pull_Monitor\<close>) is a partial function into \<open>option\<close>, and the daemons are
  either step relations or functions of the number of rounds, so that statements hold for every number of rounds.
  No definition has fuel.
  Code outside the repository is a parameter: the cryptographic libraries are the record \<open>Lib\<close>, the network and the
  program \<open>knc\<close> the record \<open>Net\<close>, the Kubernetes API, the container tools, the resolver, the SSH client and the YAML
  decoder arguments of the components that use them. What a theorem needs of them is a named hypothesis, and its witness has
  an instance of the parameter for which it holds.

  \<^bold>\<open>Libraries.\<close> \<open>Go_Strings\<close> (\<open>strings\<close>, \<open>strconv\<close>), \<open>Net_Util\<close> (\<open>util/netutil\<close> and the parsing of addresses in \<open>net\<close>),
  \<open>Crypto_Lib\<close> (the parameter \<open>Lib\<close>, base64), \<open>Go_Files\<close> (\<open>path\<close>, the file system, \<open>util/fileutil\<close>), \<open>Go_Http\<close> (requests, responses, and
  the locale \<open>verifier\<close>, the interface of \<open>keyserver/verifier\<close>), \<open>Str_Util\<close> (\<open>util/strutil\<close>, \<open>util/osutil\<close>), \<open>Cert_Util\<close> (\<open>util/wraputil\<close>,
  \<open>util/certutil\<close>, \<open>util/csrutil\<close>), \<open>Reach\<close> (reachable states, and the locale \<open>invariant_of\<close> of an inductive
  invariant).

  \<^bold>\<open>Keyserver\<close> (\<open>keysystem/keyserver\<close>, \<open>keysystem/worldconfig\<close>).
  \<^item> \<open>Token\<close> and \<open>Token_Concurrency\<close>: \<open>token/registry.go\<close>, \<open>token/scoped/token.go\<close>, \<open>verifier/\<close>. Tokens are granted, expire and are claimed once; under every
  interleaving of the goroutines of the server a token authenticates at most one request.
  \<^item> \<open>Cert_Authorities\<close>: \<open>authorities/\<close>. Loading, signing and verifying.
  \<^item> \<open>Privilege_Calls\<close>, \<open>Context_Config\<close>, \<open>Operations\<close>: \<open>account/\<close>, \<open>config/\<close>, \<open>operation/\<close>. What a set of operations may do and what it leaves when one is refused.
  \<^item> \<open>Key_Api\<close>, \<open>Key_Server\<close>: \<open>keyapi/\<close>, \<open>keyserver.go\<close>. Who is authenticated, the certificate of the server, and the
  server as a state machine with its invariant.
  \<^item> \<open>World_Names\<close>, \<open>Spire_Setup\<close>, \<open>World_Config\<close>, \<open>World_Privileges\<close>, \<open>World_Demo\<close>: \<open>worldconfig/\<close>. Which cluster descriptions are accepted, and what the generated
  policy guarantees for every one of them: who can authenticate, impersonate, and get administrator certificates.

  \<^bold>\<open>Clients of the keyserver.\<close>
  \<^item> \<open>Client_Api\<close>, \<open>End_To_End\<close>: \<open>keysystem/api/\<close>. The interface \<open>RequestTarget\<close> is the locale \<open>request_target\<close>,
  interpreted for the three implementations; the client against the server of the model gets what the server computes.
  \<^item> \<open>Key_Client\<close>, \<open>Converge\<close>, \<open>Client_Frame\<close>, \<open>Client_Files\<close>, \<open>Client_Safety\<close>, \<open>Client_Run\<close>, \<open>Client_Actions\<close>, \<open>Client_Retry\<close>: \<open>keysystem/keyclient/\<close> and \<open>worldconfig/keyclient.go\<close>. The locales \<open>client_calls\<close>,
  \<open>client_reads\<close>, \<open>client_frame\<close> and \<open>client_daemon\<close> state what a relation between worlds needs to be kept by all actions, and are interpreted for the files, the certificate, the network,
  the recorded refusals and the report of readiness. The daemon never crashes, touches only its managed
  files, and renews what is due.
  \<^item> \<open>Node_Admission\<close> puts the parts together: a keyclient with a fresh token against the keyserver with a generated configuration gets its first
  certificate, and the token is used up. \<open>Init_Admission\<close> does the same for \<open>keyinitadmit\<close>, the program that makes the first token of a cluster: what it
  prints is a token that the keyserver granted.
  \<^item> \<open>Key_Gateway\<close>, \<open>Gateway_Demo\<close>: \<open>keysystem/keygateway/\<close>. Requests are confined to the account of the Kerberos principal.
  \<^item> \<open>Key_Generation\<close>, \<open>Key_Req\<close>, \<open>Key_Tools\<close>: \<open>keysystem/keygen\<close>, \<open>keyreq\<close>, \<open>keygenupstream\<close>, \<open>keylocalcert\<close>, \<open>keyinitadmit\<close>. The keyserver loads what the generator wrote; the
  command of the administrator writes no key that was not granted; the certificates of the test authority are read back.
  \<^item> \<open>Test_Keys\<close>: the helpers of the unit tests, \<open>util/testkeyutil\<close> and \<open>util/testutil\<close>. The authorities they make are accepted by the code under test.
  \<^item> \<open>Server_Mains\<close>: \<open>Run\<close> and \<open>main\<close> of the keyserver, \<open>Launch\<close> and \<open>main\<close> of the web service below, and the \<open>main\<close> functions of the gateway, the
  keyclient, the launchers and the deployment queue. The keyserver starts in an initial state of its state machine.

  \<^bold>\<open>Cluster services.\<close>
  \<^item> \<open>User_Grant\<close>: \<open>user-grant/\<close>. Whom the web service gives certificates and namespaces, and when it panics.
  \<^item> \<open>Kube_Conf\<close>, \<open>Kube_Launch\<close>: \<open>kubernetes/\<close>, \<open>kube-state-metrics/\<close>. The configuration of a node is read back as the keyserver wrote it, and what a
  launcher's success means.
  \<^item> \<open>Setup_Queue\<close>: \<open>setup-queue/\<close>. Specifications are applied in order and removed only when applied.

  \<^bold>\<open>Monitors.\<close> \<open>Monitor_Lib\<close> has the calls on metrics, how they determine the exported values, and the loop of all
  monitors with the locale \<open>monitor\<close>, which is interpreted for four of them; \<open>Monitor_Pauses\<close> has the bounds on their pauses. \<open>Monitor_Mains\<close> has the metrics that each of them declares, their \<open>main\<close>
  functions up to the HTTP server, and a typing of the calls on metrics: the locale \<open>typed_monitor\<close>, which extends \<open>monitor\<close>, and an invariant of the
  exporter show that all daemons only make calls for which the metrics library does not panic.
  \<^item> \<open>Flannel_Monitor\<close>, \<open>Flannel_Checks\<close>, \<open>Flannel_Reflector\<close>: \<open>flannel-monitor/\<close>.
  \<^item> \<open>Dns_Monitor\<close>: \<open>dns-monitor/\<close>. \<open>Etcd_Exporter\<close>: \<open>etcd-metrics-exporter/\<close>.
  \<^item> \<open>Pull_Monitor\<close>, \<open>Pull_Checks\<close>: \<open>pull-monitor/\<close>. When the wait for a container ends, and that pods and files are cleaned up.
  \<^item> \<open>Auth_Monitor\<close>, \<open>Auth_Checks\<close>: \<open>auth-monitor/\<close>. What is reported of the keyserver, the gateway and the nodes, and that no Kerberos tickets stay behind;
  the locale \<open>auth_relation\<close> states what a relation between worlds needs to be kept by a cycle.

  \<^bold>\<open>Not modelled.\<close> The HTTP and TLS servers that the main functions start, which are \<open>net/http\<close> and \<open>crypto/tls\<close> and appear as their configuration and the requests they
  deliver; which names the labels of a metric have where it is used (the values come in the order of the declaration); log output; the text of some error messages of the standard library; symbolic links, permissions and
  changes of files by other processes, except that any system call can fail; concurrency, except in the token registry, since the other
  components share no state between goroutines that they change, apart from the server certificate, whose
  steps are those of the state machine.

  \<^bold>\<open>Open.\<close> The command \<open>keyreq\<close> and the authentication monitor are not yet composed with the gateway and the server of the model, as the
  keyclient's requests and \<open>keyinitadmit\<close> are.
\<close>

end
